(* ===== verification/Prelude.thy ===== *)
theory Prelude
  imports Complex_Main "HOL-Library.AList" "HOL-Library.List_Lexorder" "HOL-Library.Char_ord"
begin

text \<open>
  Shared vocabulary of the development.  Database tables are lists of rows in insertion
  order (what \<open>findMany\<close> returns without an \<open>orderBy\<close>); a row is found by one of its
  keys with \<open>find_by\<close>, and a unique index of the schema is \<open>unique_by\<close> of that key.
  The blob container is an association list from blob names to contents, updated with
  \<open>AList.update\<close> (an upload of an existing name overwrites it, as Azure's
  \<open>BlockBlobClient.upload\<close> does).  Amounts and quantities, which the code holds in
  JavaScript numbers and Prisma decimals, are \<open>real\<close>: no rounding is modelled.
\<close>

named_theorems table_simps "equations of find_by and unique_by on constructed tables"
named_theorems js_simps "equations of the JavaScript string operations"
named_theorems db_wf_preserved "database operations that keep the database well-formed"

type_synonym id = string
type_synonym bytes = "nat list"

definition find_by :: "('r \<Rightarrow> 'k) \<Rightarrow> 'k \<Rightarrow> 'r list \<Rightarrow> 'r option" where
  "find_by key k rs = find (\<lambda>r. key r = k) rs"

definition unique_by :: "('r \<Rightarrow> 'k) \<Rightarrow> 'r list \<Rightarrow> bool" where
  "unique_by key rs \<longleftrightarrow> distinct (map key rs)"

definition keys_of :: "('r \<Rightarrow> 'k) \<Rightarrow> 'r list \<Rightarrow> 'k set" where
  "keys_of key rs = key ` set rs"

text \<open>JavaScript's \<open>a ?? b\<close> on a value that is \<open>undefined\<close> or not.\<close>

definition nullish :: "'a option \<Rightarrow> 'a \<Rightarrow> 'a" where
  "nullish x d = (case x of None \<Rightarrow> d | Some v \<Rightarrow> v)"

text \<open>Prisma's \<open>update({where: {id}, data: r})\<close> and \<open>delete({where: {id}})\<close> on the
  rows of a table, once the row has been found.\<close>

definition replace_by :: "('r \<Rightarrow> 'k) \<Rightarrow> 'r \<Rightarrow> 'r list \<Rightarrow> 'r list" where
  "replace_by key r rs = map (\<lambda>x. if key x = key r then r else x) rs"

definition delete_by :: "('r \<Rightarrow> 'k) \<Rightarrow> 'k \<Rightarrow> 'r list \<Rightarrow> 'r list" where
  "delete_by key k rs = filter (\<lambda>x. key x \<noteq> k) rs"

subsection \<open>Finding rows by key\<close>

lemma find_by_Nil [simp, table_simps]: "find_by key k [] = None"
  by (simp add: find_by_def)

lemma find_by_Cons [table_simps]:
  "find_by key k (r # rs) = (if key r = k then Some r else find_by key k rs)"
  by (simp add: find_by_def)

lemma find_by_SomeD:
  "find_by key k rs = Some r \<Longrightarrow> r \<in> set rs \<and> key r = k"
  by (induction rs) (auto simp: find_by_Cons split: if_splits)

lemma find_by_None_iff: "find_by key k rs = None \<longleftrightarrow> k \<notin> keys_of key rs"
  by (auto simp: find_by_def keys_of_def find_None_iff)

lemma find_by_snoc [table_simps]:
  "find_by key k (rs @ [r]) =
     (case find_by key k rs of None \<Rightarrow> (if key r = k then Some r else None) | Some x \<Rightarrow> Some x)"
  by (induction rs) (auto simp: find_by_Cons)

lemma find_by_unique:
  assumes "unique_by key rs" and "r \<in> set rs"
  shows "find_by key (key r) rs = Some r"
  using assms by (induction rs) (auto simp: unique_by_def find_by_Cons keys_of_def)

lemma find_by_in_keys: "k \<in> keys_of key rs \<Longrightarrow> \<exists>r. find_by key k rs = Some r"
  by (cases "find_by key k rs") (simp_all add: find_by_None_iff)

subsection \<open>Unique keys\<close>

lemma unique_by_Nil [simp, table_simps]: "unique_by key []"
  by (simp add: unique_by_def)

lemma unique_by_snoc [table_simps]:
  "unique_by key (rs @ [r]) \<longleftrightarrow> unique_by key rs \<and> key r \<notin> keys_of key rs"
  by (auto simp: unique_by_def keys_of_def)

lemma unique_by_append:
  "unique_by key (rs @ ss) \<longleftrightarrow>
     unique_by key rs \<and> unique_by key ss \<and> keys_of key rs \<inter> keys_of key ss = {}"
  by (auto simp: unique_by_def keys_of_def)

lemma keys_of_snoc [simp, table_simps]:
  "keys_of key (rs @ [r]) = insert (key r) (keys_of key rs)"
  by (auto simp: keys_of_def)

lemma keys_of_append [table_simps]:
  "keys_of key (rs @ ss) = keys_of key rs \<union> keys_of key ss"
  by (auto simp: keys_of_def)

lemma keys_of_Nil [simp, table_simps]: "keys_of key [] = {}"
  by (simp add: keys_of_def)

lemma keys_of_map: "keys_of key (map f rs) = (key \<circ> f) ` set rs"
  by (auto simp: keys_of_def)

lemma keys_of_filter_subset: "keys_of key (filter P rs) \<subseteq> keys_of key rs"
  by (auto simp: keys_of_def)

lemma unique_by_filter: "unique_by key rs \<Longrightarrow> unique_by key (filter P rs)"
  by (simp add: unique_by_def distinct_map_filter)

lemma unique_by_map_same_key:
  "(\<And>r. r \<in> set rs \<Longrightarrow> key (f r) = key r) \<Longrightarrow> unique_by key (map f rs) = unique_by key rs"
proof -
  assume "\<And>r. r \<in> set rs \<Longrightarrow> key (f r) = key r"
  then have "map key (map f rs) = map key rs" by simp
  then show ?thesis by (simp only: unique_by_def)
qed

lemma keys_of_map_same_key:
  "(\<And>r. r \<in> set rs \<Longrightarrow> key (f r) = key r) \<Longrightarrow> keys_of key (map f rs) = keys_of key rs"
proof -
  assume "\<And>r. r \<in> set rs \<Longrightarrow> key (f r) = key r"
  then have "map key (map f rs) = map key rs" by simp
  then have "key ` set (map f rs) = key ` set rs" by (metis list.set_map)
  then show ?thesis by (simp only: keys_of_def)
qed

lemma find_by_map_same_key:
  "(\<And>x. key (f x) = key x) \<Longrightarrow> find_by key k (map f xs) = map_option f (find_by key k xs)"
  by (induction xs) (simp_all add: find_by_Cons)

subsection \<open>Replacing and deleting rows\<close>

lemma keys_of_replace_by [simp, table_simps]: "keys_of key (replace_by key r rs) = keys_of key rs"
  unfolding replace_by_def by (rule keys_of_map_same_key) simp

lemma unique_by_replace_by [simp, table_simps]: "unique_by key (replace_by key r rs) = unique_by key rs"
  unfolding replace_by_def by (rule unique_by_map_same_key) simp

lemma set_replace_by: "x \<in> set (replace_by key r rs) \<Longrightarrow> x = r \<or> x \<in> set rs"
  by (auto simp: replace_by_def)

lemma replace_by_other: "x \<in> set rs \<Longrightarrow> key x \<noteq> key r \<Longrightarrow> x \<in> set (replace_by key r rs)"
  by (force simp: replace_by_def)

lemma replace_by_in: "key r \<in> keys_of key rs \<Longrightarrow> r \<in> set (replace_by key r rs)"
  by (force simp: replace_by_def keys_of_def)

lemma keys_of_replace_by_other:
  "keys_of f (replace_by key r rs) \<subseteq> insert (f r) (keys_of f rs)"
  by (auto simp: keys_of_def dest: set_replace_by)

lemma find_by_replace_by:
  "unique_by key rs \<Longrightarrow> key r \<in> keys_of key rs \<Longrightarrow> find_by key (key r) (replace_by key r rs) = Some r"
  by (rule find_by_unique) (simp_all add: replace_by_in)

lemma find_by_replace_by_key:
  "key r \<in> keys_of key rs \<Longrightarrow> find_by key (key r) (replace_by key r rs) = Some r"
  by (induction rs) (auto simp: replace_by_def find_by_Cons keys_of_def)

lemma unique_by_replace_by_other:
  assumes k: "unique_by key rs" and u: "unique_by f rs"
    and o: "\<And>x. x \<in> set rs \<Longrightarrow> key x \<noteq> key r \<Longrightarrow> f x \<noteq> f r"
  shows "unique_by f (replace_by key r rs)"
proof -
  let ?g = "\<lambda>x. if key x = key r then r else x"
  have ik: "inj_on key (set rs)" and if': "inj_on f (set rs)" and d: "distinct rs"
    using k u by (simp_all add: unique_by_def distinct_map)
  have "inj_on (f \<circ> ?g) (set rs)"
  proof (rule inj_onI)
    fix x y assume x: "x \<in> set rs" and y: "y \<in> set rs" and e: "(f \<circ> ?g) x = (f \<circ> ?g) y"
    show "x = y"
    proof (cases "key x = key r"; cases "key y = key r")
      assume "key x = key r" "key y = key r"
      then show ?thesis using ik x y by (metis inj_onD)
    next
      assume "key x \<noteq> key r" "key y \<noteq> key r"
      then show ?thesis using if' x y e by (simp add: inj_on_def)
    next
      assume "key x = key r" "key y \<noteq> key r"
      then show ?thesis using o [OF y] e by simp
    next
      assume "key x \<noteq> key r" "key y = key r"
      then show ?thesis using o [OF x] e by simp
    qed
  qed
  then show ?thesis using d by (simp add: unique_by_def replace_by_def distinct_map)
qed

lemma keys_of_delete_by [simp, table_simps]: "keys_of key (delete_by key k rs) = keys_of key rs - {k}"
  by (auto simp: delete_by_def keys_of_def)

lemma unique_by_delete_by [simp, table_simps]: "unique_by f rs \<Longrightarrow> unique_by f (delete_by key k rs)"
  by (simp add: delete_by_def unique_by_filter)

lemma set_delete_by [simp]: "set (delete_by key k rs) = {x \<in> set rs. key x \<noteq> k}"
  by (simp add: delete_by_def)

lemma keys_of_delete_by_other: "keys_of f (delete_by key k rs) \<subseteq> keys_of f rs"
  by (simp add: delete_by_def keys_of_filter_subset)

subsection \<open>Options\<close>

lemma nullish_simps [simp]: "nullish None d = d" "nullish (Some v) d = v"
  by (simp_all add: nullish_def)

subsection \<open>Sums, minima and maxima of lists\<close>

lemma foldl_add_sum_list: "foldl (\<lambda>t x. t + f x) a xs = a + sum_list (map f xs)"
  for a :: "'a::comm_monoid_add"
  by (induction xs arbitrary: a) (simp_all add: add.assoc)

lemma sum_list_swap:
  "sum_list (map (\<lambda>x. sum_list (map (f x) ys)) xs) = sum_list (map (\<lambda>y. sum_list (map (\<lambda>x. f x y) xs)) ys)"
  for f :: "_ \<Rightarrow> _ \<Rightarrow> 'a::comm_monoid_add"
  by (induction xs) (simp_all add: sum_list_addf)

lemma sum_list_join:
  "sum_list (map (\<lambda>p. F (fst p) (snd p)) (concat (map (\<lambda>l. map (Pair l) (filter (P l) ys)) xs))) =
     sum_list (map (\<lambda>l. sum_list (map (\<lambda>r. if P l r then F l r else 0) ys)) xs)"
  for F :: "_ \<Rightarrow> _ \<Rightarrow> 'a::comm_monoid_add"
  by (induction xs) (simp_all add: sum_list_map_filter' comp_def)

lemma sum_list_if_conj:
  "sum_list (map (\<lambda>x. if P x \<and> c then f x else 0) xs) = (if c then sum_list (map (\<lambda>x. if P x then f x else 0) xs) else 0)"
  for f :: "_ \<Rightarrow> 'a::comm_monoid_add"
  by (cases c) simp_all

lemma sum_list_if_const: "sum_list (map (\<lambda>x. if c then f x else 0) xs) = (if c then sum_list (map f xs) else 0)"
  for f :: "_ \<Rightarrow> 'a::comm_monoid_add"
  by simp

lemma if_zero_add: "(if c then a + b else 0) = (if c then a else 0) + (if c then b else (0::'a::monoid_add))"
  by simp

lemma sum_list_join_one:
  assumes "\<forall>p \<in> set ps. \<exists>c. filter (Q p) cs = [c]" and "\<And>p c. F (G p c) = H p"
  shows "sum_list (map F (concat (map (\<lambda>p. map (G p) (filter (Q p) cs)) ps))) = sum_list (map H ps)"
  using assms(1) by (induction ps) (auto simp: assms(2))

lemma foldl_min_Min: "foldl (\<lambda>a b. if a < b then a else b) d ds = Min (insert d (set ds))"
  for d :: "'a::linorder"
proof (induction ds arbitrary: d)
  case (Cons x xs)
  have "(if d < x then d else x) = min d x" by (auto simp: min_def)
  then have "foldl (\<lambda>a b. if a < b then a else b) d (x # xs) = Min (insert (min d x) (set xs))"
    using Cons.IH by simp
  also have "\<dots> = Min (insert d (insert x (set xs)))"
    by (cases "xs = []") (simp_all add: min.assoc)
  finally show ?case by simp
qed simp

lemma foldl_max_Max: "foldl (\<lambda>a b. if a < b then b else a) d ds = Max (insert d (set ds))"
  for d :: "'a::linorder"
proof (induction ds arbitrary: d)
  case (Cons x xs)
  have "(if d < x then x else d) = max d x" by (auto simp: max_def)
  then have "foldl (\<lambda>a b. if a < b then b else a) d (x # xs) = Max (insert (max d x) (set xs))"
    using Cons.IH by simp
  also have "\<dots> = Max (insert d (insert x (set xs)))"
    by (cases "xs = []") (simp_all add: max.assoc)
  finally show ?case by simp
qed simp

lemma filter_unique_key:
  "unique_by key xs \<Longrightarrow> k \<in> keys_of key xs \<Longrightarrow> \<exists>x. filter (\<lambda>c. k = key c) xs = [x]"
proof (induction xs)
  case (Cons a xs)
  show ?case
  proof (cases "key a = k")
    case True
    with Cons.prems have "filter (\<lambda>c. k = key c) xs = []"
      by (auto simp: unique_by_def filter_empty_conv)
    with True show ?thesis by simp
  next
    case False
    with Cons show ?thesis by (simp add: unique_by_def keys_of_def)
  qed
qed simp

lemma sum_list_upto_indicator:
  "distinct ds \<Longrightarrow> sum_list (map (\<lambda>d. if k = Some d then v else 0) ds) = (if k \<in> Some ` set ds then v else 0)"
  for v :: real
  by (induction ds) auto

end
