(* ===== verification/Database.thy ===== *)
theory Database
  imports Js_String
begin

text \<open>
  The database as the server actions see it through Prisma (src/server/db, whose
  schema file is not part of src/: the tables, columns, unique indexes and relations below
  are those the queries of src/server/actions/*.ts use).  A table is a list of rows in
  insertion order; the state is the record \<open>db\<close>.  Prisma's errors are values of
  \<open>db_error\<close>: a unique-index violation (P2002), a foreign-key violation (P2003), a
  missing record for \<open>update\<close>/\<open>delete\<close> (P2025), an argument the model of the
  table does not have (\<open>PrismaClientValidationError\<close>, raised before any query).  Identifiers Prisma generates
  (\<open>@default(cuid())\<close>) come from a counter \<open>next_id\<close>; a generated identifier that
  collides is a unique violation, as it would be in the database.  A transaction
  (\<open>$transaction\<close>) is \<open>run_tx\<close>: on an error the state before it is kept.
\<close>

datatype user_role = Normal | Reviewer

datatype report_status = DRAFT | SUBMITTED | REJECTED | APPROVED

record user =
  u_id :: id
  u_role :: user_role

record expense_report =
  rp_id :: id
  rp_userId :: id
  rp_title :: string
  rp_description :: string
  rp_status :: report_status
  rp_updatedAt :: nat

record receipt =
  rc_id :: id
  rc_expenseReportId :: id
  rc_merchantId :: id
  rc_categoryId :: id
  rc_pageCount :: nat
  rc_tax :: real
  rc_tip :: real
  rc_date :: "int option"
  rc_paymentMethod :: "string option"
  rc_confidence :: real
  rc_currency :: string
  rc_updatedAt :: nat

record line_item =
  li_id :: id
  li_receiptId :: id
  li_description :: string
  li_sku :: "string option"
  li_quantity :: real
  li_unitPrice :: real
  li_currency :: "string option"
  li_updatedAt :: nat

record merchant =
  mc_id :: id
  mc_name :: string
  mc_normalizedName :: string
  mc_address :: "string option"

record category =
  ct_id :: id
  ct_name :: string
  ct_normalizedName :: string

record db =
  users :: "user list"
  reports :: "expense_report list"
  receipts :: "receipt list"
  line_items :: "line_item list"
  merchants :: "merchant list"
  categories :: "category list"
  next_id :: nat

datatype db_error = UniqueViolation string | ForeignKeyViolation string | RecordNotFound string
  | InvalidArgument string

type_synonym 'a db_result = "db_error + ('a \<times> db)"

subsection \<open>Well-formed states: unique indexes and relations\<close>

definition db_wf :: "db \<Rightarrow> bool" where
  "db_wf d \<longleftrightarrow>
     unique_by u_id (users d) \<and> unique_by rp_id (reports d) \<and> unique_by rc_id (receipts d) \<and>
     unique_by li_id (line_items d) \<and>
     unique_by mc_id (merchants d) \<and> unique_by mc_normalizedName (merchants d) \<and>
     unique_by ct_id (categories d) \<and> unique_by ct_normalizedName (categories d) \<and>
     (\<forall>rp \<in> set (reports d). rp_userId rp \<in> keys_of u_id (users d)) \<and>
     (\<forall>r \<in> set (receipts d). rc_expenseReportId r \<in> keys_of rp_id (reports d) \<and>
        rc_merchantId r \<in> keys_of mc_id (merchants d) \<and>
        rc_categoryId r \<in> keys_of ct_id (categories d)) \<and>
     (\<forall>l \<in> set (line_items d). li_receiptId l \<in> keys_of rc_id (receipts d))"

subsection \<open>Prisma operations used by the extraction\<close>

definition gen_id :: "db \<Rightarrow> id \<times> db" where
  "gen_id d = (''c'' @ show_nat (next_id d), d\<lparr>next_id := Suc (next_id d)\<rparr>)"

text \<open>The counter value an identifier was generated from, if it has the generator's shape.\<close>

definition gen_index :: "id \<Rightarrow> nat option" where
  "gen_index i = (case i of
     c # rest \<Rightarrow> (if c = CHR ''c'' \<and> rest \<noteq> [] \<and> list_all is_digit rest then Some (read_nat rest) else None)
   | [] \<Rightarrow> None)"

definition below_next :: "nat \<Rightarrow> id \<Rightarrow> bool" where
  "below_next n i = (case gen_index i of None \<Rightarrow> True | Some k \<Rightarrow> k < n)"

text \<open>No generated identifier of a table is ahead of the counter, so the next one is new.\<close>

definition ids_fresh :: "db \<Rightarrow> bool" where
  "ids_fresh d \<longleftrightarrow>
     list_all (below_next (next_id d) \<circ> mc_id) (merchants d) \<and>
     list_all (below_next (next_id d) \<circ> ct_id) (categories d) \<and>
     list_all (below_next (next_id d) \<circ> li_id) (line_items d)"

definition db_ok :: "db \<Rightarrow> bool" where
  "db_ok d \<longleftrightarrow> db_wf d \<and> ids_fresh d"

text \<open>\<open>tx.merchant.create({data: {name, address, normalizedName}})\<close>.\<close>

definition merchant_create :: "string \<Rightarrow> string option \<Rightarrow> string \<Rightarrow> db \<Rightarrow> merchant db_result" where
  "merchant_create name address nname d =
     (let (i, d1) = gen_id d;
          m = \<lparr>mc_id = i, mc_name = name, mc_normalizedName = nname, mc_address = address\<rparr>
      in if i \<in> keys_of mc_id (merchants d1) then Inl (UniqueViolation ''Merchant.id'')
         else if nname \<in> keys_of mc_normalizedName (merchants d1)
         then Inl (UniqueViolation ''Merchant.normalizedName'')
         else Inr (m, d1\<lparr>merchants := merchants d1 @ [m]\<rparr>))"

text \<open>\<open>tx.category.create({data: {name, normalizedName}})\<close>.\<close>

definition category_create :: "string \<Rightarrow> string \<Rightarrow> db \<Rightarrow> category db_result" where
  "category_create name nname d =
     (let (i, d1) = gen_id d;
          c = \<lparr>ct_id = i, ct_name = name, ct_normalizedName = nname\<rparr>
      in if i \<in> keys_of ct_id (categories d1) then Inl (UniqueViolation ''Category.id'')
         else if nname \<in> keys_of ct_normalizedName (categories d1)
         then Inl (UniqueViolation ''Category.normalizedName'')
         else Inr (c, d1\<lparr>categories := categories d1 @ [c]\<rparr>))"

text \<open>\<open>tx.receipt.create({data})\<close>: the primary key and the three relations are checked.\<close>

definition receipt_create :: "receipt \<Rightarrow> db \<Rightarrow> receipt db_result" where
  "receipt_create r d =
     (if rc_id r \<in> keys_of rc_id (receipts d) then Inl (UniqueViolation ''Receipt.id'')
      else if rc_expenseReportId r \<notin> keys_of rp_id (reports d)
      then Inl (ForeignKeyViolation ''Receipt.expenseReportId'')
      else if rc_merchantId r \<notin> keys_of mc_id (merchants d)
      then Inl (ForeignKeyViolation ''Receipt.merchantId'')
      else if rc_categoryId r \<notin> keys_of ct_id (categories d)
      then Inl (ForeignKeyViolation ''Receipt.categoryId'')
      else Inr (r, d\<lparr>receipts := receipts d @ [r]\<rparr>))"

text \<open>One row of \<open>createManyAndReturn\<close>: a generated id, then the checks of a create.\<close>

definition line_item_create :: "(id \<Rightarrow> line_item) \<Rightarrow> db \<Rightarrow> line_item db_result" where
  "line_item_create mk d =
     (let (i, d1) = gen_id d; l = mk i
      in if li_id l \<in> keys_of li_id (line_items d1) then Inl (UniqueViolation ''ReceiptLineItem.id'')
         else if li_receiptId l \<notin> keys_of rc_id (receipts d1)
         then Inl (ForeignKeyViolation ''ReceiptLineItem.receiptId'')
         else Inr (l, d1\<lparr>line_items := line_items d1 @ [l]\<rparr>))"

fun line_items_create_many :: "(id \<Rightarrow> line_item) list \<Rightarrow> db \<Rightarrow> line_item list db_result" where
  "line_items_create_many [] d = Inr ([], d)"
| "line_items_create_many (mk # mks) d =
     (case line_item_create mk d of
        Inl e \<Rightarrow> Inl e
      | Inr (l, d1) \<Rightarrow>
          (case line_items_create_many mks d1 of
             Inl e \<Rightarrow> Inl e
           | Inr (ls, d2) \<Rightarrow> Inr (l # ls, d2)))"

text \<open>A row maker of \<open>createManyAndReturn\<close> that uses the generated id and points
  at an existing receipt.\<close>

definition row_ok :: "db \<Rightarrow> (id \<Rightarrow> line_item) \<Rightarrow> bool" where
  "row_ok d mk \<longleftrightarrow> (\<forall>i. li_id (mk i) = i \<and> li_receiptId (mk i) \<in> keys_of rc_id (receipts d))"

text \<open>\<open>db.$transaction(f)\<close>: the result and the state after it; an error rolls back.\<close>

definition run_tx :: "(db \<Rightarrow> 'a db_result) \<Rightarrow> db \<Rightarrow> (db_error + 'a) \<times> db" where
  "run_tx f d = (case f d of Inl e \<Rightarrow> (Inl e, d) | Inr (a, d') \<Rightarrow> (Inr a, d'))"

subsection \<open>The invariant under the elementary updates\<close>

lemma db_wf_next_id [simp]: "db_wf (d\<lparr>next_id := n\<rparr>) = db_wf d"
  by (simp add: db_wf_def)

lemma db_wf_add_merchant:
  "db_wf d \<Longrightarrow> mc_id m \<notin> keys_of mc_id (merchants d) \<Longrightarrow>
     mc_normalizedName m \<notin> keys_of mc_normalizedName (merchants d) \<Longrightarrow>
     db_wf (d\<lparr>merchants := merchants d @ [m]\<rparr>)"
  by (auto simp: db_wf_def unique_by_snoc)

lemma db_wf_add_category:
  "db_wf d \<Longrightarrow> ct_id c \<notin> keys_of ct_id (categories d) \<Longrightarrow>
     ct_normalizedName c \<notin> keys_of ct_normalizedName (categories d) \<Longrightarrow>
     db_wf (d\<lparr>categories := categories d @ [c]\<rparr>)"
  by (auto simp: db_wf_def unique_by_snoc)

lemma db_wf_add_receipt:
  "db_wf d \<Longrightarrow> rc_id r \<notin> keys_of rc_id (receipts d) \<Longrightarrow>
     rc_expenseReportId r \<in> keys_of rp_id (reports d) \<Longrightarrow>
     rc_merchantId r \<in> keys_of mc_id (merchants d) \<Longrightarrow>
     rc_categoryId r \<in> keys_of ct_id (categories d) \<Longrightarrow>
     db_wf (d\<lparr>receipts := receipts d @ [r]\<rparr>)"
  by (auto simp: db_wf_def unique_by_snoc)

lemma db_wf_add_line_item:
  "db_wf d \<Longrightarrow> li_id l \<notin> keys_of li_id (line_items d) \<Longrightarrow>
     li_receiptId l \<in> keys_of rc_id (receipts d) \<Longrightarrow>
     db_wf (d\<lparr>line_items := line_items d @ [l]\<rparr>)"
  by (auto simp: db_wf_def unique_by_snoc)

subsection \<open>Generated identifiers\<close>

lemma gen_index_gen_id [simp]: "gen_index (fst (gen_id d)) = Some (next_id d)"
proof -
  have "list_all is_digit (show_nat (next_id d))"
    by (simp add: list_all_iff show_nat_digits)
  then show ?thesis by (simp add: gen_id_def gen_index_def)
qed

lemma below_next_Suc: "below_next n i \<Longrightarrow> below_next (Suc n) i"
  by (auto simp: below_next_def split: option.splits)

lemma gen_id_not_below: "\<not> below_next (next_id d) (fst (gen_id d))"
  by (simp add: below_next_def)

lemma gen_id_below_Suc: "below_next (Suc (next_id d)) (fst (gen_id d))"
  by (simp add: below_next_def)

lemma gen_id_fresh_key:
  assumes "list_all (below_next (next_id d) \<circ> key) rs"
  shows "fst (gen_id d) \<notin> keys_of key rs"
proof
  assume "fst (gen_id d) \<in> keys_of key rs"
  then obtain r where "r \<in> set rs" and "key r = fst (gen_id d)" by (auto simp: keys_of_def)
  with assms have "below_next (next_id d) (fst (gen_id d))" by (auto simp: list_all_iff)
  with gen_id_not_below show False by blast
qed

lemma list_all_below_next_Suc:
  "list_all (below_next n \<circ> key) rs \<Longrightarrow> list_all (below_next (Suc n) \<circ> key) rs"
  by (auto simp: list_all_iff intro: below_next_Suc)

subsection \<open>The creates: result, new state, invariant\<close>

lemma merchant_create_Inr:
  assumes "merchant_create name address nname d = Inr (m, d')"
  shows "m = \<lparr>mc_id = fst (gen_id d), mc_name = name, mc_normalizedName = nname, mc_address = address\<rparr> \<and>
    mc_id m \<notin> keys_of mc_id (merchants d) \<and> nname \<notin> keys_of mc_normalizedName (merchants d) \<and>
    d' = d\<lparr>next_id := Suc (next_id d), merchants := merchants d @ [m]\<rparr>"
  using assms by (auto simp: merchant_create_def gen_id_def Let_def split: if_splits)

lemma merchant_create_wf:
  "merchant_create name address nname d = Inr (m, d') \<Longrightarrow> db_wf d \<Longrightarrow> db_wf d'"
  by (drule merchant_create_Inr) (auto intro: db_wf_add_merchant [where d = "d\<lparr>next_id := _\<rparr>", simplified])

lemma category_create_Inr:
  assumes "category_create name nname d = Inr (c, d')"
  shows "c = \<lparr>ct_id = fst (gen_id d), ct_name = name, ct_normalizedName = nname\<rparr> \<and>
    ct_id c \<notin> keys_of ct_id (categories d) \<and> nname \<notin> keys_of ct_normalizedName (categories d) \<and>
    d' = d\<lparr>next_id := Suc (next_id d), categories := categories d @ [c]\<rparr>"
  using assms by (auto simp: category_create_def gen_id_def Let_def split: if_splits)

lemma category_create_wf:
  "category_create name nname d = Inr (c, d') \<Longrightarrow> db_wf d \<Longrightarrow> db_wf d'"
  by (drule category_create_Inr) (auto intro: db_wf_add_category [where d = "d\<lparr>next_id := _\<rparr>", simplified])

lemma receipt_create_Inr:
  "receipt_create r d = Inr (r', d') \<Longrightarrow> r' = r \<and> d' = d\<lparr>receipts := receipts d @ [r]\<rparr>"
  by (auto simp: receipt_create_def split: if_splits)

lemma receipt_create_wf:
  "receipt_create r d = Inr (r', d') \<Longrightarrow> db_wf d \<Longrightarrow> db_wf d'"
  by (auto simp: receipt_create_def split: if_splits intro: db_wf_add_receipt)

lemma line_item_create_Inr:
  assumes "line_item_create mk d = Inr (l, d')"
  shows "l = mk (fst (gen_id d)) \<and> li_id l \<notin> keys_of li_id (line_items d) \<and>
    li_receiptId l \<in> keys_of rc_id (receipts d) \<and>
    d' = d\<lparr>next_id := Suc (next_id d), line_items := line_items d @ [l]\<rparr>"
  using assms by (auto simp: line_item_create_def gen_id_def Let_def split: if_splits)

lemma line_item_create_wf:
  "line_item_create mk d = Inr (l, d') \<Longrightarrow> db_wf d \<Longrightarrow> db_wf d'"
  by (drule line_item_create_Inr) (auto intro: db_wf_add_line_item [where d = "d\<lparr>next_id := _\<rparr>", simplified])

lemma line_items_create_many_Inr:
  "line_items_create_many mks d = Inr (ls, d') \<Longrightarrow>
     length ls = length mks \<and> line_items d' = line_items d @ ls \<and>
     receipts d' = receipts d \<and> reports d' = reports d \<and> merchants d' = merchants d \<and>
     categories d' = categories d \<and> users d' = users d \<and> (db_wf d \<longrightarrow> db_wf d') \<and>
     list_all2 (\<lambda>mk l. \<exists>i. l = mk i) mks ls"
proof (induction mks arbitrary: d ls)
  case Nil
  then show ?case by simp
next
  case (Cons mk mks)
  then obtain l d1 ls' where l: "line_item_create mk d = Inr (l, d1)"
    and rest: "line_items_create_many mks d1 = Inr (ls', d')" and ls: "ls = l # ls'"
    by (auto split: sum.splits prod.splits)
  from Cons.IH [OF rest] line_item_create_Inr [OF l] line_item_create_wf [OF l] ls
  show ?case by auto
qed

subsection \<open>Freshness is kept, and fresh counters make the creates succeed\<close>

lemma ids_fresh_step:
  "ids_fresh d \<Longrightarrow> ids_fresh (d\<lparr>next_id := Suc (next_id d)\<rparr>)"
  by (simp add: ids_fresh_def list_all_below_next_Suc)

lemma merchant_create_fresh:
  "merchant_create name address nname d = Inr (m, d') \<Longrightarrow> ids_fresh d \<Longrightarrow> ids_fresh d'"
  by (drule merchant_create_Inr)
     (auto simp: ids_fresh_def list_all_below_next_Suc gen_id_below_Suc)

lemma category_create_fresh:
  "category_create name nname d = Inr (c, d') \<Longrightarrow> ids_fresh d \<Longrightarrow> ids_fresh d'"
  by (drule category_create_Inr)
     (auto simp: ids_fresh_def list_all_below_next_Suc gen_id_below_Suc)

lemma receipt_create_fresh:
  "receipt_create r d = Inr (r', d') \<Longrightarrow> ids_fresh d \<Longrightarrow> ids_fresh d'"
  by (drule receipt_create_Inr) (simp add: ids_fresh_def)

lemma merchant_create_succeeds:
  assumes "ids_fresh d" and "nname \<notin> keys_of mc_normalizedName (merchants d)"
  shows "\<exists>m d'. merchant_create name address nname d = Inr (m, d')"
proof -
  have "fst (gen_id d) \<notin> keys_of mc_id (merchants d)"
    using assms(1) by (simp add: ids_fresh_def gen_id_fresh_key)
  with assms(2) show ?thesis by (simp add: merchant_create_def gen_id_def Let_def)
qed

lemma category_create_succeeds:
  assumes "ids_fresh d" and "nname \<notin> keys_of ct_normalizedName (categories d)"
  shows "\<exists>c d'. category_create name nname d = Inr (c, d')"
proof -
  have "fst (gen_id d) \<notin> keys_of ct_id (categories d)"
    using assms(1) by (simp add: ids_fresh_def gen_id_fresh_key)
  with assms(2) show ?thesis by (simp add: category_create_def gen_id_def Let_def)
qed

lemma receipt_create_succeeds:
  "rc_id r \<notin> keys_of rc_id (receipts d) \<Longrightarrow> rc_expenseReportId r \<in> keys_of rp_id (reports d) \<Longrightarrow>
     rc_merchantId r \<in> keys_of mc_id (merchants d) \<Longrightarrow> rc_categoryId r \<in> keys_of ct_id (categories d) \<Longrightarrow>
     receipt_create r d = Inr (r, d\<lparr>receipts := receipts d @ [r]\<rparr>)"
  by (simp add: receipt_create_def)

lemma row_ok_cong: "receipts d' = receipts d \<Longrightarrow> row_ok d' = row_ok d"
  by (simp add: fun_eq_iff row_ok_def)

lemma line_item_create_succeeds:
  assumes "ids_fresh d" and "row_ok d mk"
  shows "\<exists>l d'. line_item_create mk d = Inr (l, d') \<and> ids_fresh d'"
proof -
  have "fst (gen_id d) \<notin> keys_of li_id (line_items d)"
    using assms(1) by (simp add: ids_fresh_def gen_id_fresh_key)
  with assms have ok: "line_item_create mk d =
      Inr (mk (fst (gen_id d)), d\<lparr>next_id := Suc (next_id d), line_items := line_items d @ [mk (fst (gen_id d))]\<rparr>)"
    by (simp add: line_item_create_def gen_id_def Let_def row_ok_def)
  have "ids_fresh (d\<lparr>next_id := Suc (next_id d), line_items := line_items d @ [mk (fst (gen_id d))]\<rparr>)"
    using assms by (simp add: ids_fresh_def list_all_below_next_Suc gen_id_below_Suc row_ok_def)
  with ok show ?thesis by blast
qed

lemma line_items_create_many_succeeds:
  "ids_fresh d \<Longrightarrow> list_all (row_ok d) mks \<Longrightarrow>
     \<exists>ls d'. line_items_create_many mks d = Inr (ls, d') \<and> ids_fresh d'"
proof (induction mks arbitrary: d)
  case Nil
  then show ?case by simp
next
  case (Cons mk mks)
  then obtain l d1 where l: "line_item_create mk d = Inr (l, d1)" and f1: "ids_fresh d1"
    using line_item_create_succeeds by fastforce
  from line_item_create_Inr [OF l] have "receipts d1 = receipts d" by simp
  then have "row_ok d1 = row_ok d" by (rule row_ok_cong)
  then have "list_all (row_ok d1) mks" using Cons.prems by simp
  with Cons.IH f1 obtain ls d2 where "line_items_create_many mks d1 = Inr (ls, d2)" and "ids_fresh d2"
    by blast
  with l show ?case by simp
qed

end
