(* ===== verification/Prisma_Crud.thy ===== *)
theory Prisma_Crud
  imports Database
begin

text \<open>
  The Prisma calls the CRUD server actions of src/server/actions make, one definition per
  table and call: \<open>createMany\<close> (a row at a time, all or nothing), \<open>update\<close> and
  \<open>delete\<close> by primary key.  Each checks what the database checks: the primary key and
  the unique indexes, the relations of the row (a foreign key that names no row fails), and
  the rows that refer to a deleted row (the schema is not under src/; the referential action
  modelled is Prisma's default for a required relation, which refuses the delete).  An
  \<open>update\<close> writes the whole object it is given, as \<open>data: {...u, updatedAt: new Date()}\<close>
  does; the loops of the actions over these calls are \<open>tx_each\<close>, which stops at the
  first error.  The lemmas show that every call keeps \<open>db_wf\<close>.
\<close>

subsection \<open>Expense reports\<close>

definition report_insert :: "expense_report \<Rightarrow> db \<Rightarrow> unit db_result" where
  "report_insert r d =
     (if rp_id r \<in> keys_of rp_id (reports d) then Inl (UniqueViolation ''ExpenseReport.id'')
      else if rp_userId r \<notin> keys_of u_id (users d) then Inl (ForeignKeyViolation ''ExpenseReport.userId'')
      else Inr ((), d\<lparr>reports := reports d @ [r]\<rparr>))"

definition report_update :: "nat \<Rightarrow> expense_report \<Rightarrow> db \<Rightarrow> unit db_result" where
  "report_update now r d =
     (if rp_id r \<notin> keys_of rp_id (reports d) then Inl (RecordNotFound ''ExpenseReport'')
      else if rp_userId r \<notin> keys_of u_id (users d) then Inl (ForeignKeyViolation ''ExpenseReport.userId'')
      else Inr ((), d\<lparr>reports := replace_by rp_id (r\<lparr>rp_updatedAt := now\<rparr>) (reports d)\<rparr>))"

definition report_delete :: "id \<Rightarrow> db \<Rightarrow> unit db_result" where
  "report_delete k d =
     (if k \<notin> keys_of rp_id (reports d) then Inl (RecordNotFound ''ExpenseReport'')
      else if k \<in> keys_of rc_expenseReportId (receipts d)
      then Inl (ForeignKeyViolation ''Receipt.expenseReportId'')
      else Inr ((), d\<lparr>reports := delete_by rp_id k (reports d)\<rparr>))"

subsection \<open>Receipts\<close>

text \<open>\<open>receipt.createMany\<close> checks each row as \<open>receipt_create\<close> does.\<close>

definition receipt_update :: "nat \<Rightarrow> receipt \<Rightarrow> db \<Rightarrow> unit db_result" where
  "receipt_update now r d =
     (if rc_id r \<notin> keys_of rc_id (receipts d) then Inl (RecordNotFound ''Receipt'')
      else if rc_expenseReportId r \<notin> keys_of rp_id (reports d)
      then Inl (ForeignKeyViolation ''Receipt.expenseReportId'')
      else if rc_merchantId r \<notin> keys_of mc_id (merchants d)
      then Inl (ForeignKeyViolation ''Receipt.merchantId'')
      else if rc_categoryId r \<notin> keys_of ct_id (categories d)
      then Inl (ForeignKeyViolation ''Receipt.categoryId'')
      else Inr ((), d\<lparr>receipts := replace_by rc_id (r\<lparr>rc_updatedAt := now\<rparr>) (receipts d)\<rparr>))"

definition receipt_delete :: "id \<Rightarrow> db \<Rightarrow> unit db_result" where
  "receipt_delete k d =
     (if k \<notin> keys_of rc_id (receipts d) then Inl (RecordNotFound ''Receipt'')
      else if k \<in> keys_of li_receiptId (line_items d)
      then Inl (ForeignKeyViolation ''ReceiptLineItem.receiptId'')
      else Inr ((), d\<lparr>receipts := delete_by rc_id k (receipts d)\<rparr>))"

subsection \<open>Receipt line items\<close>

definition line_item_insert :: "line_item \<Rightarrow> db \<Rightarrow> unit db_result" where
  "line_item_insert l d =
     (if li_id l \<in> keys_of li_id (line_items d) then Inl (UniqueViolation ''ReceiptLineItem.id'')
      else if li_receiptId l \<notin> keys_of rc_id (receipts d)
      then Inl (ForeignKeyViolation ''ReceiptLineItem.receiptId'')
      else Inr ((), d\<lparr>line_items := line_items d @ [l]\<rparr>))"

definition line_item_update :: "nat \<Rightarrow> line_item \<Rightarrow> db \<Rightarrow> unit db_result" where
  "line_item_update now l d =
     (if li_id l \<notin> keys_of li_id (line_items d) then Inl (RecordNotFound ''ReceiptLineItem'')
      else if li_receiptId l \<notin> keys_of rc_id (receipts d)
      then Inl (ForeignKeyViolation ''ReceiptLineItem.receiptId'')
      else Inr ((), d\<lparr>line_items := replace_by li_id (l\<lparr>li_updatedAt := now\<rparr>) (line_items d)\<rparr>))"

definition line_item_delete :: "id \<Rightarrow> db \<Rightarrow> unit db_result" where
  "line_item_delete k d =
     (if k \<notin> keys_of li_id (line_items d) then Inl (RecordNotFound ''ReceiptLineItem'')
      else Inr ((), d\<lparr>line_items := delete_by li_id k (line_items d)\<rparr>))"

subsection \<open>Merchants and categories\<close>

definition merchant_insert :: "merchant \<Rightarrow> db \<Rightarrow> unit db_result" where
  "merchant_insert m d =
     (if mc_id m \<in> keys_of mc_id (merchants d) then Inl (UniqueViolation ''Merchant.id'')
      else if mc_normalizedName m \<in> keys_of mc_normalizedName (merchants d)
      then Inl (UniqueViolation ''Merchant.normalizedName'')
      else Inr ((), d\<lparr>merchants := merchants d @ [m]\<rparr>))"

text \<open>The merchant row of the model has no \<open>updatedAt\<close>; the rest of the object is written.\<close>

definition merchant_update :: "merchant \<Rightarrow> db \<Rightarrow> unit db_result" where
  "merchant_update m d =
     (if mc_id m \<notin> keys_of mc_id (merchants d) then Inl (RecordNotFound ''Merchant'')
      else if mc_normalizedName m \<in> keys_of mc_normalizedName (filter (\<lambda>x. mc_id x \<noteq> mc_id m) (merchants d))
      then Inl (UniqueViolation ''Merchant.normalizedName'')
      else Inr ((), d\<lparr>merchants := replace_by mc_id m (merchants d)\<rparr>))"

definition merchant_delete :: "id \<Rightarrow> db \<Rightarrow> unit db_result" where
  "merchant_delete k d =
     (if k \<notin> keys_of mc_id (merchants d) then Inl (RecordNotFound ''Merchant'')
      else if k \<in> keys_of rc_merchantId (receipts d) then Inl (ForeignKeyViolation ''Receipt.merchantId'')
      else Inr ((), d\<lparr>merchants := delete_by mc_id k (merchants d)\<rparr>))"

definition category_insert :: "category \<Rightarrow> db \<Rightarrow> unit db_result" where
  "category_insert c d =
     (if ct_id c \<in> keys_of ct_id (categories d) then Inl (UniqueViolation ''Category.id'')
      else if ct_normalizedName c \<in> keys_of ct_normalizedName (categories d)
      then Inl (UniqueViolation ''Category.normalizedName'')
      else Inr ((), d\<lparr>categories := categories d @ [c]\<rparr>))"

subsection \<open>Loops inside a transaction\<close>

text \<open>\<open>for (const x of xs) await tx.t.op(x)\<close>, and \<open>createMany\<close>: the first error
  ends the loop; the enclosing \<open>run_tx\<close> rolls back.\<close>

fun tx_each :: "('a \<Rightarrow> db \<Rightarrow> 'b db_result) \<Rightarrow> 'a list \<Rightarrow> db \<Rightarrow> unit db_result" where
  "tx_each f [] d = Inr ((), d)"
| "tx_each f (x # xs) d = (case f x d of Inl e \<Rightarrow> Inl e | Inr (_, d1) \<Rightarrow> tx_each f xs d1)"

definition skip :: "db \<Rightarrow> unit db_result" where
  "skip d = Inr ((), d)"

subsection \<open>Every call keeps the database well-formed\<close>

lemma report_insert_wf [db_wf_preserved]:
  "db_wf d \<Longrightarrow> report_insert r d = Inr (v, d') \<Longrightarrow> db_wf d'"
  by (auto simp: report_insert_def db_wf_def unique_by_snoc split: if_splits)

lemma report_update_wf [db_wf_preserved]:
  "db_wf d \<Longrightarrow> report_update now r d = Inr (v, d') \<Longrightarrow> db_wf d'"
  by (auto simp: report_update_def db_wf_def split: if_splits dest!: set_replace_by)

lemma report_delete_wf [db_wf_preserved]:
  assumes "db_wf d" "report_delete k d = Inr (v, d')"
  shows "db_wf d'"
proof -
  have k: "k \<notin> keys_of rc_expenseReportId (receipts d)"
    and d': "d' = d\<lparr>reports := delete_by rp_id k (reports d)\<rparr>"
    using assms(2) by (simp_all add: report_delete_def split: if_splits)
  have "\<forall>x \<in> set (receipts d). rc_expenseReportId x \<noteq> k" using k by (auto simp: keys_of_def)
  then show ?thesis using assms(1) by (auto simp: d' db_wf_def)
qed

lemma receipt_create_wf' [db_wf_preserved]:
  "db_wf d \<Longrightarrow> receipt_create r d = Inr (v, d') \<Longrightarrow> db_wf d'"
  using receipt_create_wf by blast

lemma receipt_update_wf [db_wf_preserved]:
  "db_wf d \<Longrightarrow> receipt_update now r d = Inr (v, d') \<Longrightarrow> db_wf d'"
  by (auto simp: receipt_update_def db_wf_def split: if_splits dest!: set_replace_by)

lemma receipt_delete_wf [db_wf_preserved]:
  assumes "db_wf d" "receipt_delete k d = Inr (v, d')"
  shows "db_wf d'"
proof -
  have k: "k \<notin> keys_of li_receiptId (line_items d)"
    and d': "d' = d\<lparr>receipts := delete_by rc_id k (receipts d)\<rparr>"
    using assms(2) by (simp_all add: receipt_delete_def split: if_splits)
  have "\<forall>x \<in> set (line_items d). li_receiptId x \<noteq> k" using k by (auto simp: keys_of_def)
  then show ?thesis using assms(1) by (auto simp: d' db_wf_def)
qed

lemma line_item_insert_wf [db_wf_preserved]:
  "db_wf d \<Longrightarrow> line_item_insert l d = Inr (v, d') \<Longrightarrow> db_wf d'"
  by (auto simp: line_item_insert_def db_wf_def unique_by_snoc split: if_splits)

lemma line_item_update_wf [db_wf_preserved]:
  "db_wf d \<Longrightarrow> line_item_update now l d = Inr (v, d') \<Longrightarrow> db_wf d'"
  by (auto simp: line_item_update_def db_wf_def split: if_splits dest!: set_replace_by)

lemma line_item_delete_wf [db_wf_preserved]:
  "db_wf d \<Longrightarrow> line_item_delete k d = Inr (v, d') \<Longrightarrow> db_wf d'"
  by (auto simp: line_item_delete_def db_wf_def split: if_splits)

lemma merchant_insert_wf [db_wf_preserved]:
  "db_wf d \<Longrightarrow> merchant_insert m d = Inr (v, d') \<Longrightarrow> db_wf d'"
  by (auto simp: merchant_insert_def db_wf_def unique_by_snoc split: if_splits)

lemma merchant_update_wf [db_wf_preserved]:
  assumes "db_wf d" "merchant_update m d = Inr (v, d')"
  shows "db_wf d'"
proof -
  have g: "mc_id m \<in> keys_of mc_id (merchants d)" and d': "d' = d\<lparr>merchants := replace_by mc_id m (merchants d)\<rparr>"
    and nn: "mc_normalizedName m \<notin> keys_of mc_normalizedName (filter (\<lambda>x. mc_id x \<noteq> mc_id m) (merchants d))"
    using assms(2) by (simp_all add: merchant_update_def split: if_splits)
  have n: "mc_normalizedName x \<noteq> mc_normalizedName m"
    if "x \<in> set (merchants d)" "mc_id x \<noteq> mc_id m" for x
  proof
    assume "mc_normalizedName x = mc_normalizedName m"
    then have "mc_normalizedName m \<in> keys_of mc_normalizedName (filter (\<lambda>x. mc_id x \<noteq> mc_id m) (merchants d))"
      using that unfolding keys_of_def by (intro image_eqI [where x = x]) simp_all
    then show False using nn by contradiction
  qed
  have "unique_by mc_normalizedName (replace_by mc_id m (merchants d))"
    using assms(1) n by (intro unique_by_replace_by_other) (auto simp: db_wf_def)
  then show ?thesis using assms(1) g by (simp add: d' db_wf_def)
qed

lemma merchant_delete_wf [db_wf_preserved]:
  assumes "db_wf d" "merchant_delete k d = Inr (v, d')"
  shows "db_wf d'"
proof -
  have k: "k \<notin> keys_of rc_merchantId (receipts d)"
    and d': "d' = d\<lparr>merchants := delete_by mc_id k (merchants d)\<rparr>"
    using assms(2) by (simp_all add: merchant_delete_def split: if_splits)
  have "\<forall>x \<in> set (receipts d). rc_merchantId x \<noteq> k" using k by (auto simp: keys_of_def)
  then show ?thesis using assms(1) by (auto simp: d' db_wf_def)
qed

lemma category_insert_wf [db_wf_preserved]:
  "db_wf d \<Longrightarrow> category_insert c d = Inr (v, d') \<Longrightarrow> db_wf d'"
  by (auto simp: category_insert_def db_wf_def unique_by_snoc split: if_splits)

lemma skip_wf [db_wf_preserved]: "db_wf d \<Longrightarrow> skip d = Inr (v, d') \<Longrightarrow> db_wf d'"
  by (simp add: skip_def)

subsection \<open>Loops\<close>

lemma tx_each_preserves:
  assumes "\<And>x d d' v. x \<in> set xs \<Longrightarrow> P d \<Longrightarrow> f x d = Inr (v, d') \<Longrightarrow> P d'"
    and "P d" and "tx_each f xs d = Inr (u, d')"
  shows "P d'"
  using assms
proof (induction xs arbitrary: d)
  case (Cons x xs)
  then obtain v d1 where "f x d = Inr (v, d1)" "tx_each f xs d1 = Inr (u, d')"
    by (auto split: sum.splits prod.splits)
  with Cons show ?case by (metis list.set_intros)
qed simp

lemma tx_each_wf:
  assumes "tx_each f xs d = Inr (u, d')" and "db_wf d"
    and "\<And>x d d' v. db_wf d \<Longrightarrow> f x d = Inr (v, d') \<Longrightarrow> db_wf d'"
  shows "db_wf d'"
  using tx_each_preserves [where P = db_wf, OF _ assms(2) assms(1)] assms(3) by blast

lemma tx_each_append:
  "tx_each f (xs @ ys) d = (case tx_each f xs d of Inl e \<Rightarrow> Inl e | Inr (_, d1) \<Rightarrow> tx_each f ys d1)"
  by (induction xs arbitrary: d) (auto split: sum.splits prod.splits)

lemma tx_each_skip_all:
  "(\<And>x. x \<in> set xs \<Longrightarrow> f x = skip) \<Longrightarrow> tx_each f xs d = Inr ((), d)"
  by (induction xs) (simp_all add: skip_def)

end
