(* ===== verification/Server_Actions.thy ===== *)
theory Server_Actions
  imports Prisma_Crud
begin

text \<open>
  The CRUD server actions of src/server/actions/{report,receipt,receipt-line-item,merchant,
  category}.ts and the session lookup of src/lib/auth.ts.  A session is the signed-in user
  or none; \<open>getCurrentUser\<close> throws without one.  A mutating action is a function from the
  database to an error or the database after its transaction (\<open>commit\<close>, over
  \<open>run_tx\<close>: on an error the database is the one before the call).  The ownership sets
  (\<open>getOwnedReportIds\<close>, \<open>getOwnedReceipts\<close>, \<open>getOwnedLineItems\<close>) are read
  before the transaction, from the same state, as the code does.  The merchant and
  category actions call no \<open>getCurrentUser\<close> and take no session.  \<open>action\<close> is the
  datatype of the mutating requests the client collections send, and \<open>run_action\<close> the
  step function the client model and the root theory share.
\<close>

datatype action_error = NotLoggedIn | DbError db_error

type_synonym session = "user option"

text \<open>auth.ts lines 37-46.\<close>

definition getCurrentUser :: "session \<Rightarrow> action_error + user" where
  "getCurrentUser s = (case s of None \<Rightarrow> Inl NotLoggedIn | Some u \<Rightarrow> Inr u)"

definition commit :: "(db \<Rightarrow> unit db_result) \<Rightarrow> db \<Rightarrow> action_error + db" where
  "commit f d = (case run_tx f d of (Inl e, _) \<Rightarrow> Inl (DbError e) | (Inr _, d') \<Rightarrow> Inr d')"

text \<open>\<open>if (user.role !== UserRole.Reviewer && !owned.has(id)) continue;\<close>\<close>

definition may_write :: "user \<Rightarrow> id list \<Rightarrow> id \<Rightarrow> bool" where
  "may_write u owned k \<longleftrightarrow> \<not> (u_role u \<noteq> Reviewer \<and> k \<notin> set owned)"

subsection \<open>report.ts\<close>

definition report_visible :: "user \<Rightarrow> expense_report \<Rightarrow> bool" where
  "report_visible u r = (case u_role u of Normal \<Rightarrow> rp_userId r = u_id u | Reviewer \<Rightarrow> rp_status r \<noteq> DRAFT)"

definition getReports :: "session \<Rightarrow> db \<Rightarrow> action_error + expense_report list" where
  "getReports s d = (case getCurrentUser s of Inl e \<Rightarrow> Inl e
     | Inr u \<Rightarrow> Inr (filter (report_visible u) (reports d)))"

definition createReports :: "session \<Rightarrow> expense_report list \<Rightarrow> db \<Rightarrow> action_error + db" where
  "createReports s rs d = (case getCurrentUser s of Inl e \<Rightarrow> Inl e
     | Inr u \<Rightarrow> commit (tx_each report_insert (map (\<lambda>x. x\<lparr>rp_userId := u_id u\<rparr>) rs)) d)"

definition getOwnedReportIds :: "id list \<Rightarrow> id \<Rightarrow> db \<Rightarrow> id list" where
  "getOwnedReportIds ids uid d = map rp_id (filter (\<lambda>r. rp_id r \<in> set ids \<and> rp_userId r = uid) (reports d))"

definition updateReports :: "session \<Rightarrow> nat \<Rightarrow> expense_report list \<Rightarrow> db \<Rightarrow> action_error + db" where
  "updateReports s now ups d = (case getCurrentUser s of Inl e \<Rightarrow> Inl e
     | Inr u \<Rightarrow> (let owned = getOwnedReportIds (map rp_id ups) (u_id u) d
        in commit (tx_each (\<lambda>up. if may_write u owned (rp_id up) then report_update now up else skip) ups) d))"

definition deleteReports :: "session \<Rightarrow> id list \<Rightarrow> db \<Rightarrow> action_error + db" where
  "deleteReports s ids d = (case getCurrentUser s of Inl e \<Rightarrow> Inl e
     | Inr u \<Rightarrow> (let owned = getOwnedReportIds ids (u_id u) d
        in commit (tx_each (\<lambda>k. if may_write u owned k then report_delete k else skip) ids) d))"

subsection \<open>receipt.ts\<close>

text \<open>The relation filter \<open>expenseReport: {userId}\<close>.\<close>

definition report_owned_by :: "db \<Rightarrow> id \<Rightarrow> id \<Rightarrow> bool" where
  "report_owned_by d uid rid = (case find_by rp_id rid (reports d) of None \<Rightarrow> False | Some r \<Rightarrow> rp_userId r = uid)"

definition getReceipts :: "session \<Rightarrow> db \<Rightarrow> action_error + receipt list" where
  "getReceipts s d = (case getCurrentUser s of Inl e \<Rightarrow> Inl e
     | Inr u \<Rightarrow> Inr (case u_role u of
         Normal \<Rightarrow> filter (\<lambda>r. report_owned_by d (u_id u) (rc_expenseReportId r)) (receipts d)
       | Reviewer \<Rightarrow> receipts d))"

definition createReceipts :: "session \<Rightarrow> receipt list \<Rightarrow> db \<Rightarrow> action_error + db" where
  "createReceipts s rs d = (case getCurrentUser s of Inl e \<Rightarrow> Inl e
     | Inr u \<Rightarrow> commit (tx_each receipt_create rs) d)"

definition getOwnedReceipts :: "id list \<Rightarrow> id \<Rightarrow> db \<Rightarrow> id list" where
  "getOwnedReceipts ids uid d =
     map rc_id (filter (\<lambda>r. rc_id r \<in> set ids \<and> report_owned_by d uid (rc_expenseReportId r)) (receipts d))"

definition updateReceipts :: "session \<Rightarrow> nat \<Rightarrow> receipt list \<Rightarrow> db \<Rightarrow> action_error + db" where
  "updateReceipts s now ups d = (case getCurrentUser s of Inl e \<Rightarrow> Inl e
     | Inr u \<Rightarrow> (let owned = getOwnedReceipts (map rc_id ups) (u_id u) d
        in commit (tx_each (\<lambda>up. if may_write u owned (rc_id up) then receipt_update now up else skip) ups) d))"

definition deleteReceipts :: "session \<Rightarrow> id list \<Rightarrow> db \<Rightarrow> action_error + db" where
  "deleteReceipts s ids d = (case getCurrentUser s of Inl e \<Rightarrow> Inl e
     | Inr u \<Rightarrow> (let owned = getOwnedReceipts ids (u_id u) d
        in commit (tx_each (\<lambda>k. if may_write u owned k then receipt_delete k else skip) ids) d))"

subsection \<open>receipt-line-item.ts\<close>

text \<open>The relation filter \<open>receipt: {expenseReport: {userId}}\<close>.\<close>

definition receipt_owned_by :: "db \<Rightarrow> id \<Rightarrow> id \<Rightarrow> bool" where
  "receipt_owned_by d uid rid = (case find_by rc_id rid (receipts d) of None \<Rightarrow> False
     | Some r \<Rightarrow> report_owned_by d uid (rc_expenseReportId r))"

definition getReceiptLineItems :: "session \<Rightarrow> db \<Rightarrow> action_error + line_item list" where
  "getReceiptLineItems s d = (case getCurrentUser s of Inl e \<Rightarrow> Inl e
     | Inr u \<Rightarrow> Inr (case u_role u of
         Normal \<Rightarrow> filter (\<lambda>l. receipt_owned_by d (u_id u) (li_receiptId l)) (line_items d)
       | Reviewer \<Rightarrow> line_items d))"

text \<open>Lines 23-56: the owned receipts of the batch, then \<open>createMany\<close> of the items a
  reviewer may create or that sit on an owned receipt; \<open>sku ?? undefined\<close> and
  \<open>currency ?? undefined\<close> store the same value.\<close>

definition createReceiptLineItems :: "session \<Rightarrow> line_item list \<Rightarrow> db \<Rightarrow> action_error + db" where
  "createReceiptLineItems s items d = (case getCurrentUser s of Inl e \<Rightarrow> Inl e
     | Inr u \<Rightarrow>
        (let receiptIds = remdups (map li_receiptId items);
             ownedReceiptIds = map rc_id (filter (\<lambda>r. rc_id r \<in> set receiptIds \<and>
                report_owned_by d (u_id u) (rc_expenseReportId r)) (receipts d))
         in commit (tx_each line_item_insert
              (filter (\<lambda>i. u_role u = Reviewer \<or> li_receiptId i \<in> set ownedReceiptIds) items)) d))"

definition getOwnedLineItems :: "id list \<Rightarrow> id \<Rightarrow> db \<Rightarrow> id list" where
  "getOwnedLineItems ids uid d =
     map li_id (filter (\<lambda>l. li_id l \<in> set ids \<and> receipt_owned_by d uid (li_receiptId l)) (line_items d))"

definition updateReceiptLineItems :: "session \<Rightarrow> nat \<Rightarrow> line_item list \<Rightarrow> db \<Rightarrow> action_error + db" where
  "updateReceiptLineItems s now ups d = (case getCurrentUser s of Inl e \<Rightarrow> Inl e
     | Inr u \<Rightarrow> (let owned = getOwnedLineItems (map li_id ups) (u_id u) d
        in commit (tx_each (\<lambda>up. if may_write u owned (li_id up) then line_item_update now up else skip) ups) d))"

definition deleteReceiptLineItems :: "session \<Rightarrow> id list \<Rightarrow> db \<Rightarrow> action_error + db" where
  "deleteReceiptLineItems s ids d = (case getCurrentUser s of Inl e \<Rightarrow> Inl e
     | Inr u \<Rightarrow> (let owned = getOwnedLineItems ids (u_id u) d
        in commit (tx_each (\<lambda>k. if may_write u owned k then line_item_delete k else skip) ids) d))"

subsection \<open>merchant.ts\<close>

definition getMerchants :: "db \<Rightarrow> merchant list" where
  "getMerchants d = merchants d"

definition createMerchants :: "merchant list \<Rightarrow> db \<Rightarrow> action_error + db" where
  "createMerchants ms d =
     commit (tx_each merchant_insert (map (\<lambda>x. x\<lparr>mc_normalizedName := toUpperCase (mc_name x)\<rparr>) ms)) d"

definition updateMerchants :: "merchant list \<Rightarrow> db \<Rightarrow> action_error + db" where
  "updateMerchants ups d = commit (tx_each merchant_update ups) d"

definition deleteMerchants :: "id list \<Rightarrow> db \<Rightarrow> action_error + db" where
  "deleteMerchants ids d = commit (tx_each merchant_delete ids) d"

subsection \<open>category.ts\<close>

definition getCategories :: "db \<Rightarrow> category list" where
  "getCategories d = categories d"

definition createCategories :: "category list \<Rightarrow> db \<Rightarrow> action_error + db" where
  "createCategories cs d = commit (tx_each category_insert cs) d"

text \<open>\<open>updateCategories\<close> calls \<open>tx.expenseReport.update\<close> with the category's fields
  (lines 18-33).  Prisma validates the arguments against the expense report's columns before
  any query: the first field the report does not have is rejected.\<close>

definition report_columns :: "string list" where
  "report_columns = [''id'', ''userId'', ''title'', ''description'', ''status'', ''updatedAt'']"

definition category_data_fields :: "string list" where
  "category_data_fields = [''id'', ''name'', ''normalizedName'', ''updatedAt'']"

definition unknown_args :: "string list \<Rightarrow> string list \<Rightarrow> string list" where
  "unknown_args cols flds = filter (\<lambda>f. f \<notin> set cols) flds"

definition category_report_update :: "nat \<Rightarrow> category \<Rightarrow> db \<Rightarrow> unit db_result" where
  "category_report_update now c d = (case unknown_args report_columns category_data_fields of
       f # _ \<Rightarrow> Inl (InvalidArgument f)
     | [] \<Rightarrow> (if ct_id c \<notin> keys_of rp_id (reports d) then Inl (RecordNotFound ''ExpenseReport'')
             else Inr ((), d\<lparr>reports := map (\<lambda>r. if rp_id r = ct_id c then r\<lparr>rp_updatedAt := now\<rparr> else r)
                                   (reports d)\<rparr>)))"

definition updateCategories :: "nat \<Rightarrow> category list \<Rightarrow> db \<Rightarrow> action_error + db" where
  "updateCategories now ups d = commit (tx_each (category_report_update now) ups) d"

text \<open>\<open>deleteCategories\<close> deletes expense reports by the given ids (lines 35-46).\<close>

definition deleteCategories :: "id list \<Rightarrow> db \<Rightarrow> action_error + db" where
  "deleteCategories ids d = commit (tx_each report_delete ids) d"

subsection \<open>The mutating requests\<close>

datatype action =
    CreateReports "expense_report list" | UpdateReports "expense_report list" | DeleteReports "id list"
  | CreateReceipts "receipt list" | UpdateReceipts "receipt list" | DeleteReceipts "id list"
  | CreateLineItems "line_item list" | UpdateLineItems "line_item list" | DeleteLineItems "id list"
  | CreateMerchants "merchant list" | UpdateMerchants "merchant list" | DeleteMerchants "id list"
  | CreateCategories "category list" | UpdateCategories "category list" | DeleteCategories "id list"

fun run_action :: "session \<Rightarrow> nat \<Rightarrow> action \<Rightarrow> db \<Rightarrow> action_error + db" where
  "run_action s now (CreateReports xs) d = createReports s xs d"
| "run_action s now (UpdateReports xs) d = updateReports s now xs d"
| "run_action s now (DeleteReports ks) d = deleteReports s ks d"
| "run_action s now (CreateReceipts xs) d = createReceipts s xs d"
| "run_action s now (UpdateReceipts xs) d = updateReceipts s now xs d"
| "run_action s now (DeleteReceipts ks) d = deleteReceipts s ks d"
| "run_action s now (CreateLineItems xs) d = createReceiptLineItems s xs d"
| "run_action s now (UpdateLineItems xs) d = updateReceiptLineItems s now xs d"
| "run_action s now (DeleteLineItems ks) d = deleteReceiptLineItems s ks d"
| "run_action s now (CreateMerchants xs) d = createMerchants xs d"
| "run_action s now (UpdateMerchants xs) d = updateMerchants xs d"
| "run_action s now (DeleteMerchants ks) d = deleteMerchants ks d"
| "run_action s now (CreateCategories xs) d = createCategories xs d"
| "run_action s now (UpdateCategories xs) d = updateCategories now xs d"
| "run_action s now (DeleteCategories ks) d = deleteCategories ks d"

subsection \<open>Sessions and transactions\<close>

lemma getCurrentUser_simps [simp]:
  "getCurrentUser None = Inl NotLoggedIn" "getCurrentUser (Some u) = Inr u"
  by (simp_all add: getCurrentUser_def)

lemma commit_Inr_iff [simp]: "commit f d = Inr d' \<longleftrightarrow> f d = Inr ((), d')"
  by (auto simp: commit_def run_tx_def split: sum.splits prod.splits)

lemma commit_Inl_iff: "commit f d = Inl e \<longleftrightarrow> (\<exists>e'. f d = Inl e' \<and> e = DbError e')"
  by (auto simp: commit_def run_tx_def split: sum.splits prod.splits)

lemma guarded_wf:
  "(if c then f else skip) d = Inr (v, d') \<Longrightarrow> db_wf d \<Longrightarrow>
     (\<And>d d' v. db_wf d \<Longrightarrow> f d = Inr (v, d') \<Longrightarrow> db_wf d') \<Longrightarrow> db_wf d'"
  by (cases c) (auto simp: skip_def)

lemma category_report_update_wf:
  "db_wf d \<Longrightarrow> category_report_update now c d = Inr (v, d') \<Longrightarrow> db_wf d'"
  by (simp add: category_report_update_def unknown_args_def report_columns_def category_data_fields_def)

lemma guarded_tx_wf:
  assumes "tx_each (\<lambda>x. if c x then f x else skip) xs d = Inr (u, d')" "db_wf d"
    and "\<And>x d d' v. db_wf d \<Longrightarrow> f x d = Inr (v, d') \<Longrightarrow> db_wf d'"
  shows "db_wf d'"
proof -
  have "\<And>x d d' v. db_wf d \<Longrightarrow> (if c x then f x else skip) d = Inr (v, d') \<Longrightarrow> db_wf d'"
    using assms(3) by (auto simp: skip_def split: if_splits)
  from tx_each_wf [OF assms(1,2) this] show ?thesis .
qed

lemma createReports_wf: "db_wf d \<Longrightarrow> createReports s xs d = Inr d' \<Longrightarrow> db_wf d'"
  unfolding createReports_def Let_def
  by (cases "getCurrentUser s") (simp_all, erule tx_each_wf, assumption, rule report_insert_wf)

lemma updateReports_wf: "db_wf d \<Longrightarrow> updateReports s now xs d = Inr d' \<Longrightarrow> db_wf d'"
  unfolding updateReports_def Let_def
  by (cases "getCurrentUser s") (simp_all, erule guarded_tx_wf, assumption, rule report_update_wf)

lemma deleteReports_wf: "db_wf d \<Longrightarrow> deleteReports s xs d = Inr d' \<Longrightarrow> db_wf d'"
  unfolding deleteReports_def Let_def
  by (cases "getCurrentUser s") (simp_all, erule guarded_tx_wf, assumption, rule report_delete_wf)

lemma createReceipts_wf: "db_wf d \<Longrightarrow> createReceipts s xs d = Inr d' \<Longrightarrow> db_wf d'"
  unfolding createReceipts_def Let_def
  by (cases "getCurrentUser s") (simp_all, erule tx_each_wf, assumption, rule receipt_create_wf)

lemma updateReceipts_wf: "db_wf d \<Longrightarrow> updateReceipts s now xs d = Inr d' \<Longrightarrow> db_wf d'"
  unfolding updateReceipts_def Let_def
  by (cases "getCurrentUser s") (simp_all, erule guarded_tx_wf, assumption, rule receipt_update_wf)

lemma deleteReceipts_wf: "db_wf d \<Longrightarrow> deleteReceipts s xs d = Inr d' \<Longrightarrow> db_wf d'"
  unfolding deleteReceipts_def Let_def
  by (cases "getCurrentUser s") (simp_all, erule guarded_tx_wf, assumption, rule receipt_delete_wf)

lemma createReceiptLineItems_wf: "db_wf d \<Longrightarrow> createReceiptLineItems s xs d = Inr d' \<Longrightarrow> db_wf d'"
  unfolding createReceiptLineItems_def Let_def
  by (cases "getCurrentUser s") (simp_all, erule tx_each_wf, assumption, rule line_item_insert_wf)

lemma updateReceiptLineItems_wf: "db_wf d \<Longrightarrow> updateReceiptLineItems s now xs d = Inr d' \<Longrightarrow> db_wf d'"
  unfolding updateReceiptLineItems_def Let_def
  by (cases "getCurrentUser s") (simp_all, erule guarded_tx_wf, assumption, rule line_item_update_wf)

lemma deleteReceiptLineItems_wf: "db_wf d \<Longrightarrow> deleteReceiptLineItems s xs d = Inr d' \<Longrightarrow> db_wf d'"
  unfolding deleteReceiptLineItems_def Let_def
  by (cases "getCurrentUser s") (simp_all, erule guarded_tx_wf, assumption, rule line_item_delete_wf)

lemma createMerchants_wf: "db_wf d \<Longrightarrow> createMerchants xs d = Inr d' \<Longrightarrow> db_wf d'"
  unfolding createMerchants_def
  by (simp, erule tx_each_wf, assumption, rule merchant_insert_wf)

lemma updateMerchants_wf: "db_wf d \<Longrightarrow> updateMerchants xs d = Inr d' \<Longrightarrow> db_wf d'"
  unfolding updateMerchants_def
  by (simp, erule tx_each_wf, assumption, rule merchant_update_wf)

lemma deleteMerchants_wf: "db_wf d \<Longrightarrow> deleteMerchants xs d = Inr d' \<Longrightarrow> db_wf d'"
  unfolding deleteMerchants_def
  by (simp, erule tx_each_wf, assumption, rule merchant_delete_wf)

lemma createCategories_wf: "db_wf d \<Longrightarrow> createCategories xs d = Inr d' \<Longrightarrow> db_wf d'"
  unfolding createCategories_def
  by (simp, erule tx_each_wf, assumption, rule category_insert_wf)

lemma updateCategories_wf: "db_wf d \<Longrightarrow> updateCategories now xs d = Inr d' \<Longrightarrow> db_wf d'"
  unfolding updateCategories_def
  by (simp, erule tx_each_wf, assumption, rule category_report_update_wf)

lemma deleteCategories_wf: "db_wf d \<Longrightarrow> deleteCategories xs d = Inr d' \<Longrightarrow> db_wf d'"
  unfolding deleteCategories_def
  by (simp, erule tx_each_wf, assumption, rule report_delete_wf)

lemmas actions_wf = createReports_wf updateReports_wf deleteReports_wf createReceipts_wf updateReceipts_wf
  deleteReceipts_wf createReceiptLineItems_wf updateReceiptLineItems_wf deleteReceiptLineItems_wf
  createMerchants_wf updateMerchants_wf deleteMerchants_wf createCategories_wf updateCategories_wf
  deleteCategories_wf

lemma not_owned_report:
  "unique_by rp_id (reports d) \<Longrightarrow> r \<in> set (reports d) \<Longrightarrow> rp_userId r \<noteq> uid \<Longrightarrow>
     rp_id r \<notin> set (getOwnedReportIds ids uid d)"
  by (auto simp: getOwnedReportIds_def unique_by_def dest: inj_onD [OF distinct_map [THEN iffD1, THEN conjunct2]])

lemma may_write_Normal [simp]: "u_role u = Normal \<Longrightarrow> may_write u owned k \<longleftrightarrow> k \<in> set owned"
  by (simp add: may_write_def)

text \<open>C11. A Normal user's updateReports and deleteReports never remove or change an expense report owned by another user.\<close>

theorem updateReports_owned_only:
  assumes "db_wf d" "u_role u = Normal" "r \<in> set (reports d)" "rp_userId r \<noteq> u_id u"
  shows "(updateReports (Some u) now ups d = Inr d1 \<longrightarrow> r \<in> set (reports d1)) \<and>
         (deleteReports (Some u) ks d = Inr d2 \<longrightarrow> r \<in> set (reports d2))"
proof (intro conjI impI)
  have u: "unique_by rp_id (reports d)" using assms(1) by (simp add: db_wf_def)
  let ?own1 = "getOwnedReportIds (map rp_id ups) (u_id u) d"
  assume "updateReports (Some u) now ups d = Inr d1"
  then have "tx_each (\<lambda>up. if may_write u ?own1 (rp_id up) then report_update now up else skip) ups d = Inr ((), d1)"
    by (simp add: updateReports_def)
  then show "r \<in> set (reports d1)"
  proof (rule tx_each_preserves [where P = "\<lambda>d. r \<in> set (reports d)", rotated 2])
    fix up d0 d0' v
    assume "r \<in> set (reports d0)" and
      step: "(if may_write u ?own1 (rp_id up) then report_update now up else skip) d0 = Inr (v, d0')"
    moreover have "may_write u ?own1 (rp_id up) \<Longrightarrow> rp_id r \<noteq> rp_id up"
      using not_owned_report [OF u assms(3,4)] assms(2) by auto
    ultimately show "r \<in> set (reports d0')"
      by (auto simp: report_update_def skip_def split: if_splits) (rule replace_by_other; simp)
  qed (rule assms(3))
next
  have u: "unique_by rp_id (reports d)" using assms(1) by (simp add: db_wf_def)
  let ?own2 = "getOwnedReportIds ks (u_id u) d"
  assume "deleteReports (Some u) ks d = Inr d2"
  then have "tx_each (\<lambda>k. if may_write u ?own2 k then report_delete k else skip) ks d = Inr ((), d2)"
    by (simp add: deleteReports_def)
  then show "r \<in> set (reports d2)"
  proof (rule tx_each_preserves [where P = "\<lambda>d. r \<in> set (reports d)", rotated 2])
    fix k d0 d0' v
    assume "r \<in> set (reports d0)" and
      step: "(if may_write u ?own2 k then report_delete k else skip) d0 = Inr (v, d0')"
    moreover have "may_write u ?own2 k \<Longrightarrow> rp_id r \<noteq> k"
      using not_owned_report [OF u assms(3,4)] assms(2) by auto
    ultimately show "r \<in> set (reports d0')"
      by (auto simp: report_delete_def skip_def split: if_splits)
  qed (rule assms(3))
qed

lemma tx_each_line_item_insert:
  "tx_each line_item_insert xs d = Inr (u, d') \<Longrightarrow> line_items d' = line_items d @ xs"
  by (induction xs arbitrary: d) (auto simp: line_item_insert_def split: if_splits sum.splits)

lemma tx_each_report_delete:
  "tx_each report_delete ks d = Inr (u, d') \<Longrightarrow>
     reports d' = filter (\<lambda>r. rp_id r \<notin> set ks) (reports d) \<and> categories d' = categories d"
  by (induction ks arbitrary: d) (auto simp: report_delete_def delete_by_def split: if_splits sum.splits)

text \<open>An owner's update of one of their reports is written as sent, whatever its status.\<close>

lemma updateReports_owned_single:
  assumes "r \<in> set (reports d)" "rp_userId r = u_id u" "rp_id r' = rp_id r" "rp_userId r' \<in> keys_of u_id (users d)"
  shows "updateReports (Some u) now [r'] d = Inr (d\<lparr>reports := replace_by rp_id (r'\<lparr>rp_updatedAt := now\<rparr>) (reports d)\<rparr>)"
proof -
  have "rp_id r' \<in> set (getOwnedReportIds [rp_id r'] (u_id u) d)"
    using assms(1-3) by (force simp: getOwnedReportIds_def)
  moreover have "rp_id r' \<in> keys_of rp_id (reports d)" using assms(1,3) by (simp add: keys_of_def)
  ultimately show ?thesis using assms(4) by (simp add: updateReports_def may_write_def report_update_def)
qed

text \<open>C13. updateReports writes the whole object for any report the caller owns: a Normal user can set its status (to APPROVED, say) and hand it to any other user.  The status restriction exists only in the status select of the UI.\<close>

theorem updateReports_rewrites_status_and_owner:
  assumes "r \<in> set (reports d)" "rp_userId r = u_id u" "v \<in> keys_of u_id (users d)"
  shows "updateReports (Some u) now [r\<lparr>rp_status := st, rp_userId := v\<rparr>] d =
     Inr (d\<lparr>reports := replace_by rp_id (r\<lparr>rp_status := st, rp_userId := v, rp_updatedAt := now\<rparr>) (reports d)\<rparr>)"
  using updateReports_owned_single [of r d u "r\<lparr>rp_status := st, rp_userId := v\<rparr>" now] assms by simp

text \<open>A reviewer does not see DRAFT reports but does see their receipts: getReports hides the report while getReceipts returns the receipts in it.\<close>

theorem reviewer_sees_draft_receipts:
  assumes "u_role u = Reviewer" "rc \<in> set (receipts d)"
    and "find_by rp_id (rc_expenseReportId rc) (reports d) = Some rp" "rp_status rp = DRAFT"
  shows "\<exists>rs rcs. getReports (Some u) d = Inr rs \<and> getReceipts (Some u) d = Inr rcs \<and> rc \<in> set rcs \<and> rp \<notin> set rs"
  using assms by (simp add: getReports_def getReceipts_def report_visible_def)

text \<open>C12. For a Normal user, createReceiptLineItems only appends line items, taken from the request, whose receipt belongs to one of the user's reports; the others are silently dropped.\<close>

theorem createReceiptLineItems_owned:
  assumes "db_wf d" "u_role u = Normal" "createReceiptLineItems (Some u) items d = Inr d'"
  shows "\<exists>new. line_items d' = line_items d @ new \<and> set new \<subseteq> set items \<and>
           (\<forall>l \<in> set new. receipt_owned_by d (u_id u) (li_receiptId l))"
proof -
  let ?own = "map rc_id (filter (\<lambda>r. rc_id r \<in> set (remdups (map li_receiptId items)) \<and>
      report_owned_by d (u_id u) (rc_expenseReportId r)) (receipts d))"
  let ?new = "filter (\<lambda>i. u_role u = Reviewer \<or> li_receiptId i \<in> set ?own) items"
  have "tx_each line_item_insert ?new d = Inr ((), d')"
    using assms(3) by (simp add: createReceiptLineItems_def Let_def)
  then have "line_items d' = line_items d @ ?new" by (rule tx_each_line_item_insert)
  moreover have "receipt_owned_by d (u_id u) (li_receiptId l)" if l: "l \<in> set ?new" for l
  proof -
    obtain r where r: "r \<in> set (receipts d)" "rc_id r = li_receiptId l"
        "report_owned_by d (u_id u) (rc_expenseReportId r)"
      using l assms(2) by auto
    have "unique_by rc_id (receipts d)" using assms(1) by (simp add: db_wf_def)
    from find_by_unique [OF this r(1)] r show ?thesis by (simp add: receipt_owned_by_def)
  qed
  ultimately show ?thesis by (intro exI [of _ ?new]) auto
qed

text \<open>C14. updateReceipts checks ownership of the receipt before the update but not of the report it is moved to: an owned receipt can be moved into any existing report, another user's included.\<close>

theorem updateReceipts_moves_receipt:
  assumes "db_wf d" "rc \<in> set (receipts d)" "report_owned_by d (u_id u) (rc_expenseReportId rc)"
    and "rp \<in> set (reports d)"
  shows "updateReceipts (Some u) now [rc\<lparr>rc_expenseReportId := rp_id rp\<rparr>] d =
     Inr (d\<lparr>receipts := replace_by rc_id (rc\<lparr>rc_expenseReportId := rp_id rp, rc_updatedAt := now\<rparr>) (receipts d)\<rparr>)"
proof -
  have "rc_id rc \<in> set (getOwnedReceipts [rc_id rc] (u_id u) d)"
    using assms(2,3) by (force simp: getOwnedReceipts_def)
  moreover have "rc_merchantId rc \<in> keys_of mc_id (merchants d)" "rc_categoryId rc \<in> keys_of ct_id (categories d)"
    using assms(1,2) by (auto simp: db_wf_def)
  moreover have "rc_id rc \<in> keys_of rc_id (receipts d)" "rp_id rp \<in> keys_of rp_id (reports d)"
    using assms(2,4) by (simp_all add: keys_of_def)
  ultimately show ?thesis by (simp add: updateReceipts_def may_write_def receipt_update_def)
qed

text \<open>createReceipts checks nothing about ownership: any signed-in user can add a receipt to any existing report.\<close>

theorem createReceipts_unchecked_owner:
  assumes "rc_id rc \<notin> keys_of rc_id (receipts d)" "rc_expenseReportId rc \<in> keys_of rp_id (reports d)"
    and "rc_merchantId rc \<in> keys_of mc_id (merchants d)" "rc_categoryId rc \<in> keys_of ct_id (categories d)"
  shows "createReceipts (Some u) [rc] d = Inr (d\<lparr>receipts := receipts d @ [rc]\<rparr>)"
  using assms by (simp add: createReceipts_def receipt_create_def)

text \<open>updateCategories calls the expense-report table with the category's fields, so any non-empty batch fails with Prisma's unknown-argument error and nothing is written.\<close>

theorem updateCategories_fails:
  "ups \<noteq> [] \<Longrightarrow> updateCategories now ups d = Inl (DbError (InvalidArgument ''name''))"
  by (cases ups) (simp_all add: updateCategories_def commit_def run_tx_def category_report_update_def
      unknown_args_def report_columns_def category_data_fields_def)

text \<open>C15. deleteCategories deletes expense reports, not categories: on success the category table is unchanged and the reports with the given ids are gone.\<close>

theorem deleteCategories_deletes_reports:
  "deleteCategories ids d = Inr d' \<Longrightarrow>
     categories d' = categories d \<and> reports d' = filter (\<lambda>r. rp_id r \<notin> set ids) (reports d)"
  by (simp add: deleteCategories_def tx_each_report_delete)

end
