(* ===== verification/Schema.thy ===== *)
theory Schema
  imports Js_String "HOL-Library.Monad_Syntax"
begin

text \<open>
  The validation schemas of src/lib/schemas/extract-receipt.ts.  The value the hosted
  model streams is a JSON value (\<open>json\<close>); a zod schema is a function from JSON to
  \<open>'a option\<close>, \<open>None\<close> being a failed \<open>safeParse\<close>.  An object key that is absent is
  JavaScript's \<open>undefined\<close>: \<open>.optional()\<close> accepts it, \<open>.default(d)\<close> replaces it by
  \<open>d\<close> (zod 4 applies the default also under \<open>.optional()\<close> and under \<open>.partial()\<close>),
  and every other schema rejects it; \<open>null\<close> is rejected by all of them.  Keys the
  schema does not name are stripped.  The date refinement
  \<open>!isNaN(new Date(x).getTime())\<close> is stated over the JavaScript date parser, a
  parameter \<open>js_date\<close> of type \<open>date_parser\<close> (\<open>None\<close> is an Invalid Date), the same
  parser the database layer uses for \<open>new Date(fullReceipt.date)\<close>.
\<close>

datatype json =
    JNull
  | JBool bool
  | JNum real
  | JStr string
  | JArr "json list"
  | JObj "(string \<times> json) list"

type_synonym date_parser = "string \<Rightarrow> int option"

subsection \<open>Schema combinators\<close>

definition z_string :: "json \<Rightarrow> string option" where
  "z_string j = (case j of JStr s \<Rightarrow> Some s | _ \<Rightarrow> None)"

definition z_number :: "json \<Rightarrow> real option" where
  "z_number j = (case j of JNum n \<Rightarrow> Some n | _ \<Rightarrow> None)"

definition z_array :: "(json \<Rightarrow> 'a option) \<Rightarrow> json \<Rightarrow> 'a list option" where
  "z_array p j = (case j of JArr xs \<Rightarrow> those (map p xs) | _ \<Rightarrow> None)"

text \<open>A field of an object: required, \<open>.optional()\<close>, or \<open>.default(d).optional()\<close>.\<close>

definition z_req :: "(json \<Rightarrow> 'a option) \<Rightarrow> json option \<Rightarrow> 'a option" where
  "z_req p v = (case v of None \<Rightarrow> None | Some j \<Rightarrow> p j)"

definition z_opt :: "(json \<Rightarrow> 'a option) \<Rightarrow> json option \<Rightarrow> 'a option option" where
  "z_opt p v = (case v of None \<Rightarrow> Some None | Some j \<Rightarrow> map_option Some (p j))"

definition z_default :: "'a \<Rightarrow> (json \<Rightarrow> 'a option) \<Rightarrow> json option \<Rightarrow> 'a option" where
  "z_default d p v = (case v of None \<Rightarrow> Some d | Some j \<Rightarrow> p j)"

definition z_date :: "date_parser \<Rightarrow> json \<Rightarrow> string option" where
  "z_date js_date j = (case z_string j of None \<Rightarrow> None
     | Some s \<Rightarrow> (if js_date s \<noteq> None then Some s else None))"

subsection \<open>ExtractReceiptLineItemSchema and ExtractReceiptSchema\<close>

record extracted_line_item =
  xi_description :: string
  xi_sku :: "string option"
  xi_quantity :: real
  xi_unitPrice :: real
  xi_currency :: string

record extracted_merchant =
  xm_name :: string
  xm_address :: "string option"

record extracted_receipt =
  xr_merchant :: extracted_merchant
  xr_date :: string
  xr_currency :: string
  xr_category :: "string option"
  xr_tax :: real
  xr_tip :: real
  xr_paymentMethod :: "string option"
  xr_confidence :: real
  xr_items :: "extracted_line_item list"

definition parse_line_item :: "json \<Rightarrow> extracted_line_item option" where
  "parse_line_item j = (case j of
     JObj kvs \<Rightarrow> do {
       d \<leftarrow> z_req z_string (map_of kvs ''description'');
       s \<leftarrow> z_opt z_string (map_of kvs ''sku'');
       q \<leftarrow> z_default 1 z_number (map_of kvs ''quantity'');
       u \<leftarrow> z_req z_number (map_of kvs ''unitPrice'');
       c \<leftarrow> z_default ''USD'' z_string (map_of kvs ''currency'');
       Some \<lparr>xi_description = d, xi_sku = s, xi_quantity = q, xi_unitPrice = u, xi_currency = c\<rparr>
     }
   | _ \<Rightarrow> None)"

definition parse_merchant :: "json \<Rightarrow> extracted_merchant option" where
  "parse_merchant j = (case j of
     JObj kvs \<Rightarrow> do {
       n \<leftarrow> z_req z_string (map_of kvs ''name'');
       a \<leftarrow> z_opt z_string (map_of kvs ''address'');
       Some \<lparr>xm_name = n, xm_address = a\<rparr>
     }
   | _ \<Rightarrow> None)"

definition parse_receipt :: "date_parser \<Rightarrow> json \<Rightarrow> extracted_receipt option" where
  "parse_receipt js_date j = (case j of
     JObj kvs \<Rightarrow> do {
       m \<leftarrow> z_req parse_merchant (map_of kvs ''merchant'');
       dt \<leftarrow> z_req (z_date js_date) (map_of kvs ''date'');
       cu \<leftarrow> z_req z_string (map_of kvs ''currency'');
       ca \<leftarrow> z_opt z_string (map_of kvs ''category'');
       tx \<leftarrow> z_req z_number (map_of kvs ''tax'');
       tp \<leftarrow> z_req z_number (map_of kvs ''tip'');
       pm \<leftarrow> z_opt z_string (map_of kvs ''paymentMethod'');
       co \<leftarrow> z_req z_number (map_of kvs ''confidence'');
       its \<leftarrow> z_req (z_array parse_line_item) (map_of kvs ''items'');
       Some \<lparr>xr_merchant = m, xr_date = dt, xr_currency = cu, xr_category = ca, xr_tax = tx,
             xr_tip = tp, xr_paymentMethod = pm, xr_confidence = co, xr_items = its\<rparr>
     }
   | _ \<Rightarrow> None)"

text \<open>The fields every schema above reads; any other key of the input is stripped.\<close>

definition schema_keys :: "string set" where
  "schema_keys = {''description'', ''sku'', ''quantity'', ''unitPrice'', ''currency'',
     ''name'', ''address'', ''merchant'', ''date'', ''category'', ''tax'', ''tip'',
     ''paymentMethod'', ''confidence'', ''items''}"

subsection \<open>PartialExtractReceiptSchema\<close>

text \<open>Every field optional; the line items are \<open>ExtractReceiptLineItemSchema.partial()\<close>,
  whose two defaults still apply.\<close>

record partial_line_item =
  pi_description :: "string option"
  pi_sku :: "string option"
  pi_quantity :: real
  pi_unitPrice :: "real option"
  pi_currency :: string

record partial_merchant =
  pm_name :: "string option"
  pm_address :: "string option"

record partial_receipt =
  pr_merchant :: "partial_merchant option"
  pr_date :: "string option"
  pr_currency :: "string option"
  pr_category :: "string option"
  pr_tax :: "real option"
  pr_tip :: "real option"
  pr_paymentMethod :: "string option"
  pr_confidence :: "real option"
  pr_items :: "partial_line_item list option"

definition parse_partial_line_item :: "json \<Rightarrow> partial_line_item option" where
  "parse_partial_line_item j = (case j of
     JObj kvs \<Rightarrow> do {
       d \<leftarrow> z_opt z_string (map_of kvs ''description'');
       s \<leftarrow> z_opt z_string (map_of kvs ''sku'');
       q \<leftarrow> z_default 1 z_number (map_of kvs ''quantity'');
       u \<leftarrow> z_opt z_number (map_of kvs ''unitPrice'');
       c \<leftarrow> z_default ''USD'' z_string (map_of kvs ''currency'');
       Some \<lparr>pi_description = d, pi_sku = s, pi_quantity = q, pi_unitPrice = u, pi_currency = c\<rparr>
     }
   | _ \<Rightarrow> None)"

definition parse_partial_merchant :: "json \<Rightarrow> partial_merchant option" where
  "parse_partial_merchant j = (case j of
     JObj kvs \<Rightarrow> do {
       n \<leftarrow> z_opt z_string (map_of kvs ''name'');
       a \<leftarrow> z_opt z_string (map_of kvs ''address'');
       Some \<lparr>pm_name = n, pm_address = a\<rparr>
     }
   | _ \<Rightarrow> None)"

definition parse_partial :: "json \<Rightarrow> partial_receipt option" where
  "parse_partial j = (case j of
     JObj kvs \<Rightarrow> do {
       m \<leftarrow> z_opt parse_partial_merchant (map_of kvs ''merchant'');
       dt \<leftarrow> z_opt z_string (map_of kvs ''date'');
       cu \<leftarrow> z_opt z_string (map_of kvs ''currency'');
       ca \<leftarrow> z_opt z_string (map_of kvs ''category'');
       tx \<leftarrow> z_opt z_number (map_of kvs ''tax'');
       tp \<leftarrow> z_opt z_number (map_of kvs ''tip'');
       pm \<leftarrow> z_opt z_string (map_of kvs ''paymentMethod'');
       co \<leftarrow> z_opt z_number (map_of kvs ''confidence'');
       its \<leftarrow> z_opt (z_array parse_partial_line_item) (map_of kvs ''items'');
       Some \<lparr>pr_merchant = m, pr_date = dt, pr_currency = cu, pr_category = ca, pr_tax = tx,
             pr_tip = tp, pr_paymentMethod = pm, pr_confidence = co, pr_items = its\<rparr>
     }
   | _ \<Rightarrow> None)"

text \<open>The abstraction of a complete extraction to the partial shape.\<close>

definition to_partial_item :: "extracted_line_item \<Rightarrow> partial_line_item" where
  "to_partial_item x = \<lparr>pi_description = Some (xi_description x), pi_sku = xi_sku x,
     pi_quantity = xi_quantity x, pi_unitPrice = Some (xi_unitPrice x), pi_currency = xi_currency x\<rparr>"

definition to_partial :: "extracted_receipt \<Rightarrow> partial_receipt" where
  "to_partial r = \<lparr>pr_merchant = Some \<lparr>pm_name = Some (xm_name (xr_merchant r)),
       pm_address = xm_address (xr_merchant r)\<rparr>,
     pr_date = Some (xr_date r), pr_currency = Some (xr_currency r), pr_category = xr_category r,
     pr_tax = Some (xr_tax r), pr_tip = Some (xr_tip r), pr_paymentMethod = xr_paymentMethod r,
     pr_confidence = Some (xr_confidence r), pr_items = Some (map to_partial_item (xr_items r))\<rparr>"

subsection \<open>The JSON a well-formed extraction is written as\<close>

definition opt_field :: "string \<Rightarrow> ('a \<Rightarrow> json) \<Rightarrow> 'a option \<Rightarrow> (string \<times> json) list" where
  "opt_field k f v = (case v of None \<Rightarrow> [] | Some x \<Rightarrow> [(k, f x)])"

definition encode_line_item :: "extracted_line_item \<Rightarrow> json" where
  "encode_line_item x = JObj ([(''description'', JStr (xi_description x))]
     @ opt_field ''sku'' JStr (xi_sku x)
     @ [(''quantity'', JNum (xi_quantity x)), (''unitPrice'', JNum (xi_unitPrice x)),
        (''currency'', JStr (xi_currency x))])"

definition encode_merchant :: "extracted_merchant \<Rightarrow> json" where
  "encode_merchant m = JObj ((''name'', JStr (xm_name m)) # opt_field ''address'' JStr (xm_address m))"

definition encode_receipt :: "extracted_receipt \<Rightarrow> json" where
  "encode_receipt r = JObj ([(''merchant'', encode_merchant (xr_merchant r)),
       (''date'', JStr (xr_date r)), (''currency'', JStr (xr_currency r))]
     @ opt_field ''category'' JStr (xr_category r)
     @ [(''tax'', JNum (xr_tax r)), (''tip'', JNum (xr_tip r))]
     @ opt_field ''paymentMethod'' JStr (xr_paymentMethod r)
     @ [(''confidence'', JNum (xr_confidence r)),
        (''items'', JArr (map encode_line_item (xr_items r)))])"

subsection \<open>Field lemmas\<close>

lemmas z_defs = z_string_def z_number_def z_array_def z_req_def z_opt_def z_default_def z_date_def

lemma opt_field_simps [simp]: "opt_field k f None = []" "opt_field k f (Some x) = [(k, f x)]"
  by (simp_all add: opt_field_def)

lemma those_map_Some: "(\<And>x. x \<in> set xs \<Longrightarrow> p (e x) = Some x) \<Longrightarrow> those (map (p \<circ> e) xs) = Some xs"
  by (induction xs) auto

lemma those_eq_Some_iff:
  "those xs = Some ys \<longleftrightarrow> xs = map Some ys"
proof (induction xs arbitrary: ys)
  case Nil
  then show ?case by auto
next
  case (Cons x xs)
  then show ?case by (cases x) (auto split: option.splits)
qed

subsection \<open>Round trips: what the model is asked to write parses back to itself\<close>

lemma parse_line_item_encode [simp]: "parse_line_item (encode_line_item x) = Some x"
  by (cases "xi_sku x") (simp_all add: parse_line_item_def encode_line_item_def z_defs)

lemma parse_merchant_encode [simp]: "parse_merchant (encode_merchant m) = Some m"
  by (cases "xm_address m") (simp_all add: parse_merchant_def encode_merchant_def z_defs)

lemma parse_items_encode [simp]:
  "z_array parse_line_item (JArr (map encode_line_item xs)) = Some xs"
  by (simp add: z_array_def those_map_Some)

lemma those_parse_encode_items [simp]:
  "those (map (parse_line_item \<circ> encode_line_item) xs) = Some xs"
  by (simp add: those_map_Some)

text \<open>
  C9.  Round trip: an extraction whose date the JavaScript date parser accepts, written as
  the JSON object the system prompt asks the model for, passes \<open>ExtractReceiptSchema\<close>
  and parses back to itself.
\<close>

theorem parse_receipt_encode:
  assumes "js_date (xr_date r) \<noteq> None"
  shows "parse_receipt js_date (encode_receipt r) = Some r"
  using assms
  by (cases "xr_category r"; cases "xr_paymentMethod r")
     (simp_all add: parse_receipt_def encode_receipt_def z_defs)

subsection \<open>What a successful parse guarantees\<close>

lemma z_req_Some: "z_req p v = Some x \<longleftrightarrow> (\<exists>j. v = Some j \<and> p j = Some x)"
  by (auto simp: z_req_def split: option.splits)

lemma z_opt_Some_Some: "z_req p v = Some x \<Longrightarrow> z_opt p v = Some (Some x)"
  by (auto simp: z_req_def z_opt_def split: option.splits)

lemma z_opt_mono: "z_opt p v = Some x \<Longrightarrow> (\<And>j y. p j = Some y \<Longrightarrow> q j = Some (f y)) \<Longrightarrow>
    z_opt q v = Some (map_option f x)"
  by (auto simp: z_opt_def split: option.splits)

lemma z_array_mono:
  assumes "z_array p j = Some ys" and "\<And>j y. p j = Some y \<Longrightarrow> q j = Some (f y)"
  shows "z_array q j = Some (map f ys)"
proof (cases j)
  case (JArr xs)
  with assms(1) have "map p xs = map Some ys" by (simp add: z_array_def those_eq_Some_iff)
  then have "map q xs = map Some (map f ys)"
  proof (induction xs arbitrary: ys)
    case Nil
    then show ?case by simp
  next
    case (Cons x xs)
    then show ?case using assms(2) by (cases ys) auto
  qed
  with JArr show ?thesis by (simp add: z_array_def those_eq_Some_iff)
qed (use assms in \<open>simp_all add: z_array_def\<close>)

lemma parse_receipt_date_valid:
  "parse_receipt js_date j = Some r \<Longrightarrow> js_date (xr_date r) \<noteq> None"
  by (auto simp: parse_receipt_def bind_eq_Some_conv z_req_Some z_date_def
      split: json.splits option.splits if_splits)

lemma parse_partial_line_item_refines:
  "parse_line_item j = Some x \<Longrightarrow> parse_partial_line_item j = Some (to_partial_item x)"
  by (auto simp: parse_line_item_def parse_partial_line_item_def to_partial_item_def
      bind_eq_Some_conv z_opt_Some_Some split: json.splits)

lemma parse_partial_merchant_refines:
  "parse_merchant j = Some m \<Longrightarrow>
     parse_partial_merchant j = Some \<lparr>pm_name = Some (xm_name m), pm_address = xm_address m\<rparr>"
  by (auto simp: parse_merchant_def parse_partial_merchant_def bind_eq_Some_conv z_opt_Some_Some
      split: json.splits)

lemma z_req_opt_mono:
  "z_req p v = Some x \<Longrightarrow> (\<And>j y. p j = Some y \<Longrightarrow> q j = Some (f y)) \<Longrightarrow> z_opt q v = Some (Some (f x))"
  by (auto simp: z_req_def z_opt_def split: option.splits)

lemma z_date_string: "z_date js_date j = Some s \<Longrightarrow> z_string j = Some s"
  by (auto simp: z_date_def split: option.splits if_splits)

lemma z_array_items_refines:
  "z_array parse_line_item j = Some ys \<Longrightarrow>
     z_array parse_partial_line_item j = Some (map to_partial_item ys)"
  by (rule z_array_mono) (auto intro: parse_partial_line_item_refines)

text \<open>
  C10.  Refinement: every object \<open>ExtractReceiptSchema\<close> accepts is accepted by
  \<open>PartialExtractReceiptSchema\<close> (the schema of the client's pending-extraction
  collection), and the partial parse is the abstraction \<open>to_partial\<close> of the full parse.
\<close>

theorem parse_partial_refines_receipt:
  assumes "parse_receipt js_date j = Some r"
  shows "parse_partial j = Some (to_partial r)"
proof -
  obtain kvs where j: "j = JObj kvs"
    using assms by (cases j) (simp_all add: parse_receipt_def)
  from assms j obtain m dt cu ca tx tp pm co its where
    m: "z_req parse_merchant (map_of kvs ''merchant'') = Some m" and
    dt: "z_req (z_date js_date) (map_of kvs ''date'') = Some dt" and
    cu: "z_req z_string (map_of kvs ''currency'') = Some cu" and
    ca: "z_opt z_string (map_of kvs ''category'') = Some ca" and
    tx: "z_req z_number (map_of kvs ''tax'') = Some tx" and
    tp: "z_req z_number (map_of kvs ''tip'') = Some tp" and
    pm: "z_opt z_string (map_of kvs ''paymentMethod'') = Some pm" and
    co: "z_req z_number (map_of kvs ''confidence'') = Some co" and
    its: "z_req (z_array parse_line_item) (map_of kvs ''items'') = Some its" and
    r: "r = \<lparr>xr_merchant = m, xr_date = dt, xr_currency = cu, xr_category = ca, xr_tax = tx,
             xr_tip = tp, xr_paymentMethod = pm, xr_confidence = co, xr_items = its\<rparr>"
    by (auto simp: parse_receipt_def bind_eq_Some_conv)
  have m': "z_opt parse_partial_merchant (map_of kvs ''merchant'') =
      Some (Some \<lparr>pm_name = Some (xm_name m), pm_address = xm_address m\<rparr>)"
    using m by (rule z_req_opt_mono) (rule parse_partial_merchant_refines)
  have dt': "z_opt z_string (map_of kvs ''date'') = Some (Some dt)"
    using dt by (rule z_req_opt_mono [where f = id, simplified]) (rule z_date_string)
  have its': "z_opt (z_array parse_partial_line_item) (map_of kvs ''items'') =
      Some (Some (map to_partial_item its))"
    using its by (rule z_req_opt_mono) (rule z_array_items_refines)
  show ?thesis
    using j r m' dt' its' ca pm z_opt_Some_Some [OF cu] z_opt_Some_Some [OF tx]
      z_opt_Some_Some [OF tp] z_opt_Some_Some [OF co]
    by (simp add: parse_partial_def to_partial_def)
qed

end
