(* ===== verification/Receipt_Extraction.thy ===== *)
theory Receipt_Extraction
  imports Schema Database
begin

text \<open>
  The receipt-extraction server action of src/server/actions/process-receipt.ts.
  \<open>extractReceipt\<close> validates the form data (the guards of lines 54-66, each a
  \<open>throw\<close> before any effect), turns the upload into page images, and starts a task
  that streams the model's partial objects, validates the last one, uploads the pages to
  the blob container and commits the receipt in one transaction.  The outside services
  are inputs of the model: the hosted model's stream of partial objects is the list
  \<open>partials\<close>, \<open>pdfToImages\<close> (src/lib/pdf.ts, pdf2pic) is \<open>pdf_pages\<close>, the
  JavaScript date parser is \<open>js_date\<close>, the time of the request is \<open>now\<close>.  The
  streamable value is the record \<open>stream\<close>: the values sent and whether \<open>done\<close>
  was called.
\<close>

datatype document_type = Image | Pdf

datatype extract_error =
    DidNotReceiveFile
  | NoReceiptId
  | NoReportId
  | UnsupportedMime string

record upload_file =
  f_name :: string
  f_type :: string
  f_bytes :: bytes

datatype form_value = FormFile upload_file | FormText string

type_synonym form_data = "(string \<times> form_value) list"

record page_file =
  pf_bytes :: bytes
  pf_extension :: "string option"

record extraction_result =
  er_receipt :: receipt
  er_lineItems :: "line_item list"
  er_merchant :: "merchant option"
  er_category :: "category option"

datatype stream_msg = Partial json | Finished extraction_result

record stream =
  st_values :: "stream_msg list"
  st_closed :: bool

type_synonym blobs = "(string \<times> bytes) list"

record world =
  w_db :: db
  w_blobs :: blobs

subsection \<open>documentTypeFromMime (lines 34-42)\<close>

definition documentTypeFromMime :: "string \<Rightarrow> extract_error + document_type" where
  "documentTypeFromMime mime =
     (if startsWith mime ''image/'' then Inr Image
      else if js_includes mime ''pdf'' \<or> js_includes mime ''acrobat'' then Inr Pdf
      else Inl (UnsupportedMime mime))"

subsection \<open>Deduplicating merchants and categories (lines 163-230)\<close>

text \<open>The \<open>throw\<close> for a missing merchant (line 191) is unreachable: a failed create
  throws itself, so \<open>existingMerchant ?? createdMerchant\<close> is always defined.\<close>

definition createMerchantIfNotExists :: "extracted_merchant \<Rightarrow> db \<Rightarrow> (merchant \<times> bool) db_result" where
  "createMerchantIfNotExists m d =
     (let nn = toUpperCase (xm_name m)
      in case find_by mc_normalizedName nn (merchants d) of
           Some e \<Rightarrow> Inr ((e, False), d)
         | None \<Rightarrow> (case merchant_create (xm_name m) (xm_address m) nn d of
              Inl err \<Rightarrow> Inl err
            | Inr (c, d') \<Rightarrow> Inr ((c, True), d')))"

definition createCategoryIfNotExists :: "string \<Rightarrow> db \<Rightarrow> (category \<times> bool) db_result" where
  "createCategoryIfNotExists cat d =
     (let nn = toUpperCase cat
      in case find_by ct_normalizedName nn (categories d) of
           Some e \<Rightarrow> Inr ((e, False), d)
         | None \<Rightarrow> (case category_create cat nn d of
              Inl err \<Rightarrow> Inl err
            | Inr (c, d') \<Rightarrow> Inr ((c, True), d')))"

subsection \<open>createExpenseReportFromParse (lines 232-265)\<close>

definition new_line_item :: "id \<Rightarrow> nat \<Rightarrow> extracted_line_item \<Rightarrow> id \<Rightarrow> line_item" where
  "new_line_item receiptId now x i =
     \<lparr>li_id = i, li_receiptId = receiptId, li_description = xi_description x, li_sku = None,
      li_quantity = xi_quantity x, li_unitPrice = xi_unitPrice x, li_currency = Some (xi_currency x),
      li_updatedAt = now\<rparr>"

definition new_receipt :: "date_parser \<Rightarrow> nat \<Rightarrow> extracted_receipt \<Rightarrow> id \<Rightarrow> id \<Rightarrow> nat \<Rightarrow>
    merchant \<Rightarrow> category \<Rightarrow> receipt" where
  "new_receipt js_date now r reportId receiptId pageCount m c =
     \<lparr>rc_id = receiptId, rc_expenseReportId = reportId, rc_merchantId = mc_id m,
      rc_categoryId = ct_id c, rc_pageCount = pageCount, rc_tax = xr_tax r, rc_tip = xr_tip r,
      rc_date = js_date (xr_date r), rc_paymentMethod = xr_paymentMethod r,
      rc_confidence = xr_confidence r, rc_currency = xr_currency r, rc_updatedAt = now\<rparr>"

definition createExpenseReportFromParse :: "date_parser \<Rightarrow> nat \<Rightarrow> extracted_receipt \<Rightarrow> id \<Rightarrow> id \<Rightarrow>
    nat \<Rightarrow> db \<Rightarrow> extraction_result db_result" where
  "createExpenseReportFromParse js_date now r reportId receiptId pageCount d =
     (case createMerchantIfNotExists (xr_merchant r) d of
        Inl e \<Rightarrow> Inl e
      | Inr ((m, mNew), d1) \<Rightarrow>
     (case createCategoryIfNotExists (nullish (xr_category r) ''Uncategorized'') d1 of
        Inl e \<Rightarrow> Inl e
      | Inr ((c, cNew), d2) \<Rightarrow>
     (case receipt_create (new_receipt js_date now r reportId receiptId pageCount m c) d2 of
        Inl e \<Rightarrow> Inl e
      | Inr (rc, d3) \<Rightarrow>
     (case line_items_create_many (map (new_line_item receiptId now) (xr_items r)) d3 of
        Inl e \<Rightarrow> Inl e
      | Inr (ls, d4) \<Rightarrow>
          Inr (\<lparr>er_receipt = rc, er_lineItems = ls,
                 er_merchant = (if mNew then Some m else None),
                 er_category = (if cNew then Some c else None)\<rparr>, d4)))))"

subsection \<open>extractReceipt (lines 44-161)\<close>

text \<open>\<open>formData.get(k) as string\<close> tested with \<open>!\<close>: \<open>null\<close> and the empty string fail;
  a file passes the test and prints as \<open>[object File]\<close>.\<close>

definition form_id :: "form_value option \<Rightarrow> string option" where
  "form_id v = (case v of None \<Rightarrow> None
     | Some (FormText s) \<Rightarrow> (if s = [] then None else Some s)
     | Some (FormFile _) \<Rightarrow> Some ''[object File]'')"

text \<open>Lines 69-72: an image is one page whose extension is \<open>file.name.split(".")[1]\<close>;
  a PDF is converted page by page to PNG.\<close>

definition prepare_files :: "(bytes \<Rightarrow> bytes list) \<Rightarrow> upload_file \<Rightarrow> document_type \<Rightarrow> page_file list" where
  "prepare_files pdf_pages f doc =
     (if doc = Image
      then [\<lparr>pf_bytes = f_bytes f, pf_extension = js_index (split_on (CHR ''.'') (f_name f)) 1\<rparr>]
      else map (\<lambda>b. \<lparr>pf_bytes = b, pf_extension = Some ''png''\<rparr>) (pdf_pages (f_bytes f)))"

text \<open>Line 134: \<open>`${reportId}/${receiptId}/receipt-${index}.${file.extension}`\<close>.\<close>

definition blob_name :: "id \<Rightarrow> id \<Rightarrow> nat \<Rightarrow> string option \<Rightarrow> string" where
  "blob_name reportId receiptId index ext =
     reportId @ ''/'' @ receiptId @ ''/receipt-'' @ show_nat index @ ''.'' @ template_str ext"

text \<open>Lines 133-136: the pages uploaded in order, numbered from 0.\<close>

fun upload_pages :: "id \<Rightarrow> id \<Rightarrow> nat \<Rightarrow> page_file list \<Rightarrow> blobs \<Rightarrow> blobs" where
  "upload_pages reportId receiptId i [] bl = bl"
| "upload_pages reportId receiptId i (p # ps) bl =
     upload_pages reportId receiptId (Suc i) ps
       (AList.update (blob_name reportId receiptId i (pf_extension p)) (pf_bytes p) bl)"

text \<open>Lines 123-127: every partial object is sent and remembered as \<open>last\<close>.\<close>

fun stream_partials :: "json list \<Rightarrow> json option \<Rightarrow> stream \<Rightarrow> json option \<times> stream" where
  "stream_partials [] lastp st = (lastp, st)"
| "stream_partials (p # ps) lastp st =
     stream_partials ps (Some p) (st\<lparr>st_values := st_values st @ [Partial p]\<rparr>)"

text \<open>Lines 103-158, the background task.  A failed \<open>safeParse\<close> ends the stream
  without a value; a failed transaction throws inside the task, after the uploads, and the
  stream is never ended.\<close>

definition extraction_task :: "date_parser \<Rightarrow> nat \<Rightarrow> id \<Rightarrow> id \<Rightarrow> page_file list \<Rightarrow> json list \<Rightarrow>
    world \<Rightarrow> world \<times> stream" where
  "extraction_task js_date now reportId receiptId files partials w =
     (let (lastp, st) = stream_partials partials None \<lparr>st_values = [], st_closed = False\<rparr>
      in case lastp \<bind> parse_receipt js_date of
           None \<Rightarrow> (w, st\<lparr>st_closed := True\<rparr>)
         | Some r \<Rightarrow>
             (let bl = upload_pages reportId receiptId 0 files (w_blobs w)
              in case run_tx (createExpenseReportFromParse js_date now r reportId receiptId (length files))
                        (w_db w) of
                   (Inl e, d) \<Rightarrow> (w\<lparr>w_blobs := bl\<rparr>, st)
                 | (Inr res, d') \<Rightarrow> (\<lparr>w_db = d', w_blobs = bl\<rparr>,
                      \<lparr>st_values = st_values st @ [Finished res], st_closed = True\<rparr>)))"

definition extractReceipt :: "date_parser \<Rightarrow> (bytes \<Rightarrow> bytes list) \<Rightarrow> nat \<Rightarrow> form_data \<Rightarrow> json list \<Rightarrow>
    world \<Rightarrow> extract_error + (world \<times> stream)" where
  "extractReceipt js_date pdf_pages now fd partials w =
     (case map_of fd ''file'' of
        Some (FormFile f) \<Rightarrow>
          (case form_id (map_of fd ''receipt-id'') of
             None \<Rightarrow> Inl NoReceiptId
           | Some receiptId \<Rightarrow>
          (case form_id (map_of fd ''report-id'') of
             None \<Rightarrow> Inl NoReportId
           | Some reportId \<Rightarrow>
          (case documentTypeFromMime (f_type f) of
             Inl e \<Rightarrow> Inl e
           | Inr doc \<Rightarrow>
               Inr (extraction_task js_date now reportId receiptId (prepare_files pdf_pages f doc)
                      partials w))))
      | _ \<Rightarrow> Inl DidNotReceiveFile)"

subsection \<open>Deduplication: result, frame, invariant, progress\<close>

lemma createMerchantIfNotExists_Inr:
  assumes "createMerchantIfNotExists m d = Inr ((mr, created), d')"
  shows "mc_normalizedName mr = toUpperCase (xm_name m) \<and> mr \<in> set (merchants d') \<and>
    (created \<longleftrightarrow> toUpperCase (xm_name m) \<notin> keys_of mc_normalizedName (merchants d)) \<and>
    (created \<longrightarrow> mc_name mr = xm_name m \<and> mc_address mr = xm_address m \<and>
       d' = d\<lparr>next_id := Suc (next_id d), merchants := merchants d @ [mr]\<rparr>) \<and>
    (\<not> created \<longrightarrow> d' = d)"
proof (cases "find_by mc_normalizedName (toUpperCase (xm_name m)) (merchants d)")
  case None
  with assms obtain c where c: "merchant_create (xm_name m) (xm_address m) (toUpperCase (xm_name m)) d = Inr (mr, d')"
    and "created"
    by (auto simp: createMerchantIfNotExists_def split: sum.splits)
  with None show ?thesis
    using merchant_create_Inr [OF c] by (simp add: find_by_None_iff)
next
  case (Some e)
  with assms have eqs: "mr = e" "\<not> created" "d' = d"
    by (auto simp: createMerchantIfNotExists_def)
  from Some have "find_by mc_normalizedName (toUpperCase (xm_name m)) (merchants d) \<noteq> None" by simp
  then have "toUpperCase (xm_name m) \<in> keys_of mc_normalizedName (merchants d)" by (simp add: find_by_None_iff)
  with eqs show ?thesis
    using find_by_SomeD [OF Some] by auto
qed

lemma createCategoryIfNotExists_Inr:
  assumes "createCategoryIfNotExists cat d = Inr ((cr, created), d')"
  shows "ct_normalizedName cr = toUpperCase cat \<and> cr \<in> set (categories d') \<and>
    (created \<longleftrightarrow> toUpperCase cat \<notin> keys_of ct_normalizedName (categories d)) \<and>
    (created \<longrightarrow> ct_name cr = cat \<and>
       d' = d\<lparr>next_id := Suc (next_id d), categories := categories d @ [cr]\<rparr>) \<and>
    (\<not> created \<longrightarrow> d' = d)"
proof (cases "find_by ct_normalizedName (toUpperCase cat) (categories d)")
  case None
  with assms obtain c where c: "category_create cat (toUpperCase cat) d = Inr (cr, d')"
    and "created"
    by (auto simp: createCategoryIfNotExists_def split: sum.splits)
  with None show ?thesis
    using category_create_Inr [OF c] by (simp add: find_by_None_iff)
next
  case (Some e)
  with assms have eqs: "cr = e" "\<not> created" "d' = d"
    by (auto simp: createCategoryIfNotExists_def)
  from Some have "find_by ct_normalizedName (toUpperCase cat) (categories d) \<noteq> None" by simp
  then have "toUpperCase cat \<in> keys_of ct_normalizedName (categories d)" by (simp add: find_by_None_iff)
  with eqs show ?thesis
    using find_by_SomeD [OF Some] by auto
qed

lemma createMerchantIfNotExists_ok:
  "createMerchantIfNotExists m d = Inr ((mr, created), d') \<Longrightarrow> db_ok d \<Longrightarrow> db_ok d'"
  unfolding db_ok_def createMerchantIfNotExists_def Let_def
  by (auto split: option.splits sum.splits intro: merchant_create_wf merchant_create_fresh)

lemma createCategoryIfNotExists_ok:
  "createCategoryIfNotExists cat d = Inr ((cr, created), d') \<Longrightarrow> db_ok d \<Longrightarrow> db_ok d'"
  unfolding db_ok_def createCategoryIfNotExists_def Let_def
  by (auto split: option.splits sum.splits intro: category_create_wf category_create_fresh)

lemma createMerchantIfNotExists_succeeds:
  assumes "ids_fresh d"
  shows "\<exists>mr created d'. createMerchantIfNotExists m d = Inr ((mr, created), d')"
proof (cases "find_by mc_normalizedName (toUpperCase (xm_name m)) (merchants d)")
  case None
  with assms obtain c d' where "merchant_create (xm_name m) (xm_address m) (toUpperCase (xm_name m)) d = Inr (c, d')"
    using merchant_create_succeeds by (fastforce simp: find_by_None_iff)
  with None show ?thesis by (auto simp: createMerchantIfNotExists_def)
next
  case (Some e)
  then show ?thesis by (auto simp: createMerchantIfNotExists_def)
qed

lemma createCategoryIfNotExists_succeeds:
  assumes "ids_fresh d"
  shows "\<exists>cr created d'. createCategoryIfNotExists cat d = Inr ((cr, created), d')"
proof (cases "find_by ct_normalizedName (toUpperCase cat) (categories d)")
  case None
  with assms obtain c d' where "category_create cat (toUpperCase cat) d = Inr (c, d')"
    using category_create_succeeds by (fastforce simp: find_by_None_iff)
  with None show ?thesis by (auto simp: createCategoryIfNotExists_def)
next
  case (Some e)
  then show ?thesis by (auto simp: createCategoryIfNotExists_def)
qed

subsection \<open>The transaction\<close>

lemma createExpenseReportFromParse_steps:
  assumes "createExpenseReportFromParse js_date now r reportId receiptId n d = Inr (res, d')"
  obtains m mNew d1 c cNew d2 d3 where
    "createMerchantIfNotExists (xr_merchant r) d = Inr ((m, mNew), d1)"
    "createCategoryIfNotExists (nullish (xr_category r) ''Uncategorized'') d1 = Inr ((c, cNew), d2)"
    "receipt_create (new_receipt js_date now r reportId receiptId n m c) d2 =
       Inr (new_receipt js_date now r reportId receiptId n m c, d3)"
    "line_items_create_many (map (new_line_item receiptId now) (xr_items r)) d3 = Inr (er_lineItems res, d')"
    "er_receipt res = new_receipt js_date now r reportId receiptId n m c"
    "er_merchant res = (if mNew then Some m else None)"
    "er_category res = (if cNew then Some c else None)"
proof -
  from assms obtain m mNew d1 c cNew d2 rc d3 ls where
    h1: "createMerchantIfNotExists (xr_merchant r) d = Inr ((m, mNew), d1)" and
    h2: "createCategoryIfNotExists (nullish (xr_category r) ''Uncategorized'') d1 = Inr ((c, cNew), d2)" and
    h3: "receipt_create (new_receipt js_date now r reportId receiptId n m c) d2 = Inr (rc, d3)" and
    h4: "line_items_create_many (map (new_line_item receiptId now) (xr_items r)) d3 = Inr (ls, d')" and
    res: "res = \<lparr>er_receipt = rc, er_lineItems = ls, er_merchant = (if mNew then Some m else None),
                  er_category = (if cNew then Some c else None)\<rparr>"
    by (auto simp: createExpenseReportFromParse_def split: sum.splits prod.splits)
  from receipt_create_Inr [OF h3] have "rc = new_receipt js_date now r reportId receiptId n m c" by simp
  with h1 h2 h3 h4 res show ?thesis by (intro that) simp_all
qed

lemma new_line_item_id [simp]: "li_id (new_line_item receiptId now x i) = i"
  by (simp add: new_line_item_def)

lemma new_line_items_rows:
  "list_all2 (\<lambda>mk l. \<exists>i. l = mk i) (map (new_line_item receiptId now) xs) ls \<Longrightarrow>
     list_all2 (\<lambda>x l. l = new_line_item receiptId now x (li_id l)) xs ls"
  by (auto simp: list_all2_map1 elim: list_all2_mono)

lemma createMerchantIfNotExists_frame:
  "createMerchantIfNotExists m d = Inr ((mr, created), d') \<Longrightarrow>
     users d' = users d \<and> reports d' = reports d \<and> receipts d' = receipts d \<and>
     line_items d' = line_items d \<and> categories d' = categories d"
  by (drule createMerchantIfNotExists_Inr) (cases created, auto)

lemma createCategoryIfNotExists_frame:
  "createCategoryIfNotExists cat d = Inr ((cr, created), d') \<Longrightarrow>
     users d' = users d \<and> reports d' = reports d \<and> receipts d' = receipts d \<and>
     line_items d' = line_items d \<and> merchants d' = merchants d"
  by (drule createCategoryIfNotExists_Inr) (cases created, auto)

text \<open>
  C1.  A committed extraction adds exactly one receipt, with the receipt id and report id
  of the request, the page count, tax, tip and parsed date of the extraction; its merchant
  and category are rows whose normalized names are the upper-cased extracted merchant name
  and the upper-cased category (\<open>Uncategorized\<close> when none was extracted); and it adds
  one line item per extracted item, in order, pointing at the receipt, with the item's
  description, quantity, unit price and currency and no SKU.  Reports and users are
  untouched.
\<close>

theorem createExpenseReportFromParse_result:
  assumes "createExpenseReportFromParse js_date now r reportId receiptId n d = Inr (res, d')"
  shows "receipts d' = receipts d @ [er_receipt res] \<and> line_items d' = line_items d @ er_lineItems res \<and>
    reports d' = reports d \<and> users d' = users d \<and>
    rc_id (er_receipt res) = receiptId \<and> rc_expenseReportId (er_receipt res) = reportId \<and>
    rc_pageCount (er_receipt res) = n \<and> rc_tax (er_receipt res) = xr_tax r \<and>
    rc_tip (er_receipt res) = xr_tip r \<and> rc_date (er_receipt res) = js_date (xr_date r) \<and>
    (\<exists>m \<in> set (merchants d'). mc_id m = rc_merchantId (er_receipt res) \<and>
        mc_normalizedName m = toUpperCase (xm_name (xr_merchant r))) \<and>
    (\<exists>c \<in> set (categories d'). ct_id c = rc_categoryId (er_receipt res) \<and>
        ct_normalizedName c = toUpperCase (nullish (xr_category r) ''Uncategorized'')) \<and>
    list_all2 (\<lambda>x l. l = new_line_item receiptId now x (li_id l)) (xr_items r) (er_lineItems res)"
proof -
  obtain m mNew d1 c cNew d2 d3 where
    h1: "createMerchantIfNotExists (xr_merchant r) d = Inr ((m, mNew), d1)" and
    h2: "createCategoryIfNotExists (nullish (xr_category r) ''Uncategorized'') d1 = Inr ((c, cNew), d2)" and
    h3: "receipt_create (new_receipt js_date now r reportId receiptId n m c) d2 =
       Inr (new_receipt js_date now r reportId receiptId n m c, d3)" and
    h4: "line_items_create_many (map (new_line_item receiptId now) (xr_items r)) d3 = Inr (er_lineItems res, d')" and
    rc: "er_receipt res = new_receipt js_date now r reportId receiptId n m c"
    using assms by (rule createExpenseReportFromParse_steps)
  note f1 = createMerchantIfNotExists_frame [OF h1] and f2 = createCategoryIfNotExists_frame [OF h2]
  note m = createMerchantIfNotExists_Inr [OF h1] and c = createCategoryIfNotExists_Inr [OF h2]
  note r3 = receipt_create_Inr [OF h3] and l4 = line_items_create_many_Inr [OF h4]
  have tables: "receipts d' = receipts d @ [er_receipt res]" "line_items d' = line_items d @ er_lineItems res"
      "reports d' = reports d" "users d' = users d" "merchants d' = merchants d1" "categories d' = categories d2"
    using f1 f2 r3 l4 rc by simp_all
  have "m \<in> set (merchants d')" "c \<in> set (categories d')"
    using m c tables f2 by simp_all
  moreover have "rc_id (er_receipt res) = receiptId" "rc_expenseReportId (er_receipt res) = reportId"
      "rc_pageCount (er_receipt res) = n" "rc_tax (er_receipt res) = xr_tax r"
      "rc_tip (er_receipt res) = xr_tip r" "rc_date (er_receipt res) = js_date (xr_date r)"
      "rc_merchantId (er_receipt res) = mc_id m" "rc_categoryId (er_receipt res) = ct_id c"
    using rc by (simp_all add: new_receipt_def)
  ultimately show ?thesis
    using tables m c new_line_items_rows [of receiptId now "xr_items r"] l4 by auto
qed

lemma createExpenseReportFromParse_ok:
  assumes "createExpenseReportFromParse js_date now r reportId receiptId n d = Inr (res, d')" and "db_ok d"
  shows "db_ok d'"
proof -
  obtain m mNew d1 c cNew d2 d3 where
    h1: "createMerchantIfNotExists (xr_merchant r) d = Inr ((m, mNew), d1)" and
    h2: "createCategoryIfNotExists (nullish (xr_category r) ''Uncategorized'') d1 = Inr ((c, cNew), d2)" and
    h3: "receipt_create (new_receipt js_date now r reportId receiptId n m c) d2 =
       Inr (new_receipt js_date now r reportId receiptId n m c, d3)" and
    h4: "line_items_create_many (map (new_line_item receiptId now) (xr_items r)) d3 = Inr (er_lineItems res, d')"
    using assms(1) by (rule createExpenseReportFromParse_steps)
  have "db_ok d2"
    using createCategoryIfNotExists_ok [OF h2] createMerchantIfNotExists_ok [OF h1] assms(2) by blast
  then have ok3: "db_ok d3"
    using receipt_create_wf [OF h3] receipt_create_fresh [OF h3] by (simp add: db_ok_def)
  then have "db_wf d'" using line_items_create_many_Inr [OF h4] by (simp add: db_ok_def)
  moreover have "ids_fresh d'"
  proof -
    have "list_all (row_ok d3) (map (new_line_item receiptId now) (xr_items r))"
      using receipt_create_Inr [OF h3]
      by (auto simp: list_all_iff row_ok_def new_line_item_def new_receipt_def keys_of_def)
    then obtain ls d4 where "line_items_create_many (map (new_line_item receiptId now) (xr_items r)) d3 = Inr (ls, d4)"
        and "ids_fresh d4"
      using ok3 line_items_create_many_succeeds by (fastforce simp: db_ok_def)
    with h4 show ?thesis by simp
  qed
  ultimately show ?thesis by (simp add: db_ok_def)
qed

text \<open>
  C2.  On a well-formed database whose generated identifiers are behind the counter, an
  extraction for an existing report under a receipt id not yet used always commits: none of
  the four writes of the transaction fails, and the resulting database is again
  well-formed (unique ids and normalized names, every receipt pointing at an existing
  report, merchant and category, every line item at an existing receipt).
\<close>

theorem createExpenseReportFromParse_commits:
  assumes "db_ok d" and "reportId \<in> keys_of rp_id (reports d)" and "receiptId \<notin> keys_of rc_id (receipts d)"
  shows "\<exists>res d'. createExpenseReportFromParse js_date now r reportId receiptId n d = Inr (res, d') \<and> db_ok d'"
proof -
  obtain m mNew d1 where h1: "createMerchantIfNotExists (xr_merchant r) d = Inr ((m, mNew), d1)"
    using assms(1) createMerchantIfNotExists_succeeds by (fastforce simp: db_ok_def)
  have ok1: "db_ok d1" using createMerchantIfNotExists_ok [OF h1] assms(1) .
  obtain c cNew d2 where h2: "createCategoryIfNotExists (nullish (xr_category r) ''Uncategorized'') d1 = Inr ((c, cNew), d2)"
    using ok1 createCategoryIfNotExists_succeeds by (fastforce simp: db_ok_def)
  note f1 = createMerchantIfNotExists_frame [OF h1] and f2 = createCategoryIfNotExists_frame [OF h2]
  have m: "mc_id m \<in> keys_of mc_id (merchants d2)"
    using createMerchantIfNotExists_Inr [OF h1] f2 by (auto simp: keys_of_def)
  have c: "ct_id c \<in> keys_of ct_id (categories d2)"
    using createCategoryIfNotExists_Inr [OF h2] by (auto simp: keys_of_def)
  let ?rc = "new_receipt js_date now r reportId receiptId n m c"
  have h3: "receipt_create ?rc d2 = Inr (?rc, d2\<lparr>receipts := receipts d2 @ [?rc]\<rparr>)"
    using assms(2,3) f1 f2 m c by (intro receipt_create_succeeds) (simp_all add: new_receipt_def)
  have "ids_fresh (d2\<lparr>receipts := receipts d2 @ [?rc]\<rparr>)"
    using createCategoryIfNotExists_ok [OF h2 ok1] by (simp add: db_ok_def ids_fresh_def)
  moreover have "list_all (row_ok (d2\<lparr>receipts := receipts d2 @ [?rc]\<rparr>)) (map (new_line_item receiptId now) (xr_items r))"
    by (auto simp: list_all_iff row_ok_def new_line_item_def new_receipt_def keys_of_def)
  ultimately obtain ls d4 where
      h4: "line_items_create_many (map (new_line_item receiptId now) (xr_items r)) (d2\<lparr>receipts := receipts d2 @ [?rc]\<rparr>) = Inr (ls, d4)"
    using line_items_create_many_succeeds by blast
  let ?res = "\<lparr>er_receipt = ?rc, er_lineItems = ls, er_merchant = (if mNew then Some m else None),
                er_category = (if cNew then Some c else None)\<rparr>"
  have run: "createExpenseReportFromParse js_date now r reportId receiptId n d = Inr (?res, d4)"
    using h1 h2 h3 h4 by (simp add: createExpenseReportFromParse_def)
  then show ?thesis using createExpenseReportFromParse_ok [OF run assms(1)] by blast
qed

text \<open>
  C3.  Merchant deduplication is idempotent and case-insensitive: after
  \<open>createMerchantIfNotExists\<close> has returned a merchant on a well-formed database, a
  second call with any name that upper-cases to the same string returns that same merchant,
  reports it as not created and leaves the database as it is.
\<close>

theorem createMerchantIfNotExists_dedup:
  assumes "db_ok d" and "createMerchantIfNotExists m d = Inr ((mr, created), d')"
    and "toUpperCase (xm_name m') = toUpperCase (xm_name m)"
  shows "createMerchantIfNotExists m' d' = Inr ((mr, False), d')"
proof -
  have "unique_by mc_normalizedName (merchants d')"
    using createMerchantIfNotExists_ok [OF assms(2,1)] by (simp add: db_ok_def db_wf_def)
  moreover note r = createMerchantIfNotExists_Inr [OF assms(2)]
  ultimately have "find_by mc_normalizedName (toUpperCase (xm_name m')) (merchants d') = Some mr"
    using assms(3) find_by_unique [of mc_normalizedName "merchants d'" mr] by simp
  then show ?thesis by (simp add: createMerchantIfNotExists_def)
qed

subsection \<open>The background task\<close>

lemma stream_partials_eq:
  "stream_partials ps lastp st =
     (if ps = [] then lastp else Some (List.last ps), st\<lparr>st_values := st_values st @ map Partial ps\<rparr>)"
  by (induction ps lastp st rule: stream_partials.induct) auto

text \<open>
  C4.  When the model's last partial object is a valid extraction and the transaction
  commits, the task uploads the pages, installs the committed database, and the client's
  stream carries every partial object in the order received, then exactly one
  \<open>finished\<close> message with the committed rows, and is closed.
\<close>

theorem extraction_task_commit:
  assumes "partials \<noteq> []" and "parse_receipt js_date (List.last partials) = Some r"
    and "createExpenseReportFromParse js_date now r reportId receiptId (length files) (w_db w) = Inr (res, d')"
  shows "extraction_task js_date now reportId receiptId files partials w =
    (\<lparr>w_db = d', w_blobs = upload_pages reportId receiptId 0 files (w_blobs w)\<rparr>,
     \<lparr>st_values = map Partial partials @ [Finished res], st_closed = True\<rparr>)"
  using assms by (simp add: extraction_task_def stream_partials_eq run_tx_def)

text \<open>
  C5.  When the model sent nothing, or its last partial object fails the schema, nothing is
  written: database and blobs are unchanged, and the stream carries the partial objects
  only and is closed without a \<open>finished\<close> message.
\<close>

theorem extraction_task_rejects:
  assumes "partials = [] \<or> parse_receipt js_date (List.last partials) = None"
  shows "extraction_task js_date now reportId receiptId files partials w =
    (w, \<lparr>st_values = map Partial partials, st_closed = True\<rparr>)"
  using assms by (auto simp: extraction_task_def stream_partials_eq)

text \<open>
  C6.  When the last partial object is valid but the transaction fails, the database is
  rolled back, yet the page images stay uploaded and the stream is never closed: the task
  throws after the uploads (process-receipt.ts lines 133-143), so the client keeps waiting.
\<close>

theorem extraction_task_commit_fails:
  assumes "partials \<noteq> []" and "parse_receipt js_date (List.last partials) = Some r"
    and "createExpenseReportFromParse js_date now r reportId receiptId (length files) (w_db w) = Inl e"
  shows "extraction_task js_date now reportId receiptId files partials w =
    (w\<lparr>w_blobs := upload_pages reportId receiptId 0 files (w_blobs w)\<rparr>,
     \<lparr>st_values = map Partial partials, st_closed = False\<rparr>)"
  using assms by (simp add: extraction_task_def stream_partials_eq run_tx_def)

text \<open>
  C7.  A receipt id that is already stored makes the transaction fail with the unique
  violation on \<open>Receipt.id\<close>, whatever was extracted; with C6, an upload retried under
  the same receipt id overwrites the stored page images and leaves the client's stream open.
\<close>

theorem createExpenseReportFromParse_duplicate_receipt:
  assumes "db_ok d" and "receiptId \<in> keys_of rc_id (receipts d)"
  shows "createExpenseReportFromParse js_date now r reportId receiptId n d = Inl (UniqueViolation ''Receipt.id'')"
proof -
  obtain m mNew d1 where h1: "createMerchantIfNotExists (xr_merchant r) d = Inr ((m, mNew), d1)"
    using assms(1) createMerchantIfNotExists_succeeds by (fastforce simp: db_ok_def)
  obtain c cNew d2 where h2: "createCategoryIfNotExists (nullish (xr_category r) ''Uncategorized'') d1 = Inr ((c, cNew), d2)"
    using createMerchantIfNotExists_ok [OF h1 assms(1)] createCategoryIfNotExists_succeeds
    by (fastforce simp: db_ok_def)
  have "receipts d2 = receipts d"
    using createMerchantIfNotExists_frame [OF h1] createCategoryIfNotExists_frame [OF h2] by simp
  with assms(2) have "receipt_create (new_receipt js_date now r reportId receiptId n m c) d2 =
      Inl (UniqueViolation ''Receipt.id'')"
    by (simp add: receipt_create_def new_receipt_def)
  with h1 h2 show ?thesis by (simp add: createExpenseReportFromParse_def)
qed

text \<open>
  C8.  \<open>extractReceipt\<close> fails before any effect exactly when one of its guards fails, in
  the order of the code: no file under \<open>file\<close>; then an empty or missing
  \<open>receipt-id\<close>; then an empty or missing \<open>report-id\<close>; then a MIME type that is
  neither an image nor a PDF.  The comment at line 49 says several files are supported under
  a \<open>files\<close> field, but the action reads only \<open>file\<close>: a form that sends its files under
  \<open>files\<close> fails with DidNotReceiveFile.
\<close>

theorem extractReceipt_errors:
  "extractReceipt js_date pdf_pages now fd partials w = Inl e \<longleftrightarrow>
     (case map_of fd ''file'' of
        Some (FormFile f) \<Rightarrow>
          (form_id (map_of fd ''receipt-id'') = None \<and> e = NoReceiptId) \<or>
          (form_id (map_of fd ''receipt-id'') \<noteq> None \<and> form_id (map_of fd ''report-id'') = None \<and>
             e = NoReportId) \<or>
          (form_id (map_of fd ''receipt-id'') \<noteq> None \<and> form_id (map_of fd ''report-id'') \<noteq> None \<and>
             documentTypeFromMime (f_type f) = Inl e)
      | _ \<Rightarrow> e = DidNotReceiveFile)"
  by (auto simp: extractReceipt_def split: option.splits form_value.splits sum.splits)

lemma extraction_task_db:
  "extraction_task js_date now reportId receiptId files partials w = (w', st) \<Longrightarrow>
     w_db w' = w_db w \<or> (\<exists>r res. createExpenseReportFromParse js_date now r reportId receiptId (length files) (w_db w) =
        Inr (res, w_db w'))"
  by (auto simp: extraction_task_def run_tx_def split: option.splits prod.splits sum.splits)

lemma extraction_task_cases:
  "extraction_task js_date now reportId receiptId files partials w = (w', st) \<Longrightarrow>
     (st_values st = map Partial partials \<and> w_db w' = w_db w) \<or>
     (\<exists>r res. parse_receipt js_date (List.last partials) = Some r \<and>
        createExpenseReportFromParse js_date now r reportId receiptId (length files) (w_db w) = Inr (res, w_db w') \<and>
        st_values st = map Partial partials @ [Finished res] \<and> st_closed st)"
  by (auto simp: extraction_task_def stream_partials_eq run_tx_def split: if_splits option.splits prod.splits sum.splits)

lemma createExpenseReportFromParse_receipts:
  "createExpenseReportFromParse js_date now r reportId receiptId n d = Inr (res, d') \<Longrightarrow>
     receipts d' = receipts d @ [er_receipt res]"
  by (elim createExpenseReportFromParse_steps)
     (auto dest!: createMerchantIfNotExists_frame createCategoryIfNotExists_frame receipt_create_Inr
        line_items_create_many_Inr)

subsection \<open>Blob names\<close>

lemma blob_name_inj:
  "blob_name reportId receiptId i e = blob_name reportId receiptId j e' \<Longrightarrow> i = j"
  using digits_dot_prefix [OF show_nat_all_digits show_nat_all_digits, of i "template_str e" j "template_str e'"]
  by (simp add: blob_name_def show_nat_inj)

lemma upload_pages_other:
  "(\<And>k e. k \<ge> i \<Longrightarrow> n \<noteq> blob_name reportId receiptId k e) \<Longrightarrow>
     map_of (upload_pages reportId receiptId i ps bl) n = map_of bl n"
proof (induction ps arbitrary: i bl)
  case Nil
  then show ?case by simp
next
  case (Cons p ps)
  have "map_of (upload_pages reportId receiptId (Suc i) ps
      (AList.update (blob_name reportId receiptId i (pf_extension p)) (pf_bytes p) bl)) n =
      map_of (AList.update (blob_name reportId receiptId i (pf_extension p)) (pf_bytes p) bl) n"
    using Cons.prems by (intro Cons.IH) simp
  also have "\<dots> = map_of bl n" using Cons.prems [of i "pf_extension p"] by (simp add: update_conv')
  finally show ?case by simp
qed

lemma upload_pages_map_of:
  "k < length files \<Longrightarrow> map_of (upload_pages reportId receiptId i files bl)
     (blob_name reportId receiptId (i + k) (pf_extension (files ! k))) = Some (pf_bytes (files ! k))"
proof (induction files arbitrary: bl i k)
  case Nil
  then show ?case by simp
next
  case (Cons p ps)
  show ?case
  proof (cases k)
    case 0
    have "map_of (upload_pages reportId receiptId (Suc i) ps
        (AList.update (blob_name reportId receiptId i (pf_extension p)) (pf_bytes p) bl))
        (blob_name reportId receiptId i (pf_extension p)) =
        map_of (AList.update (blob_name reportId receiptId i (pf_extension p)) (pf_bytes p) bl)
        (blob_name reportId receiptId i (pf_extension p))"
      by (rule upload_pages_other) (auto dest: blob_name_inj)
    with 0 show ?thesis by (simp add: update_conv')
  next
    case (Suc k')
    with Cons.prems have "k' < length ps" by simp
    then have "map_of (upload_pages reportId receiptId (Suc i) ps
        (AList.update (blob_name reportId receiptId i (pf_extension p)) (pf_bytes p) bl))
        (blob_name reportId receiptId (Suc i + k') (pf_extension (ps ! k'))) = Some (pf_bytes (ps ! k'))"
      by (rule Cons.IH)
    then show ?thesis using Suc by simp
  qed
qed

lemma upload_pages_keys:
  "fst ` set (upload_pages reportId receiptId i ps bl) =
     fst ` set bl \<union> (\<lambda>j. blob_name reportId receiptId (i + j) (pf_extension (ps ! j))) ` {..<length ps}"
proof (induction ps arbitrary: i bl)
  case Nil
  then show ?case by simp
next
  case (Cons p ps)
  have "(\<lambda>j. blob_name reportId receiptId (i + j) (pf_extension ((p # ps) ! j))) ` {..<length (p # ps)} =
      insert (blob_name reportId receiptId i (pf_extension p))
        ((\<lambda>j. blob_name reportId receiptId (Suc i + j) (pf_extension (ps ! j))) ` {..<length ps})"
    by (simp only: length_Cons lessThan_Suc_eq_insert_0 image_insert image_image) simp
  then show ?case using Cons.IH by (simp add: dom_update)
qed

text \<open>
   Round trip of the page uploads: after the task has uploaded the pages of a
  receipt, page \<open>k\<close> (numbered from 0) is stored under the name
  \<open>report/receipt/receipt-k.ext\<close> with its own content: no later page overwrites an
  earlier one, since the decimal page numbers differ before the dot.
\<close>

theorem upload_pages_lookup:
  assumes "k < length files"
  shows "map_of (upload_pages reportId receiptId 0 files bl)
           (blob_name reportId receiptId k (pf_extension (files ! k))) = Some (pf_bytes (files ! k))"
  using upload_pages_map_of [OF assms, of reportId receiptId 0 bl] by simp

subsection \<open>The extension of an uploaded image\<close>

lemma show_nat_0: "show_nat 0 = ''0''"
  by (simp add: show_nat.simps digit_char_def char_of_eq_iff)

text \<open>
  The extension the code stores an image under is the second dot-separated part of
  the file name, not the last: for \<open>a.b.c\<close> (\<open>a\<close>, \<open>b\<close> without dots) the
  page is stored with extension \<open>b\<close>.
\<close>

theorem image_extension_second_part:
  assumes "f_name f = a @ ''.'' @ b @ ''.'' @ c" and "CHR ''.'' \<notin> set a" and "CHR ''.'' \<notin> set b"
  shows "prepare_files pdf_pages f Image = [\<lparr>pf_bytes = f_bytes f, pf_extension = Some b\<rparr>]"
proof -
  have "split_on (CHR ''.'') (f_name f) = a # b # split_on (CHR ''.'') c"
    using assms by (simp add: split_on_sep)
  then show ?thesis by (simp add: prepare_files_def js_index_def)
qed

text \<open>
  An image whose file name has no dot is stored as \<open>receipt-0.undefined\<close>:
  \<open>file.name.split(".")[1]\<close> is \<open>undefined\<close> and the template literal prints it.
\<close>

theorem image_extension_undefined:
  assumes "CHR ''.'' \<notin> set (f_name f)"
  shows "map (\<lambda>p. blob_name reportId receiptId 0 (pf_extension p)) (prepare_files pdf_pages f Image) =
    [reportId @ ''/'' @ receiptId @ ''/receipt-0.undefined'']"
  using assms
  by (simp add: prepare_files_def js_index_def split_on_no_sep blob_name_def template_str_def show_nat_0)

end
