(* ===== verification/Client_Sync.thy ===== *)
theory Client_Sync
  imports Server_Actions Receipt_Extraction
begin

text \<open>
  The browser side of the data flow.  src/client-db/collections.ts keeps one collection per
  table; a collection is keyed by \<open>getKey\<close> (the id, but the normalized name for merchants
  and categories) and its \<open>onInsert\<close>/\<open>onUpdate\<close>/\<open>onDelete\<close> handlers send the
  modified rows, or for a delete the keys, to the server actions: \<open>*_sync\<close> below build
  the \<open>action\<close> of Server_Actions.  \<open>receiptsPendingExtractionCollection\<close> is local
  and holds the uploads being extracted; \<open>startReceipt\<close> (upload-form.tsx lines 54-117)
  inserts a PENDING entry, calls the extraction action, marks the entry EXTRACTING once the
  call returns, and then applies each streamed message: a partial object is copied field by
  field into the entry, the finished result is written into the synced collections and the
  entry deleted.  The partial object of an entry is a JavaScript object, a map from field
  names to JSON values.  \<open>utils.writeInsert\<close> of a row whose key is present replaces it.
  An exception in the message loop ends the loop (\<open>None\<close>); \<open>for_await\<close> is the loop as
  it runs on a stream that may stay open, whose termination is characterized.  The inductive
  \<open>client_reach\<close> is the set of client states reachable by uploads, returned calls and
  messages; its invariant shows that no entry is ever DONE and that tip and currency are never
  copied into the partial object the preview shows.
\<close>

subsection \<open>Collection handlers (collections.ts lines 15-137)\<close>

datatype mutation_kind = MInsert | MUpdate | MDelete

definition report_sync :: "mutation_kind \<Rightarrow> expense_report list \<Rightarrow> action" where
  "report_sync k rows = (case k of MInsert \<Rightarrow> CreateReports rows | MUpdate \<Rightarrow> UpdateReports rows
     | MDelete \<Rightarrow> DeleteReports (map rp_id rows))"

definition receipt_sync :: "mutation_kind \<Rightarrow> receipt list \<Rightarrow> action" where
  "receipt_sync k rows = (case k of MInsert \<Rightarrow> CreateReceipts rows | MUpdate \<Rightarrow> UpdateReceipts rows
     | MDelete \<Rightarrow> DeleteReceipts (map rc_id rows))"

definition line_item_sync :: "mutation_kind \<Rightarrow> line_item list \<Rightarrow> action" where
  "line_item_sync k rows = (case k of MInsert \<Rightarrow> CreateLineItems rows | MUpdate \<Rightarrow> UpdateLineItems rows
     | MDelete \<Rightarrow> DeleteLineItems (map li_id rows))"

definition merchant_sync :: "mutation_kind \<Rightarrow> merchant list \<Rightarrow> action" where
  "merchant_sync k rows = (case k of MInsert \<Rightarrow> CreateMerchants rows | MUpdate \<Rightarrow> UpdateMerchants rows
     | MDelete \<Rightarrow> DeleteMerchants (map mc_normalizedName rows))"

definition category_sync :: "mutation_kind \<Rightarrow> category list \<Rightarrow> action" where
  "category_sync k rows = (case k of MInsert \<Rightarrow> CreateCategories rows | MUpdate \<Rightarrow> UpdateCategories rows
     | MDelete \<Rightarrow> DeleteCategories (map ct_normalizedName rows))"

text \<open>The Enter key of the category search (src/components/category/select.tsx lines 52-71):
  a new category named after the search text, then \<open>setValue\<close> of its fresh id.\<close>

definition category_enter :: "string \<Rightarrow> id \<Rightarrow> category option" where
  "category_enter search newId = (if length search = 0 then None
     else Some \<lparr>ct_id = newId, ct_name = search, ct_normalizedName = toUpperCase search\<rparr>)"

subsection \<open>Pending extractions (collections.ts lines 139-155, upload-form.tsx lines 54-117)\<close>

datatype extraction_status = PENDING | EXTRACTING | DONE

type_synonym js_object = "string \<Rightarrow> json option"

record pending =
  pe_id :: id
  pe_reportId :: id
  pe_status :: extraction_status
  pe_file :: upload_file
  pe_partial :: "js_object option"
  pe_preview :: bool

record client =
  cl_pending :: "pending list"
  cl_receipts :: "receipt list"
  cl_items :: "line_item list"
  cl_merchants :: "merchant list"
  cl_categories :: "category list"

text \<open>Line 62: a preview URL unless \<open>file.type.endsWith(".pdf")\<close>.\<close>

definition startReceipt :: "id \<Rightarrow> id \<Rightarrow> upload_file \<Rightarrow> client \<Rightarrow> client" where
  "startReceipt expenseReportId receiptId file c =
     c\<lparr>cl_pending := cl_pending c @ [\<lparr>pe_id = receiptId, pe_reportId = expenseReportId, pe_status = PENDING,
        pe_file = file, pe_partial = Some Map.empty, pe_preview = \<not> endsWith (f_type file) ''.pdf''\<rparr>]\<rparr>"

definition pending_update :: "id \<Rightarrow> (pending \<Rightarrow> pending) \<Rightarrow> client \<Rightarrow> client" where
  "pending_update i f c = c\<lparr>cl_pending := map (\<lambda>p. if pe_id p = i then f p else p) (cl_pending c)\<rparr>"

text \<open>JavaScript's falsy values among JSON values.\<close>

definition js_falsy :: "json \<Rightarrow> bool" where
  "js_falsy v = (v = JNull \<or> v = JBool False \<or> v = JNum 0 \<or> v = JStr [])"

definition js_field :: "json \<Rightarrow> string \<Rightarrow> json option" where
  "js_field v k = (case v of JObj kvs \<Rightarrow> map_of kvs k | _ \<Rightarrow> None)"

definition js_coalesce :: "json option \<Rightarrow> json \<Rightarrow> json" where
  "js_coalesce v d = (case v of None \<Rightarrow> d | Some JNull \<Rightarrow> d | Some x \<Rightarrow> x)"

text \<open>Lines 87-98: the fields copied from a partial object; \<open>tip\<close> and \<open>currency\<close> are
  not among them.  \<open>items?.map(...)\<close> of a value that is not an array throws.\<close>

definition apply_partial :: "json \<Rightarrow> js_object \<Rightarrow> js_object option" where
  "apply_partial p obj =
     (let items = (case js_field p ''items'' of None \<Rightarrow> Some (JArr []) | Some JNull \<Rightarrow> Some (JArr [])
                   | Some (JArr xs) \<Rightarrow> Some (JArr xs) | Some _ \<Rightarrow> None)
      in case items of None \<Rightarrow> None
       | Some its \<Rightarrow> Some (obj(''merchant'' := js_field p ''merchant'',
            ''category'' := Some (js_coalesce (js_field p ''category'') (JStr ''Uncategorized'')),
            ''confidence'' := js_field p ''confidence'', ''date'' := js_field p ''date'',
            ''items'' := Some its, ''paymentMethod'' := js_field p ''paymentMethod'',
            ''tax'' := js_field p ''tax'')))"

definition write_insert :: "('r \<Rightarrow> 'k) \<Rightarrow> 'r \<Rightarrow> 'r list \<Rightarrow> 'r list" where
  "write_insert key r rows = (if key r \<in> keys_of key rows then replace_by key r rows else rows @ [r])"

definition write_insert_all :: "('r \<Rightarrow> 'k) \<Rightarrow> 'r list \<Rightarrow> 'r list \<Rightarrow> 'r list" where
  "write_insert_all key rs rows = foldl (\<lambda>acc r. write_insert key r acc) rows rs"

definition opt_insert :: "('r \<Rightarrow> 'k) \<Rightarrow> 'r option \<Rightarrow> 'r list \<Rightarrow> 'r list" where
  "opt_insert key r rows = (case r of None \<Rightarrow> rows | Some x \<Rightarrow> write_insert key x rows)"

text \<open>Lines 76-115, one message.  \<open>collection.update\<close> of a key the collection does not
  hold throws; \<open>r.partial\<close> missing: the update does nothing.\<close>

fun on_message :: "id \<Rightarrow> stream_msg \<Rightarrow> client \<Rightarrow> client option" where
  "on_message receiptId (Partial p) c =
     (if js_falsy p then Some c
      else (case find_by pe_id receiptId (cl_pending c) of
              None \<Rightarrow> None
            | Some pe \<Rightarrow> (case pe_partial pe of
                 None \<Rightarrow> Some c
               | Some obj \<Rightarrow> (case apply_partial p obj of
                    None \<Rightarrow> None
                  | Some obj' \<Rightarrow> Some (pending_update receiptId (\<lambda>e. e\<lparr>pe_partial := Some obj'\<rparr>) c)))))"
| "on_message receiptId (Finished res) c =
     Some (c\<lparr>cl_receipts := write_insert rc_id (er_receipt res) (cl_receipts c),
             cl_items := write_insert_all li_id (er_lineItems res) (cl_items c),
             cl_merchants := opt_insert mc_normalizedName (er_merchant res) (cl_merchants c),
             cl_categories := opt_insert ct_normalizedName (er_category res) (cl_categories c),
             cl_pending := filter (\<lambda>p. pe_id p \<noteq> receiptId) (cl_pending c)\<rparr>)"

fun on_messages :: "id \<Rightarrow> stream_msg list \<Rightarrow> client \<Rightarrow> client option" where
  "on_messages receiptId [] c = Some c"
| "on_messages receiptId (m # ms) c = (case on_message receiptId m c of
     None \<Rightarrow> None | Some c' \<Rightarrow> on_messages receiptId ms c')"

text \<open>Lines 76-115 as the loop runs: \<open>for await\<close> takes the values of the stream one by
  one and, once it has taken all of them, waits for the next value or for the end of the
  stream.  A stream that is never closed makes the loop wait forever, the value None of the
  fixpoint; a message whose handler throws ends the loop with \<open>Some None\<close>.\<close>

partial_function (option) for_await :: "id \<Rightarrow> stream \<Rightarrow> nat \<Rightarrow> client \<Rightarrow> client option option" where
  "for_await receiptId st k c =
     (if k < length (st_values st) then
        (case on_message receiptId (st_values st ! k) c of
           None \<Rightarrow> Some None
         | Some c' \<Rightarrow> for_await receiptId st (Suc k) c')
      else if st_closed st then Some (Some c) else for_await receiptId st k c)"

text \<open>Lines 66-69: the form data the upload sends.\<close>

definition upload_form_data :: "upload_file \<Rightarrow> id \<Rightarrow> id \<Rightarrow> form_data" where
  "upload_form_data file receiptId expenseReportId =
     [(''file'', FormFile file), (''receipt-id'', FormText receiptId), (''report-id'', FormText expenseReportId)]"

text \<open>A partial object whose \<open>items\<close> the loop can copy.\<close>

definition items_ok :: "json \<Rightarrow> bool" where
  "items_ok p = (case js_field p ''items'' of None \<Rightarrow> True | Some JNull \<Rightarrow> True | Some (JArr _) \<Rightarrow> True
     | Some _ \<Rightarrow> False)"

text \<open>The task of lines 65-116 given what the server action did: when it threw, the entry
  stays PENDING; otherwise the entry becomes EXTRACTING and the messages are applied.  The
  second component says whether the \<open>for await\<close> loop ends: only when the stream was
  closed.\<close>

definition upload_task :: "id \<Rightarrow> extract_error + ('w \<times> stream) \<Rightarrow> client \<Rightarrow> client option \<times> bool" where
  "upload_task receiptId r c = (case r of
       Inl _ \<Rightarrow> (Some c, True)
     | Inr (_, st) \<Rightarrow> (on_messages receiptId (st_values st)
                   (pending_update receiptId (\<lambda>e. e\<lparr>pe_status := EXTRACTING\<rparr>) c), st_closed st))"

subsection \<open>Reachable client states\<close>

inductive client_reach :: "client \<Rightarrow> bool" where
  init: "client_reach \<lparr>cl_pending = [], cl_receipts = rs, cl_items = ls, cl_merchants = ms, cl_categories = cs\<rparr>"
| start: "client_reach c \<Longrightarrow> receiptId \<notin> keys_of pe_id (cl_pending c) \<Longrightarrow>
    client_reach (startReceipt expenseReportId receiptId file c)"
| returned: "client_reach c \<Longrightarrow> client_reach (pending_update receiptId (\<lambda>e. e\<lparr>pe_status := EXTRACTING\<rparr>) c)"
| message: "client_reach c \<Longrightarrow> on_message receiptId m c = Some c' \<Longrightarrow> client_reach c'"

definition pending_ok :: "pending \<Rightarrow> bool" where
  "pending_ok pe \<longleftrightarrow> pe_status pe \<noteq> DONE \<and>
     (case pe_partial pe of None \<Rightarrow> True | Some obj \<Rightarrow> obj ''tip'' = None \<and> obj ''currency'' = None)"

text \<open>The status of the entry of an upload, when the collection holds one whose partial
  object is present.\<close>

definition entry_status :: "id \<Rightarrow> client \<Rightarrow> extraction_status \<Rightarrow> bool" where
  "entry_status i c s \<longleftrightarrow> (\<exists>pe. find_by pe_id i (cl_pending c) = Some pe \<and> pe_status pe = s \<and> pe_partial pe \<noteq> None)"

subsection \<open>The message loop, the pending entries and the collection handlers\<close>

lemma apply_partial_tip:
  "apply_partial p obj = Some obj' \<Longrightarrow> obj' ''tip'' = obj ''tip'' \<and> obj' ''currency'' = obj ''currency''"
  by (auto simp: apply_partial_def Let_def split: option.splits json.splits)

lemma apply_partial_ok: "items_ok p \<Longrightarrow> \<exists>obj'. apply_partial p obj = Some obj'"
  by (auto simp: apply_partial_def items_ok_def Let_def split: option.splits json.splits)

lemma set_pending_update:
  "pe' \<in> set (cl_pending (pending_update i f c)) \<Longrightarrow> pe' \<in> set (cl_pending c) \<or> (\<exists>pe \<in> set (cl_pending c). pe_id pe = i \<and> pe' = f pe)"
  by (auto simp: pending_update_def)

lemma pending_ok_on_message:
  assumes "\<forall>pe \<in> set (cl_pending c). pending_ok pe" and "on_message i m c = Some c'"
  shows "\<forall>pe \<in> set (cl_pending c'). pending_ok pe"
proof (cases m)
  case (Partial p)
  show ?thesis
  proof
    fix pe' assume pe': "pe' \<in> set (cl_pending c')"
    show "pending_ok pe'"
    proof (cases "c' = c")
      case True with pe' assms(1) show ?thesis by simp
    next
      case False
      then obtain pe obj obj' where f: "find_by pe_id i (cl_pending c) = Some pe" "pe_partial pe = Some obj"
        and a: "apply_partial p obj = Some obj'"
        and c': "c' = pending_update i (\<lambda>e. e\<lparr>pe_partial := Some obj'\<rparr>) c"
        using assms(2) Partial by (auto split: if_splits option.splits)
      have "obj' ''tip'' = None \<and> obj' ''currency'' = None"
        using apply_partial_tip [OF a] assms(1) find_by_SomeD [OF f(1)] f(2) by (auto simp: pending_ok_def)
      have "pe' \<in> set (cl_pending c) \<or> (\<exists>pe \<in> set (cl_pending c). pe_id pe = i \<and> pe' = pe\<lparr>pe_partial := Some obj'\<rparr>)"
        using pe' unfolding c' by (rule set_pending_update)
      then show ?thesis using assms(1) \<open>obj' ''tip'' = None \<and> obj' ''currency'' = None\<close>
        by (auto simp: pending_ok_def)
    qed
  qed
next
  case (Finished res)
  with assms show ?thesis by auto
qed

lemma client_reach_pending_inv: "client_reach c \<Longrightarrow> \<forall>pe \<in> set (cl_pending c). pending_ok pe"
proof (induction rule: client_reach.induct)
  case (start c receiptId expenseReportId f)
  then show ?case by (simp add: startReceipt_def pending_ok_def)
next
  case (returned c receiptId)
  then show ?case by (auto simp: pending_ok_def dest!: set_pending_update)
next
  case (message c receiptId m c')
  then show ?case using pending_ok_on_message by blast
qed simp

text \<open>C18. In every client state reachable by uploads, returned calls and streamed messages, no pending extraction is ever DONE (the status exists in the schema but the code deletes the entry instead), and the partial object shown while extracting never receives a tip or a currency: the preview shows a tip of 0 until the extraction finishes.\<close>

theorem client_reach_pending_ok:
  "client_reach c \<Longrightarrow> \<forall>pe \<in> set (cl_pending c). pe_status pe \<noteq> DONE \<and>
     (\<forall>obj. pe_partial pe = Some obj \<longrightarrow> obj ''tip'' = None \<and> obj ''currency'' = None)"
  by (drule client_reach_pending_inv) (auto simp: pending_ok_def split: option.splits)

lemma entry_status_startReceipt:
  assumes "i \<notin> keys_of pe_id (cl_pending c)"
  shows "entry_status i (startReceipt rep i f c) PENDING"
proof -
  have "find_by pe_id i (cl_pending c) = None" using assms by (simp add: find_by_None_iff)
  then show ?thesis by (simp add: entry_status_def startReceipt_def find_by_snoc)
qed

lemma entry_status_pending_update:
  assumes "entry_status i c s" and "\<And>e. pe_id (g e) = pe_id e" "\<And>e. pe_partial e \<noteq> None \<Longrightarrow> pe_partial (g e) \<noteq> None"
  shows "\<exists>pe. find_by pe_id i (cl_pending (pending_update i g c)) = Some (g pe) \<and>
    find_by pe_id i (cl_pending c) = Some pe \<and> pe_partial (g pe) \<noteq> None"
proof -
  obtain pe where pe: "find_by pe_id i (cl_pending c) = Some pe" "pe_partial pe \<noteq> None"
    using assms(1) by (auto simp: entry_status_def)
  have "pe_id pe = i" using find_by_SomeD [OF pe(1)] by simp
  then have "find_by pe_id i (cl_pending (pending_update i g c)) = Some (g pe)"
    using pe(1) assms(2) by (simp add: pending_update_def find_by_map_same_key)
  then show ?thesis using pe assms(3) by blast
qed

lemma entry_status_extracting:
  "entry_status i c s \<Longrightarrow> entry_status i (pending_update i (\<lambda>e. e\<lparr>pe_status := EXTRACTING\<rparr>) c) EXTRACTING"
  using entry_status_pending_update [of i c s "\<lambda>e. e\<lparr>pe_status := EXTRACTING\<rparr>"]
  by (auto simp: entry_status_def)

lemma on_message_partial_step:
  assumes "items_ok p" and "entry_status i c s"
  shows "\<exists>c'. on_message i (Partial p) c = Some c' \<and> entry_status i c' s \<and> cl_receipts c' = cl_receipts c"
proof (cases "js_falsy p")
  case False
  obtain pe obj where pe: "find_by pe_id i (cl_pending c) = Some pe" "pe_status pe = s" "pe_partial pe = Some obj"
    using assms(2) by (auto simp: entry_status_def)
  obtain obj' where a: "apply_partial p obj = Some obj'" using apply_partial_ok [OF assms(1)] by blast
  let ?c' = "pending_update i (\<lambda>e. e\<lparr>pe_partial := Some obj'\<rparr>) c"
  obtain pe2 where "find_by pe_id i (cl_pending ?c') = Some (pe2\<lparr>pe_partial := Some obj'\<rparr>)"
      "find_by pe_id i (cl_pending c) = Some pe2"
    using entry_status_pending_update [OF assms(2), of "\<lambda>e. e\<lparr>pe_partial := Some obj'\<rparr>"] by auto
  then have "entry_status i ?c' s" using pe by (simp add: entry_status_def)
  moreover have "on_message i (Partial p) c = Some ?c'" using False pe a by simp
  ultimately show ?thesis by (simp add: pending_update_def)
qed (use assms in simp)

lemma on_messages_append:
  "on_messages i (xs @ ys) c = (case on_messages i xs c of None \<Rightarrow> None | Some c' \<Rightarrow> on_messages i ys c')"
  by (induction xs arbitrary: c) (simp_all split: option.splits)

lemma on_messages_partials:
  "list_all items_ok ps \<Longrightarrow> entry_status i c s \<Longrightarrow>
     \<exists>c'. on_messages i (map Partial ps) c = Some c' \<and> entry_status i c' s \<and> cl_receipts c' = cl_receipts c"
proof (induction ps arbitrary: c)
  case (Cons p ps)
  then have "items_ok p" "list_all items_ok ps" by simp_all
  then obtain c1 where c1: "on_message i (Partial p) c = Some c1" "entry_status i c1 s" "cl_receipts c1 = cl_receipts c"
    using on_message_partial_step Cons.prems(2) by blast
  then obtain c2 where "on_messages i (map Partial ps) c1 = Some c2" "entry_status i c2 s" "cl_receipts c2 = cl_receipts c1"
    using Cons.IH [OF \<open>list_all items_ok ps\<close>] by blast
  with c1 show ?case by (simp del: on_message.simps)
qed simp

lemma write_insert_in: "r \<in> set (write_insert key r rows)"
  by (simp add: write_insert_def replace_by_in)

text \<open>C19. The merchant and category collections are keyed by normalized name, and onDelete sends the keys: deleting a merchant sends its normalized name as a merchant id, and deleting a category sends it as an expense report id, so the delete fails with record-not-found whenever no row has such an id.\<close>

theorem collection_delete_sends_key:
  "(mc_normalizedName m \<notin> keys_of mc_id (merchants d) \<longrightarrow>
      run_action s now (merchant_sync MDelete [m]) d = Inl (DbError (RecordNotFound ''Merchant''))) \<and>
   (ct_normalizedName c \<notin> keys_of rp_id (reports d) \<longrightarrow>
      run_action s now (category_sync MDelete [c]) d = Inl (DbError (RecordNotFound ''ExpenseReport'')))"
  by (simp add: merchant_sync_def category_sync_def deleteMerchants_def deleteCategories_def commit_def
      run_tx_def merchant_delete_def report_delete_def)

text \<open>Pressing Enter in the category search with the name of an existing category (in any case) creates a category whose insert fails on the normalized-name index, and the receipt update to the new category's id then fails on the category foreign key.\<close>

theorem category_enter_duplicate:
  assumes "db_wf d" "length search > 0" "toUpperCase search \<in> keys_of ct_normalizedName (categories d)"
    and "newId \<notin> keys_of ct_id (categories d)" "rc \<in> set (receipts d)"
    and "report_owned_by d (u_id u) (rc_expenseReportId rc)"
  shows "\<exists>cat. category_enter search newId = Some cat \<and>
     run_action s now (category_sync MInsert [cat]) d = Inl (DbError (UniqueViolation ''Category.normalizedName'')) \<and>
     run_action (Some u) now (receipt_sync MUpdate [rc\<lparr>rc_categoryId := newId\<rparr>]) d =
       Inl (DbError (ForeignKeyViolation ''Receipt.categoryId''))"
proof -
  have "rc_id rc \<in> set (getOwnedReceipts [rc_id rc] (u_id u) d)"
    using assms(5,6) by (force simp: getOwnedReceipts_def)
  moreover have "rc_expenseReportId rc \<in> keys_of rp_id (reports d)" "rc_merchantId rc \<in> keys_of mc_id (merchants d)"
    using assms(1,5) by (auto simp: db_wf_def)
  moreover have "rc_id rc \<in> keys_of rc_id (receipts d)" using assms(5) by (simp add: keys_of_def)
  ultimately show ?thesis using assms(2-4)
    by (simp add: category_enter_def category_sync_def receipt_sync_def createCategories_def updateReceipts_def
        commit_def run_tx_def category_insert_def receipt_update_def may_write_def)
qed

subsection \<open>The message loop as it runs\<close>

lemma for_await_returns:
  assumes "for_await i st k c = Some y"
  shows "st_closed st \<or> on_messages i (drop k (st_values st)) c = None"
  using assms
proof (induction i st k c y rule: for_await.raw_induct [rotated, consumes 1])
  case (1 f i st k c y)
  show ?case
  proof (cases "k < length (st_values st)")
    case True
    then have d: "drop k (st_values st) = st_values st ! k # drop (Suc k) (st_values st)"
      by (simp add: Cons_nth_drop_Suc)
    show ?thesis
    proof (cases "on_message i (st_values st ! k) c")
      case None
      then show ?thesis using d by simp
    next
      case (Some c')
      then have "f i st (Suc k) c' = Some y" using 1(2) True by simp
      then show ?thesis using 1(1) d Some by simp
    qed
  next
    case False
    show ?thesis
    proof (cases "st_closed st")
      case False
      then have "f i st k c = Some y" using 1(2) \<open>\<not> k < length (st_values st)\<close> by simp
      then show ?thesis by (rule 1(1))
    qed simp
  qed
qed

lemma for_await_ends:
  "st_closed st \<or> on_messages i (drop k (st_values st)) c = None \<Longrightarrow>
     for_await i st k c = (if st_closed st then Some (on_messages i (drop k (st_values st)) c) else Some None)"
proof (induction "length (st_values st) - k" arbitrary: k c)
  case 0
  then show ?case by (subst for_await.simps) simp
next
  case (Suc n)
  then have k: "k < length (st_values st)" by simp
  then have d: "drop k (st_values st) = st_values st ! k # drop (Suc k) (st_values st)"
    by (simp add: Cons_nth_drop_Suc)
  show ?case
  proof (cases "on_message i (st_values st ! k) c")
    case None
    then show ?thesis using k d by (subst for_await.simps) simp
  next
    case (Some c')
    have "for_await i st (Suc k) c' =
        (if st_closed st then Some (on_messages i (drop (Suc k) (st_values st)) c') else Some None)"
      using Suc.hyps(1) [of "Suc k" c'] Suc.hyps(2) Suc.prems d Some by simp
    then show ?thesis using k d Some by (subst for_await.simps) simp
  qed
qed


end
