(* ===== verification/Client_Views.thy ===== *)
theory Client_Views
  imports Database
begin

text \<open>
  The computations of the report screens over the client collections: the receipt card's
  subtotal and total (src/components/reports/receipt-view.tsx), the report's Total Spent
  (upload-form.tsx), its date range (src/hooks/use-report-date-range.ts), the two charts
  (src/components/reports/charts), the reports table's paging (src/app/reports/page.tsx)
  and the page switcher of a receipt's images (receipt-images-view.tsx).  A live query is
  the list it returns: \<open>where\<close> is \<open>filter\<close>, a join is the list of matching pairs in
  the order of the outer collection.  \<open>Number(...)\<close> of a Prisma decimal is the
  \<open>real\<close> itself; a date is a day number, so \<open>toLocaleDateString\<close> is injective.
  JavaScript's \<open>Number(string)\<close> is the parameter \<open>js_number\<close> (None for NaN and
  the infinities).  A JavaScript \<open>Map\<close> that accumulates totals is an association list
  updated with \<open>AList.update\<close>, which keeps the first insertion position of a key, as
  \<open>Map.set\<close> does.
\<close>

subsection \<open>Receipt card (receipt-view.tsx lines 33-47)\<close>

definition receipt_items :: "line_item list \<Rightarrow> id \<Rightarrow> line_item list" where
  "receipt_items items rid = filter (\<lambda>l. li_receiptId l = rid) items"

text \<open>\<open>(items[0]?.currency as string) || "USD"\<close>: the first item's currency, not the receipt's.\<close>

definition view_currency :: "line_item list \<Rightarrow> string" where
  "view_currency items = (case items of [] \<Rightarrow> ''USD''
     | l # _ \<Rightarrow> (case li_currency l of None \<Rightarrow> ''USD'' | Some c \<Rightarrow> if c = [] then ''USD'' else c))"

definition receipt_subtotal :: "line_item list \<Rightarrow> real" where
  "receipt_subtotal items = foldl (\<lambda>s it. s + li_unitPrice it * li_quantity it) 0 items"

definition receipt_total :: "line_item list \<Rightarrow> receipt \<Rightarrow> real" where
  "receipt_total items r = receipt_subtotal items + rc_tax r + rc_tip r"

subsection \<open>Total Spent of a report (upload-form.tsx lines 130-149)\<close>

text \<open>The line items joined with the receipts of the report, and the report's receipts
  (the rows of the full join with pending extractions that have no receipt add 0).\<close>

definition report_line_items :: "line_item list \<Rightarrow> receipt list \<Rightarrow> id \<Rightarrow> (line_item \<times> receipt) list" where
  "report_line_items items rcs reportId =
     concat (map (\<lambda>l. map (\<lambda>r. (l, r))
       (filter (\<lambda>r. li_receiptId l = rc_id r \<and> rc_expenseReportId r = reportId) rcs)) items)"

definition report_receipts :: "receipt list \<Rightarrow> id \<Rightarrow> receipt list" where
  "report_receipts rcs reportId = filter (\<lambda>r. rc_expenseReportId r = reportId) rcs"

definition totalPaid :: "(line_item \<times> receipt) list \<Rightarrow> receipt list \<Rightarrow> real" where
  "totalPaid lineItems rcps =
     foldl (\<lambda>t r. t + (rc_tax r + rc_tip r))
       (foldl (\<lambda>t p. t + li_quantity (fst p) * li_unitPrice (fst p)) 0 lineItems) rcps"

subsection \<open>Date range of a report (use-report-date-range.ts)\<close>

definition report_dates :: "receipt list \<Rightarrow> id \<Rightarrow> int list" where
  "report_dates rcs reportId = List.map_filter rc_date (report_receipts rcs reportId)"

definition useReportDateRange :: "receipt list \<Rightarrow> id \<Rightarrow> int option \<times> int option" where
  "useReportDateRange rcs reportId = (case report_dates rcs reportId of [] \<Rightarrow> (None, None)
     | d # ds \<Rightarrow> (Some (foldl (\<lambda>a b. if a < b then a else b) d ds),
                  Some (foldl (\<lambda>a b. if a < b then b else a) d ds)))"

subsection \<open>Charts\<close>

text \<open>\<open>if (!m.has(k)) m.set(k, 0); m.set(k, m.get(k)! + v)\<close>.\<close>

definition map_add_to :: "('k \<times> real) list \<Rightarrow> 'k \<Rightarrow> real \<Rightarrow> ('k \<times> real) list" where
  "map_add_to m k v = AList.update k ((case map_of m k of None \<Rightarrow> 0 | Some x \<Rightarrow> x) + v) m"

text \<open>spend-by-category.tsx lines 34-62: line items and receipts inner-joined with their
  category, totals by category name.\<close>

definition spend_by_category :: "(line_item \<times> receipt \<times> category) list \<Rightarrow> (receipt \<times> category) list \<Rightarrow>
    (string \<times> real) list" where
  "spend_by_category lineItems rcps =
     foldl (\<lambda>m p. map_add_to m (ct_name (snd p)) (rc_tax (fst p) + rc_tip (fst p)))
       (foldl (\<lambda>m p. map_add_to m (ct_name (snd (snd p))) (li_quantity (fst p) * li_unitPrice (fst p)))
          [] lineItems) rcps"

text \<open>spend-by-day.tsx lines 31-67: totals by date, \<open>None\<close> for "(No date)", then one bar
  per day of the report's date range (\<open>end ?? new Date()\<close>: \<open>today\<close>).\<close>

definition totals_by_day :: "(line_item \<times> receipt) list \<Rightarrow> receipt list \<Rightarrow> (int option \<times> real) list" where
  "totals_by_day lineItems rcps =
     foldl (\<lambda>m r. map_add_to m (rc_date r) (rc_tax r + rc_tip r))
       (foldl (\<lambda>m p. map_add_to m (rc_date (snd p)) (li_quantity (fst p) * li_unitPrice (fst p)))
          [] lineItems) rcps"

definition spend_by_day :: "int \<Rightarrow> int option \<times> int option \<Rightarrow> (line_item \<times> receipt) list \<Rightarrow> receipt list \<Rightarrow>
    (int \<times> real) list" where
  "spend_by_day today dr lineItems rcps = (case dr of (None, _) \<Rightarrow> []
     | (Some start, e) \<Rightarrow>
         (let totals = totals_by_day lineItems rcps; endToUse = nullish e today
          in map (\<lambda>day. (day, nullish (map_of totals (Some day)) 0)) [start..endToUse]))"

text \<open>The joins of the category chart (lines 20-32): line item, receipt, category; receipt,
  category.\<close>

definition category_line_items :: "line_item list \<Rightarrow> receipt list \<Rightarrow> category list \<Rightarrow> id \<Rightarrow>
    (line_item \<times> receipt \<times> category) list" where
  "category_line_items items rcs cats rid =
     concat (map (\<lambda>p. map (\<lambda>c. (fst p, snd p, c)) (filter (\<lambda>c. rc_categoryId (snd p) = ct_id c) cats))
       (report_line_items items rcs rid))"


definition category_receipts :: "receipt list \<Rightarrow> category list \<Rightarrow> id \<Rightarrow> (receipt \<times> category) list" where
  "category_receipts rcs cats rid =
     concat (map (\<lambda>r. map (\<lambda>c. (r, c)) (filter (\<lambda>c. rc_categoryId r = ct_id c) cats)) (report_receipts rcs rid))"



text \<open>A running total of the accumulated map, 0 for a key it does not have.\<close>

definition total_of :: "('k \<times> real) list \<Rightarrow> 'k \<Rightarrow> real" where
  "total_of m k = nullish (map_of m k) 0"


subsection \<open>Reports table paging (reports/page.tsx lines 15-46)\<close>

definition parseIntOr :: "(string option \<Rightarrow> real option) \<Rightarrow> string option \<Rightarrow> int \<Rightarrow> int" where
  "parseIntOr js_number v defaultN =
     (case js_number v of Some n \<Rightarrow> (if n > 0 then \<lfloor>n\<rfloor> else defaultN) | None \<Rightarrow> defaultN)"

text \<open>\<open>orderBy(updatedAt, desc).offset((page - 1) * pageSize).limit(pageSize)\<close>; a
  negative offset is taken as 0.\<close>

definition reports_page :: "expense_report list \<Rightarrow> int \<Rightarrow> int \<Rightarrow> expense_report list" where
  "reports_page rs page pageSize =
     take (nat pageSize) (drop (nat ((page - 1) * pageSize)) (sort_key (\<lambda>r. - int (rp_updatedAt r)) rs))"

definition totalPages :: "expense_report list \<Rightarrow> int \<Rightarrow> int" where
  "totalPages shown pageSize = max 1 \<lceil>real (length shown) / real_of_int pageSize\<rceil>"

text \<open>The Next link: its target and whether it is disabled.\<close>

definition next_link :: "int \<Rightarrow> int \<Rightarrow> int \<times> bool" where
  "next_link page tp = (min tp (page + 1), page \<ge> tp)"

subsection \<open>Receipt image pages (receipt-images-view.tsx lines 9-28)\<close>

datatype pager_click = PrevPage | NextPage

fun pager_step :: "nat \<Rightarrow> nat \<Rightarrow> pager_click \<Rightarrow> nat" where
  "pager_step pageCount p PrevPage = max (p - 1) 1"
| "pager_step pageCount p NextPage = min (p + 1) pageCount"

definition pager_run :: "nat \<Rightarrow> pager_click list \<Rightarrow> nat" where
  "pager_run pageCount clicks = foldl (pager_step pageCount) 1 clicks"

definition image_url :: "id \<Rightarrow> nat \<Rightarrow> string" where
  "image_url receiptId currentPage = ''/api/receipt/file?id='' @ receiptId @ ''&page='' @ show_nat currentPage"

subsection \<open>Totals, charts, date range and paging\<close>

lemma receipt_subtotal_sum:
  "receipt_subtotal items = sum_list (map (\<lambda>it. li_quantity it * li_unitPrice it) items)"
proof -
  have "sum_list (map (\<lambda>it. li_unitPrice it * li_quantity it) xs) =
      sum_list (map (\<lambda>it. li_quantity it * li_unitPrice it) xs)" for xs
    by (induction xs) (simp_all add: mult.commute)
  then show ?thesis by (simp add: receipt_subtotal_def foldl_add_sum_list)
qed

lemma report_line_items_sum:
  "sum_list (map (\<lambda>p. F (fst p) (snd p)) (report_line_items items rcs rid)) =
     sum_list (map (\<lambda>r. sum_list (map (\<lambda>l. F l r) (receipt_items items (rc_id r)))) (report_receipts rcs rid))"
  for F :: "_ \<Rightarrow> _ \<Rightarrow> 'a::comm_monoid_add"
proof -
  let ?P = "\<lambda>l r. li_receiptId l = rc_id r \<and> rc_expenseReportId r = rid"
  have "sum_list (map (\<lambda>p. F (fst p) (snd p)) (report_line_items items rcs rid)) =
      sum_list (map (\<lambda>l. sum_list (map (\<lambda>r. if ?P l r then F l r else 0) rcs)) items)"
    unfolding report_line_items_def by (rule sum_list_join)
  also have "\<dots> = sum_list (map (\<lambda>r. sum_list (map (\<lambda>l. if ?P l r then F l r else 0) items)) rcs)"
    by (rule sum_list_swap)
  finally show ?thesis
    by (simp add: report_receipts_def receipt_items_def sum_list_map_filter' sum_list_if_conj)
qed

text \<open>C16. The report's Total Spent (upload-form.tsx) equals the sum of the totals the receipt cards show (receipt-view.tsx: subtotal of the receipt's items plus tax plus tip) over the report's receipts.\<close>

theorem totalPaid_eq_receipt_totals:
  "totalPaid (report_line_items items rcs rid) (report_receipts rcs rid) =
     sum_list (map (\<lambda>r. receipt_total (receipt_items items (rc_id r)) r) (report_receipts rcs rid))"
  using report_line_items_sum [where F = "\<lambda>l r. li_quantity l * li_unitPrice l"]
  by (simp add: totalPaid_def foldl_add_sum_list receipt_total_def receipt_subtotal_sum sum_list_addf)

text \<open>The date range of a report is the earliest and the latest date of its dated receipts, and undefined when none is dated.\<close>

theorem useReportDateRange_min_max:
  "useReportDateRange rcs rid =
     (if report_dates rcs rid = [] then (None, None)
      else (Some (Min (set (report_dates rcs rid))), Some (Max (set (report_dates rcs rid)))))"
  by (cases "report_dates rcs rid") (simp_all add: useReportDateRange_def foldl_min_Min foldl_max_Max)

lemma sum_map_add_to:
  "distinct (map fst m) \<Longrightarrow> sum_list (map snd (map_add_to m k v)) = sum_list (map snd m) + v"
  by (induction m) (auto simp: map_add_to_def)

lemma distinct_map_add_to: "distinct (map fst m) \<Longrightarrow> distinct (map fst (map_add_to m k v))"
  by (simp add: map_add_to_def distinct_update)

lemma foldl_map_add_to:
  "distinct (map fst m) \<Longrightarrow>
     distinct (map fst (foldl (\<lambda>m x. map_add_to m (key x) (val x)) m xs)) \<and>
     sum_list (map snd (foldl (\<lambda>m x. map_add_to m (key x) (val x)) m xs)) = sum_list (map snd m) + sum_list (map val xs)"
  by (induction xs arbitrary: m) (simp_all add: distinct_map_add_to sum_map_add_to add.assoc)

lemma spend_by_category_sum:
  "sum_list (map snd (spend_by_category lis rps)) =
     sum_list (map (\<lambda>p. li_quantity (fst p) * li_unitPrice (fst p)) lis) + sum_list (map (\<lambda>p. rc_tax (fst p) + rc_tip (fst p)) rps)"
proof -
  let ?m = "foldl (\<lambda>m p. map_add_to m (ct_name (snd (snd p))) (li_quantity (fst p) * li_unitPrice (fst p))) [] lis"
  have "distinct (map fst ?m) \<and> sum_list (map snd ?m) = sum_list (map (\<lambda>p. li_quantity (fst p) * li_unitPrice (fst p)) lis)"
    using foldl_map_add_to [where m = "[]" and key = "\<lambda>p. ct_name (snd (snd p))"
        and val = "\<lambda>p. li_quantity (fst p) * li_unitPrice (fst p)" and xs = lis] by simp
  then show ?thesis
    using foldl_map_add_to [where m = ?m and key = "\<lambda>p. ct_name (snd p)"
        and val = "\<lambda>p. rc_tax (fst p) + rc_tip (fst p)" and xs = rps]
    by (simp add: spend_by_category_def)
qed

lemma report_line_items_receipt:
  "p \<in> set (report_line_items items rcs rid) \<Longrightarrow> snd p \<in> set (report_receipts rcs rid)"
  by (auto simp: report_line_items_def report_receipts_def)

text \<open>When every receipt of the report has its category loaded, the bars of the Spend by Category chart add up to the report's Total Spent.\<close>

theorem spend_by_category_total:
  assumes "unique_by ct_id cats" and "\<forall>r \<in> set (report_receipts rcs rid). rc_categoryId r \<in> keys_of ct_id cats"
  shows "sum_list (map snd (spend_by_category (category_line_items items rcs cats rid) (category_receipts rcs cats rid))) =
     totalPaid (report_line_items items rcs rid) (report_receipts rcs rid)"
proof -
  have one: "\<exists>c. filter (\<lambda>c. rc_categoryId r = ct_id c) cats = [c]" if "r \<in> set (report_receipts rcs rid)" for r
    using filter_unique_key [OF assms(1)] assms(2) that by blast
  have "sum_list (map (\<lambda>t. li_quantity (fst t) * li_unitPrice (fst t)) (category_line_items items rcs cats rid)) =
      sum_list (map (\<lambda>p. li_quantity (fst p) * li_unitPrice (fst p)) (report_line_items items rcs rid))"
    unfolding category_line_items_def
    by (rule sum_list_join_one) (auto intro: one report_line_items_receipt)
  moreover have "sum_list (map (\<lambda>t. rc_tax (fst t) + rc_tip (fst t)) (category_receipts rcs cats rid)) =
      sum_list (map (\<lambda>r. rc_tax r + rc_tip r) (report_receipts rcs rid))"
    unfolding category_receipts_def
    by (rule sum_list_join_one) (auto intro: one)
  ultimately show ?thesis
    by (simp add: spend_by_category_sum totalPaid_def foldl_add_sum_list)
qed

text \<open>C17. On the reports table the page count is computed from the page already cut to pageSize, so it is always 1: the Next link is disabled and points to page 1 on every page, however many reports there are.\<close>

theorem next_page_never_enabled:
  assumes "0 < pageSize" and "1 \<le> page"
  shows "next_link page (totalPages (reports_page rs page pageSize) pageSize) = (1, True)"
proof -
  have "length (reports_page rs page pageSize) \<le> nat pageSize" by (simp add: reports_page_def)
  then have "real (length (reports_page rs page pageSize)) / real_of_int pageSize \<le> 1"
    using assms(1) by (simp add: divide_le_eq)
  then have "totalPages (reports_page rs page pageSize) pageSize = 1"
    by (simp add: totalPages_def ceiling_le_iff)
  then show ?thesis using assms(2) by (simp add: next_link_def)
qed

text \<open>parseIntOr accepts a pageSize between 0 and 1 and floors it to 0, so such a query parameter shows an empty table.\<close>

theorem fractional_page_size_empties_table:
  "js_number v = Some n \<Longrightarrow> 0 < n \<Longrightarrow> n < 1 \<Longrightarrow> reports_page rs page (parseIntOr js_number v 10) = []"
  by (simp add: parseIntOr_def reports_page_def floor_eq_iff)

text \<open>The page switcher of a receipt's images always shows a page between 1 and the receipt's page count.\<close>

theorem pager_in_range:
  assumes "1 \<le> pageCount"
  shows "1 \<le> pager_run pageCount clicks \<and> pager_run pageCount clicks \<le> pageCount"
proof -
  have "1 \<le> p \<Longrightarrow> p \<le> pageCount \<Longrightarrow>
      1 \<le> foldl (pager_step pageCount) p cs \<and> foldl (pager_step pageCount) p cs \<le> pageCount" for p cs
  proof (induction cs arbitrary: p)
    case (Cons c cs)
    then show ?case using assms by (cases c) auto
  qed simp
  then show ?thesis using assms by (simp add: pager_run_def)
qed

lemma total_of_map_add_to: "total_of (map_add_to m k' v) k = total_of m k + (if k = k' then v else 0)"
  by (cases "map_of m k'") (auto simp: total_of_def map_add_to_def update_conv')

lemma total_of_foldl:
  "total_of (foldl (\<lambda>m x. map_add_to m (key x) (val x)) m xs) k =
     total_of m k + sum_list (map (\<lambda>x. if key x = k then val x else 0) xs)"
  by (induction xs arbitrary: m) (simp_all add: total_of_map_add_to add.assoc)

text \<open>The bars of the Spend by Day chart add up to the totals of the report's dated receipts only: the spend of a receipt without a date is counted in Total Spent but appears in no bar.\<close>

theorem spend_by_day_omits_undated:
  "sum_list (map snd (spend_by_day today (useReportDateRange rcs rid) (report_line_items items rcs rid)
      (report_receipts rcs rid))) =
   sum_list (map (\<lambda>r. receipt_total (receipt_items items (rc_id r)) r)
      (filter (\<lambda>r. rc_date r \<noteq> None) (report_receipts rcs rid)))"
  (is "?lhs = ?rhs")
proof -
  let ?L = "report_line_items items rcs rid" and ?R = "report_receipts rcs rid"
  let ?g = "\<lambda>p. li_quantity (fst p) * li_unitPrice (fst p)" and ?t = "\<lambda>r. rc_tax r + rc_tip r"
  let ?D = "\<lambda>P. sum_list (map (\<lambda>p. if P (rc_date (snd p)) then ?g p else 0) ?L) +
      sum_list (map (\<lambda>r. if P (rc_date r) then ?t r else 0) ?R)"
  have rhs: "?rhs = ?D (\<lambda>k. k \<noteq> None)"
  proof -
    have "?rhs = sum_list (map (\<lambda>r. if rc_date r \<noteq> None then receipt_subtotal (receipt_items items (rc_id r)) else 0) ?R)
        + sum_list (map (\<lambda>r. if rc_date r \<noteq> None then ?t r else 0) ?R)"
      by (simp add: sum_list_map_filter' receipt_total_def if_zero_add sum_list_addf add.assoc)
    also have "sum_list (map (\<lambda>r. if rc_date r \<noteq> None then receipt_subtotal (receipt_items items (rc_id r)) else 0) ?R) =
        sum_list (map (\<lambda>r. sum_list (map (\<lambda>l. if rc_date r \<noteq> None then li_quantity l * li_unitPrice l else 0)
          (receipt_items items (rc_id r)))) ?R)"
      by (simp add: receipt_subtotal_sum sum_list_if_const cong: if_cong)
    also have "\<dots> = sum_list (map (\<lambda>p. if rc_date (snd p) \<noteq> None then ?g p else 0) ?L)"
      by (rule report_line_items_sum [symmetric])
    finally show ?thesis .
  qed
  show ?thesis
  proof (cases "report_dates rcs rid = []")
    case True
    then have "\<forall>r \<in> set ?R. rc_date r = None"
      by (auto simp: report_dates_def map_filter_def filter_empty_conv)
    moreover have "\<forall>p \<in> set ?L. rc_date (snd p) = None"
      using calculation report_line_items_receipt by blast
    ultimately show ?thesis using True rhs
      by (simp add: useReportDateRange_min_max spend_by_day_def)
  next
    case False
    let ?ds = "set (report_dates rcs rid)"
    let ?days = "[Min ?ds..Max ?ds]"
    have dated: "rc_date r \<in> Some ` set ?days \<longleftrightarrow> rc_date r \<noteq> None" if "r \<in> set ?R" for r
    proof (cases "rc_date r")
      case (Some d)
      then have "d \<in> ?ds" using that by (force simp: report_dates_def map_filter_def)
      then show ?thesis using Some by simp
    qed simp
    have tot: "total_of (totals_by_day ?L ?R) (Some day) = ?D (\<lambda>k. k = Some day)" for day
      by (simp only: totals_by_day_def total_of_foldl) (simp add: total_of_def)
    have "?lhs = sum_list (map (\<lambda>day. total_of (totals_by_day ?L ?R) (Some day)) ?days)"
      using False by (simp add: useReportDateRange_min_max spend_by_day_def total_of_def comp_def)
    also have "\<dots> = ?D (\<lambda>k. k \<in> Some ` set ?days)"
      by (simp add: tot sum_list_addf sum_list_swap [where xs = ?days] sum_list_upto_indicator)
    also have "\<dots> = ?D (\<lambda>k. k \<noteq> None)"
      using dated report_line_items_receipt
      by (intro arg_cong2 [where f = "(+)"] arg_cong [where f = sum_list] map_cong) auto
    finally show ?thesis using rhs by simp
  qed
qed

end
