(* ===== verification/Js_Number.thy ===== *)
theory Js_Number
  imports Js_String
begin

text \<open>
  The JavaScript conversions between strings and numbers that the receipt screen uses:
  \<open>parseFloat\<close> (the tip and tax editors of receipt-view.tsx), \<open>Number(s)\<close> as called by
  \<open>z.coerce.number()\<close> (the line item editor) and \<open>x.toFixed(2)\<close> (the editors' default
  values).  Numbers are exact reals: the rounding of decimal literals to doubles is not
  modelled, and neither are the infinite values.  \<open>None\<close> is \<open>NaN\<close>; the literal
  \<open>Infinity\<close>, which both conversions accept and which \<open>z.number()\<close> of Zod 4 rejects, reads
  as \<open>None\<close>.  \<open>toFixed\<close> is modelled for the values below \<open>10^21\<close>, where it prints
  fixed-point digits.
\<close>

text \<open>WhiteSpace and LineTerminator code units of the 8-bit range (tab, line feed, vertical
  tab, form feed, carriage return, space, no-break space).\<close>

definition is_js_space :: "char \<Rightarrow> bool" where
  "is_js_space c \<longleftrightarrow> (of_char c :: nat) \<in> {9, 10, 11, 12, 13, 32, 160}"

definition trim :: "string \<Rightarrow> string" where
  "trim s = rev (dropWhile is_js_space (rev (dropWhile is_js_space s)))"

text \<open>ExponentPart: \<open>e\<close> or \<open>E\<close>, an optional sign and at least one digit; otherwise
  nothing is consumed.\<close>

definition read_exp :: "string \<Rightarrow> int \<times> string" where
  "read_exp s = (case s of
       c # r \<Rightarrow>
         (if c = CHR ''e'' \<or> c = CHR ''E'' then
            (let (sg, r') = (case r of
                    d # r2 \<Rightarrow> (if d = CHR ''-'' then (-1, r2) else if d = CHR ''+'' then (1, r2) else (1, r))
                  | [] \<Rightarrow> (1, r));
                 ds = takeWhile is_digit r'
             in if ds = [] then (0, s) else (sg * int (read_nat ds), dropWhile is_digit r'))
          else (0, s))
     | [] \<Rightarrow> (0, []))"

definition decimal_value :: "string \<Rightarrow> string \<Rightarrow> int \<Rightarrow> real" where
  "decimal_value ip fp e =
     (real (read_nat ip) + real (read_nat fp) / 10 ^ length fp) *
     (if 0 \<le> e then 10 ^ nat e else 1 / 10 ^ nat (- e))"

text \<open>StrUnsignedDecimalLiteral, read from the front of a string: the value and the rest.
  Digits with an optional fraction (\<open>1.\<close> and \<open>.5\<close> included, \<open>.\<close> alone excluded) and an
  optional exponent.\<close>

definition read_unsigned :: "string \<Rightarrow> (real \<times> string) option" where
  "read_unsigned s =
     (let ip = takeWhile is_digit s; r1 = dropWhile is_digit s;
          (fp, r2) = (case r1 of
              c # r \<Rightarrow> (if c = CHR ''.'' then (takeWhile is_digit r, dropWhile is_digit r) else ([], r1))
            | [] \<Rightarrow> ([], []))
      in if ip = [] \<and> fp = [] then None
         else (let (e, r3) = read_exp r2 in Some (decimal_value ip fp e, r3)))"

definition read_signed :: "string \<Rightarrow> (real \<times> string) option" where
  "read_signed s = (case s of
       c # r \<Rightarrow>
         (if c = CHR ''-'' then map_option (\<lambda>(v, t). (- v, t)) (read_unsigned r)
          else if c = CHR ''+'' then read_unsigned r else read_unsigned s)
     | [] \<Rightarrow> None)"

text \<open>\<open>parseFloat(s)\<close>: leading white space skipped, the longest decimal prefix read, the
  rest ignored.\<close>

definition parseFloat :: "string \<Rightarrow> real option" where
  "parseFloat s = map_option fst (read_signed (dropWhile is_js_space s))"

text \<open>Digits of the non-decimal integer literals \<open>0x\<close>, \<open>0o\<close> and \<open>0b\<close>.\<close>

definition radix_digit :: "nat \<Rightarrow> char \<Rightarrow> nat option" where
  "radix_digit b c =
     (let n = (of_char c :: nat);
          v = (if 48 \<le> n \<and> n \<le> 57 then n - 48 else if 97 \<le> n \<and> n \<le> 102 then n - 87
               else if 65 \<le> n \<and> n \<le> 70 then n - 55 else 16)
      in if v < b then Some v else None)"

definition read_radix :: "nat \<Rightarrow> string \<Rightarrow> nat option" where
  "read_radix b s =
     (if s \<noteq> [] \<and> list_all (\<lambda>c. radix_digit b c \<noteq> None) s
      then Some (foldl (\<lambda>acc c. b * acc + the (radix_digit b c)) 0 s) else None)"

text \<open>\<open>Number(s)\<close> of a string (StringToNumber): the trimmed string must be empty (giving 0),
  a non-decimal integer literal, or a signed decimal literal with nothing after it.\<close>

definition js_Number :: "string \<Rightarrow> real option" where
  "js_Number s =
     (let t = trim s in
      if t = [] then Some 0
      else (case t of
          c0 # c1 # r \<Rightarrow>
            (if c0 = CHR ''0'' \<and> (c1 = CHR ''x'' \<or> c1 = CHR ''X'') then map_option real (read_radix 16 r)
             else if c0 = CHR ''0'' \<and> (c1 = CHR ''o'' \<or> c1 = CHR ''O'') then map_option real (read_radix 8 r)
             else if c0 = CHR ''0'' \<and> (c1 = CHR ''b'' \<or> c1 = CHR ''B'') then map_option real (read_radix 2 r)
             else (case read_signed t of Some (v, []) \<Rightarrow> Some v | _ \<Rightarrow> None))
        | _ \<Rightarrow> (case read_signed t of Some (v, []) \<Rightarrow> Some v | _ \<Rightarrow> None)))"

text \<open>\<open>x.toFixed(2)\<close> for \<open>|x| < 10^21\<close>: the integer \<open>n\<close> with \<open>n/100\<close> nearest to \<open>|x|\<close>,
  the larger on a tie, printed with two fraction digits, after a minus sign when \<open>x < 0\<close>.\<close>

definition cents :: "real \<Rightarrow> nat" where
  "cents x = nat \<lfloor>\<bar>x\<bar> * 100 + 1 / 2\<rfloor>"

definition fixed2_digits :: "nat \<Rightarrow> string" where
  "fixed2_digits n = show_nat (n div 100) @ CHR ''.'' # [digit_char (n mod 100 div 10), digit_char (n mod 10)]"

definition toFixed2 :: "real \<Rightarrow> string" where
  "toFixed2 x = (if x < 0 then ''-'' else []) @ fixed2_digits (cents x)"

text \<open>The value \<open>toFixed(2)\<close> denotes: \<open>x\<close> rounded to cents, halves away from zero.\<close>

definition round_cents :: "real \<Rightarrow> real" where
  "round_cents x = (if x < 0 then - (real (cents x) / 100) else real (cents x) / 100)"

subsection \<open>Reading digits\<close>

lemma is_digit_not_space [simp]: "is_digit c \<Longrightarrow> \<not> is_js_space c"
  by (auto simp: is_digit_def is_js_space_def)

lemma takeWhile_digits_append:
  "list_all is_digit ds \<Longrightarrow> \<not> is_digit c \<Longrightarrow> takeWhile is_digit (ds @ c # r) = ds"
  by (induction ds) auto

lemma dropWhile_digits_append:
  "list_all is_digit ds \<Longrightarrow> \<not> is_digit c \<Longrightarrow> dropWhile is_digit (ds @ c # r) = c # r"
  by (induction ds) auto

lemma not_digit_dot [simp]: "\<not> is_digit (CHR ''.'')"
  by (simp add: is_digit_def)

lemma read_nat_two_digits:
  "a < 10 \<Longrightarrow> b < 10 \<Longrightarrow> read_nat [digit_char a, digit_char b] = 10 * a + b"
  by (simp add: read_nat_def of_char_digit_char)

lemma read_unsigned_fixed:
  assumes "list_all is_digit ds" "ds \<noteq> []" "a < 10" "b < 10"
  shows "read_unsigned (ds @ CHR ''.'' # [digit_char a, digit_char b]) =
     Some (real (read_nat ds) + real (10 * a + b) / 100, [])"
proof -
  have "takeWhile is_digit [digit_char a, digit_char b] = [digit_char a, digit_char b]"
       "dropWhile is_digit [digit_char a, digit_char b] = []"
    using assms(3,4) by simp_all
  then show ?thesis
    using assms by (simp add: read_unsigned_def takeWhile_digits_append dropWhile_digits_append
        read_exp_def decimal_value_def read_nat_two_digits)
qed



lemma digit_not_sign [simp]: "is_digit c \<Longrightarrow> c \<noteq> CHR ''-'' \<and> c \<noteq> CHR ''+''"
  by (auto simp: is_digit_def)

lemma read_signed_digit:
  "is_digit c \<Longrightarrow> read_signed (c # r) = read_unsigned (c # r)"
  by (simp add: read_signed_def)

lemma fixed2_digits_Cons: "\<exists>c r. fixed2_digits n = c # r \<and> is_digit c"
proof -
  obtain c r where "show_nat (n div 100) = c # r" using show_nat_ne by (meson list.exhaust)
  moreover have "is_digit c" using calculation show_nat_digits by (metis list.set_intros(1))
  ultimately show ?thesis by (simp add: fixed2_digits_def)
qed

lemma read_unsigned_fixed2_digits: "read_unsigned (fixed2_digits n) = Some (real n / 100, [])"
proof -
  have "10 * (n mod 100 div 10) + n mod 10 = n mod 100"
    using div_mult_mod_eq [of "n mod 100" 10] by (simp add: mod_mod_cancel mult.commute)
  moreover have "real n = 100 * real (n div 100) + real (n mod 100)"
    by (metis of_nat_add of_nat_mult of_nat_numeral div_mult_mod_eq mult.commute)
  moreover have "n mod 100 div 10 < 10" by simp
  ultimately show ?thesis
    using read_unsigned_fixed [OF show_nat_all_digits show_nat_ne, of "n mod 100 div 10" "n mod 10" "n div 100"]
    by (simp add: fixed2_digits_def field_simps)
qed

text \<open>Printing with \<open>toFixed(2)\<close> and reading back with \<open>parseFloat\<close> rounds to cents.\<close>

lemma parseFloat_toFixed2 [js_simps]: "parseFloat (toFixed2 x) = Some (round_cents x)"
proof -
  obtain c r where cr: "fixed2_digits (cents x) = c # r" "is_digit c" using fixed2_digits_Cons by blast
  have v: "read_unsigned (c # r) = Some (real (cents x) / 100, [])"
    using read_unsigned_fixed2_digits [of "cents x"] cr(1) by simp
  show ?thesis
  proof (cases "x < 0")
    case True
    then show ?thesis using v cr
      by (simp add: parseFloat_def toFixed2_def round_cents_def read_signed_def is_js_space_def)
  next
    case False
    then show ?thesis using v cr
      by (simp add: parseFloat_def toFixed2_def round_cents_def read_signed_digit)
  qed
qed

text \<open>\<open>parseFloat\<close> stops at the first character that cannot continue the literal: a
  decimal comma ends the number.\<close>

lemma parseFloat_digits_prefix:
  assumes "list_all is_digit ds" "ds \<noteq> []" "\<not> is_digit c" "c \<noteq> CHR ''.''" "c \<noteq> CHR ''e''" "c \<noteq> CHR ''E''"
  shows "parseFloat (ds @ c # r) = Some (real (read_nat ds))"
proof -
  obtain d ds' where d: "ds = d # ds'" "is_digit d" using assms(1,2) by (cases ds) auto
  then have "dropWhile is_js_space (ds @ c # r) = ds @ c # r" by simp
  moreover have "read_unsigned (ds @ c # r) = Some (real (read_nat ds), c # r)"
    using assms by (simp add: read_unsigned_def takeWhile_digits_append dropWhile_digits_append read_exp_def
        decimal_value_def read_nat_def)
  ultimately show ?thesis using d by (simp add: parseFloat_def read_signed_digit)
qed


lemma js_Number_digits:
  assumes "list_all is_digit ds" "ds \<noteq> []"
  shows "js_Number ds = Some (real (read_nat ds))"
proof -
  obtain d ds' where d: "ds = d # ds'" "is_digit d" using assms by (cases ds) auto
  have t: "trim ds = ds"
  proof -
    have "dropWhile is_js_space ds = ds" using d by simp
    moreover have "dropWhile is_js_space (rev ds) = rev ds"
    proof (cases "rev ds")
      case (Cons c cs)
      then have "c \<in> set ds" by (metis list.set_intros(1) set_rev)
      then have "is_digit c" using assms(1) by (simp add: list_all_iff)
      with Cons show ?thesis by simp
    qed simp
    ultimately show ?thesis by (simp add: trim_def)
  qed
  have tw: "takeWhile is_digit ds = ds" and dw: "dropWhile is_digit ds = []"
    using assms(1) by (simp_all add: list_all_iff)
  have "read_unsigned ds = Some (real (read_nat ds), [])"
    unfolding read_unsigned_def Let_def tw dw using assms(2) by (simp add: read_exp_def decimal_value_def read_nat_def)
  then have "read_signed ds = Some (real (read_nat ds), [])"
    using d read_signed_digit by simp
  moreover have "\<not> (d = CHR ''0'' \<and> (c = CHR ''x'' \<or> c = CHR ''X'' \<or> c = CHR ''o'' \<or> c = CHR ''O'' \<or>
      c = CHR ''b'' \<or> c = CHR ''B''))" if "ds' = c # r" for c r
    using that assms(1) d by (auto simp: is_digit_def)
  ultimately show ?thesis using t d assms(2)
    by (cases ds') (auto simp: js_Number_def Let_def)
qed

end
