(* ===== verification/Receipt_View.thy ===== *)
theory Receipt_View
  imports Client_Sync Js_Number
begin

text \<open>
  The editing handlers of the receipt card, src/components/reports/receipt-view.tsx.  The
  card edits the synced collections of collections.ts: \<open>collection.update(key, draft)\<close>
  changes the row in the browser at once and its \<open>onUpdate\<close> handler sends the modified
  row to the server action; \<open>insert\<close> and \<open>delete\<close> likewise.  A handler's effect is the
  new client state with the list of server actions the collection handlers send
  (\<open>client_edit\<close>); \<open>None\<close> is an exception, thrown by the collection when the key is absent
  (update, delete) or present (insert).  The component's own state (which inline editor is
  open, the date picker, and the form of a line item row) is a record updated by the
  handlers.  Each handler is modelled whole, with the guards of the code: the tip and tax
  editors read their input with \<open>parseFloat\<close> and stop on \<open>NaN\<close>; the line item editor reads
  quantity and unit price with \<open>z.coerce.number()\<close> and deletes the item when the quantity is
  not positive.
\<close>

type_synonym client_edit = "(client \<times> action list) option"

subsection \<open>Collection operations (collections.ts lines 38-87)\<close>

definition coll_receipt_update :: "id \<Rightarrow> (receipt \<Rightarrow> receipt) \<Rightarrow> client \<Rightarrow> client_edit" where
  "coll_receipt_update k f c = (case find_by rc_id k (cl_receipts c) of
       None \<Rightarrow> None
     | Some r \<Rightarrow> Some (c\<lparr>cl_receipts := replace_by rc_id (f r) (cl_receipts c)\<rparr>, [receipt_sync MUpdate [f r]]))"

definition coll_item_insert :: "line_item \<Rightarrow> client \<Rightarrow> client_edit" where
  "coll_item_insert l c = (if li_id l \<in> keys_of li_id (cl_items c) then None
     else Some (c\<lparr>cl_items := cl_items c @ [l]\<rparr>, [line_item_sync MInsert [l]]))"

definition coll_item_update :: "id \<Rightarrow> (line_item \<Rightarrow> line_item) \<Rightarrow> client \<Rightarrow> client_edit" where
  "coll_item_update k f c = (case find_by li_id k (cl_items c) of
       None \<Rightarrow> None
     | Some l \<Rightarrow> Some (c\<lparr>cl_items := replace_by li_id (f l) (cl_items c)\<rparr>, [line_item_sync MUpdate [f l]]))"

definition coll_item_delete :: "id \<Rightarrow> client \<Rightarrow> client_edit" where
  "coll_item_delete k c = (case find_by li_id k (cl_items c) of
       None \<Rightarrow> None
     | Some l \<Rightarrow> Some (c\<lparr>cl_items := delete_by li_id k (cl_items c)\<rparr>, [line_item_sync MDelete [l]]))"

subsection \<open>The receipt card (lines 54-176)\<close>

record receipt_view =
  rv_editingTip :: bool
  rv_editingTax :: bool
  rv_datePickerOpen :: bool

text \<open>\<open>updateTip\<close> and \<open>updateTax\<close> (lines 56-88) have the same body for another field and
  another flag: no input element or a \<open>NaN\<close> reading changes nothing; otherwise the row is
  updated and, inside the update's callback, the editor closed.\<close>

definition amount_edit :: "(real \<Rightarrow> receipt \<Rightarrow> receipt) \<Rightarrow> (receipt_view \<Rightarrow> receipt_view) \<Rightarrow>
    string option \<Rightarrow> receipt \<Rightarrow> receipt_view \<Rightarrow> client \<Rightarrow> receipt_view \<times> client_edit" where
  "amount_edit set_amount close input rcp v c =
     (case input of
        None \<Rightarrow> (v, Some (c, []))
      | Some s \<Rightarrow> (case parseFloat s of
           None \<Rightarrow> (v, Some (c, []))
         | Some t \<Rightarrow> (case coll_receipt_update (rc_id rcp) (set_amount t) c of
              None \<Rightarrow> (v, None)
            | Some e \<Rightarrow> (close v, Some e))))"

definition updateTip :: "string option \<Rightarrow> receipt \<Rightarrow> receipt_view \<Rightarrow> client \<Rightarrow> receipt_view \<times> client_edit" where
  "updateTip = amount_edit (\<lambda>t r. r\<lparr>rc_tip := t\<rparr>) (\<lambda>v. v\<lparr>rv_editingTip := False\<rparr>)"

definition updateTax :: "string option \<Rightarrow> receipt \<Rightarrow> receipt_view \<Rightarrow> client \<Rightarrow> receipt_view \<times> client_edit" where
  "updateTax = amount_edit (\<lambda>t r. r\<lparr>rc_tax := t\<rparr>) (\<lambda>v. v\<lparr>rv_editingTax := False\<rparr>)"

text \<open>The inline editors' \<open>setOpen\<close> (lines 189-194 and 217-222): closing reads the input,
  then the flag takes the requested value.\<close>

definition tip_setOpen :: "bool \<Rightarrow> string option \<Rightarrow> receipt \<Rightarrow> receipt_view \<Rightarrow> client \<Rightarrow> receipt_view \<times> client_edit" where
  "tip_setOpen isOpen input rcp v c =
     (let (v', e) = (if \<not> isOpen then updateTip input rcp v c else (v, Some (c, [])))
      in (if e = None then v' else v'\<lparr>rv_editingTip := isOpen\<rparr>, e))"

definition tax_setOpen :: "bool \<Rightarrow> string option \<Rightarrow> receipt \<Rightarrow> receipt_view \<Rightarrow> client \<Rightarrow> receipt_view \<times> client_edit" where
  "tax_setOpen isOpen input rcp v c =
     (let (v', e) = (if \<not> isOpen then updateTax input rcp v c else (v, Some (c, [])))
      in (if e = None then v' else v'\<lparr>rv_editingTax := isOpen\<rparr>, e))"

text \<open>The category badge (lines 101-105) and the calendar (lines 124-129); a date is a day
  number, as in the receipt row.\<close>

definition category_changed :: "id \<Rightarrow> receipt \<Rightarrow> client \<Rightarrow> client_edit" where
  "category_changed categoryId rcp c = coll_receipt_update (rc_id rcp) (\<lambda>r. r\<lparr>rc_categoryId := categoryId\<rparr>) c"

definition date_selected :: "int option \<Rightarrow> receipt \<Rightarrow> receipt_view \<Rightarrow> client \<Rightarrow> receipt_view \<times> client_edit" where
  "date_selected sel rcp v c =
     (let e = (case sel of None \<Rightarrow> Some (c, [])
                | Some day \<Rightarrow> coll_receipt_update (rc_id rcp) (\<lambda>r. r\<lparr>rc_date := Some day\<rparr>) c)
      in (if e = None then v else v\<lparr>rv_datePickerOpen := False\<rparr>, e))"

text \<open>Add Line Item (lines 158-170), with the id \<open>cuid2()\<close> and the time \<open>new Date()\<close>.\<close>

definition add_line_item :: "id \<Rightarrow> nat \<Rightarrow> receipt \<Rightarrow> client \<Rightarrow> client_edit" where
  "add_line_item newId now rcp c =
     coll_item_insert \<lparr>li_id = newId, li_receiptId = rc_id rcp, li_description = ''New item'', li_sku = None,
       li_quantity = 1, li_unitPrice = 0, li_currency = Some ''USD'', li_updatedAt = now\<rparr> c"

subsection \<open>A line item row (lines 258-320)\<close>

text \<open>The row's form holds strings; \<open>lineItem.quantity.toString()\<close> of the Prisma decimal is
  given as \<open>qtyText\<close>.\<close>

record row_form =
  lr_editing :: bool
  lr_description :: string
  lr_quantity :: string
  lr_unitPrice :: string

definition row_init :: "string \<Rightarrow> line_item \<Rightarrow> row_form" where
  "row_init qtyText li = \<lparr>lr_editing = False, lr_description = li_description li, lr_quantity = qtyText,
     lr_unitPrice = toFixed2 (li_unitPrice li)\<rparr>"

definition line_total :: "line_item \<Rightarrow> real" where
  "line_total li = li_quantity li * li_unitPrice li"

text \<open>Line 318: the total shown while editing, \<open>None\<close> when it is \<open>NaN\<close>.\<close>

definition edit_total :: "row_form \<Rightarrow> real option" where
  "edit_total f = (case (js_Number (lr_quantity f), js_Number (lr_unitPrice f)) of
     (Some q, Some p) \<Rightarrow> Some (q * p) | _ \<Rightarrow> None)"

text \<open>\<open>submitForm\<close> (lines 285-306), run on a click outside the row: when the schema rejects
  the form, the error is logged and the row stays in editing mode.\<close>

definition submitForm :: "line_item \<Rightarrow> row_form \<Rightarrow> client \<Rightarrow> row_form \<times> client_edit" where
  "submitForm li f c =
     (if \<not> lr_editing f then (f\<lparr>lr_editing := False\<rparr>, Some (c, []))
      else (case (js_Number (lr_quantity f), js_Number (lr_unitPrice f)) of
          (Some q, Some p) \<Rightarrow>
            (let e = (if 0 < q
                      then coll_item_update (li_id li)
                             (\<lambda>l. l\<lparr>li_description := lr_description f, li_quantity := q, li_unitPrice := p\<rparr>) c
                      else coll_item_delete (li_id li) c)
             in (if e = None then f else f\<lparr>lr_editing := False\<rparr>, e))
        | _ \<Rightarrow> (f, Some (c, []))))"


subsection \<open>Collection operations\<close>

lemma coll_receipt_update_Some:
  "find_by rc_id k (cl_receipts c) = Some r \<Longrightarrow>
     coll_receipt_update k f c = Some (c\<lparr>cl_receipts := replace_by rc_id (f r) (cl_receipts c)\<rparr>, [UpdateReceipts [f r]])"
  by (simp add: coll_receipt_update_def receipt_sync_def)

lemma coll_item_delete_Some:
  "find_by li_id k (cl_items c) = Some l \<Longrightarrow>
     coll_item_delete k c = Some (c\<lparr>cl_items := delete_by li_id k (cl_items c)\<rparr>, [DeleteLineItems [k]])"
  by (auto simp: coll_item_delete_def line_item_sync_def dest: find_by_SomeD)

lemma coll_item_update_Some:
  "find_by li_id k (cl_items c) = Some l \<Longrightarrow>
     coll_item_update k f c = Some (c\<lparr>cl_items := replace_by li_id (f l) (cl_items c)\<rparr>, [UpdateLineItems [f l]])"
  by (simp add: coll_item_update_def line_item_sync_def)

text \<open>On the server, the update of one owned row that keeps its key and its relations
  writes the row as sent, stamped with the time.\<close>

lemma updateReceipts_owned_row:
  assumes "db_wf d" "r \<in> set (receipts d)" "report_owned_by d (u_id u) (rc_expenseReportId r)"
    and "rc_id r' = rc_id r" "rc_expenseReportId r' = rc_expenseReportId r"
    and "rc_merchantId r' = rc_merchantId r" "rc_categoryId r' = rc_categoryId r"
  shows "updateReceipts (Some u) now [r'] d = Inr (d\<lparr>receipts := replace_by rc_id (r'\<lparr>rc_updatedAt := now\<rparr>) (receipts d)\<rparr>)"
proof -
  have "rc_id r \<in> set (getOwnedReceipts [rc_id r] (u_id u) d)"
    using assms(2,3) by (force simp: getOwnedReceipts_def)
  moreover have "rc_expenseReportId r \<in> keys_of rp_id (reports d)" "rc_merchantId r \<in> keys_of mc_id (merchants d)"
      "rc_categoryId r \<in> keys_of ct_id (categories d)"
    using assms(1,2) by (auto simp: db_wf_def)
  moreover have "rc_id r \<in> keys_of rc_id (receipts d)" using assms(2) by (simp add: keys_of_def)
  ultimately show ?thesis using assms(4-7) by (simp add: updateReceipts_def may_write_def receipt_update_def)
qed

subsection \<open>The tip and tax editors\<close>

lemma updateTip_number:
  "parseFloat s = Some t \<Longrightarrow> find_by rc_id (rc_id rcp) (cl_receipts c) = Some r \<Longrightarrow>
     updateTip (Some s) rcp v c = (v\<lparr>rv_editingTip := False\<rparr>,
       Some (c\<lparr>cl_receipts := replace_by rc_id (r\<lparr>rc_tip := t\<rparr>) (cl_receipts c)\<rparr>, [UpdateReceipts [r\<lparr>rc_tip := t\<rparr>]]))"
  by (simp add: updateTip_def amount_edit_def coll_receipt_update_Some)

lemma updateTip_NaN: "parseFloat s = None \<Longrightarrow> updateTip (Some s) rcp v c = (v, Some (c, []))"
  by (simp add: updateTip_def amount_edit_def)

text \<open>Closing the tip editor without typing reads back the default value
  \<open>tip.toFixed(2)\<close>: the tip is rounded to cents, halves away from zero, and an update of the
  receipt is sent to the server even when nothing changed.\<close>

theorem tip_editor_rounds:
  assumes "find_by rc_id (rc_id r) (cl_receipts c) = Some r"
  shows "tip_setOpen False (Some (toFixed2 (rc_tip r))) r v c =
     (v\<lparr>rv_editingTip := False\<rparr>,
      Some (c\<lparr>cl_receipts := replace_by rc_id (r\<lparr>rc_tip := round_cents (rc_tip r)\<rparr>) (cl_receipts c)\<rparr>,
            [UpdateReceipts [r\<lparr>rc_tip := round_cents (rc_tip r)\<rparr>]]))"
  using updateTip_number [OF parseFloat_toFixed2 assms] by (simp add: tip_setOpen_def)

text \<open>\<open>parseFloat\<close> reads the longest numeric prefix: a tip typed with a decimal comma,
  such as 1,50, is saved as its integer part.\<close>

theorem tip_decimal_comma_truncates:
  assumes "find_by rc_id (rc_id r) (cl_receipts c) = Some r" "list_all is_digit ds" "ds \<noteq> []"
  shows "updateTip (Some (ds @ CHR '','' # fs)) r v c =
     (v\<lparr>rv_editingTip := False\<rparr>,
      Some (c\<lparr>cl_receipts := replace_by rc_id (r\<lparr>rc_tip := real (read_nat ds)\<rparr>) (cl_receipts c)\<rparr>,
            [UpdateReceipts [r\<lparr>rc_tip := real (read_nat ds)\<rparr>]]))"
proof -
  have "parseFloat (ds @ CHR '','' # fs) = Some (real (read_nat ds))"
    using assms(2,3) by (rule parseFloat_digits_prefix) (simp_all add: is_digit_def)
  then show ?thesis using assms(1) by (rule updateTip_number)
qed

text \<open>Text that is not a number is discarded silently: Enter leaves the editor open and
  sends nothing, and clicking away closes the editor and sends nothing.\<close>

theorem tip_not_a_number:
  assumes "parseFloat s = None"
  shows "updateTip (Some s) r v c = (v, Some (c, [])) \<and>
     tip_setOpen False (Some s) r v c = (v\<lparr>rv_editingTip := False\<rparr>, Some (c, []))"
  using updateTip_NaN [OF assms] by (simp add: tip_setOpen_def)

text \<open>C22. An edit of the card that keeps the receipt's relations (tip, tax or date), made
  by the owner on a row the browser and the database agree on, reaches the database: the
  server stores the row the browser now shows, stamped with the time, and the database stays
  well-formed.\<close>

theorem card_edit_reaches_server:
  assumes "db_wf d" "r \<in> set (receipts d)" "report_owned_by d (u_id u) (rc_expenseReportId r)"
    and "find_by rc_id k (cl_receipts c) = Some r"
    and "rc_id (f r) = rc_id r" "rc_expenseReportId (f r) = rc_expenseReportId r"
    and "rc_merchantId (f r) = rc_merchantId r" "rc_categoryId (f r) = rc_categoryId r"
  shows "\<exists>c' d'. coll_receipt_update k f c = Some (c', [UpdateReceipts [f r]]) \<and>
     run_action (Some u) now (UpdateReceipts [f r]) d = Inr d' \<and> db_wf d' \<and>
     find_by rc_id k (cl_receipts c') = Some (f r) \<and>
     find_by rc_id k (receipts d') = Some ((f r)\<lparr>rc_updatedAt := now\<rparr>)"
proof -
  have k: "k = rc_id r" using find_by_SomeD [OF assms(4)] by simp
  have srv: "updateReceipts (Some u) now [f r] d =
      Inr (d\<lparr>receipts := replace_by rc_id ((f r)\<lparr>rc_updatedAt := now\<rparr>) (receipts d)\<rparr>)"
    using updateReceipts_owned_row [OF assms(1-3) assms(5-8)] .
  have "db_wf (d\<lparr>receipts := replace_by rc_id ((f r)\<lparr>rc_updatedAt := now\<rparr>) (receipts d)\<rparr>)"
    using updateReceipts_wf [OF assms(1) srv] .
  moreover have "rc_id r \<in> keys_of rc_id (cl_receipts c)" "rc_id r \<in> keys_of rc_id (receipts d)"
    using find_by_SomeD [OF assms(4)] assms(2) by (auto simp: keys_of_def)
  ultimately show ?thesis
    using coll_receipt_update_Some [OF assms(4)] srv k assms(5)
      find_by_replace_by_key [of rc_id "f r" "cl_receipts c"]
      find_by_replace_by_key [of rc_id "(f r)\<lparr>rc_updatedAt := now\<rparr>" "receipts d"]
    by simp
qed

subsection \<open>The line item editor\<close>

lemma js_Number_blank: "trim s = [] \<Longrightarrow> js_Number s = Some 0"
  by (simp add: js_Number_def)

text \<open>C23. Clearing the quantity of a line item and clicking away deletes the item:
  \<open>Number("")\<close> is 0, which passes \<open>z.coerce.number()\<close> and fails \<open>d.quantity > 0\<close>.\<close>

theorem submitForm_blank_quantity_deletes:
  assumes "lr_editing f" "trim (lr_quantity f) = []" "js_Number (lr_unitPrice f) = Some p"
    and "find_by li_id (li_id li) (cl_items c) = Some l"
  shows "submitForm li f c = (f\<lparr>lr_editing := False\<rparr>,
     Some (c\<lparr>cl_items := delete_by li_id (li_id li) (cl_items c)\<rparr>, [DeleteLineItems [li_id li]]))"
  using assms by (simp add: submitForm_def js_Number_blank coll_item_delete_Some)

text \<open>A line item form with a positive quantity and a unit price that are numbers
  replaces description, quantity and unit price of the item and sends that row; a quantity
  or unit price that is not a number leaves the row in editing mode and sends nothing.\<close>

theorem submitForm_cases:
  assumes "lr_editing f" "find_by li_id (li_id li) (cl_items c) = Some l"
  shows "(js_Number (lr_quantity f) = Some q \<and> 0 < q \<and> js_Number (lr_unitPrice f) = Some p \<longrightarrow>
        submitForm li f c = (f\<lparr>lr_editing := False\<rparr>,
          Some (c\<lparr>cl_items := replace_by li_id (l\<lparr>li_description := lr_description f, li_quantity := q, li_unitPrice := p\<rparr>) (cl_items c)\<rparr>,
                [UpdateLineItems [l\<lparr>li_description := lr_description f, li_quantity := q, li_unitPrice := p\<rparr>]]))) \<and>
     (js_Number (lr_quantity f) = None \<or> js_Number (lr_unitPrice f) = None \<longrightarrow> submitForm li f c = (f, Some (c, [])))"
  using assms by (auto simp: submitForm_def coll_item_update_Some split: option.splits)

end
