(* ===== verification/Upload_Hook.thy ===== *)
theory Upload_Hook
  imports Receipt_Extraction "HOL-Library.Multiset"
begin

text \<open>
  The upload hook src/hooks/use-receipt-upload.ts and the list that shows its files,
  src/components/reports/file-list.tsx.  The hook's state is the record
  \<open>upload_hook\<close>: the \<open>files\<close> and \<open>validationError\<close> states of the hook, with the
  browser's registry of live object URLs (\<open>URL.createObjectURL\<close> adds a fresh
  \<open>blob:\<close> URL, \<open>URL.revokeObjectURL\<close> removes it) and the counter that makes them
  fresh.  A state update \<open>setFiles((cur) => ...)\<close> is applied to the state the handler
  was called in.  The ids \<open>`${Date.now()}-${random}`\<close> are an input \<open>gen\<close>: the id of the
  \<open>k\<close>-th accepted file of a call.  The error messages are values of
  \<open>validation_error\<close>.  The reachable states (\<open>hook_reach\<close>) satisfy \<open>hook_ok\<close>: the
  entries have distinct ids, are images or PDFs of at most 10 MB with a preview exactly for
  images, and the live URLs are exactly the previews, each made once, so that no URL
  leaks and none is revoked while shown.
\<close>

definition MAX_SIZE_BYTES :: nat where
  "MAX_SIZE_BYTES = 10 * 1024 * 1024"

record file_entry =
  fe_id :: id
  fe_file :: upload_file
  fe_preview :: "string option"

datatype validation_error = Oversized string | SomeSkipped

record upload_hook =
  uh_files :: "file_entry list"
  uh_validationError :: "validation_error option"
  uh_urls :: "string list"
  uh_nextUrl :: nat

definition f_size :: "upload_file \<Rightarrow> nat" where
  "f_size f = length (f_bytes f)"

definition object_url :: "nat \<Rightarrow> string" where
  "object_url n = ''blob:'' @ show_nat n"

text \<open>Line 27: the types the hook accepts.\<close>

definition allowed_file :: "upload_file \<Rightarrow> bool" where
  "allowed_file f \<longleftrightarrow> startsWith (f_type f) ''image/'' \<or> f_type f = ''application/pdf''"

text \<open>Lines 32-36: an entry per accepted file, with an object URL for each image, made in
  order.  The result is the entries, the URLs made and the next counter value.\<close>

fun make_entries :: "(nat \<Rightarrow> id) \<Rightarrow> nat \<Rightarrow> nat \<Rightarrow> upload_file list \<Rightarrow> file_entry list \<times> string list \<times> nat" where
  "make_entries gen i n [] = ([], [], n)"
| "make_entries gen i n (f # fs) =
     (let (pv, us, n') = (if startsWith (f_type f) ''image/'' then (Some (object_url n), [object_url n], Suc n)
                          else (None, [], n));
          (es, us', n'') = make_entries gen (Suc i) n' fs
      in (\<lparr>fe_id = gen i, fe_file = f, fe_preview = pv\<rparr> # es, us @ us', n''))"

text \<open>\<open>addFiles\<close> (lines 17-41): an oversized file rejects the whole call; otherwise the
  accepted files are appended and the error says whether some were skipped.\<close>

definition addFiles :: "(nat \<Rightarrow> id) \<Rightarrow> upload_file list \<Rightarrow> upload_hook \<Rightarrow> upload_hook" where
  "addFiles gen incoming st =
     (let st0 = st\<lparr>uh_validationError := None\<rparr> in
      case find (\<lambda>f. MAX_SIZE_BYTES < f_size f) incoming of
        Some big \<Rightarrow> st0\<lparr>uh_validationError := Some (Oversized (f_name big))\<rparr>
      | None \<Rightarrow>
          (let allowed = filter allowed_file incoming;
               st1 = (if length allowed \<noteq> length incoming then st0\<lparr>uh_validationError := Some SomeSkipped\<rparr> else st0);
               (es, us, n) = make_entries gen 0 (uh_nextUrl st) allowed
           in st1\<lparr>uh_files := uh_files st @ es, uh_urls := uh_urls st @ us, uh_nextUrl := n\<rparr>))"

text \<open>Lines 46 and 65: a preview that is a \<open>blob:\<close> URL is revoked.\<close>

definition revoke :: "file_entry \<Rightarrow> string list \<Rightarrow> string list" where
  "revoke e urls = (case fe_preview e of
       Some u \<Rightarrow> (if startsWith u ''blob:'' then removeAll u urls else urls)
     | None \<Rightarrow> urls)"

definition removeFile :: "id \<Rightarrow> upload_hook \<Rightarrow> upload_hook" where
  "removeFile i st =
     st\<lparr>uh_urls := (case find (\<lambda>c. fe_id c = i) (uh_files st) of None \<Rightarrow> uh_urls st | Some e \<Rightarrow> revoke e (uh_urls st)),
        uh_files := filter (\<lambda>c. fe_id c \<noteq> i) (uh_files st)\<rparr>"

text \<open>\<open>Array.prototype.findIndex\<close>: the first index satisfying the test, or -1.\<close>

fun findIndex :: "('a \<Rightarrow> bool) \<Rightarrow> 'a list \<Rightarrow> int" where
  "findIndex P [] = -1"
| "findIndex P (x # xs) = (if P x then 0 else (let k = findIndex P xs in if k = -1 then -1 else k + 1))"

datatype move_dir = Up | Down

text \<open>\<open>moveFile\<close> (lines 51-61), with the index arithmetic on integers as in JavaScript.\<close>

definition moveFile :: "id \<Rightarrow> move_dir \<Rightarrow> upload_hook \<Rightarrow> upload_hook" where
  "moveFile i dir st =
     (let cur = uh_files st; idx = findIndex (\<lambda>c. fe_id c = i) cur in
      if idx = -1 then st
      else (let swapIdx = (if dir = Up then idx - 1 else idx + 1) in
            if swapIdx < 0 \<or> int (length cur) \<le> swapIdx then st
            else st\<lparr>uh_files := cur[nat idx := cur ! nat swapIdx, nat swapIdx := cur ! nat idx]\<rparr>))"

definition reset :: "upload_hook \<Rightarrow> upload_hook" where
  "reset st = st\<lparr>uh_urls := foldl (\<lambda>us e. revoke e us) (uh_urls st) (uh_files st), uh_files := [],
     uh_validationError := None\<rparr>"

subsection \<open>The file list (file-list.tsx)\<close>

text \<open>Lines 38-43: the move buttons of each row, up and down, and whether each is enabled.\<close>

definition move_buttons :: "file_entry list \<Rightarrow> (id \<times> bool \<times> bool) list" where
  "move_buttons files = map (\<lambda>idx. (fe_id (files ! idx), idx \<noteq> 0, idx \<noteq> length files - 1)) [0..<length files]"

datatype thumbnail = PdfLabel | Img "string option"

text \<open>Lines 23-29: a PDF shows a label, anything else an image of the preview.\<close>

definition thumbnail_of :: "file_entry \<Rightarrow> thumbnail" where
  "thumbnail_of e = (if f_type (fe_file e) = ''application/pdf'' then PdfLabel else Img (fe_preview e))"

subsection \<open>Reachable states and their invariant\<close>

datatype hook_op = AddFiles "nat \<Rightarrow> id" "upload_file list" | RemoveFile id | MoveFile id move_dir | Reset

fun hook_step :: "hook_op \<Rightarrow> upload_hook \<Rightarrow> upload_hook" where
  "hook_step (AddFiles gen fs) st = addFiles gen fs st"
| "hook_step (RemoveFile i) st = removeFile i st"
| "hook_step (MoveFile i d) st = moveFile i d st"
| "hook_step Reset st = reset st"

text \<open>A call of \<open>addFiles\<close> draws distinct ids that no current entry has.\<close>

definition fresh_ids :: "(nat \<Rightarrow> id) \<Rightarrow> upload_hook \<Rightarrow> bool" where
  "fresh_ids gen st \<longleftrightarrow> inj gen \<and> (\<forall>k. gen k \<notin> fe_id ` set (uh_files st))"

inductive hook_reach :: "upload_hook \<Rightarrow> bool" where
  init: "hook_reach \<lparr>uh_files = [], uh_validationError = None, uh_urls = [], uh_nextUrl = 0\<rparr>"
| step: "hook_reach st \<Longrightarrow> (\<forall>gen fs. op = AddFiles gen fs \<longrightarrow> fresh_ids gen st) \<Longrightarrow> hook_reach (hook_step op st)"

definition previews :: "file_entry list \<Rightarrow> string list" where
  "previews es = List.map_filter fe_preview es"

definition entry_ok :: "file_entry \<Rightarrow> bool" where
  "entry_ok e \<longleftrightarrow> allowed_file (fe_file e) \<and> f_size (fe_file e) \<le> MAX_SIZE_BYTES \<and>
     (fe_preview e \<noteq> None \<longleftrightarrow> startsWith (f_type (fe_file e)) ''image/'')"

definition hook_ok :: "upload_hook \<Rightarrow> bool" where
  "hook_ok st \<longleftrightarrow> distinct (map fe_id (uh_files st)) \<and> list_all entry_ok (uh_files st) \<and>
     distinct (previews (uh_files st)) \<and> set (uh_urls st) = set (previews (uh_files st)) \<and>
     (\<forall>u \<in> set (previews (uh_files st)). \<exists>k < uh_nextUrl st. u = object_url k)"

subsection \<open>Object URLs and new entries\<close>

lemma object_url_inj [simp]: "object_url a = object_url b \<longleftrightarrow> a = b"
  by (simp add: object_url_def show_nat_inj)

lemma object_url_blob [simp]: "startsWith (object_url k) ''blob:''"
  by (simp add: object_url_def)

lemma previews_Nil [simp]: "previews [] = []"
  by (simp add: previews_def map_filter_def)

lemma previews_append [simp]: "previews (xs @ ys) = previews xs @ previews ys"
  by (simp add: previews_def map_filter_def)

lemma previews_Cons: "previews (e # es) = (case fe_preview e of None \<Rightarrow> previews es | Some u \<Rightarrow> u # previews es)"
  by (simp add: previews_def map_filter_def split: option.splits)

lemma mset_previews: "mset xs = mset ys \<Longrightarrow> mset (previews xs) = mset (previews ys)"
  by (simp add: previews_def map_filter_def)

lemma set_previews: "set (previews es) = {u. \<exists>e \<in> set es. fe_preview e = Some u}"
  by (force simp: previews_def map_filter_def)

lemma make_entries_props:
  assumes "make_entries gen i n fs = (es, us, n')"
  shows "map fe_file es = fs \<and> map fe_id es = map gen [i..<i + length fs] \<and> us = previews es \<and> n \<le> n' \<and>
     (\<forall>u \<in> set us. \<exists>k. n \<le> k \<and> k < n' \<and> u = object_url k) \<and> distinct us \<and>
     (\<forall>e \<in> set es. fe_preview e \<noteq> None \<longleftrightarrow> startsWith (f_type (fe_file e)) ''image/'')"
  using assms
proof (induction fs arbitrary: i n es us n')
  case Nil
  then show ?case by (simp add: previews_def map_filter_def)
next
  case (Cons f fs)
  obtain es1 us1 n1 where r: "make_entries gen (Suc i) (if startsWith (f_type f) ''image/'' then Suc n else n) fs = (es1, us1, n1)"
    by (metis prod_cases3)
  note IH = Cons.IH [OF r]
  have up: "[i..<i + length (f # fs)] = i # [Suc i..<Suc i + length fs]" by (simp del: upt_Suc add: upt_conv_Cons)
  show ?case
  proof (cases "startsWith (f_type f) ''image/''")
    case True
    with Cons.prems r have e: "es = \<lparr>fe_id = gen i, fe_file = f, fe_preview = Some (object_url n)\<rparr> # es1"
        "us = object_url n # us1" "n' = n1" by (auto simp: Let_def)
    have "object_url n \<notin> set us1"
    proof
      assume "object_url n \<in> set us1"
      then obtain k where "Suc n \<le> k" "object_url n = object_url k" using IH True by auto
      then show False by simp
    qed
    with True IH show ?thesis using e up by (fastforce simp del: upt_Suc simp: previews_Cons)
  next
    case False
    with Cons.prems r have e: "es = \<lparr>fe_id = gen i, fe_file = f, fe_preview = None\<rparr> # es1" "us = us1" "n' = n1"
      by (auto simp: Let_def)
    with False IH show ?thesis using up by (clarsimp simp del: upt_Suc simp: previews_Cons)
  qed
qed

text \<open>The hook is stricter than the server: every file it accepts passes
  \<open>documentTypeFromMime\<close> of process-receipt.ts, with the document type of its MIME type.\<close>

lemma allowed_file_server_type:
  "allowed_file f \<Longrightarrow>
     documentTypeFromMime (f_type f) = Inr (if startsWith (f_type f) ''image/'' then Image else Pdf)"
  by (auto simp: allowed_file_def documentTypeFromMime_def)

subsection \<open>Each operation keeps the invariant\<close>

lemma addFiles_ok:
  assumes ok: "hook_ok st" and fr: "fresh_ids gen st"
  shows "hook_ok (addFiles gen fs st)"
proof (cases "find (\<lambda>f. MAX_SIZE_BYTES < f_size f) fs")
  case (Some big)
  with ok show ?thesis by (simp add: addFiles_def hook_ok_def)
next
  case None
  then have small: "\<forall>f \<in> set fs. f_size f \<le> MAX_SIZE_BYTES" by (auto simp: find_None_iff)
  let ?al = "filter allowed_file fs"
  obtain es us n' where me: "make_entries gen 0 (uh_nextUrl st) ?al = (es, us, n')" by (metis prod_cases3)
  note P = make_entries_props [OF me]
  have files: "uh_files (addFiles gen fs st) = uh_files st @ es" and urls: "uh_urls (addFiles gen fs st) = uh_urls st @ us"
    and next': "uh_nextUrl (addFiles gen fs st) = n'"
    using None me by (simp_all add: addFiles_def Let_def)
  have ids: "distinct (map fe_id (uh_files st @ es))"
  proof -
    have "distinct (map gen [0..<length ?al])"
      using fr by (simp add: fresh_ids_def distinct_map inj_on_def)
    moreover have "set (map gen [0..<length ?al]) \<inter> fe_id ` set (uh_files st) = {}"
      using fr by (auto simp: fresh_ids_def)
    ultimately show ?thesis using ok P by (auto simp: hook_ok_def)
  qed
  have ents: "list_all entry_ok (uh_files st @ es)"
  proof -
    have "\<forall>e \<in> set es. fe_file e \<in> set ?al"
      using P by (metis (no_types, lifting) image_eqI list.set_map)
    then show ?thesis using ok P small by (auto simp: hook_ok_def entry_ok_def list_all_iff)
  qed
  have old: "\<forall>u \<in> set (previews (uh_files st)). \<exists>k < uh_nextUrl st. u = object_url k"
    using ok by (simp add: hook_ok_def)
  have new: "\<forall>u \<in> set us. \<exists>k. uh_nextUrl st \<le> k \<and> k < n' \<and> u = object_url k" using P by blast
  have "set (previews (uh_files st)) \<inter> set us = {}"
  proof (rule ccontr)
    assume "set (previews (uh_files st)) \<inter> set us \<noteq> {}"
    then obtain u where "u \<in> set (previews (uh_files st))" "u \<in> set us" by blast
    with old new obtain k k' where "k < uh_nextUrl st" "uh_nextUrl st \<le> k'" "object_url k = object_url k'" by metis
    then show False by simp
  qed
  moreover have "us = previews es" "distinct us" using P by blast+
  moreover have "distinct (previews es)" using calculation(2,3) by simp
  ultimately have pv: "distinct (previews (uh_files st @ es))" using ok by (simp add: hook_ok_def)
  have bound: "\<forall>u \<in> set (previews (uh_files st @ es)). \<exists>k < n'. u = object_url k"
    using old new P by fastforce
  show ?thesis using ids ents pv bound ok P files urls next' by (simp add: hook_ok_def)
qed


lemma find_split: "find P xs = Some e \<Longrightarrow> \<exists>as bs. xs = as @ e # bs \<and> (\<forall>x \<in> set as. \<not> P x) \<and> P e"
proof (induction xs)
  case (Cons x xs)
  show ?case
  proof (cases "P x")
    case True
    with Cons.prems show ?thesis by force
  next
    case False
    with Cons obtain as bs where "xs = as @ e # bs" "\<forall>x \<in> set as. \<not> P x" "P e" by auto
    with False show ?thesis by (metis Cons_eq_appendI set_ConsD)
  qed
qed simp

lemma hook_ok_blob: "hook_ok st \<Longrightarrow> u \<in> set (previews (uh_files st)) \<Longrightarrow> startsWith u ''blob:''"
  by (auto simp: hook_ok_def)

lemma removeFile_ok:
  assumes ok: "hook_ok st"
  shows "hook_ok (removeFile i st)"
proof (cases "find (\<lambda>c. fe_id c = i) (uh_files st)")
  case None
  then have "filter (\<lambda>c. fe_id c \<noteq> i) (uh_files st) = uh_files st" by (auto simp: find_None_iff)
  with None ok show ?thesis by (simp add: removeFile_def)
next
  case (Some e)
  obtain as bs where sp: "uh_files st = as @ e # bs" "\<forall>x \<in> set as. fe_id x \<noteq> i" "fe_id e = i"
    using find_split [OF Some] by blast
  have "fe_id e \<notin> fe_id ` set bs" using ok sp by (simp add: hook_ok_def)
  then have "\<forall>x \<in> set bs. fe_id x \<noteq> i" using sp(3) by (blast intro: rev_image_eqI)
  then have filt: "filter (\<lambda>c. fe_id c \<noteq> i) (uh_files st) = as @ bs" using sp by simp
  have urls: "set (revoke e (uh_urls st)) = set (previews (as @ bs))"
  proof (cases "fe_preview e")
    case None
    then show ?thesis using ok sp by (simp add: hook_ok_def revoke_def previews_Cons)
  next
    case (Some u)
    have "u \<notin> set (previews as)" "u \<notin> set (previews bs)"
      using ok sp Some by (auto simp: hook_ok_def previews_Cons)
    moreover have "startsWith u ''blob:''"
      using hook_ok_blob [OF ok] sp Some by (simp add: previews_Cons)
    ultimately show ?thesis using ok sp Some by (auto simp: hook_ok_def revoke_def previews_Cons)
  qed
  have "distinct (map fe_id (as @ bs)) \<and> list_all entry_ok (as @ bs) \<and> distinct (previews (as @ bs)) \<and>
      (\<forall>u \<in> set (previews (as @ bs)). \<exists>k < uh_nextUrl st. u = object_url k)"
    using ok sp by (auto simp: hook_ok_def previews_Cons split: option.splits)
  then show ?thesis using Some filt urls by (simp add: hook_ok_def removeFile_def)
qed

lemma hook_ok_perm:
  assumes "hook_ok st" "mset (uh_files st') = mset (uh_files st)" "uh_urls st' = uh_urls st"
    and "uh_nextUrl st' = uh_nextUrl st"
  shows "hook_ok st'"
proof -
  have m1: "mset (map fe_id (uh_files st')) = mset (map fe_id (uh_files st))" using assms(2) by simp
  have m2: "mset (previews (uh_files st')) = mset (previews (uh_files st))" using assms(2) by (rule mset_previews)
  have "distinct (map fe_id (uh_files st'))" "distinct (previews (uh_files st'))"
    using mset_eq_imp_distinct_iff [OF m1] mset_eq_imp_distinct_iff [OF m2] assms(1) by (simp_all add: hook_ok_def)
  moreover have "set (uh_files st') = set (uh_files st)" using assms(2) by (rule mset_eq_setD)
  moreover have "set (previews (uh_files st')) = set (previews (uh_files st))" using m2 by (rule mset_eq_setD)
  ultimately show ?thesis using assms(1,3,4) unfolding hook_ok_def list_all_iff by simp
qed

lemma findIndex_range: "findIndex P xs \<noteq> -1 \<Longrightarrow> 0 \<le> findIndex P xs \<and> findIndex P xs < int (length xs)"
  by (induction xs) (auto simp: Let_def split: if_splits)

lemma moveFile_cases:
  "moveFile i dir st = st \<or>
   (\<exists>a b. a < length (uh_files st) \<and> b < length (uh_files st) \<and>
      moveFile i dir st = st\<lparr>uh_files := (uh_files st)[a := uh_files st ! b, b := uh_files st ! a]\<rparr>)"
proof -
  let ?idx = "findIndex (\<lambda>c. fe_id c = i) (uh_files st)"
  show ?thesis
  proof (cases "?idx = -1")
    case False
    then have r: "0 \<le> ?idx" "?idx < int (length (uh_files st))" using findIndex_range by blast+
    let ?sw = "if dir = Up then ?idx - 1 else ?idx + 1"
    show ?thesis
    proof (cases "?sw < 0 \<or> int (length (uh_files st)) \<le> ?sw")
      case True
      then show ?thesis using False by (simp add: moveFile_def Let_def)
    next
      case out: False
      then have "moveFile i dir st = st\<lparr>uh_files := (uh_files st)[nat ?idx := uh_files st ! nat ?sw, nat ?sw := uh_files st ! nat ?idx]\<rparr>"
        using False by (simp add: moveFile_def Let_def)
      moreover have "nat ?idx < length (uh_files st)" "nat ?sw < length (uh_files st)" using r out by linarith+
      ultimately show ?thesis by blast
    qed
  qed (simp add: moveFile_def)
qed

lemma moveFile_ok: "hook_ok st \<Longrightarrow> hook_ok (moveFile i dir st)"
  using moveFile_cases [of i dir st]
  by (auto intro: hook_ok_perm simp: mset_swap)

lemma set_foldl_revoke:
  "\<forall>u \<in> set (previews es). startsWith u ''blob:'' \<Longrightarrow>
     set (foldl (\<lambda>us e. revoke e us) urls es) = set urls - set (previews es)"
  by (induction es arbitrary: urls) (auto simp: revoke_def previews_Cons split: option.splits)

lemma reset_urls: "hook_ok st \<Longrightarrow> uh_urls (reset st) = []"
proof -
  assume ok: "hook_ok st"
  then have "set (uh_urls (reset st)) = {}"
    using set_foldl_revoke [of "uh_files st" "uh_urls st"] hook_ok_blob [OF ok] by (simp add: reset_def hook_ok_def)
  then show ?thesis by simp
qed

lemma reset_ok: "hook_ok st \<Longrightarrow> hook_ok (reset st)"
  using reset_urls [of st] by (simp add: hook_ok_def reset_def previews_def map_filter_def)

lemma hook_step_ok:
  "hook_ok st \<Longrightarrow> (\<forall>gen fs. op = AddFiles gen fs \<longrightarrow> fresh_ids gen st) \<Longrightarrow> hook_ok (hook_step op st)"
  by (cases op) (simp_all add: addFiles_ok removeFile_ok moveFile_ok reset_ok)

text \<open>Every reachable state of the upload hook is well-formed: distinct ids, only images
  and PDFs of at most 10 MB, a preview exactly for images, and the live object URLs are the
  previews, each made once; resetting the hook revokes every URL it made.\<close>

theorem hook_reach_ok:
  "hook_reach st \<Longrightarrow> hook_ok st \<and> uh_urls (reset st) = []"
proof -
  assume "hook_reach st"
  then have "hook_ok st"
  proof induction
    case init
    then show ?case by (simp add: hook_ok_def)
  next
    case (step st op)
    then show ?case using hook_step_ok by blast
  qed
  then show ?thesis using reset_urls by blast
qed

lemma findIndex_distinct:
  "distinct (map f xs) \<Longrightarrow> p < length xs \<Longrightarrow> findIndex (\<lambda>c. f c = f (xs ! p)) xs = int p"
proof (induction xs arbitrary: p)
  case (Cons x xs)
  show ?case
  proof (cases p)
    case (Suc q)
    have "f x \<notin> f ` set xs" "xs ! q \<in> set xs" using Cons.prems Suc by simp_all
    then have "f x \<noteq> f (xs ! q)" by (metis image_eqI)
    with Cons Suc show ?thesis by (simp add: Let_def)
  qed simp
qed simp

text \<open>The file list enables a move button exactly when moving changes the order:
  the first row's up button and the last row's down button are the moves that do nothing.\<close>

theorem move_buttons_enabled:
  assumes ok: "hook_ok st" and b: "(i, up, down) \<in> set (move_buttons (uh_files st))"
  shows "(up \<longleftrightarrow> moveFile i Up st \<noteq> st) \<and> (down \<longleftrightarrow> moveFile i Down st \<noteq> st)"
proof -
  let ?fs = "uh_files st"
  obtain p where p: "p < length ?fs" "i = fe_id (?fs ! p)" "up = (p \<noteq> 0)" "down = (p \<noteq> length ?fs - 1)"
    using b by (auto simp: move_buttons_def)
  have dist: "distinct (map fe_id ?fs)" using ok by (simp add: hook_ok_def)
  have idx: "findIndex (\<lambda>c. fe_id c = i) ?fs = int p" using findIndex_distinct [OF dist p(1)] p(2) by simp
  have neq: "\<And>q. q < length ?fs \<Longrightarrow> q \<noteq> p \<Longrightarrow> ?fs ! q \<noteq> ?fs ! p"
    using dist p(1) by (metis distinct_map nth_eq_iff_index_eq)
  have swap_ne: "\<And>q. q < length ?fs \<Longrightarrow> q \<noteq> p \<Longrightarrow> st\<lparr>uh_files := ?fs[p := ?fs ! q, q := ?fs ! p]\<rparr> \<noteq> st"
  proof
    fix q assume q: "q < length ?fs" "q \<noteq> p" and eq: "st\<lparr>uh_files := ?fs[p := ?fs ! q, q := ?fs ! p]\<rparr> = st"
    then have "?fs[p := ?fs ! q, q := ?fs ! p] ! p = ?fs ! p" by (metis upload_hook.select_convs(1) upload_hook.surjective upload_hook.update_convs(1))
    then show False using q p(1) neq by simp
  qed
  have "up \<longleftrightarrow> moveFile i Up st \<noteq> st"
  proof (cases p)
    case 0 then show ?thesis using p idx by (simp add: moveFile_def)
  next
    case (Suc q)
    have n: "nat (1 + int q) = Suc q" by simp
    then have "moveFile i Up st = st\<lparr>uh_files := ?fs[p := ?fs ! q, q := ?fs ! p]\<rparr>"
      using idx p(1) Suc by (simp add: moveFile_def Let_def)
    then show ?thesis using swap_ne [of q] Suc p by simp
  qed
  moreover have "down \<longleftrightarrow> moveFile i Down st \<noteq> st"
  proof (cases "p = length ?fs - 1")
    case True then show ?thesis using p idx by (simp add: moveFile_def Let_def)
  next
    case False
    have n: "nat (int p + 1) = Suc p" by simp
    from False have "moveFile i Down st = st\<lparr>uh_files := ?fs[p := ?fs ! Suc p, Suc p := ?fs ! p]\<rparr>"
      using idx p(1) n by (simp add: moveFile_def Let_def)
    then show ?thesis using swap_ne [of "Suc p"] False p by simp
  qed
  ultimately show ?thesis by blast
qed

end
