(* ===== verification/File_Route.thy ===== *)
theory File_Route
  imports Server_Actions Client_Views Receipt_Extraction Js_Number "HOL-Library.List_Lexorder" "HOL-Library.Char_ord"
begin

text \<open>
  The image route src/app/api/receipt/file/route.ts, which the receipt image pager
  (receipt-images-view.tsx) uses as its \<open>img\<close> source.  A request is the session and the
  query of its URL; the route reads the receipt row, lists the blobs of the container whose
  names start with \<open>reportId/receiptId/receipt-(page-1)\<close>, and answers with the first.
  Azure lists the blobs of a container in lexicographic order of their names
  (\<open>list_blobs_prefix\<close>, with the order of HOL-Library.List_Lexorder, which is that order
  on ASCII names); an upload sets no content type, so a blob's is Azure's default.  The
  responses are values of \<open>route_response\<close>; an exception (\<open>findUniqueOrThrow\<close> of an
  unknown id) is \<open>ServerError\<close>.  A number inside a template literal is printed as an
  integer when it is one, \<open>NaN\<close> when it is \<open>NaN\<close>, and otherwise by \<open>num_str\<close>, a
  parameter standing for \<open>Number.prototype.toString\<close> of other values.  The query parser
  \<open>parse_query\<close> is \<open>URLSearchParams\<close> on names and values without percent escapes.
\<close>

datatype route_response = JsonResp nat string | BlobResp string bytes | ServerError string

definition int_str :: "int \<Rightarrow> string" where
  "int_str i = (if i < 0 then ''-'' @ show_nat (nat (- i)) else show_nat (nat i))"

definition number_template :: "(real \<Rightarrow> string) \<Rightarrow> real option \<Rightarrow> string" where
  "number_template num_str x = (case x of
       None \<Rightarrow> ''NaN''
     | Some v \<Rightarrow> (if of_int \<lfloor>v\<rfloor> = v then int_str \<lfloor>v\<rfloor> else num_str v))"

definition break_at :: "char \<Rightarrow> string \<Rightarrow> string \<times> string" where
  "break_at c s = (takeWhile (\<lambda>x. x \<noteq> c) s, drop 1 (dropWhile (\<lambda>x. x \<noteq> c) s))"

definition parse_query :: "string \<Rightarrow> (string \<times> string) list" where
  "parse_query url = map (break_at CHR ''='') (filter (\<lambda>p. p \<noteq> []) (split_on CHR ''&'' (snd (break_at CHR ''?'' url))))"

definition list_blobs_prefix :: "string \<Rightarrow> blobs \<Rightarrow> string list" where
  "list_blobs_prefix p bl = sort (filter (\<lambda>n. startsWith n p) (map fst bl))"

definition page_prefix :: "(real \<Rightarrow> string) \<Rightarrow> receipt \<Rightarrow> real option \<Rightarrow> string" where
  "page_prefix num_str r pageNumber =
     rc_expenseReportId r @ ''/'' @ rc_id r @ ''/receipt-'' @ number_template num_str (map_option (\<lambda>v. v - 1) pageNumber)"

text \<open>\<open>GET\<close> (lines 7-68).\<close>

definition file_route :: "(real \<Rightarrow> string) \<Rightarrow> session \<Rightarrow> (string \<times> string) list \<Rightarrow> db \<Rightarrow> blobs \<Rightarrow> route_response" where
  "file_route num_str s q d bl =
     (case s of
        None \<Rightarrow> JsonResp 401 ''you are not signed in''
      | Some _ \<Rightarrow>
          (case map_of q ''id'' of
             None \<Rightarrow> JsonResp 400 ''invalid receipt id''
           | Some receiptId \<Rightarrow>
               (if receiptId = [] then JsonResp 400 ''invalid receipt id''
                else (let pageNumber = js_Number (case map_of q ''page'' of None \<Rightarrow> ''1'' | Some p \<Rightarrow> p) in
                  case find_by rc_id receiptId (receipts d) of
                    None \<Rightarrow> ServerError ''No Receipt found''
                  | Some r \<Rightarrow>
                      (case list_blobs_prefix (page_prefix num_str r pageNumber) bl of
                         [] \<Rightarrow> JsonResp 200 ''failed to get first blob for receipt''
                       | n # _ \<Rightarrow> BlobResp ''application/octet-stream'' (the (map_of bl n)))))))"


subsection \<open>The pager's URL\<close>

lemma digits_no_sep: "list_all is_digit ds \<Longrightarrow> \<not> is_digit c \<Longrightarrow> c \<notin> set ds"
  by (auto simp: list_all_iff)

lemma parse_image_url:
  assumes "CHR ''&'' \<notin> set rid"
  shows "parse_query (image_url rid p) = [(''id'', rid), (''page'', show_nat p)]"
proof -
  have amp: "CHR ''&'' \<notin> set (show_nat p)" using digits_no_sep [OF show_nat_all_digits] by (simp add: is_digit_def)
  have "snd (break_at CHR ''?'' (image_url rid p)) = ''id='' @ rid @ CHR ''&'' # ''page='' @ show_nat p"
    by (simp add: break_at_def image_url_def)
  moreover have "split_on CHR ''&'' (''id='' @ rid @ CHR ''&'' # ''page='' @ show_nat p) =
      [''id='' @ rid, ''page='' @ show_nat p]"
    using split_on_sep [of "CHR ''&''" "''id='' @ rid" "''page='' @ show_nat p"] split_on_no_sep [of "CHR ''&''" "''page='' @ show_nat p"]
      assms amp by simp
  ultimately show ?thesis by (simp add: parse_query_def break_at_def)
qed

lemma js_Number_show_nat: "js_Number (show_nat n) = Some (real n)"
  using js_Number_digits [OF show_nat_all_digits show_nat_ne] by simp

lemma number_template_nat: "number_template num_str (Some (real k)) = show_nat k"
proof -
  have "\<lfloor>real k\<rfloor> = int k" by simp
  then show ?thesis by (simp add: number_template_def int_str_def)
qed

subsection \<open>Blob names in lexicographic order\<close>

lemma startsWith_append_cancel [simp]: "startsWith (p @ x) (p @ y) \<longleftrightarrow> startsWith x y"
  by (induction p) auto

lemma startsWith_trans: "startsWith s (p @ q) \<Longrightarrow> startsWith s p"
  by (auto simp: startsWith_iff)

lemma show_nat_length_mono: "m \<le> n \<Longrightarrow> length (show_nat m) \<le> length (show_nat n)"
proof (induction n arbitrary: m rule: show_nat.induct)
  case (1 n)
  show ?case
  proof (cases "n < 10")
    case True
    with "1.prems" show ?thesis by (simp add: show_nat.simps [of m] show_nat.simps [of n])
  next
    case False
    then have n: "length (show_nat n) = Suc (length (show_nat (n div 10)))" by (simp add: show_nat.simps [of n])
    show ?thesis
    proof (cases "m < 10")
      case True
      then show ?thesis using n by (simp add: show_nat.simps [of m])
    next
      case m: False
      have "m div 10 \<le> n div 10" using "1.prems" by (simp add: div_le_mono)
      then have "length (show_nat (m div 10)) \<le> length (show_nat (n div 10))" using "1.IH" False by blast
      then show ?thesis using n m by (simp add: show_nat.simps [of m])
    qed
  qed
qed

lemma digits_prefix_cases:
  "list_all is_digit a \<Longrightarrow> list_all is_digit b \<Longrightarrow> startsWith (b @ CHR ''.'' # x) a \<Longrightarrow>
     a = b \<or> (\<exists>d y. b = a @ d # y \<and> is_digit d)"
proof (induction a arbitrary: b)
  case Nil
  then show ?case by (cases b) auto
next
  case (Cons c a)
  show ?case
  proof (cases b)
    case Nil
    with Cons.prems show ?thesis by (auto simp: is_digit_def)
  next
    case (Cons c' b')
    with Cons.prems Cons.IH [of b'] show ?thesis by auto
  qed
qed

lemma lex_dot_digit: "is_digit d \<Longrightarrow> (p @ CHR ''.'' # x :: string) < p @ d # y"
  by (induction p) (auto simp: less_char_def is_digit_def)

lemma sort_least:
  fixes xs :: "'a::linorder list"
  assumes "a \<in> set xs" "\<forall>b \<in> set xs. a \<le> b"
  shows "\<exists>ys. sort xs = a # ys"
proof (cases "sort xs")
  case Nil
  then show ?thesis using assms(1) by (metis empty_iff set_empty set_sort)
next
  case (Cons h ys)
  have "h \<in> set xs" using Cons by (metis list.set_intros(1) set_sort)
  moreover have "sorted (h # ys)" using Cons by (metis sorted_sort)
  moreover have "a \<in> set (h # ys)" using assms(1) Cons by (metis set_sort)
  ultimately have "h \<le> a" "a \<le> h" using assms(2) by auto
  then show ?thesis using Cons by auto
qed

text \<open>The blobs of a receipt's upload listed with the prefix of page \<open>k\<close>: page \<open>k\<close>'s own
  blob first (page numbers that extend \<open>k\<close>'s digits, as 10 after 1, sort after it), and
  none when no page \<open>k\<close> was uploaded.\<close>

lemma page_blob_first:
  assumes "\<forall>n \<in> fst ` set bl. \<not> startsWith n (rep @ ''/'' @ rc @ ''/'')"
  shows "(k < length files \<longrightarrow> (\<exists>ys. list_blobs_prefix (rep @ ''/'' @ rc @ ''/receipt-'' @ show_nat k)
            (upload_pages rep rc 0 files bl) = blob_name rep rc k (pf_extension (files ! k)) # ys)) \<and>
         (length files \<le> k \<longrightarrow> list_blobs_prefix (rep @ ''/'' @ rc @ ''/receipt-'' @ show_nat k)
            (upload_pages rep rc 0 files bl) = [])"
proof -
  let ?R = "rep @ ''/'' @ rc @ ''/receipt-''"
  let ?P = "rep @ ''/'' @ rc @ ''/receipt-'' @ show_nat k"
  let ?L = "filter (\<lambda>n. startsWith n ?P) (map fst (upload_pages rep rc 0 files bl))"
  have keys: "set (map fst (upload_pages rep rc 0 files bl)) =
      fst ` set bl \<union> (\<lambda>j. blob_name rep rc j (pf_extension (files ! j))) ` {..<length files}"
    using upload_pages_keys [of rep rc 0 files bl] by simp
  have old: "\<not> startsWith n ?P" if "n \<in> fst ` set bl" for n
    using assms that startsWith_trans [of n "rep @ ''/'' @ rc @ ''/''" "''receipt-'' @ show_nat k"] by auto
  have name: "blob_name rep rc j e = ?R @ show_nat j @ CHR ''.'' # template_str e" for j e
    by (simp add: blob_name_def)
  have match: "j = k \<or> (\<exists>d y. show_nat j = show_nat k @ d # y \<and> is_digit d)"
    if "startsWith (blob_name rep rc j e) ?P" for j e
    using digits_prefix_cases [of "show_nat k" "show_nat j" "template_str e", OF show_nat_all_digits show_nat_all_digits] that
    by (auto simp: name show_nat_inj)
  have longer: "k < j" if "show_nat j = show_nat k @ d # y" for j d y
  proof (rule ccontr)
    assume "\<not> k < j"
    then have "length (show_nat j) \<le> length (show_nat k)"
      by (metis not_less show_nat_length_mono)
    with that show False by simp
  qed
  show ?thesis
  proof (intro conjI impI)
    assume k: "k < length files"
    let ?a = "blob_name rep rc k (pf_extension (files ! k))"
    have "?a \<in> set ?L" using k keys by (auto simp: name)
    moreover have "\<forall>b \<in> set ?L. ?a \<le> b"
    proof
      fix b assume "b \<in> set ?L"
      then have b: "b \<in> set (map fst (upload_pages rep rc 0 files bl))" "startsWith b ?P" by auto
      then obtain j where j: "j < length files" "b = blob_name rep rc j (pf_extension (files ! j))"
        using keys old by auto
      show "?a \<le> b"
      proof (cases "j = k")
        case False
        then obtain d y where dy: "show_nat j = show_nat k @ d # y" "is_digit d" using match b(2) j(2) by blast
        have a_eq: "?a = (?R @ show_nat k) @ CHR ''.'' # template_str (pf_extension (files ! k))" by (simp add: name)
        have b_eq: "b = (?R @ show_nat k) @ d # (y @ CHR ''.'' # template_str (pf_extension (files ! j)))"
          using j(2) dy(1) by (simp add: name)
        have "(?R @ show_nat k) @ CHR ''.'' # template_str (pf_extension (files ! k)) <
            (?R @ show_nat k) @ d # (y @ CHR ''.'' # template_str (pf_extension (files ! j)))"
          by (rule lex_dot_digit [OF dy(2)])
        then have "?a < b" by (simp only: a_eq b_eq)
        then show ?thesis by (rule less_imp_le)
      qed (simp add: j)
    qed
    ultimately have "\<exists>ys. sort ?L = ?a # ys" by (rule sort_least)
    then show "\<exists>ys. list_blobs_prefix ?P (upload_pages rep rc 0 files bl) = ?a # ys"
      by (simp only: list_blobs_prefix_def)
  next
    assume k: "length files \<le> k"
    have none: "\<not> startsWith (blob_name rep rc j e) ?P" if "j < length files" for j e
      using match [of j e] longer that k by fastforce
    have "\<forall>n \<in> set (map fst (upload_pages rep rc 0 files bl)). \<not> startsWith n ?P"
    proof
      fix n assume "n \<in> set (map fst (upload_pages rep rc 0 files bl))"
      then have "n \<in> fst ` set bl \<or> (\<exists>j < length files. n = blob_name rep rc j (pf_extension (files ! j)))"
        using keys by auto
      then show "\<not> startsWith n ?P" using old none by blast
    qed
    then show "list_blobs_prefix ?P (upload_pages rep rc 0 files bl) = []"
      by (simp add: list_blobs_prefix_def filter_empty_conv)
  qed
qed


subsection \<open>What the route serves\<close>

lemma route_query:
  assumes "CHR ''&'' \<notin> set rid"
  shows "map_of (parse_query (image_url rid (Suc k))) ''id'' = Some rid"
    "js_Number (case map_of (parse_query (image_url rid (Suc k))) ''page'' of None \<Rightarrow> ''1'' | Some p \<Rightarrow> p) =
       Some (real (Suc k))"
  using parse_image_url [OF assms] js_Number_show_nat [of "Suc k"] by simp_all

lemma route_prefix: "page_prefix num_str r (Some (real (Suc k))) =
    rc_expenseReportId r @ ''/'' @ rc_id r @ ''/receipt-'' @ show_nat k"
  using number_template_nat [of num_str k] by (simp add: page_prefix_def)

lemma file_route_page:
  assumes r: "r \<in> set (receipts d)" "unique_by rc_id (receipts d)" and rid: "rc_id r \<noteq> []"
    and fresh: "\<forall>n \<in> fst ` set bl. \<not> startsWith n (rc_expenseReportId r @ ''/'' @ rc_id r @ ''/'')"
    and k: "k < length files"
    and q: "map_of q ''id'' = Some (rc_id r)"
      "js_Number (case map_of q ''page'' of None \<Rightarrow> ''1'' | Some p \<Rightarrow> p) = Some (real (Suc k))"
  shows "file_route num_str (Some u) q d (upload_pages (rc_expenseReportId r) (rc_id r) 0 files bl) =
         BlobResp ''application/octet-stream'' (pf_bytes (files ! k))"
proof -
  obtain ys where l: "list_blobs_prefix (rc_expenseReportId r @ ''/'' @ rc_id r @ ''/receipt-'' @ show_nat k)
      (upload_pages (rc_expenseReportId r) (rc_id r) 0 files bl) =
      blob_name (rc_expenseReportId r) (rc_id r) k (pf_extension (files ! k)) # ys"
    using page_blob_first [OF fresh] k by blast
  have "map_of (upload_pages (rc_expenseReportId r) (rc_id r) 0 files bl)
      (blob_name (rc_expenseReportId r) (rc_id r) k (pf_extension (files ! k))) = Some (pf_bytes (files ! k))"
    using upload_pages_map_of [OF k, of "rc_expenseReportId r" "rc_id r" 0 bl] by simp
  moreover have "find_by rc_id (rc_id r) (receipts d) = Some r" using find_by_unique [OF r(2) r(1)] .
  ultimately show ?thesis
    using q route_prefix [of num_str r k] l rid by (simp add: file_route_def)
qed

text \<open>C24. Round trip from the receipt image pager to blob storage: the URL the pager
  builds for page \<open>k+1\<close> of an uploaded receipt, requested by any signed-in user, is
  answered with exactly the bytes the extraction uploaded for page \<open>k\<close>.  The route checks no
  ownership: the user need not own the receipt.\<close>

theorem pager_image_roundtrip:
  assumes r: "r \<in> set (receipts d)" "unique_by rc_id (receipts d)"
    and rid: "CHR ''&'' \<notin> set (rc_id r)" "rc_id r \<noteq> []"
    and fresh: "\<forall>n \<in> fst ` set bl. \<not> startsWith n (rc_expenseReportId r @ ''/'' @ rc_id r @ ''/'')"
    and k: "k < length files"
  shows "file_route num_str (Some u) (parse_query (image_url (rc_id r) (Suc k))) d
           (upload_pages (rc_expenseReportId r) (rc_id r) 0 files bl) =
         BlobResp ''application/octet-stream'' (pf_bytes (files ! k))"
  using file_route_page [OF r rid(2) fresh k route_query [OF rid(1)]] .

text \<open>The route's failures: no session is 401 and an empty receipt id 400;
  an unknown receipt id throws in \<open>findUniqueOrThrow\<close> (a 500); and a page past the last
  uploaded one is answered with status 200 and a JSON message instead of an image.\<close>

theorem file_route_errors:
  assumes r: "r \<in> set (receipts d)" "unique_by rc_id (receipts d)"
    and rid: "CHR ''&'' \<notin> set (rc_id r)" "rc_id r \<noteq> []"
    and fresh: "\<forall>n \<in> fst ` set bl. \<not> startsWith n (rc_expenseReportId r @ ''/'' @ rc_id r @ ''/'')"
    and k: "length files \<le> k"
    and other: "CHR ''&'' \<notin> set x" "x \<noteq> []" "x \<notin> keys_of rc_id (receipts d)"
  shows "file_route num_str None q d bl' = JsonResp 401 ''you are not signed in'' \<and>
    file_route num_str (Some u) (parse_query (image_url [] p)) d bl' = JsonResp 400 ''invalid receipt id'' \<and>
    file_route num_str (Some u) (parse_query (image_url x (Suc p))) d bl' = ServerError ''No Receipt found'' \<and>
    file_route num_str (Some u) (parse_query (image_url (rc_id r) (Suc k))) d
      (upload_pages (rc_expenseReportId r) (rc_id r) 0 files bl) = JsonResp 200 ''failed to get first blob for receipt''"
proof (intro conjI)
  show "file_route num_str None q d bl' = JsonResp 401 ''you are not signed in''" by (simp add: file_route_def)
  show "file_route num_str (Some u) (parse_query (image_url [] p)) d bl' = JsonResp 400 ''invalid receipt id''"
    using parse_image_url [of "[]" p] by (simp add: file_route_def)
  show "file_route num_str (Some u) (parse_query (image_url x (Suc p))) d bl' = ServerError ''No Receipt found''"
    using route_query [OF other(1), of p] other(2,3) by (simp add: file_route_def find_by_None_iff [symmetric])
  have "list_blobs_prefix (rc_expenseReportId r @ ''/'' @ rc_id r @ ''/receipt-'' @ show_nat k)
      (upload_pages (rc_expenseReportId r) (rc_id r) 0 files bl) = []"
    using page_blob_first [OF fresh] k by blast
  moreover have "find_by rc_id (rc_id r) (receipts d) = Some r" using find_by_unique [OF r(2) r(1)] .
  ultimately show "file_route num_str (Some u) (parse_query (image_url (rc_id r) (Suc k))) d
      (upload_pages (rc_expenseReportId r) (rc_id r) 0 files bl) = JsonResp 200 ''failed to get first blob for receipt''"
    using route_query [OF rid(1), of k] route_prefix [of num_str r k] rid(2) by (simp add: file_route_def)
qed

end
