(* ===== verification/Receipt_Preview.thy ===== *)
theory Receipt_Preview
  imports Client_Sync Js_Number File_Route
begin

text \<open>
  The row of a receipt in the upload form (UploadFormReceiptPreview, upload-form.tsx
  lines 305-368) and the preview it shows while an extraction streams
  (src/components/reports/receipt-preview.tsx).  The preview reads the partial object of
  the pending entry, a \<open>js_object\<close> of Client_Sync; \<open>Number(v)\<close> of a JSON value is
  \<open>json_Number\<close>, None for NaN, and arithmetic on NaN gives NaN (\<open>num_add\<close>,
  \<open>num_mul\<close>).  \<open>Intl.NumberFormat\<close> with \<open>style: "currency"\<close> throws a RangeError unless
  the currency, converted to a string, is a well-formed currency code (three ASCII letters,
  ECMA-402 IsWellFormedCurrencyCode); a preview that throws is None.  The rendered fields are
  returned as JSON values; the date line (\<open>Intl.DateTimeFormat\<close>) is not modelled.
\<close>

subsection \<open>Number(...) of a JSON value\<close>

text \<open>\<open>Number\<close> of an array is \<open>Number\<close> of its string, the elements joined by commas:
  the empty array and \<open>[null]\<close> are 0, a one-element array is its element read as a
  string, and two elements give a comma, so NaN.\<close>

fun json_Number :: "json \<Rightarrow> real option" where
  "json_Number JNull = Some 0"
| "json_Number (JBool b) = Some (if b then 1 else 0)"
| "json_Number (JNum r) = Some r"
| "json_Number (JStr s) = js_Number s"
| "json_Number (JObj kvs) = None"
| "json_Number (JArr []) = Some 0"
| "json_Number (JArr [JNull]) = Some 0"
| "json_Number (JArr [JBool b]) = None"
| "json_Number (JArr [JNum r]) = Some r"
| "json_Number (JArr [JStr s]) = js_Number s"
| "json_Number (JArr [JObj kvs]) = None"
| "json_Number (JArr [JArr ys]) = json_Number (JArr ys)"
| "json_Number (JArr (x # y # zs)) = None"

definition num_add :: "real option \<Rightarrow> real option \<Rightarrow> real option" where
  "num_add a b = (case (a, b) of (Some x, Some y) \<Rightarrow> Some (x + y) | _ \<Rightarrow> None)"

definition num_mul :: "real option \<Rightarrow> real option \<Rightarrow> real option" where
  "num_mul a b = (case (a, b) of (Some x, Some y) \<Rightarrow> Some (x * y) | _ \<Rightarrow> None)"

text \<open>IsWellFormedCurrencyCode on the string of a JSON value: only a string of three ASCII
  letters, or an array whose single element is one, passes.\<close>

definition currency_code :: "string \<Rightarrow> bool" where
  "currency_code s \<longleftrightarrow> length s = 3 \<and>
     list_all (\<lambda>c. CHR ''A'' \<le> c \<and> c \<le> CHR ''Z'' \<or> CHR ''a'' \<le> c \<and> c \<le> CHR ''z'') s"

fun currency_ok :: "json \<Rightarrow> bool" where
  "currency_ok (JStr s) = currency_code s"
| "currency_ok (JArr [x]) = currency_ok x"
| "currency_ok _ = False"

subsection \<open>ReceiptPreview (receipt-preview.tsx lines 12-104)\<close>

record preview =
  pv_merchant :: json
  pv_address :: "json option"
  pv_category :: json
  pv_confidence :: "int option"
  pv_rows :: "(json \<times> real option \<times> real option \<times> real option) list"
  pv_subtotal :: "real option"
  pv_tax :: "real option"
  pv_tip :: "real option"
  pv_total :: "real option"

text \<open>Line 13: \<open>receipt?.items ?? []\<close>; a value that is not an array has no \<open>reduce\<close>, so
  line 16 throws.\<close>

definition preview_items :: "js_object \<Rightarrow> json list option" where
  "preview_items obj = (case obj ''items'' of None \<Rightarrow> Some [] | Some JNull \<Rightarrow> Some []
     | Some (JArr xs) \<Rightarrow> Some xs | Some _ \<Rightarrow> None)"

text \<open>Line 14: the first item's currency when it is truthy, else \<open>"USD"\<close>.\<close>

definition preview_currency :: "json list \<Rightarrow> json" where
  "preview_currency items = (case items of [] \<Rightarrow> JStr ''USD''
     | it # _ \<Rightarrow> (case js_field it ''currency'' of None \<Rightarrow> JStr ''USD''
                  | Some v \<Rightarrow> if js_falsy v then JStr ''USD'' else v))"

definition item_price :: "json \<Rightarrow> real option" where
  "item_price it = json_Number (js_coalesce (js_field it ''unitPrice'') (JNum 0))"

definition item_qty :: "json \<Rightarrow> real option" where
  "item_qty it = json_Number (js_coalesce (js_field it ''quantity'') (JNum 1))"

text \<open>Lines 16-20.\<close>

definition preview_subtotal :: "json list \<Rightarrow> real option" where
  "preview_subtotal items = foldl (\<lambda>s it. num_add s (num_mul (item_price it) (item_qty it))) (Some 0) items"

text \<open>Lines 22-23: \<open>Number(receipt?.tax ?? 0)\<close>.\<close>

definition preview_num :: "js_object \<Rightarrow> string \<Rightarrow> real option" where
  "preview_num obj k = json_Number (js_coalesce (obj k) (JNum 0))"

text \<open>Lines 63-66: the rows of the table, description, quantity, unit price and line total.\<close>

definition preview_row :: "json \<Rightarrow> json \<times> real option \<times> real option \<times> real option" where
  "preview_row it = (js_coalesce (js_field it ''description'') (JStr ''-''), item_qty it, item_price it,
     num_mul (item_qty it) (item_price it))"

text \<open>The whole component: None when it throws (line 16 on a non-array, or the currency
  formatter of line 29, which every render calls for the subtotal).\<close>

definition ReceiptPreview :: "js_object \<Rightarrow> preview option" where
  "ReceiptPreview obj = (case preview_items obj of
       None \<Rightarrow> None
     | Some items \<Rightarrow>
        (if \<not> currency_ok (preview_currency items) then None
         else (let merchant = (case obj ''merchant'' of None \<Rightarrow> None | Some m \<Rightarrow> js_field m ''name'');
                   address = (case obj ''merchant'' of None \<Rightarrow> None | Some m \<Rightarrow> js_field m ''address'');
                   subtotal = preview_subtotal items;
                   tax = preview_num obj ''tax'';
                   tip = preview_num obj ''tip''
               in Some \<lparr>pv_merchant = js_coalesce merchant (JStr ''Unknown merchant''),
                 pv_address = (case address of None \<Rightarrow> None | Some a \<Rightarrow> if js_falsy a then None else Some a),
                 pv_category = js_coalesce (obj ''category'') (JStr ''Uncategorized''),
                 pv_confidence = (case obj ''confidence'' of Some (JNum c) \<Rightarrow> Some \<lfloor>c * 100 + 1 / 2\<rfloor> | _ \<Rightarrow> None),
                 pv_rows = map preview_row items,
                 pv_subtotal = subtotal, pv_tax = tax, pv_tip = tip,
                 pv_total = num_add (num_add subtotal tax) tip\<rparr>)))"

subsection \<open>The row of the upload form (upload-form.tsx lines 309-363)\<close>

datatype img_source = FileRoute string | ObjectUrl | NoSource

datatype row_body = BodyPreview preview | BodyCard receipt category merchant | BodyEmpty | BodyThrows

text \<open>Line 317: a stored receipt is shown through the file route; a pending one through
  the object URL made for an image upload (Client_Sync's \<open>pe_preview\<close>).\<close>

definition row_source :: "receipt option \<Rightarrow> pending option \<Rightarrow> img_source" where
  "row_source rc pe = (case rc of
       Some r \<Rightarrow> FileRoute (''/api/receipt/file?id='' @ rc_id r)
     | None \<Rightarrow> (case pe of Some e \<Rightarrow> if pe_preview e then ObjectUrl else NoSource | None \<Rightarrow> NoSource))"

text \<open>Line 346: the spinner.\<close>

definition row_spinner :: "pending option \<Rightarrow> bool" where
  "row_spinner pe = (case pe of None \<Rightarrow> False | Some e \<Rightarrow> pe_status e = PENDING \<or> pe_status e = EXTRACTING)"

text \<open>Lines 362-363: the preview of the partial object while no receipt exists, the card
  once the receipt, its category and its merchant are all in the collections.\<close>

definition row_body :: "receipt option \<Rightarrow> pending option \<Rightarrow> category option \<Rightarrow> merchant option \<Rightarrow> row_body" where
  "row_body rc pe cat m = (case rc of
       None \<Rightarrow> (case pe of None \<Rightarrow> BodyEmpty | Some e \<Rightarrow>
                 (case pe_partial e of None \<Rightarrow> BodyEmpty | Some obj \<Rightarrow>
                    (case ReceiptPreview obj of None \<Rightarrow> BodyThrows | Some p \<Rightarrow> BodyPreview p)))
     | Some r \<Rightarrow> (case (cat, m) of (Some c, Some mm) \<Rightarrow> BodyCard r c mm | _ \<Rightarrow> BodyEmpty))"

definition row_is_image :: "pending option \<Rightarrow> bool" where
  "row_is_image pe = (case pe of None \<Rightarrow> True | Some e \<Rightarrow> \<not> endsWith (f_name (pe_file e)) ''.pdf'')"

text \<open>The row: its image source, whether the source is shown as an image (line 318), the
  spinner, and the body of the collapsible.\<close>

definition UploadFormReceiptPreview :: "receipt option \<Rightarrow> pending option \<Rightarrow> category option \<Rightarrow> merchant option \<Rightarrow>
    img_source \<times> bool \<times> bool \<times> row_body" where
  "UploadFormReceiptPreview rc pe cat m = (row_source rc pe, row_is_image pe, row_spinner pe, row_body rc pe cat m)"

subsection \<open>The preview of a streamed partial object\<close>

lemma find_pending_update:
  assumes "\<And>e. pe_id (f e) = pe_id e"
  shows "find_by pe_id i (cl_pending (pending_update i f c)) = map_option f (find_by pe_id i (cl_pending c))"
proof -
  have "find_by pe_id i (cl_pending (pending_update i f c)) =
      map_option (\<lambda>p. if pe_id p = i then f p else p) (find_by pe_id i (cl_pending c))"
    unfolding pending_update_def using assms by (simp add: find_by_map_same_key)
  then show ?thesis by (cases "find_by pe_id i (cl_pending c)") (auto dest: find_by_SomeD)
qed

lemma on_message_partial_obj:
  assumes "on_message i (Partial p) c = Some c'" "\<not> js_falsy p"
    and "find_by pe_id i (cl_pending c') = Some e" "pe_partial e = Some obj'"
  shows "\<exists>pe obj. find_by pe_id i (cl_pending c) = Some pe \<and> pe_partial pe = Some obj \<and> apply_partial p obj = Some obj'"
  using assms by (auto simp: find_pending_update split: option.splits)

lemma on_message_partial_entry:
  assumes "find_by pe_id i (cl_pending c) = Some pe" "pe_partial pe = Some obj" "apply_partial p obj = Some obj'"
    and "\<not> js_falsy p"
  shows "\<exists>c'. on_message i (Partial p) c = Some c' \<and>
    find_by pe_id i (cl_pending c') = Some (pe\<lparr>pe_partial := Some obj'\<rparr>)"
  using assms by (simp add: find_pending_update)

lemma apply_partial_items:
  "apply_partial p obj = Some obj' \<Longrightarrow> js_field p ''items'' = Some (JArr xs) \<Longrightarrow> obj' ''items'' = Some (JArr xs)"
  by (auto simp: apply_partial_def Let_def)

lemma apply_partial_tax: "apply_partial p obj = Some obj' \<Longrightarrow> obj' ''tax'' = js_field p ''tax''"
  by (auto simp: apply_partial_def Let_def split: option.splits json.splits)

lemma js_field_not_falsy: "js_field p k = Some v \<Longrightarrow> \<not> js_falsy p"
  by (auto simp: js_field_def js_falsy_def)

lemma preview_throws: "preview_items obj = Some items \<Longrightarrow> \<not> currency_ok (preview_currency items) \<Longrightarrow> ReceiptPreview obj = None"
  by (simp add: ReceiptPreview_def)

lemma encode_receipt_fields:
  "js_field (encode_receipt r) ''items'' = Some (JArr (map encode_line_item (xr_items r)))"
  "js_field (encode_receipt r) ''tax'' = Some (JNum (xr_tax r))"
  by (simp_all add: js_field_def encode_receipt_def opt_field_def split: option.split)

lemma preview_subtotal_encode:
  "foldl (\<lambda>s it. num_add s (num_mul (item_price it) (item_qty it))) (Some a) (map encode_line_item xs) =
     Some (foldl (\<lambda>s x. s + xi_unitPrice x * xi_quantity x) a xs)"
  by (induction xs arbitrary: a)
    (simp_all add: item_price_def item_qty_def js_field_def encode_line_item_def opt_field_def num_add_def
      num_mul_def js_coalesce_def split: option.split)

lemma line_items_subtotal:
  "list_all2 (\<lambda>x l. l = new_line_item i now x (li_id l)) xs ls \<Longrightarrow>
     foldl (\<lambda>s it. s + li_unitPrice it * li_quantity it) a ls = foldl (\<lambda>s x. s + xi_unitPrice x * xi_quantity x) a xs"
proof (induction arbitrary: a rule: list_all2_induct)
  case (Cons x xs l ls)
  have "li_unitPrice l = xi_unitPrice x" "li_quantity l = xi_quantity x"
    using arg_cong [OF Cons.hyps(1), of li_unitPrice] arg_cong [OF Cons.hyps(1), of li_quantity]
    by (simp_all add: new_line_item_def)
  then show ?case using Cons.IH by simp
qed simp

lemma encoded_currency_ok:
  "list_all (\<lambda>x. currency_code (xi_currency x)) xs \<Longrightarrow> currency_ok (preview_currency (map encode_line_item xs))"
  by (cases xs) (auto simp: preview_currency_def encode_line_item_def js_field_def opt_field_def js_falsy_def
      currency_code_def split: option.split)

text \<open>C25. A streamed partial object whose first line item carries a currency that is not yet a
  three-letter code (the stream delivers \<open>"USD"\<close> as \<open>"U"\<close>, \<open>"US"\<close>, ...) reaches the row of
  the upload form, whose preview then throws in \<open>Intl.NumberFormat\<close>.\<close>

theorem partial_currency_prefix_throws:
  assumes st: "entry_status i c s"
    and p: "js_field p ''items'' = Some (JArr (it # its))" "js_field it ''currency'' = Some (JStr cur)"
    and cur: "cur \<noteq> []" "\<not> currency_code cur"
  shows "\<exists>c' e. on_message i (Partial p) c = Some c' \<and> find_by pe_id i (cl_pending c') = Some e \<and>
    row_body None (Some e) cat m = BodyThrows"
proof -
  obtain pe obj where pe: "find_by pe_id i (cl_pending c) = Some pe" "pe_partial pe = Some obj"
    using st by (auto simp: entry_status_def)
  obtain obj' where a: "apply_partial p obj = Some obj'"
    using apply_partial_ok [of p obj] p(1) by (auto simp: items_ok_def)
  obtain c' where msg: "on_message i (Partial p) c = Some c'"
      and e: "find_by pe_id i (cl_pending c') = Some (pe\<lparr>pe_partial := Some obj'\<rparr>)"
    using on_message_partial_entry [OF pe a js_field_not_falsy [OF p(1)]] by blast
  have "preview_items obj' = Some (it # its)" using apply_partial_items [OF a p(1)] by (simp add: preview_items_def)
  moreover have "\<not> currency_ok (preview_currency (it # its))"
    using p(2) cur by (simp add: preview_currency_def js_falsy_def)
  ultimately have "ReceiptPreview obj' = None" by (rule preview_throws)
  then have "row_body None (Some (pe\<lparr>pe_partial := Some obj'\<rparr>)) cat m = BodyThrows" by (simp add: row_body_def)
  with msg e show ?thesis by blast
qed

text \<open>While a complete extraction is shown as the last streamed partial object, the
  preview's tip is 0 and its total is the card's total of the receipt the server stores minus
  the tip: the preview leaves the tip out.\<close>

theorem preview_total_omits_tip:
  assumes reach: "client_reach c"
    and msg: "on_message i (Partial (encode_receipt r)) c = Some c'"
    and e: "find_by pe_id i (cl_pending c') = Some e" "pe_partial e = Some obj"
    and cur: "list_all (\<lambda>x. currency_code (xi_currency x)) (xr_items r)"
    and ls: "list_all2 (\<lambda>x l. l = new_line_item i now x (li_id l)) (xr_items r) ls"
  shows "\<exists>pv. ReceiptPreview obj = Some pv \<and> pv_tip pv = Some 0 \<and>
     pv_total pv = Some (receipt_total ls (new_receipt js_date now r rep i n mm ct) - xr_tip r)"
proof -
  obtain pe obj0 where pe: "find_by pe_id i (cl_pending c) = Some pe" "pe_partial pe = Some obj0"
      and a: "apply_partial (encode_receipt r) obj0 = Some obj"
    using on_message_partial_obj [OF msg js_field_not_falsy [OF encode_receipt_fields(1)] e] by blast
  have "obj0 ''tip'' = None"
    using client_reach_pending_inv [OF reach] find_by_SomeD [OF pe(1)] pe(2) by (auto simp: pending_ok_def)
  then have tip: "obj ''tip'' = None" using apply_partial_tip [OF a] by simp
  have items: "preview_items obj = Some (map encode_line_item (xr_items r))"
    using apply_partial_items [OF a encode_receipt_fields(1)] by (simp add: preview_items_def)
  have tax: "obj ''tax'' = Some (JNum (xr_tax r))" using apply_partial_tax [OF a] encode_receipt_fields(2) by simp
  have sub: "preview_subtotal (map encode_line_item (xr_items r)) = Some (receipt_subtotal ls)"
    using preview_subtotal_encode [of 0] line_items_subtotal [OF ls, of 0]
    by (simp add: preview_subtotal_def receipt_subtotal_def)
  show ?thesis
    using items encoded_currency_ok [OF cur] sub tax tip
    by (simp add: ReceiptPreview_def preview_num_def js_coalesce_def num_add_def receipt_total_def new_receipt_def)
qed

subsection \<open>The thumbnail of a stored receipt\<close>

lemma parse_thumbnail_url:
  assumes "CHR ''&'' \<notin> set rid"
  shows "parse_query (''/api/receipt/file?id='' @ rid) = [(''id'', rid)]"
proof -
  have "snd (break_at CHR ''?'' (''/api/receipt/file?id='' @ rid)) = ''id='' @ rid" by (simp add: break_at_def)
  moreover have "split_on CHR ''&'' (''id='' @ rid) = [''id='' @ rid]" using assms by (simp add: split_on_no_sep)
  ultimately show ?thesis by (simp add: parse_query_def break_at_def)
qed

text \<open>The thumbnail of a stored receipt's row is the file route without a page, which the
  route reads as page 1: it shows the first uploaded page.\<close>

lemma row_thumbnail_first_page:
  assumes r: "r \<in> set (receipts d)" "unique_by rc_id (receipts d)"
    and rid: "CHR ''&'' \<notin> set (rc_id r)" "rc_id r \<noteq> []"
    and fresh: "\<forall>n \<in> fst ` set bl. \<not> startsWith n (rc_expenseReportId r @ ''/'' @ rc_id r @ ''/'')"
    and files: "files \<noteq> []"
  shows "\<exists>url. fst (UploadFormReceiptPreview (Some r) pe cat m) = FileRoute url \<and>
    file_route num_str (Some u) (parse_query url) d (upload_pages (rc_expenseReportId r) (rc_id r) 0 files bl) =
      BlobResp ''application/octet-stream'' (pf_bytes (hd files))"
proof -
  have q: "map_of (parse_query (''/api/receipt/file?id='' @ rc_id r)) ''id'' = Some (rc_id r)"
    "js_Number (case map_of (parse_query (''/api/receipt/file?id='' @ rc_id r)) ''page'' of None \<Rightarrow> ''1'' | Some p \<Rightarrow> p) =
       Some (real (Suc 0))"
    using parse_thumbnail_url [OF rid(1)] js_Number_digits [of "''1''"] by (simp_all add: is_digit_def read_nat_def)
  have "file_route num_str (Some u) (parse_query (''/api/receipt/file?id='' @ rc_id r)) d
      (upload_pages (rc_expenseReportId r) (rc_id r) 0 files bl) = BlobResp ''application/octet-stream'' (pf_bytes (files ! 0))"
    using files by (intro file_route_page [OF r rid(2) fresh _ q]) simp
  then show ?thesis using files by (simp add: UploadFormReceiptPreview_def row_source_def hd_conv_nth)
qed

subsection \<open>The type of the partial object in reachable states\<close>

lemma apply_partial_preview_items: "apply_partial p obj = Some obj' \<Longrightarrow> \<exists>items. preview_items obj' = Some items"
  by (auto simp: apply_partial_def Let_def preview_items_def split: option.splits json.splits)

lemma preview_items_on_message:
  assumes "\<forall>pe \<in> set (cl_pending c). \<forall>obj. pe_partial pe = Some obj \<longrightarrow> (\<exists>items. preview_items obj = Some items)"
    and "on_message i m c = Some c'"
  shows "\<forall>pe \<in> set (cl_pending c'). \<forall>obj. pe_partial pe = Some obj \<longrightarrow> (\<exists>items. preview_items obj = Some items)"
proof (cases m)
  case (Partial p)
  show ?thesis
  proof (cases "c' = c")
    case False
    then obtain pe obj obj' where a: "apply_partial p obj = Some obj'"
      and c': "c' = pending_update i (\<lambda>e. e\<lparr>pe_partial := Some obj'\<rparr>) c"
      using assms(2) Partial by (auto split: if_splits option.splits)
    show ?thesis
      using assms(1) apply_partial_preview_items [OF a] unfolding c' by (fastforce dest!: set_pending_update)
  qed (use assms(1) in simp)
next
  case (Finished res)
  with assms show ?thesis by auto
qed

text \<open>C28. A typing invariant of the browser state: in every reachable state the \<open>items\<close> field
  of a pending entry's partial object is absent or an array, so the preview's
  \<open>items.reduce\<close> never throws and the preview throws only on its currency.\<close>

theorem client_reach_preview_items:
  assumes "client_reach c" "pe \<in> set (cl_pending c)" "pe_partial pe = Some obj"
  shows "\<exists>items. preview_items obj = Some items \<and> (ReceiptPreview obj = None \<longleftrightarrow> \<not> currency_ok (preview_currency items))"
proof -
  from assms(1) have "\<forall>pe \<in> set (cl_pending c). \<forall>obj. pe_partial pe = Some obj \<longrightarrow> (\<exists>items. preview_items obj = Some items)"
  proof (induction rule: client_reach.induct)
    case (start c receiptId expenseReportId f)
    then show ?case by (auto simp: startReceipt_def preview_items_def)
  next
    case (returned c receiptId)
    then show ?case by (fastforce dest!: set_pending_update)
  next
    case (message c receiptId m c')
    then show ?case using preview_items_on_message by blast
  qed simp
  with assms(2,3) obtain items where i: "preview_items obj = Some items" by blast
  then show ?thesis by (simp add: ReceiptPreview_def Let_def)
qed

end
