(* ===== verification/Report_Form.thy ===== *)
theory Report_Form
  imports Client_Sync
begin

text \<open>
  The report's own form, the upper half of the upload form (upload-form.tsx lines 45-53 and
  171-192), and the page that saves it (src/app/reports/[id]/page.tsx).  The form is a
  react-hook-form whose default values are the report row; the component subscribes to the
  form's state in its body, so every render of the component adds one subscription, each
  with its own \<open>timeoutId\<close>.  A subscription's callback returns at once when the form is
  not dirty (its values equal the defaults) and otherwise replaces its timer by one that
  calls \<open>valueChanged\<close> with the values 1000 ms later.  Time is a number of milliseconds;
  \<open>Wait dt\<close> lets it pass and fires the timers whose deadline has come, in the order the
  subscriptions were made.  The page's \<open>handleValueChanged\<close> updates the report
  collection, whose handler sends \<open>UpdateReports\<close> with the modified row.
\<close>

subsection \<open>The form and its subscriptions (upload-form.tsx lines 45-53, 171-192)\<close>

definition DEBOUNCE_MS :: nat where
  "DEBOUNCE_MS = 1000"

record form_sub =
  fs_timer :: "(nat \<times> expense_report) option"

record report_form =
  rf_defaults :: expense_report
  rf_values :: expense_report
  rf_subs :: "form_sub list"
  rf_now :: nat

datatype form_event = Render | Change expense_report | Wait nat

text \<open>\<open>useForm({defaultValues: props.initialData})\<close>: the values start as the defaults.\<close>

definition form_init :: "expense_report \<Rightarrow> nat \<Rightarrow> report_form" where
  "form_init initialData now = \<lparr>rf_defaults = initialData, rf_values = initialData, rf_subs = [], rf_now = now\<rparr>"

definition is_dirty :: "report_form \<Rightarrow> bool" where
  "is_dirty f \<longleftrightarrow> rf_values f \<noteq> rf_defaults f"

text \<open>Lines 178-190: the callback of one subscription on a change of the form state.\<close>

definition sub_callback :: "nat \<Rightarrow> bool \<Rightarrow> expense_report \<Rightarrow> form_sub \<Rightarrow> form_sub" where
  "sub_callback now dirty values s =
     (if \<not> dirty then s else s\<lparr>fs_timer := Some (now + DEBOUNCE_MS, values)\<rparr>)"

text \<open>Lines 187-190: a timer whose deadline has come calls \<open>valueChanged\<close> and clears itself.\<close>

definition sub_fire :: "nat \<Rightarrow> form_sub \<Rightarrow> form_sub \<times> expense_report list" where
  "sub_fire now s = (case fs_timer s of
       Some (deadline, values) \<Rightarrow> if deadline \<le> now then (s\<lparr>fs_timer := None\<rparr>, [values]) else (s, [])
     | None \<Rightarrow> (s, []))"

text \<open>One event; the second component is the list of \<open>valueChanged\<close> calls it causes.\<close>

fun form_step :: "form_event \<Rightarrow> report_form \<Rightarrow> report_form \<times> expense_report list" where
  "form_step Render f = (f\<lparr>rf_subs := rf_subs f @ [\<lparr>fs_timer = None\<rparr>]\<rparr>, [])"
| "form_step (Change v) f =
     (let f' = f\<lparr>rf_values := v\<rparr>
      in (f'\<lparr>rf_subs := map (sub_callback (rf_now f) (is_dirty f') v) (rf_subs f)\<rparr>, []))"
| "form_step (Wait dt) f =
     (let now = rf_now f + dt; fired = map (sub_fire now) (rf_subs f)
      in (f\<lparr>rf_now := now, rf_subs := map fst fired\<rparr>, concat (map snd fired)))"

fun form_run :: "form_event list \<Rightarrow> report_form \<Rightarrow> report_form \<times> expense_report list" where
  "form_run [] f = (f, [])"
| "form_run (e # es) f =
     (let (f1, out1) = form_step e f; (f2, out2) = form_run es f1 in (f2, out1 @ out2))"

subsection \<open>The status select (src/components/reports/status-select.tsx)\<close>

definition SUBMITTER_OPTIONS :: "(report_status \<times> string) list" where
  "SUBMITTER_OPTIONS = [(DRAFT, ''Draft''), (SUBMITTED, ''Submitted'')]"

definition REVIEWER_OPTIONS :: "(report_status \<times> string) list" where
  "REVIEWER_OPTIONS = [(DRAFT, ''Draft''), (SUBMITTED, ''Submitted''), (APPROVED, ''Approved''), (REJECTED, ''Rejected'')]"

text \<open>Line 27: the options offered for the session's role; no session offers the submitter's.\<close>

definition status_options :: "session \<Rightarrow> (report_status \<times> string) list" where
  "status_options s = (case s of Some u \<Rightarrow> if u_role u = Reviewer then REVIEWER_OPTIONS else SUBMITTER_OPTIONS
     | None \<Rightarrow> SUBMITTER_OPTIONS)"

subsection \<open>The report page (src/app/reports/[id]/page.tsx)\<close>

text \<open>\<open>reportCollection.update(key, draft)\<close> on the rows of the report collection:
  an absent key throws.\<close>

definition coll_report_update :: "id \<Rightarrow> (expense_report \<Rightarrow> expense_report) \<Rightarrow> expense_report list \<Rightarrow>
    (expense_report list \<times> action list) option" where
  "coll_report_update k f rows = (case find_by rp_id k rows of
       None \<Rightarrow> None
     | Some r \<Rightarrow> Some (replace_by rp_id (f r) rows, [report_sync MUpdate [f r]]))"

text \<open>Lines 26-34.  The form's values are a whole report row, so \<open>?? ""\<close> never applies and
  the status, a non-empty enum string, is always set.\<close>

definition handleValueChanged :: "expense_report \<Rightarrow> expense_report list \<Rightarrow> (expense_report list \<times> action list) option" where
  "handleValueChanged v rows = coll_report_update (rp_id v)
     (\<lambda>x. x\<lparr>rp_description := rp_description v, rp_title := rp_title v, rp_status := rp_status v\<rparr>) rows"

fun value_changes :: "expense_report list \<Rightarrow> expense_report list \<Rightarrow> (expense_report list \<times> action list) option" where
  "value_changes [] rows = Some (rows, [])"
| "value_changes (v # vs) rows = (case handleValueChanged v rows of
       None \<Rightarrow> None
     | Some (rows1, a1) \<Rightarrow> (case value_changes vs rows1 of
          None \<Rightarrow> None
        | Some (rows2, a2) \<Rightarrow> Some (rows2, a1 @ a2)))"

text \<open>The page with its form: the events, then the saves the \<open>valueChanged\<close> calls make.\<close>

definition report_page_run :: "form_event list \<Rightarrow> report_form \<Rightarrow> expense_report list \<Rightarrow>
    report_form \<times> (expense_report list \<times> action list) option" where
  "report_page_run es f rows = (let (f', outs) = form_run es f in (f', value_changes outs rows))"

subsection \<open>Runs of the form\<close>

text \<open>The select offers approval and rejection to reviewers only; it is the only place that
  restricts them (updateReports writes any status of an owned report).\<close>

lemma status_options_roles:
  "fst ` set (status_options s) = (if \<exists>u. s = Some u \<and> u_role u = Reviewer then UNIV else {DRAFT, SUBMITTED})"
proof (cases s)
  case (Some u)
  have "UNIV = {DRAFT, SUBMITTED, APPROVED, REJECTED}" using report_status.exhaust by blast
  with Some show ?thesis by (auto simp: status_options_def REVIEWER_OPTIONS_def SUBMITTER_OPTIONS_def)
qed (simp add: status_options_def SUBMITTER_OPTIONS_def)

lemma form_run_append:
  "form_run (xs @ ys) f = (let (f1, out1) = form_run xs f; (f2, out2) = form_run ys f1 in (f2, out1 @ out2))"
  by (induction xs arbitrary: f) (simp_all split: prod.split)

text \<open>A dirty change followed by less than the delay leaves one pending timer and calls nothing.\<close>

lemma change_wait_quiet:
  assumes "rf_subs f = [s]" "v \<noteq> rf_defaults f" "t < DEBOUNCE_MS"
  shows "form_run [Change v, Wait t] f =
    (f\<lparr>rf_values := v, rf_now := rf_now f + t, rf_subs := [s\<lparr>fs_timer := Some (rf_now f + DEBOUNCE_MS, v)\<rparr>]\<rparr>, [])"
  using assms by (simp add: sub_callback_def sub_fire_def is_dirty_def)

lemma change_wait_fires:
  assumes "rf_subs f = [s]" "v \<noteq> rf_defaults f" "DEBOUNCE_MS \<le> w"
  shows "snd (form_run [Change v, Wait w] f) = [v]"
  using assms by (simp add: sub_callback_def sub_fire_def is_dirty_def)

lemma form_run_renders:
  "form_run (replicate k Render) f = (f\<lparr>rf_subs := rf_subs f @ replicate k \<lparr>fs_timer = None\<rparr>\<rparr>, [])"
proof (induction k arbitrary: f)
  case (Suc k)
  then show ?case by simp
qed simp

lemma concat_replicate_single: "concat (replicate k [x]) = replicate k x"
  by (induction k) simp_all

lemma replace_by_idem: "replace_by key r (replace_by key r rs) = replace_by key r rs"
  by (induction rs) (simp_all add: replace_by_def)

text \<open>C26. The debounce contract of the report form, for the subscription of one render: a
  burst of changes away from the saved values, each followed by less than 1000 ms, and a
  last change followed by at least 1000 ms, calls \<open>valueChanged\<close> exactly once, with
  the last values.\<close>

theorem debounce_last_values:
  assumes "rf_subs f = [s]" "\<forall>(v', t) \<in> set xs. v' \<noteq> rf_defaults f \<and> t < DEBOUNCE_MS"
    and "v \<noteq> rf_defaults f" "DEBOUNCE_MS \<le> w"
  shows "snd (form_run (concat (map (\<lambda>(v', t). [Change v', Wait t]) xs) @ [Change v, Wait w]) f) = [v]"
  using assms
proof (induction xs arbitrary: f s)
  case Nil
  then show ?case using change_wait_fires by simp
next
  case (Cons p xs)
  obtain v' t where p: "p = (v', t)" by fastforce
  define s' where "s' = s\<lparr>fs_timer := Some (rf_now f + DEBOUNCE_MS, v')\<rparr>"
  have q: "form_run [Change v', Wait t] f = (f\<lparr>rf_values := v', rf_now := rf_now f + t, rf_subs := [s']\<rparr>, [])"
    using change_wait_quiet [OF Cons.prems(1)] Cons.prems(2) p by (simp add: s'_def)
  have ih: "snd (form_run (concat (map (\<lambda>(v', t). [Change v', Wait t]) xs) @ [Change v, Wait w])
      (f\<lparr>rf_values := v', rf_now := rf_now f + t, rf_subs := [s']\<rparr>)) = [v]"
    using Cons.IH [of "f\<lparr>rf_values := v', rf_now := rf_now f + t, rf_subs := [s']\<rparr>" s'] Cons.prems by auto
  have "concat (map (\<lambda>(v', t). [Change v', Wait t]) (p # xs)) @ [Change v, Wait w] =
      [Change v', Wait t] @ (concat (map (\<lambda>(v', t). [Change v', Wait t]) xs) @ [Change v, Wait w])"
    using p by simp
  moreover have "snd (form_run ([Change v', Wait t] @ (concat (map (\<lambda>(v', t). [Change v', Wait t]) xs) @ [Change v, Wait w])) f) =
      snd (form_run (concat (map (\<lambda>(v', t). [Change v', Wait t]) xs) @ [Change v, Wait w])
        (f\<lparr>rf_values := v', rf_now := rf_now f + t, rf_subs := [s']\<rparr>))"
    apply (subst form_run_append)
    apply (simp only: q)
    apply (simp split: prod.split)
    done
  ultimately show ?case using ih by simp
qed

text \<open>C27. Undoing an edit saves the undone values: when a field is edited and, within
  1000 ms, edited back to the saved value, the form is no longer dirty and the callback
  returns without clearing its timer, so the timer still fires with the edited values; the
  page stores them in the report collection and sends them to the server while the form
  shows the saved values.\<close>

theorem revert_saves_stale_values:
  assumes "rf_subs f = [s]" "v \<noteq> rf_defaults f" "t < DEBOUNCE_MS" "DEBOUNCE_MS \<le> t + w"
    and "find_by rp_id (rp_id v) rows = Some r"
  shows "\<exists>f' r'. report_page_run [Change v, Wait t, Change (rf_defaults f), Wait w] f rows =
      (f', Some (replace_by rp_id r' rows, [UpdateReports [r']])) \<and>
    rf_values f' = rf_defaults f \<and> rp_title r' = rp_title v \<and> rp_description r' = rp_description v \<and> rp_status r' = rp_status v"
  using assms by (simp add: report_page_run_def sub_callback_def sub_fire_def is_dirty_def handleValueChanged_def
      coll_report_update_def report_sync_def)

lemma value_changes_repeat:
  assumes "find_by rp_id (rp_id v) rows = Some r"
  shows "value_changes (replicate (Suc k) v) rows =
    Some (replace_by rp_id (r\<lparr>rp_description := rp_description v, rp_title := rp_title v, rp_status := rp_status v\<rparr>) rows,
      replicate (Suc k) (UpdateReports [r\<lparr>rp_description := rp_description v, rp_title := rp_title v, rp_status := rp_status v\<rparr>]))"
  using assms
proof (induction k arbitrary: rows r)
  case 0
  then show ?case by (simp add: handleValueChanged_def coll_report_update_def report_sync_def)
next
  case (Suc k)
  let ?r' = "r\<lparr>rp_description := rp_description v, rp_title := rp_title v, rp_status := rp_status v\<rparr>"
  have "rp_id v \<in> keys_of rp_id rows" using Suc.prems find_by_None_iff [of rp_id "rp_id v" rows] by auto
  then have k: "rp_id ?r' \<in> keys_of rp_id rows" using find_by_SomeD [OF Suc.prems] by simp
  have f: "find_by rp_id (rp_id v) (replace_by rp_id ?r' rows) = Some ?r'"
    using find_by_replace_by_key [OF k] find_by_SomeD [OF Suc.prems] by simp
  have "value_changes (replicate (Suc k) v) (replace_by rp_id ?r' rows) =
      Some (replace_by rp_id ?r' rows, replicate (Suc k) (UpdateReports [?r']))"
    using Suc.IH [OF f] by (simp add: replace_by_idem)
  then show ?case using Suc.prems
    by (simp del: replicate_Suc add: replicate_Suc [of "Suc k"] handleValueChanged_def coll_report_update_def report_sync_def)
qed

lemma renders_then_change:
  assumes "rf_subs f = []" "v \<noteq> rf_defaults f" "DEBOUNCE_MS \<le> w"
  shows "snd (form_run (replicate k Render @ [Change v, Wait w]) f) = replicate k v"
proof -
  have "snd (form_run (replicate k Render @ [Change v, Wait w]) f) =
      snd (form_run [Change v, Wait w] (f\<lparr>rf_subs := replicate k \<lparr>fs_timer = None\<rparr>\<rparr>))"
    by (subst form_run_append) (simp add: form_run_renders assms(1) split: prod.split)
  also have "\<dots> = replicate k v"
    using assms(2,3) by (simp add: sub_callback_def sub_fire_def is_dirty_def comp_def concat_replicate_single)
  finally show ?thesis .
qed

text \<open>The component subscribes to the form in its body, so after \<open>k+1\<close> renders an edit is
  saved \<open>k+1\<close> times: the page sends one \<open>UpdateReports\<close> per subscription.\<close>

theorem renders_duplicate_saves:
  assumes "rf_subs f = []" "v \<noteq> rf_defaults f" "DEBOUNCE_MS \<le> w"
    and "find_by rp_id (rp_id v) rows = Some r"
  shows "\<exists>f' r'. report_page_run (replicate (Suc k) Render @ [Change v, Wait w]) f rows =
      (f', Some (replace_by rp_id r' rows, replicate (Suc k) (UpdateReports [r']))) \<and> rp_title r' = rp_title v"
proof -
  obtain f' where fr: "form_run (replicate (Suc k) Render @ [Change v, Wait w]) f = (f', replicate (Suc k) v)"
    using renders_then_change [OF assms(1-3), of "Suc k"] by (cases "form_run (replicate (Suc k) Render @ [Change v, Wait w]) f") simp
  then show ?thesis using value_changes_repeat [OF assms(4), of k]
    by (simp del: replicate_Suc add: report_page_run_def)
qed

end
