(* ===== verification/Reports_Page.thy ===== *)
theory Reports_Page
  imports File_Route Client_Sync
begin

text \<open>
  The reports table, src/app/reports/page.tsx, around the paging arithmetic of Client_Views:
  the query parameters it reads with \<open>Number(searchParams.get(...))\<close>, the links it builds
  with \<open>buildUrl\<close> (Previous, Next and the page sizes), the view it renders, and the row's
  delete button, which deletes through the report collection.  \<open>searchParams.get\<close> is the
  first value of the name in the parsed query (\<open>parse_query\<close> of File_Route), and
  \<open>Number(null)\<close> is 0.  \<open>String(n)\<close> of an integer is \<open>int_str\<close>.
\<close>

subsection \<open>Query parameters and links (lines 15-25)\<close>

definition search_number :: "string option \<Rightarrow> real option" where
  "search_number v = (case v of None \<Rightarrow> Some 0 | Some s \<Rightarrow> js_Number s)"

definition buildUrl :: "int \<Rightarrow> int \<Rightarrow> string" where
  "buildUrl page pageSize = ''/reports?page='' @ int_str page @ ''&pageSize='' @ int_str pageSize"

text \<open>Lines 69-74: the Previous link, its target and whether it is disabled.\<close>

definition prev_link :: "int \<Rightarrow> int \<times> bool" where
  "prev_link page = (max 1 (page - 1), page \<le> 1)"

definition PAGE_SIZES :: "int list" where
  "PAGE_SIZES = [5, 10, 20, 50]"

text \<open>Lines 61-65: a link to page 1 for each size, the current one highlighted.\<close>

definition size_links :: "int \<Rightarrow> (string \<times> bool) list" where
  "size_links pageSize = map (\<lambda>s. (buildUrl 1 s, s = pageSize)) PAGE_SIZES"

subsection \<open>The page (lines 27-90)\<close>

record reports_view =
  rpv_page :: int
  rpv_pageSize :: int
  rpv_rows :: "expense_report list"
  rpv_totalPages :: int
  rpv_prev :: "string \<times> bool"
  rpv_next :: "string \<times> bool"
  rpv_sizes :: "(string \<times> bool) list"

definition ReportsPage :: "string \<Rightarrow> expense_report list \<Rightarrow> reports_view" where
  "ReportsPage url rs =
     (let q = parse_query url;
          page = parseIntOr search_number (map_of q ''page'') 1;
          pageSize = parseIntOr search_number (map_of q ''pageSize'') 10;
          rows = reports_page rs page pageSize;
          tp = totalPages rows pageSize
      in \<lparr>rpv_page = page, rpv_pageSize = pageSize, rpv_rows = rows, rpv_totalPages = tp,
          rpv_prev = (buildUrl (fst (prev_link page)) pageSize, snd (prev_link page)),
          rpv_next = (buildUrl (fst (next_link page tp)) pageSize, snd (next_link page tp)),
          rpv_sizes = size_links pageSize\<rparr>)"

subsection \<open>Deleting a row (lines 135-141)\<close>

text \<open>\<open>reportCollection.delete(key)\<close>: an absent key throws; the handler sends the keys.\<close>

definition coll_report_delete :: "id \<Rightarrow> expense_report list \<Rightarrow> (expense_report list \<times> action list) option" where
  "coll_report_delete k rows = (case find_by rp_id k rows of
       None \<Rightarrow> None
     | Some r \<Rightarrow> Some (delete_by rp_id k rows, [report_sync MDelete [r]]))"

text \<open>The button deletes the row's report and flips \<open>rerenderFlag\<close> so the live query runs again.\<close>

definition row_delete :: "expense_report \<Rightarrow> bool \<Rightarrow> expense_report list \<Rightarrow> (bool \<times> expense_report list \<times> action list) option" where
  "row_delete report rerenderFlag rows = (case coll_report_delete (rp_id report) rows of
       None \<Rightarrow> None
     | Some (rows', acts) \<Rightarrow> Some (\<not> rerenderFlag, rows', acts))"

subsection \<open>Lemmas\<close>

lemma int_str_pos: "0 < i \<Longrightarrow> int_str i = show_nat (nat i)"
  by (simp add: int_str_def)

lemma amp_not_in_show_nat: "CHR ''&'' \<notin> set (show_nat n)"
  using digits_no_sep [OF show_nat_all_digits] by (simp add: is_digit_def)

lemma parse_buildUrl:
  assumes "0 < p" "0 < s"
  shows "parse_query (buildUrl p s) = [(''page'', show_nat (nat p)), (''pageSize'', show_nat (nat s))]"
proof -
  have "snd (break_at CHR ''?'' (buildUrl p s)) = ''page='' @ show_nat (nat p) @ CHR ''&'' # ''pageSize='' @ show_nat (nat s)"
    using assms by (simp add: break_at_def buildUrl_def int_str_pos)
  moreover have "split_on CHR ''&'' (''page='' @ show_nat (nat p) @ CHR ''&'' # ''pageSize='' @ show_nat (nat s)) =
      [''page='' @ show_nat (nat p), ''pageSize='' @ show_nat (nat s)]"
    using split_on_sep [of "CHR ''&''" "''page='' @ show_nat (nat p)" "''pageSize='' @ show_nat (nat s)"]
      split_on_no_sep [of "CHR ''&''" "''pageSize='' @ show_nat (nat s)"] amp_not_in_show_nat by simp
  ultimately show ?thesis by (simp add: parse_query_def break_at_def)
qed

lemma parseIntOr_show_nat: "0 < p \<Longrightarrow> parseIntOr search_number (Some (show_nat (nat p))) d = p"
  by (simp add: parseIntOr_def search_number_def js_Number_show_nat)

lemma ReportsPage_buildUrl:
  assumes "0 < p" "0 < s"
  shows "rpv_page (ReportsPage (buildUrl p s) rs) = p" "rpv_pageSize (ReportsPage (buildUrl p s) rs) = s"
  using assms by (simp_all add: ReportsPage_def Let_def parse_buildUrl parseIntOr_show_nat)

text \<open>C40. Round trip of the table's links: the page a link built by \<open>buildUrl\<close> leads to shows the
  page and the size it was built with, so the Previous link of page \<open>p > 1\<close> shows page
  \<open>p - 1\<close> and every size link shows page 1 of that size.\<close>

theorem page_links_roundtrip:
  assumes "0 < p" "0 < s"
  shows "rpv_page (ReportsPage (buildUrl p s) rs) = p \<and> rpv_pageSize (ReportsPage (buildUrl p s) rs) = s \<and>
    (1 < p \<longrightarrow> rpv_page (ReportsPage (fst (rpv_prev (ReportsPage (buildUrl p s) rs))) rs) = p - 1) \<and>
    (\<forall>(url, _) \<in> set (rpv_sizes (ReportsPage (buildUrl p s) rs)). rpv_page (ReportsPage url rs) = 1)"
proof -
  have pv: "fst (rpv_prev (ReportsPage (buildUrl p s) rs)) = buildUrl (max 1 (p - 1)) s"
    using ReportsPage_buildUrl [OF assms] by (simp add: ReportsPage_def Let_def prev_link_def)
  have sz: "rpv_sizes (ReportsPage (buildUrl p s) rs) = size_links s"
    using ReportsPage_buildUrl [OF assms] by (simp add: ReportsPage_def Let_def)
  show ?thesis
    using ReportsPage_buildUrl [OF assms] ReportsPage_buildUrl [of "max 1 (p - 1)" s] assms pv sz
    by (auto simp: size_links_def PAGE_SIZES_def ReportsPage_buildUrl)
qed

text \<open>The delete button of a row the user owns, for a report without receipts: the row
  leaves the collection at once, and the action the handler sends deletes the report on
  the server; for a report with receipts the server's delete fails on the foreign key of
  the receipts and the database is unchanged.\<close>

theorem row_delete_reaches_server:
  assumes "r \<in> set rows" "unique_by rp_id rows" "rp_id r \<in> keys_of rp_id (reports d)"
    and "find_by rp_id (rp_id r) (reports d) = Some r'" "rp_userId r' = u_id u"
  shows "\<exists>rows' a. row_delete r flag rows = Some (\<not> flag, rows', [a]) \<and> rp_id r \<notin> keys_of rp_id rows' \<and>
    run_action (Some u) now a d =
      (if rp_id r \<in> keys_of rc_expenseReportId (receipts d) then Inl (DbError (ForeignKeyViolation ''Receipt.expenseReportId''))
       else Inr (d\<lparr>reports := delete_by rp_id (rp_id r) (reports d)\<rparr>))"
proof -
  have f: "find_by rp_id (rp_id r) rows = Some r" using find_by_unique [OF assms(2,1)] .
  obtain r'' where "r'' \<in> set (reports d)" "rp_id r'' = rp_id r" "rp_userId r'' = u_id u"
    using find_by_SomeD [OF assms(4)] assms(5) by blast
  then have "rp_id r \<in> set (getOwnedReportIds [rp_id r] (u_id u) d)"
    by (force simp: getOwnedReportIds_def)
  then have "may_write u (getOwnedReportIds [rp_id r] (u_id u) d) (rp_id r)" by (simp add: may_write_def)
  then show ?thesis using f assms(3)
    by (auto simp: row_delete_def coll_report_delete_def report_sync_def deleteReports_def commit_def
        run_tx_def report_delete_def split: sum.splits)
qed

end
