(* ===== verification/App_Shell.thy ===== *)
theory App_Shell
  imports Reports_Page Report_Form
begin

text \<open>
  The application shell: the root layout (src/app/layout.tsx), the home page
  (src/app/page.tsx) and the sign-in guard \<open>CheckAuth\<close> (src/app/check-auth.tsx), which
  decide from the session where a request goes; the collection loader
  (src/app/collection-loader.tsx), which preloads the five synced collections behind a
  loading screen; and the sidebar (src/components/layout/nav.tsx), whose New button
  creates a report in the report collection and opens its page.  A redirect is the path it
  goes to; the loader's preloads settle in any order, each once, as fulfilled or rejected.
\<close>

subsection \<open>Layout, home page and sign-in guard\<close>

text \<open>check-auth.tsx lines 6-16: the redirect, if any.\<close>

definition CheckAuth :: "session \<Rightarrow> string \<Rightarrow> string option" where
  "CheckAuth user pathname = (if user = None \<and> pathname \<noteq> ''/sign-in'' then Some ''/sign-in'' else None)"

text \<open>page.tsx lines 6-18.\<close>

definition Home :: "session \<Rightarrow> string" where
  "Home s = (case s of None \<Rightarrow> ''/sign-in'' | Some _ \<Rightarrow> ''/reports'')"

record layout_view =
  lv_redirect :: "string option"
  lv_nav :: bool
  lv_loader :: bool

text \<open>layout.tsx lines 26-52 with nav.tsx lines 52-54: the guard, the sidebar (rendered
  only with a user) and the loader (likewise).\<close>

definition RootLayout :: "session \<Rightarrow> string \<Rightarrow> layout_view" where
  "RootLayout s pathname = \<lparr>lv_redirect = CheckAuth s pathname, lv_nav = (s \<noteq> None), lv_loader = (s \<noteq> None)\<rparr>"

subsection \<open>The collection loader (collection-loader.tsx)\<close>

definition COLLECTIONS_TO_PRELOAD :: "string list" where
  "COLLECTIONS_TO_PRELOAD = [''reportCollection'', ''receiptCollection'', ''receiptLineItemCollection'',
     ''merchantCollection'', ''categoryCollection'']"

record loader =
  ld_totalLoaded :: nat
  ld_inflight :: "nat list"

datatype preload_outcome = Fulfilled | Rejected

text \<open>Lines 12-23: the effect resets the count and starts every preload.\<close>

definition loader_mount :: loader where
  "loader_mount = \<lparr>ld_totalLoaded = 0, ld_inflight = [0..<length COLLECTIONS_TO_PRELOAD]\<rparr>"

text \<open>Lines 16-19: when preload \<open>i\<close> settles, the count grows only if it was fulfilled
  (a rejection skips \<open>setTotalLoaded\<close> and \<open>Promise.allSettled\<close> swallows it).\<close>

definition preload_settle :: "nat \<Rightarrow> preload_outcome \<Rightarrow> loader \<Rightarrow> loader" where
  "preload_settle i r st =
     (if i \<in> set (ld_inflight st)
      then st\<lparr>ld_totalLoaded := ld_totalLoaded st + (if r = Fulfilled then 1 else 0),
              ld_inflight := remove1 i (ld_inflight st)\<rparr>
      else st)"

definition loader_run :: "(nat \<times> preload_outcome) list \<Rightarrow> loader" where
  "loader_run es = foldl (\<lambda>st (i, r). preload_settle i r st) loader_mount es"

text \<open>Lines 25-27: the loading screen is shown until the count equals the number of
  collections; line 34: the progress bar's value.\<close>

definition loader_visible :: "loader \<Rightarrow> bool" where
  "loader_visible st \<longleftrightarrow> ld_totalLoaded st \<noteq> length COLLECTIONS_TO_PRELOAD"

definition loader_progress :: "loader \<Rightarrow> real" where
  "loader_progress st = real (ld_totalLoaded st) / real (length COLLECTIONS_TO_PRELOAD) * 100"

subsection \<open>The sidebar (nav.tsx)\<close>

text \<open>Lines 109-112: \<open>name.split(" ").map(x => x[0]).join("")\<close>; \<open>x[0]\<close> of an empty
  word is undefined, which \<open>join\<close> prints as nothing.\<close>

definition initials :: "string \<Rightarrow> string" where
  "initials name = concat (map (take 1) (split_on CHR '' '' name))"

text \<open>Lines 83 and 91: whether List and New are highlighted.\<close>

definition nav_active :: "string \<Rightarrow> bool \<times> bool" where
  "nav_active pathname = (pathname = ''/reports'', startsWith pathname ''/reports/new'')"

text \<open>Lines 61-69: the new report (its \<open>createdAt\<close> is not a field of the model).\<close>

definition new_report :: "id \<Rightarrow> id \<Rightarrow> nat \<Rightarrow> expense_report" where
  "new_report i uid now = \<lparr>rp_id = i, rp_userId = uid, rp_title = ''Untitled Expense Report'',
     rp_description = ''Untitled Expense Report'', rp_status = DRAFT, rp_updatedAt = now\<rparr>"

text \<open>\<open>reportCollection.insert\<close>: a key already present throws.\<close>

definition coll_report_insert :: "expense_report \<Rightarrow> expense_report list \<Rightarrow> (expense_report list \<times> action list) option" where
  "coll_report_insert r rows = (if rp_id r \<in> keys_of rp_id rows then None
     else Some (rows @ [r], [report_sync MInsert [r]]))"

text \<open>Lines 56-73: with a user, insert the report and go to its page.\<close>

definition createNewReport :: "session \<Rightarrow> id \<Rightarrow> nat \<Rightarrow> expense_report list \<Rightarrow>
    (expense_report list \<times> action list \<times> string option) option" where
  "createNewReport s i now rows = (case s of
       None \<Rightarrow> Some (rows, [], None)
     | Some u \<Rightarrow> (case coll_report_insert (new_report i (u_id u) now) rows of
          None \<Rightarrow> None
        | Some (rows', acts) \<Rightarrow> Some (rows', acts, Some (''/reports/'' @ i))))"

text \<open>src/app/reports/[id]/page.tsx lines 23-24 and 36-38: the report the page shows,
  the first row with the id; none renders nothing.\<close>

definition ViewReportPage_report :: "id \<Rightarrow> expense_report list \<Rightarrow> expense_report option" where
  "ViewReportPage_report i rows = (case filter (\<lambda>r. rp_id r = i) rows of [] \<Rightarrow> None | r # _ \<Rightarrow> Some r)"

subsection \<open>The loader's runs\<close>

lemma filter_neq_absent: "i \<notin> set xs \<Longrightarrow> filter (\<lambda>x. x \<noteq> i) xs = xs"
  by (induction xs) auto

lemma remove1_distinct_filter: "distinct xs \<Longrightarrow> remove1 i xs = filter (\<lambda>x. x \<noteq> i) xs"
  by (induction xs) (auto simp: filter_neq_absent)

lemma loader_fold:
  assumes "distinct (ld_inflight st)" "distinct (map fst es)" "fst ` set es \<subseteq> set (ld_inflight st)"
  shows "foldl (\<lambda>st (i, r). preload_settle i r st) st es =
    st\<lparr>ld_totalLoaded := ld_totalLoaded st + length (filter (\<lambda>(_, r). r = Fulfilled) es),
       ld_inflight := filter (\<lambda>i. i \<notin> fst ` set es) (ld_inflight st)\<rparr>"
  using assms
proof (induction es arbitrary: st)
  case (Cons e es)
  obtain i r where e: "e = (i, r)" by fastforce
  let ?st' = "preload_settle i r st"
  have i: "i \<in> set (ld_inflight st)" using Cons.prems(3) e by simp
  have st': "?st' = st\<lparr>ld_totalLoaded := ld_totalLoaded st + (if r = Fulfilled then 1 else 0),
      ld_inflight := filter (\<lambda>x. x \<noteq> i) (ld_inflight st)\<rparr>"
    using i Cons.prems(1) by (simp add: preload_settle_def remove1_distinct_filter)
  have "fst ` set es \<subseteq> set (ld_inflight ?st')"
    using Cons.prems(2,3) e st' by force
  moreover have "distinct (ld_inflight ?st')" using Cons.prems(1) st' by simp
  ultimately have "foldl (\<lambda>st (i, r). preload_settle i r st) ?st' es =
      ?st'\<lparr>ld_totalLoaded := ld_totalLoaded ?st' + length (filter (\<lambda>(_, r). r = Fulfilled) es),
         ld_inflight := filter (\<lambda>i. i \<notin> fst ` set es) (ld_inflight ?st')\<rparr>"
    using Cons.IH Cons.prems(2) by simp
  then show ?case using e st' by (simp add: filter_filter conj_commute)
qed simp

lemma loader_bound_step:
  assumes "ld_totalLoaded st + length (ld_inflight st) \<le> n"
  shows "ld_totalLoaded (preload_settle i r st) + length (ld_inflight (preload_settle i r st)) \<le> n"
proof (cases "i \<in> set (ld_inflight st)")
  case True
  then have p: "0 < length (ld_inflight st)" by (rule length_pos_if_in_set)
  have "length (remove1 i (ld_inflight st)) = length (ld_inflight st) - 1" using True by (simp add: length_remove1)
  with p have "length (remove1 i (ld_inflight st)) + 1 = length (ld_inflight st)" by linarith
  with True assms show ?thesis by (simp add: preload_settle_def)
qed (use assms in \<open>simp add: preload_settle_def\<close>)

text \<open>C31. When every preload has settled, in any order, the loading screen is gone exactly
  when none was rejected: one failed preload keeps it up for ever, with no error shown.\<close>

theorem loader_hides_iff_all_fulfilled:
  assumes "distinct (map fst es)" "fst ` set es = {0..<length COLLECTIONS_TO_PRELOAD}"
  shows "ld_inflight (loader_run es) = [] \<and>
    (loader_visible (loader_run es) \<longleftrightarrow> (\<exists>(i, r) \<in> set es. r = Rejected))"
proof -
  have run: "loader_run es = \<lparr>ld_totalLoaded = length (filter (\<lambda>(_, r). r = Fulfilled) es), ld_inflight = []\<rparr>"
    using loader_fold [of loader_mount es] assms by (simp add: loader_run_def loader_mount_def filter_empty_conv)
  have len: "length es = length COLLECTIONS_TO_PRELOAD"
    using distinct_card [OF assms(1)] assms(2) by simp
  have cnt: "length (filter (\<lambda>(_, r). r = Fulfilled) es) \<noteq> length es \<longleftrightarrow> (\<exists>(i, r) \<in> set es. r = Rejected)"
  proof
    assume "length (filter (\<lambda>(_, r). r = Fulfilled) es) \<noteq> length es"
    then have "filter (\<lambda>(_, r). r = Fulfilled) es \<noteq> es" by auto
    then have "\<not> (\<forall>e \<in> set es. (\<lambda>(_, r). r = Fulfilled) e)" by (simp only: filter_id_conv [symmetric]) simp
    then obtain i r where ir: "(i, r) \<in> set es" "r \<noteq> Fulfilled" by auto
    then have "r = Rejected" by (cases r) simp_all
    with ir show "\<exists>(i, r) \<in> set es. r = Rejected" by blast
  next
    assume "\<exists>(i, r) \<in> set es. r = Rejected"
    then obtain i where i: "(i, Rejected) \<in> set es" by blast
    have "length (filter (\<lambda>(_, r). r = Fulfilled) es) < length es"
      by (rule length_filter_less [OF i]) simp
    then show "length (filter (\<lambda>(_, r). r = Fulfilled) es) \<noteq> length es" by simp
  qed
  have vis: "loader_visible (loader_run es) \<longleftrightarrow> length (filter (\<lambda>(_, r). r = Fulfilled) es) \<noteq> length es"
    using len by (simp only: run loader_visible_def loader.select_convs)
  have "ld_inflight (loader_run es) = []" by (simp only: run loader.select_convs)
  with vis cnt show ?thesis by blast
qed

subsection \<open>Routing and the New button\<close>

text \<open>The home page's redirect is final: the guard lets its target render, signed in or not.\<close>

lemma home_redirect_settles: "CheckAuth s (Home s) = None"
  by (cases s) (simp_all add: CheckAuth_def Home_def)

text \<open>The New entry's highlight tests a path no page has: the page the button opens is
  \<open>/reports/<id>\<close>, highlighted only when the generated id itself starts with "new".\<close>

lemma nav_new_after_create:
  assumes "createNewReport (Some u) i now rows = Some (rows', acts, Some p)"
  shows "snd (nav_active p) \<longleftrightarrow> startsWith i ''new''"
proof -
  have "p = ''/reports/'' @ i" using assms
    by (auto simp: createNewReport_def split: option.splits)
  moreover have "''/reports/new'' = ''/reports/'' @ ''new''" by simp
  ultimately show ?thesis by (simp only: nav_active_def snd_conv startsWith_append_cancel)
qed

lemma filter_id_snoc_fresh:
  assumes "i \<notin> keys_of rp_id rows" "rp_id r = i"
  shows "filter (\<lambda>x. rp_id x = i) (rows @ [r]) = [r]"
proof -
  have "\<forall>x \<in> set rows. rp_id x \<noteq> i" using assms(1) unfolding keys_of_def by blast
  then show ?thesis using assms(2) by (simp add: filter_empty_conv)
qed

text \<open>C30. The New button end to end: the new report is in the collection and is the report of the
  page the button opens; the action its insert handler sends creates it on the server for
  the signed-in user; and the server's list returns it to its creator exactly when the
  creator is a Normal user: a reviewer's new report is a DRAFT, which getReports hides from
  reviewers.\<close>

theorem new_report_roundtrip:
  assumes "i \<notin> keys_of rp_id rows" "i \<notin> keys_of rp_id (reports d)" "u_id u \<in> keys_of u_id (users d)"
  shows "\<exists>rows' a d' rs. createNewReport (Some u) i now rows = Some (rows', [a], Some (''/reports/'' @ i)) \<and>
    ViewReportPage_report i rows' = Some (new_report i (u_id u) now) \<and>
    run_action (Some u) now' a d = Inr d' \<and> new_report i (u_id u) now \<in> set (reports d') \<and>
    getReports (Some u) d' = Inr rs \<and> (new_report i (u_id u) now \<in> set rs \<longleftrightarrow> u_role u = Normal)"
proof -
  let ?r = "new_report i (u_id u) now"
  have c: "createNewReport (Some u) i now rows = Some (rows @ [?r], [CreateReports [?r]], Some (''/reports/'' @ i))"
    using assms(1) by (simp add: createNewReport_def coll_report_insert_def new_report_def report_sync_def)
  have v: "ViewReportPage_report i (rows @ [?r]) = Some ?r"
    using filter_id_snoc_fresh [OF assms(1), of ?r] by (simp add: ViewReportPage_report_def new_report_def)
  have s: "run_action (Some u) now' (CreateReports [?r]) d = Inr (d\<lparr>reports := reports d @ [?r]\<rparr>)"
    using assms(2,3) by (simp add: createReports_def commit_def run_tx_def report_insert_def new_report_def)
  have g: "getReports (Some u) (d\<lparr>reports := reports d @ [?r]\<rparr>) = Inr (filter (report_visible u) (reports d @ [?r]))"
    by (simp add: getReports_def getCurrentUser_def)
  have "?r \<in> set (filter (report_visible u) (reports d @ [?r])) \<longleftrightarrow> u_role u = Normal"
    by (cases "u_role u") (simp_all add: report_visible_def new_report_def)
  with c v s g show ?thesis by auto
qed

end
