(* ===== verification/Card_Render.thy ===== *)
theory Card_Render
  imports Receipt_View Receipt_Preview
begin

text \<open>
  What the receipt card renders (src/components/reports/receipt-view.tsx): the header and
  totals of \<open>ReceiptView\<close> (lines 32-47, 92-251) and the rows of
  \<open>ReceiptViewLineItemRow\<close> (lines 264-270, 322-331).  Both format money with
  \<open>Intl.NumberFormat\<close> in a currency: the card in its first item's currency or \<open>"USD"\<close>
  (\<open>view_currency\<close> of Client_Views), a row in its own item's currency or \<open>"USD"\<close> when
  that is null.  As in Receipt_Preview, a render that reaches the formatter with a string
  that is not a currency code throws, which is None; the date line is not modelled.
\<close>

subsection \<open>A line item row (lines 264-270, 322-331)\<close>

text \<open>Line 270: \<open>lineItem.currency ?? "USD"\<close>; only null falls back, an empty string does not.\<close>

definition item_currency :: "line_item \<Rightarrow> string" where
  "item_currency l = (case li_currency l of None \<Rightarrow> ''USD'' | Some c \<Rightarrow> c)"

text \<open>Lines 266-268 and 326-329: description, quantity, unit price and line total of a row
  that is not being edited.\<close>

definition LineItemRow_view :: "line_item \<Rightarrow> (string \<times> real \<times> real \<times> real) option" where
  "LineItemRow_view l =
     (if \<not> currency_code (item_currency l) then None
      else Some (li_description l, li_quantity l, li_unitPrice l, li_quantity l * li_unitPrice l))"

subsection \<open>The card (lines 32-47, 92-251)\<close>

record card_view =
  cv_merchant :: string
  cv_address :: "string option"
  cv_confidence :: "int option"
  cv_rows :: "(string \<times> real \<times> real \<times> real) list"
  cv_subtotal :: real
  cv_tax :: real
  cv_tip :: real
  cv_total :: real

text \<open>The card of receipt \<open>r\<close> over the line items it queries: None when the card's formatter or
  the formatter of one of its rows throws.  Line 111: the address when it is non-empty;
  line 133: the confidence unless it is 0.\<close>

definition ReceiptView_card :: "receipt \<Rightarrow> merchant \<Rightarrow> line_item list \<Rightarrow> card_view option" where
  "ReceiptView_card r m items =
     (if \<not> currency_code (view_currency items) then None
      else (case those (map LineItemRow_view items) of
              None \<Rightarrow> None
            | Some rows \<Rightarrow> Some \<lparr>cv_merchant = mc_name m,
                cv_address = (case mc_address m of None \<Rightarrow> None | Some a \<Rightarrow> if a = [] then None else Some a),
                cv_confidence = (if rc_confidence r = 0 then None else Some \<lfloor>rc_confidence r * 100 + 1 / 2\<rfloor>),
                cv_rows = rows, cv_subtotal = receipt_subtotal items, cv_tax = rc_tax r, cv_tip = rc_tip r,
                cv_total = receipt_total items r\<rparr>))"

subsection \<open>Lemmas\<close>

lemma those_None_if: "x \<in> set xs \<Longrightarrow> f x = None \<Longrightarrow> those (map f xs) = None"
  by (induction xs) (auto split: option.splits)

lemma card_row_throws: "l \<in> set items \<Longrightarrow> LineItemRow_view l = None \<Longrightarrow> ReceiptView_card r m items = None"
  by (simp add: ReceiptView_card_def those_None_if)

lemma new_line_item_row:
  "LineItemRow_view (new_line_item receiptId now x i) = None \<longleftrightarrow> \<not> currency_code (xi_currency x)"
  by (simp add: LineItemRow_view_def item_currency_def new_line_item_def)

text \<open>C29. A committed extraction with a line item whose currency is not a three-letter code (the
  schema accepts any string; the prompt only asks for an ISO code) stores that currency, and
  the card of the receipt then throws whenever it is rendered, whatever the position of the
  item: the stored receipt can no longer be shown.\<close>

theorem stored_currency_breaks_card:
  assumes "createExpenseReportFromParse js_date now r reportId receiptId n d = Inr (res, d')"
    and "x \<in> set (xr_items r)" "\<not> currency_code (xi_currency x)"
  shows "ReceiptView_card (er_receipt res) m (receipt_items (line_items d') receiptId) = None"
proof -
  obtain m' mNew d1 c cNew d2 d3 where
    h4: "line_items_create_many (map (new_line_item receiptId now) (xr_items r)) d3 = Inr (er_lineItems res, d')"
    using assms(1) by (rule createExpenseReportFromParse_steps)
  note l4 = line_items_create_many_Inr [OF h4]
  then have a: "list_all2 (\<lambda>x l. l = new_line_item receiptId now x (li_id l)) (xr_items r) (er_lineItems res)"
    using new_line_items_rows by blast
  obtain k where k: "k < length (xr_items r)" "x = xr_items r ! k" using assms(2) by (auto simp: in_set_conv_nth)
  define l where "l = er_lineItems res ! k"
  have "k < length (er_lineItems res)" using k(1) list_all2_lengthD [OF a] by simp
  then have l: "l \<in> set (er_lineItems res)" "l = new_line_item receiptId now x (li_id l)"
    using list_all2_nthD [OF a k(1)] k(2) by (simp_all add: l_def)
  have "li_receiptId l = receiptId" by (subst l(2)) (simp add: new_line_item_def)
  then have "l \<in> set (receipt_items (line_items d') receiptId)"
    using l(1) l4 by (simp add: receipt_items_def)
  moreover have "LineItemRow_view l = None" using new_line_item_row assms(3) l(2) by metis
  ultimately show ?thesis by (rule card_row_throws)
qed

end
