(* ===== verification/Inline_Edit.thy ===== *)
theory Inline_Edit
  imports Receipt_View
begin

text \<open>
  The inline editor of src/components/ui/inline-edit.tsx and its two uses on the receipt
  card (the tax and tip editors of receipt-view.tsx, lines 187-239).  \<open>InlineEdit\<close> keeps
  its own \<open>editing\<close> flag but defers to the \<open>open\<close>/\<open>setOpen\<close> props when they are given;
  the trigger is shown while closed, the content while open.  The hook \<open>useOutsideClick\<close>
  is imported from a file that is not among the sources; it is taken to call its handler
  on every click outside the editor's element, which is the event \<open>OutsideClick\<close>.  The
  parent's \<open>setOpen\<close> may throw (the collection's update of a missing key): it is a
  function to \<open>'s option\<close>.  On the card the tip input is mounted only while its editor is
  open, so \<open>tipInputRef.current\<close> is the typed text then and null otherwise.
\<close>

subsection \<open>The component (inline-edit.tsx)\<close>

record inline_edit =
  ie_editing :: bool

datatype inline_event = TriggerClick | OutsideClick

text \<open>Line 19: \<open>useState(open ?? false)\<close>.\<close>

definition InlineEdit_init :: "bool option \<Rightarrow> inline_edit" where
  "InlineEdit_init openp = \<lparr>ie_editing = (case openp of None \<Rightarrow> False | Some b \<Rightarrow> b)\<rparr>"

text \<open>Line 28: the context's flag, \<open>open ?? editing\<close>.\<close>

definition inline_open :: "bool option \<Rightarrow> inline_edit \<Rightarrow> bool" where
  "inline_open openp st = (case openp of None \<Rightarrow> ie_editing st | Some b \<Rightarrow> b)"

text \<open>Lines 34-52: the trigger renders while closed, the content while open.\<close>

definition InlineEditTrigger_shown :: "bool option \<Rightarrow> inline_edit \<Rightarrow> bool" where
  "InlineEditTrigger_shown openp st \<longleftrightarrow> \<not> inline_open openp st"

definition InlineEditContent_shown :: "bool option \<Rightarrow> inline_edit \<Rightarrow> bool" where
  "InlineEditContent_shown openp st \<longleftrightarrow> inline_open openp st"

text \<open>Lines 23-26 and 41: a click on the trigger calls the context's setter with true
  (\<open>setOpen ?? setEditing\<close>); a click outside clears the own flag and calls \<open>setOpen?.(false)\<close>.
  A hidden trigger cannot be clicked.\<close>

definition inline_step :: "(bool \<Rightarrow> 's \<Rightarrow> 's option) option \<Rightarrow> bool option \<Rightarrow> inline_event \<Rightarrow>
    inline_edit \<times> 's \<Rightarrow> (inline_edit \<times> 's) option" where
  "inline_step setOpen openp ev s = (case s of (st, p) \<Rightarrow> (case ev of
       TriggerClick \<Rightarrow>
         (if \<not> InlineEditTrigger_shown openp st then Some (st, p)
          else (case setOpen of
                  None \<Rightarrow> Some (st\<lparr>ie_editing := True\<rparr>, p)
                | Some f \<Rightarrow> map_option (Pair st) (f True p)))
     | OutsideClick \<Rightarrow>
         (case setOpen of
            None \<Rightarrow> Some (st\<lparr>ie_editing := False\<rparr>, p)
          | Some f \<Rightarrow> map_option (Pair (st\<lparr>ie_editing := False\<rparr>)) (f False p))))"

subsection \<open>The tip and tax editors of the receipt card\<close>

text \<open>The card's part of the state: its view flags, the browser's collections and the
  actions sent so far.\<close>

type_synonym card_state = "receipt_view \<times> client \<times> action list"

text \<open>\<open>tipInputRef.current\<close> and \<open>taxInputRef.current\<close>: the input exists only while the
  editor's content is rendered (lines 197-210 and 225-238).\<close>

definition tip_input :: "string \<Rightarrow> receipt_view \<Rightarrow> string option" where
  "tip_input txt v = (if rv_editingTip v then Some txt else None)"

definition tax_input :: "string \<Rightarrow> receipt_view \<Rightarrow> string option" where
  "tax_input txt v = (if rv_editingTax v then Some txt else None)"

text \<open>Lines 189-194 and 217-222: the \<open>setOpen\<close> prop the card passes, over the card's state.\<close>

definition tip_open_cb :: "string \<Rightarrow> receipt \<Rightarrow> bool \<Rightarrow> card_state \<Rightarrow> card_state option" where
  "tip_open_cb txt rcp b s = (case s of (v, c, acts) \<Rightarrow>
     (case tip_setOpen b (tip_input txt v) rcp v c of
        (v', Some (c', a)) \<Rightarrow> Some (v', c', acts @ a)
      | (_, None) \<Rightarrow> None))"

definition tax_open_cb :: "string \<Rightarrow> receipt \<Rightarrow> bool \<Rightarrow> card_state \<Rightarrow> card_state option" where
  "tax_open_cb txt rcp b s = (case s of (v, c, acts) \<Rightarrow>
     (case tax_setOpen b (tax_input txt v) rcp v c of
        (v', Some (c', a)) \<Rightarrow> Some (v', c', acts @ a)
      | (_, None) \<Rightarrow> None))"

text \<open>An event of the tip editor (\<open>open={editingTip}\<close>), the text in its input being \<open>txt\<close>.\<close>

definition tip_editor_step :: "string \<Rightarrow> receipt \<Rightarrow> inline_event \<Rightarrow> inline_edit \<times> card_state \<Rightarrow>
    (inline_edit \<times> card_state) option" where
  "tip_editor_step txt rcp ev s =
     inline_step (Some (tip_open_cb txt rcp)) (Some (rv_editingTip (fst (snd s)))) ev s"

definition tax_editor_step :: "string \<Rightarrow> receipt \<Rightarrow> inline_event \<Rightarrow> inline_edit \<times> card_state \<Rightarrow>
    (inline_edit \<times> card_state) option" where
  "tax_editor_step txt rcp ev s =
     inline_step (Some (tax_open_cb txt rcp)) (Some (rv_editingTax (fst (snd s)))) ev s"

subsection \<open>Lemmas\<close>

lemma updateTip_None: "updateTip None rcp v c = (v, Some (c, []))"
  by (simp add: updateTip_def amount_edit_def)

lemma updateTax_None: "updateTax None rcp v c = (v, Some (c, []))"
  by (simp add: updateTax_def amount_edit_def)

lemma receipt_view_tip_same [simp]: "\<not> rv_editingTip v \<Longrightarrow> v\<lparr>rv_editingTip := False\<rparr> = v"
  by (cases v) simp

lemma receipt_view_tax_same [simp]: "\<not> rv_editingTax v \<Longrightarrow> v\<lparr>rv_editingTax := False\<rparr> = v"
  by (cases v) simp

text \<open>An uncontrolled editor opens on a click of its trigger and closes on a click outside.\<close>

lemma inline_uncontrolled_cycle:
  "inline_step None None TriggerClick (InlineEdit_init None, p) = Some (\<lparr>ie_editing = True\<rparr>, p) \<and>
   InlineEditContent_shown None \<lparr>ie_editing = True\<rparr> \<and>
   inline_step None None OutsideClick (\<lparr>ie_editing = True\<rparr>, p) = Some (InlineEdit_init None, p)"
  by (simp add: inline_step_def InlineEdit_init_def InlineEditTrigger_shown_def InlineEditContent_shown_def
      inline_open_def)

text \<open>Every click on the page is a click outside the card's editors.  While the tip editor
  is closed its input does not exist, so the guard of \<open>updateTip\<close> returns at once: the
  click changes nothing of the card and sends nothing.\<close>

theorem tip_outside_click_closed_noop:
  assumes "\<not> rv_editingTip v"
  shows "tip_editor_step txt rcp OutsideClick (st, v, c, acts) = Some (st\<lparr>ie_editing := False\<rparr>, v, c, acts)"
  using assms by (simp add: tip_editor_step_def inline_step_def tip_open_cb_def tip_setOpen_def
      tip_input_def updateTip_None)

text \<open>Likewise for the tax editor.\<close>

lemma tax_outside_click_closed_noop:
  "\<not> rv_editingTax v \<Longrightarrow> tax_editor_step txt rcp OutsideClick (st, v, c, acts) = Some (st\<lparr>ie_editing := False\<rparr>, v, c, acts)"
  by (simp add: tax_editor_step_def inline_step_def tax_open_cb_def tax_setOpen_def tax_input_def updateTax_None)

text \<open>The tip editor's session: a click on the shown amount opens the editor; typing a
  number \<open>t\<close> and clicking anywhere else saves it: the collection's row gets the tip, the
  action UpdateReceipts with the row is sent, and the editor is closed.  Without a number
  (\<open>parseFloat\<close> fails) the editor closes and nothing is sent.\<close>

theorem tip_editor_session:
  assumes "\<not> rv_editingTip v" "find_by rc_id (rc_id rcp) (cl_receipts c) = Some r"
  shows "Option.bind (tip_editor_step s rcp TriggerClick (st, v, c, acts)) (tip_editor_step s rcp OutsideClick) =
     Some (st\<lparr>ie_editing := False\<rparr>, v,
       (case parseFloat s of
          None \<Rightarrow> (c, acts)
        | Some t \<Rightarrow> (c\<lparr>cl_receipts := replace_by rc_id (r\<lparr>rc_tip := t\<rparr>) (cl_receipts c)\<rparr>,
                    acts @ [UpdateReceipts [r\<lparr>rc_tip := t\<rparr>]])))"
proof -
  have o: "tip_editor_step s rcp TriggerClick (st, v, c, acts) = Some (st, v\<lparr>rv_editingTip := True\<rparr>, c, acts)"
    using assms(1) by (simp add: tip_editor_step_def inline_step_def InlineEditTrigger_shown_def inline_open_def
        tip_open_cb_def tip_setOpen_def)
  have v: "v\<lparr>rv_editingTip := True, rv_editingTip := False\<rparr> = v" using assms(1) by simp
  show ?thesis
  proof (cases "parseFloat s")
    case None
    then show ?thesis using o v
      by (simp add: tip_editor_step_def inline_step_def tip_open_cb_def tip_setOpen_def tip_input_def updateTip_NaN)
  next
    case (Some t)
    then show ?thesis using o v updateTip_number [OF Some assms(2)]
      by (simp add: tip_editor_step_def inline_step_def tip_open_cb_def tip_setOpen_def tip_input_def)
  qed
qed

end
