(* ===== verification/Date_Picker.thy ===== *)
theory Date_Picker
  imports Prelude
begin

text \<open>
  The date picker src/components/ui/datepicker.tsx: a text input in a popover over a
  calendar.  Typing parses the text with the first allowed format that matches; selecting a
  day in the calendar writes the day back into the input in the default format.  No page of
  the application renders the component (receipt-view.tsx uses the calendar directly), so
  its parent is any code that receives \<open>onValueChange\<close>.  The date-fns functions it calls
  are library code and are parameters of the model, the record \<open>date_fns\<close>, over any type
  of dates; \<open>new Date()\<close> is the parameter \<open>df_now\<close>.  A handler returns the new state
  and the value it passes to \<open>onValueChange\<close>, if it calls it (\<open>None\<close> being
  \<open>undefined\<close>).
\<close>

record 'd date_fns =
  df_format :: "'d \<Rightarrow> string \<Rightarrow> string"
  df_isMatch :: "string \<Rightarrow> string \<Rightarrow> bool"
  df_parse :: "string \<Rightarrow> string \<Rightarrow> 'd \<Rightarrow> 'd"
  df_isValid :: "'d \<Rightarrow> bool"
  df_now :: 'd

text \<open>Lines 23-24.\<close>

definition allowedFormats :: "string list" where
  "allowedFormats = [''MM/dd/yy'', ''MM/dd/yyyy'']"

definition defaultFormat :: string where
  "defaultFormat = ''MM/dd/yyyy''"

text \<open>Lines 27-29: the popover's flag, the input's text and the month the calendar shows.\<close>

record 'd date_picker =
  dp_open :: bool
  dp_inputValue :: string
  dp_month :: 'd

definition DatePicker_init :: "'d date_fns \<Rightarrow> 'd option \<Rightarrow> 'd date_picker" where
  "DatePicker_init df defaultValue = \<lparr>dp_open = False,
     dp_inputValue = (case defaultValue of None \<Rightarrow> [] | Some d \<Rightarrow> df_format df d defaultFormat),
     dp_month = df_now df\<rparr>"

text \<open>Lines 31-36: the effect run when \<open>defaultValue\<close> changes (and after mounting).\<close>

definition dp_effect :: "'d date_fns \<Rightarrow> 'd option \<Rightarrow> 'd date_picker \<Rightarrow> 'd date_picker" where
  "dp_effect df defaultValue st = (case defaultValue of
       None \<Rightarrow> st
     | Some d \<Rightarrow> st\<lparr>dp_inputValue := df_format df d defaultFormat, dp_month := d\<rparr>)"

text \<open>Lines 41-49: the loop over the formats, \<open>continue\<close> past a format that does not match and
  \<open>break\<close> after parsing with the first that does.\<close>

fun parse_first :: "'d date_fns \<Rightarrow> string \<Rightarrow> string list \<Rightarrow> 'd option" where
  "parse_first df s [] = None"
| "parse_first df s (f # fs) = (if \<not> df_isMatch df s f then parse_first df s fs
     else Some (df_parse df s f (df_now df)))"

text \<open>Lines 38-58: \<open>handleInputChange\<close>.  The value is passed on when a date was parsed and is
  valid; otherwise \<open>undefined\<close> is passed and the calendar returns to the current month.\<close>

definition handleInputChange :: "'d date_fns \<Rightarrow> string \<Rightarrow> 'd date_picker \<Rightarrow> 'd date_picker \<times> 'd option" where
  "handleInputChange df s st =
     (case parse_first df s allowedFormats of
        Some d \<Rightarrow> if df_isValid df d then (st\<lparr>dp_inputValue := s, dp_month := d\<rparr>, Some d)
                  else (st\<lparr>dp_inputValue := s, dp_month := df_now df\<rparr>, None)
      | None \<Rightarrow> (st\<lparr>dp_inputValue := s, dp_month := df_now df\<rparr>, None))"

text \<open>Lines 60-72: \<open>handleSelectDate\<close>, with the calendar's selection (none when a selected day
  is clicked again).\<close>

definition handleSelectDate :: "'d date_fns \<Rightarrow> 'd option \<Rightarrow> 'd date_picker \<Rightarrow> 'd date_picker \<times> 'd option" where
  "handleSelectDate df selected st = (case selected of
       Some d \<Rightarrow> (st\<lparr>dp_open := False, dp_month := d, dp_inputValue := df_format df d defaultFormat\<rparr>, selected)
     | None \<Rightarrow> (st\<lparr>dp_inputValue := []\<rparr>, selected))"

datatype 'd picker_event = InputChange string | SelectDate "'d option" | InputFocus | OpenChange bool

text \<open>Lines 76-112: the events of the rendered picker; focusing the input opens the popover
  (line 95) and the popover reports its open state (line 77).  The second component is the
  call of \<open>onValueChange\<close>, if any.\<close>

definition DatePicker_step :: "'d date_fns \<Rightarrow> 'd picker_event \<Rightarrow> 'd date_picker \<Rightarrow> 'd date_picker \<times> 'd option option" where
  "DatePicker_step df ev st = (case ev of
       InputChange s \<Rightarrow> (case handleInputChange df s st of (st', v) \<Rightarrow> (st', Some v))
     | SelectDate sel \<Rightarrow> (case handleSelectDate df sel st of (st', v) \<Rightarrow> (st', Some v))
     | InputFocus \<Rightarrow> (st\<lparr>dp_open := True\<rparr>, None)
     | OpenChange b \<Rightarrow> (st\<lparr>dp_open := b\<rparr>, None))"

subsection \<open>Lemmas\<close>

lemma parse_first_None_iff: "parse_first df s fs = None \<longleftrightarrow> (\<forall>f \<in> set fs. \<not> df_isMatch df s f)"
  by (induction fs) auto

lemma parse_first_formats:
  "parse_first df s allowedFormats =
     (if df_isMatch df s ''MM/dd/yy'' then Some (df_parse df s ''MM/dd/yy'' (df_now df))
      else if df_isMatch df s ''MM/dd/yyyy'' then Some (df_parse df s ''MM/dd/yyyy'' (df_now df)) else None)"
  by (simp add: allowedFormats_def)

text \<open>Round trip through the picker: when date-fns reads back what it formats in the default
  format and the short format does not match such a text, the text the input shows after
  a day is selected is read back, when typed, as that day, and the calendar stays on it.\<close>

theorem picker_select_type_roundtrip:
  assumes "df_isMatch df (df_format df d defaultFormat) defaultFormat"
    and "df_parse df (df_format df d defaultFormat) defaultFormat (df_now df) = d" "df_isValid df d"
    and "\<not> df_isMatch df (df_format df d defaultFormat) ''MM/dd/yy''"
  shows "DatePicker_step df (SelectDate (Some d)) st = (st\<lparr>dp_open := False, dp_month := d, dp_inputValue := df_format df d defaultFormat\<rparr>, Some (Some d)) \<and>
    DatePicker_step df (InputChange (dp_inputValue (fst (DatePicker_step df (SelectDate (Some d)) st)))) (fst (DatePicker_step df (SelectDate (Some d)) st)) =
      (st\<lparr>dp_open := False, dp_month := d, dp_inputValue := df_format df d defaultFormat\<rparr>, Some (Some d))"
  using assms
  by (simp add: DatePicker_step_def handleSelectDate_def handleInputChange_def parse_first_formats defaultFormat_def)

text \<open>Every keystroke that leaves the text matching neither format (any date typed half way)
  passes \<open>undefined\<close> to the parent, clearing its value, and moves the calendar to the
  current month.\<close>

theorem picker_partial_input_clears:
  assumes "\<forall>f \<in> set allowedFormats. \<not> df_isMatch df s f"
  shows "DatePicker_step df (InputChange s) st = (st\<lparr>dp_inputValue := s, dp_month := df_now df\<rparr>, Some None)"
proof -
  have "parse_first df s allowedFormats = None" using assms by (simp only: parse_first_None_iff)
  then show ?thesis by (simp add: DatePicker_step_def handleInputChange_def)
qed

end
