(* ===== verification/Category_Select.thy ===== *)
theory Category_Select
  imports Receipt_View "HOL-Library.Sublist"
begin

text \<open>
  The category picker src/components/category/select.tsx and its use on the receipt card
  (receipt-view.tsx lines 98-108).  \<open>CategorySelect\<close> is a popover whose content,
  \<open>CategoryCommand\<close>, lists the categories of the browser's collection whose normalized name
  is \<open>like\<close> the pattern \<open>%SEARCH%\<close>, and creates a category on Enter.  The search text is
  state of \<open>CategoryCommand\<close>, which the popover unmounts when it closes, so closing
  clears it.  \<open>like\<close> is the query library's: \<open>%\<close> matches any text, \<open>_\<close> any one character,
  every other character itself, and the pattern must match the whole name.  The order of
  \<open>orderBy(name)\<close> is the library's string order, a parameter \<open>order_by\<close>.  The category
  collection is keyed by normalized name (collections.ts line 119), so its insert throws on a
  name the browser already holds.
\<close>

subsection \<open>The query (lines 43-50)\<close>

fun like_match :: "string \<Rightarrow> string \<Rightarrow> bool" where
  "like_match [] t = (t = [])"
| "like_match (p # ps) [] = (p = CHR ''%'' \<and> like_match ps [])"
| "like_match (p # ps) (x # xs) =
     (if p = CHR ''%'' then like_match ps (x # xs) \<or> like_match (p # ps) xs
      else (p = CHR ''_'' \<or> x = p) \<and> like_match ps xs)"

definition search_pattern :: "string \<Rightarrow> string" where
  "search_pattern search = ''%'' @ toUpperCase search @ ''%''"

definition category_matches :: "string \<Rightarrow> category list \<Rightarrow> category list" where
  "category_matches search cats = filter (\<lambda>x. like_match (search_pattern search) (ct_normalizedName x)) cats"

definition category_items :: "(category list \<Rightarrow> category list) \<Rightarrow> string \<Rightarrow> category list \<Rightarrow> category list" where
  "category_items order_by search cats = order_by (category_matches search cats)"

subsection \<open>The popover and its events\<close>

record category_select =
  cs_open :: bool
  cs_search :: string

datatype cs_event = CsOpenChange bool | CsSearch string | CsEnter id | CsSelect id

text \<open>\<open>categoryCollection.insert\<close>: a normalized name already held throws.\<close>

definition coll_category_insert :: "category \<Rightarrow> client \<Rightarrow> client_edit" where
  "coll_category_insert cat c = (if ct_normalizedName cat \<in> keys_of ct_normalizedName (cl_categories c) then None
     else Some (c\<lparr>cl_categories := cl_categories c @ [cat]\<rparr>, [category_sync MInsert [cat]]))"

text \<open>Lines 22-35: the closed popover (the content and its search unmounted).\<close>

definition cs_closed :: category_select where
  "cs_closed = \<lparr>cs_open = False, cs_search = []\<rparr>"

text \<open>One event: lines 25 (\<open>onOpenChange\<close>), 75 (typing), 52-71 (Enter, then \<open>setValue\<close>)
  and 83-85 (choosing a listed category); \<open>setValue\<close> calls \<open>onValueChanged\<close> and closes
  the popover (lines 30-33).  The result holds the id passed to \<open>onValueChanged\<close>, if any;
  None is an exception of the collection.\<close>

definition CategorySelect_step :: "(category list \<Rightarrow> category list) \<Rightarrow> cs_event \<Rightarrow> category_select \<times> client \<Rightarrow>
    (category_select \<times> client \<times> action list \<times> id option) option" where
  "CategorySelect_step order_by ev s = (case s of (st, c) \<Rightarrow> (case ev of
       CsOpenChange b \<Rightarrow> Some (if b then st\<lparr>cs_open := True\<rparr> else cs_closed, c, [], None)
     | CsSearch t \<Rightarrow> Some (if cs_open st then st\<lparr>cs_search := t\<rparr> else st, c, [], None)
     | CsEnter newId \<Rightarrow>
         (if \<not> cs_open st then Some (st, c, [], None)
          else (case category_enter (cs_search st) newId of
                  None \<Rightarrow> Some (st, c, [], None)
                | Some cat \<Rightarrow> (case coll_category_insert cat c of
                     None \<Rightarrow> None
                   | Some (c', acts) \<Rightarrow> Some (cs_closed, c', acts, Some newId))))
     | CsSelect i \<Rightarrow>
         (if cs_open st \<and> i \<in> ct_id ` set (category_items order_by (cs_search st) (cl_categories c))
          then Some (cs_closed, c, [], Some i) else Some (st, c, [], None))))"

text \<open>On the card, \<open>onValueChanged\<close> moves the receipt to the category (\<open>category_changed\<close>).\<close>

definition card_category_step :: "(category list \<Rightarrow> category list) \<Rightarrow> cs_event \<Rightarrow> receipt \<Rightarrow>
    category_select \<times> client \<Rightarrow> (category_select \<times> client \<times> action list) option" where
  "card_category_step order_by ev rcp s = (case CategorySelect_step order_by ev s of
       None \<Rightarrow> None
     | Some (st', c', acts, None) \<Rightarrow> Some (st', c', acts)
     | Some (st', c', acts, Some i) \<Rightarrow> (case category_changed i rcp c' of
          None \<Rightarrow> None
        | Some (c'', acts') \<Rightarrow> Some (st', c'', acts @ acts')))"

subsection \<open>Lemmas\<close>

lemma like_match_pct:
  "like_match (CHR ''%'' # ps) t \<longleftrightarrow> (\<exists>k \<le> length t. like_match ps (drop k t))"
proof (induction t)
  case Nil
  then show ?case by simp
next
  case (Cons x xs)
  have "(\<exists>k \<le> length (x # xs). like_match ps (drop k (x # xs))) \<longleftrightarrow>
      like_match ps (x # xs) \<or> (\<exists>k \<le> length xs. like_match ps (drop k xs))" (is "?L \<longleftrightarrow> ?R")
  proof
    assume ?L
    then obtain k where k: "k \<le> length (x # xs)" "like_match ps (drop k (x # xs))" by blast
    show ?R
    proof (cases k)
      case 0
      with k show ?thesis by simp
    next
      case (Suc j)
      with k show ?thesis by auto
    qed
  next
    assume ?R
    then show ?L
    proof
      assume "like_match ps (x # xs)"
      then show ?L by (intro exI [of _ 0]) simp
    next
      assume "\<exists>k \<le> length xs. like_match ps (drop k xs)"
      then obtain k where "k \<le> length xs" "like_match ps (drop k xs)" by blast
      then show ?L by (intro exI [of _ "Suc k"]) simp
    qed
  qed
  with Cons show ?case by simp
qed

lemma like_match_any: "like_match ''%'' t"
  using like_match_pct [of "[]" t] by force

lemma like_match_literal:
  "\<forall>c \<in> set p. c \<noteq> CHR ''%'' \<and> c \<noteq> CHR ''_'' \<Longrightarrow>
     like_match (p @ r) t \<longleftrightarrow> take (length p) t = p \<and> like_match r (drop (length p) t)"
proof (induction p arbitrary: t)
  case (Cons a p)
  then show ?case by (cases t) auto
qed simp

lemma like_match_infix:
  assumes "\<forall>c \<in> set p. c \<noteq> CHR ''%'' \<and> c \<noteq> CHR ''_''"
  shows "like_match (''%'' @ p @ ''%'') t \<longleftrightarrow> sublist p t"
proof -
  have "like_match (''%'' @ p @ ''%'') t \<longleftrightarrow> (\<exists>k \<le> length t. take (length p) (drop k t) = p)"
    using like_match_pct [of "p @ ''%''" t] like_match_literal [OF assms] like_match_any by simp
  also have "\<dots> \<longleftrightarrow> sublist p t"
  proof
    assume "\<exists>k \<le> length t. take (length p) (drop k t) = p"
    then obtain k where "take (length p) (drop k t) = p" by blast
    then have "t = take k t @ p @ drop (length p) (drop k t)"
      by (metis append_take_drop_id)
    then show "sublist p t" unfolding sublist_def by blast
  next
    assume "sublist p t"
    then obtain ps ss where "t = ps @ p @ ss" unfolding sublist_def by blast
    then show "\<exists>k \<le> length t. take (length p) (drop k t) = p"
      by (intro exI [of _ "length ps"]) simp
  qed
  finally show ?thesis .
qed

lemma to_upper_char_wild:
  "(to_upper_char c = CHR ''%'' \<longleftrightarrow> c = CHR ''%'') \<and> (to_upper_char c = CHR ''_'' \<longleftrightarrow> c = CHR ''_'')"
proof (cases "97 \<le> (of_char c :: nat) \<and> (of_char c :: nat) \<le> 122")
  case True
  then have u: "(of_char (to_upper_char c) :: nat) = of_char c - 32"
  proof -
    have "of_char c - 32 < (256 :: nat)" using nat_of_char_less_256 [of c] by linarith
    with True show ?thesis by (simp add: to_upper_char_def Let_def)
  qed
  have "to_upper_char c \<noteq> CHR ''%''" "to_upper_char c \<noteq> CHR ''_''" "c \<noteq> CHR ''%''" "c \<noteq> CHR ''_''"
    using True u by (auto dest: arg_cong [where f = "of_char :: char \<Rightarrow> nat"])
  then show ?thesis by simp
next
  case False
  then have "to_upper_char c = c" by (auto simp: to_upper_char_def Let_def)
  then show ?thesis by simp
qed

lemma toUpperCase_no_wild:
  "(\<forall>c \<in> set (toUpperCase s). c \<noteq> CHR ''%'' \<and> c \<noteq> CHR ''_'') \<longleftrightarrow> (\<forall>c \<in> set s. c \<noteq> CHR ''%'' \<and> c \<noteq> CHR ''_'')"
  by (simp add: toUpperCase_def to_upper_char_wild)

lemma like_match_one:
  "like_match (CHR ''_'' # r) t \<longleftrightarrow> t \<noteq> [] \<and> like_match r (tl t)"
  by (cases t) simp_all

text \<open>A search without the characters \<open>%\<close> and \<open>_\<close> lists the categories whose normalized name
  contains the upper-cased search text.\<close>

theorem category_search_substring:
  assumes "\<forall>c \<in> set search. c \<noteq> CHR ''%'' \<and> c \<noteq> CHR ''_''"
  shows "category_matches search cats = filter (\<lambda>x. sublist (toUpperCase search) (ct_normalizedName x)) cats"
proof -
  have "\<forall>c \<in> set (toUpperCase search). c \<noteq> CHR ''%'' \<and> c \<noteq> CHR ''_''"
    using assms by (simp only: toUpperCase_no_wild)
  then show ?thesis
    by (simp add: category_matches_def search_pattern_def like_match_infix [symmetric])
qed

text \<open>The search text is used as a \<open>like\<close> pattern without escaping: \<open>%\<close> lists every
  category and \<open>_\<close> every category with a non-empty normalized name.\<close>

theorem category_search_wildcards:
  "category_matches ''%'' cats = cats \<and> category_matches ''_'' cats = filter (\<lambda>x. ct_normalizedName x \<noteq> []) cats"
proof -
  have u: "toUpperCase ''%'' = ''%''" "toUpperCase ''_'' = ''_''"
    using to_upper_char_wild [of "CHR ''%''"] to_upper_char_wild [of "CHR ''_''"] by (simp_all add: toUpperCase_def)
  have a2: "like_match ''%%'' t" for t
    using like_match_pct [of "''%''" t] like_match_any [of t] by (intro iffD2 [OF like_match_pct] exI [of _ 0]) simp
  have a: "like_match ''%%%'' t" for t
    using a2 [of t] by (intro iffD2 [OF like_match_pct] exI [of _ 0]) simp
  have b: "like_match ''%_%'' t \<longleftrightarrow> t \<noteq> []" for t
  proof -
    have "like_match ''%_%'' t \<longleftrightarrow> (\<exists>k \<le> length t. drop k t \<noteq> [])"
      using like_match_pct [of "''_%''" t] by (simp add: like_match_one like_match_any)
    also have "\<dots> \<longleftrightarrow> t \<noteq> []"
    proof
      assume "\<exists>k \<le> length t. drop k t \<noteq> []"
      then show "t \<noteq> []" by auto
    next
      assume "t \<noteq> []"
      then show "\<exists>k \<le> length t. drop k t \<noteq> []" by (intro exI [of _ 0]) simp
    qed
    finally show ?thesis .
  qed
  show ?thesis using a b u by (simp add: category_matches_def search_pattern_def)
qed

text \<open>Enter on a name the browser already holds, in any case, throws in the collection's
  insert: no category is created, nothing is sent and the receipt keeps its category.\<close>

lemma category_enter_held_throws:
  assumes "cs_open st" "cs_search st \<noteq> []" "toUpperCase (cs_search st) \<in> keys_of ct_normalizedName (cl_categories c)"
  shows "card_category_step order_by (CsEnter newId) rcp (st, c) = None"
  using assms by (simp add: card_category_step_def CategorySelect_step_def category_enter_def coll_category_insert_def)

lemma owned_receipt_listed:
  "rc \<in> set (receipts d) \<Longrightarrow> report_owned_by d (u_id u) (rc_expenseReportId rc) \<Longrightarrow>
     rc_id rc \<in> set (getOwnedReceipts [rc_id rc] (u_id u) d)"
  by (force simp: getOwnedReceipts_def)

text \<open>C32. Enter with a new name on the receipt card, end to end.  The handler sends two requests
  from two collections, the new category and then the receipt moved to it; they are separate
  server calls and may reach the server in either order.  In the order sent both commit and
  the receipt is in the new category; the other way round the receipt's update fails on the
  category foreign key and is lost (the category is still created afterwards).\<close>

theorem new_category_request_order:
  assumes "db_wf d" "cs_open st" "cs_search st \<noteq> []"
    and "toUpperCase (cs_search st) \<notin> keys_of ct_normalizedName (cl_categories c)"
    and "toUpperCase (cs_search st) \<notin> keys_of ct_normalizedName (categories d)" "newId \<notin> keys_of ct_id (categories d)"
    and "find_by rc_id (rc_id rcp) (cl_receipts c) = Some rc" "rc \<in> set (receipts d)"
    and "report_owned_by d (u_id u) (rc_expenseReportId rc)"
  shows "\<exists>c' cat. card_category_step order_by (CsEnter newId) rcp (st, c) =
      Some (cs_closed, c', [CreateCategories [cat], UpdateReceipts [rc\<lparr>rc_categoryId := newId\<rparr>]]) \<and>
    run_action (Some u) now (CreateCategories [cat]) d = Inr (d\<lparr>categories := categories d @ [cat]\<rparr>) \<and>
    run_action (Some u) now (UpdateReceipts [rc\<lparr>rc_categoryId := newId\<rparr>]) (d\<lparr>categories := categories d @ [cat]\<rparr>) =
      Inr (d\<lparr>categories := categories d @ [cat],
             receipts := replace_by rc_id (rc\<lparr>rc_categoryId := newId, rc_updatedAt := now\<rparr>) (receipts d)\<rparr>) \<and>
    run_action (Some u) now (UpdateReceipts [rc\<lparr>rc_categoryId := newId\<rparr>]) d =
      Inl (DbError (ForeignKeyViolation ''Receipt.categoryId''))"
proof -
  define cat where "cat = \<lparr>ct_id = newId, ct_name = cs_search st, ct_normalizedName = toUpperCase (cs_search st)\<rparr>"
  have ce: "category_enter (cs_search st) newId = Some cat" using assms(3) by (simp add: category_enter_def cat_def)
  have step: "card_category_step order_by (CsEnter newId) rcp (st, c) =
      Some (cs_closed, c\<lparr>cl_categories := cl_categories c @ [cat],
        cl_receipts := replace_by rc_id (rc\<lparr>rc_categoryId := newId\<rparr>) (cl_receipts c)\<rparr>,
        [CreateCategories [cat], UpdateReceipts [rc\<lparr>rc_categoryId := newId\<rparr>]])"
    using assms(2,4,7) ce
    by (simp add: card_category_step_def CategorySelect_step_def coll_category_insert_def cat_def
        category_sync_def category_changed_def coll_receipt_update_Some)
  have own: "rc_id rc \<in> set (getOwnedReceipts [rc_id rc] (u_id u) d)" using owned_receipt_listed [OF assms(8,9)] .
  have own1: "getOwnedReceipts [rc_id rc] (u_id u) (d\<lparr>categories := categories d @ [cat]\<rparr>) = getOwnedReceipts [rc_id rc] (u_id u) d"
    by (simp add: getOwnedReceipts_def report_owned_by_def)
  have keys: "rc_expenseReportId rc \<in> keys_of rp_id (reports d)" "rc_merchantId rc \<in> keys_of mc_id (merchants d)"
    "rc_id rc \<in> keys_of rc_id (receipts d)"
    using assms(1,8) by (auto simp: db_wf_def keys_of_def)
  have c1: "run_action (Some u) now (CreateCategories [cat]) d = Inr (d\<lparr>categories := categories d @ [cat]\<rparr>)"
    using assms(5,6) by (simp add: createCategories_def commit_def run_tx_def category_insert_def cat_def)
  have c2: "run_action (Some u) now (UpdateReceipts [rc\<lparr>rc_categoryId := newId\<rparr>]) (d\<lparr>categories := categories d @ [cat]\<rparr>) =
      Inr (d\<lparr>categories := categories d @ [cat],
             receipts := replace_by rc_id (rc\<lparr>rc_categoryId := newId, rc_updatedAt := now\<rparr>) (receipts d)\<rparr>)"
    using own own1 keys
    by (simp add: updateReceipts_def commit_def run_tx_def receipt_update_def may_write_def keys_of_def cat_def)
  have c3: "run_action (Some u) now (UpdateReceipts [rc\<lparr>rc_categoryId := newId\<rparr>]) d =
      Inl (DbError (ForeignKeyViolation ''Receipt.categoryId''))"
    using own keys assms(6)
    by (simp add: updateReceipts_def commit_def run_tx_def receipt_update_def may_write_def)
  show ?thesis using step c1 c2 c3 by blast
qed

end
