(* ===== verification/Upload_Files.thy ===== *)
theory Upload_Files
  imports Receipt_Preview
begin

text \<open>
  The file inputs of the upload form (src/components/reports/upload-form.tsx lines 150-170
  and 264-278): the hidden file input and the drop zone both call \<open>startReceipt\<close> once per
  file, in the order the browser lists the files; each call draws a fresh id from
  \<open>cuid2()\<close>, an input here (the list of ids paired with the files).  The charts and Total
  Spent are hidden while the report has no stored receipt (line 280).
\<close>

text \<open>Lines 155-161: \<open>e.target.files\<close> may be null.\<close>

definition onFileChanged :: "id \<Rightarrow> (upload_file \<times> id) list option \<Rightarrow> client \<Rightarrow> client" where
  "onFileChanged expenseReportId files c = (case files of
       None \<Rightarrow> c
     | Some fs \<Rightarrow> foldl (\<lambda>c' (f, i). startReceipt expenseReportId i f c') c fs)"

text \<open>Lines 163-169: \<open>Array.from(e.dataTransfer.files || [])\<close>.\<close>

definition onFileDrop :: "id \<Rightarrow> (upload_file \<times> id) list option \<Rightarrow> client \<Rightarrow> client" where
  "onFileDrop expenseReportId files c =
     foldl (\<lambda>c' (f, i). startReceipt expenseReportId i f c') c (case files of None \<Rightarrow> [] | Some fs \<Rightarrow> fs)"

text \<open>Line 280: the charts' panel is hidden when no row of the joined query has a receipt.\<close>

definition charts_hidden :: "(receipt option \<times> pending option) list \<Rightarrow> bool" where
  "charts_hidden rows \<longleftrightarrow> length (filter (\<lambda>x. fst x \<noteq> None) rows) = 0"

text \<open>The entry \<open>startReceipt\<close> inserts for a file (lines 56-63).\<close>

definition new_pending :: "id \<Rightarrow> id \<Rightarrow> upload_file \<Rightarrow> pending" where
  "new_pending expenseReportId receiptId file = \<lparr>pe_id = receiptId, pe_reportId = expenseReportId, pe_status = PENDING,
     pe_file = file, pe_partial = Some Map.empty, pe_preview = \<not> endsWith (f_type file) ''.pdf''\<rparr>"

subsection \<open>Lemmas\<close>

lemma startReceipt_new_pending:
  "startReceipt r i f c = c\<lparr>cl_pending := cl_pending c @ [new_pending r i f]\<rparr>"
  by (simp add: startReceipt_def new_pending_def)

lemma foldl_startReceipt:
  "foldl (\<lambda>c' (f, i). startReceipt r i f c') c fs =
     c\<lparr>cl_pending := cl_pending c @ map (\<lambda>(f, i). new_pending r i f) fs\<rparr>"
  by (induction fs arbitrary: c) (auto simp: startReceipt_new_pending)

text \<open>Selecting or dropping files adds one PENDING entry per file, in order, and changes
  nothing else of the browser state; the input and the drop zone behave alike.\<close>

theorem upload_files_pending:
  "onFileChanged r (Some fs) c = c\<lparr>cl_pending := cl_pending c @ map (\<lambda>(f, i). new_pending r i f) fs\<rparr> \<and>
   onFileDrop r (Some fs) c = onFileChanged r (Some fs) c \<and>
   onFileChanged r None c = c \<and> onFileDrop r None c = c"
  by (simp add: onFileChanged_def onFileDrop_def foldl_startReceipt)

lemma endsWith_application_pdf: "\<not> endsWith ''application/pdf'' ''.pdf''"
  by (simp add: endsWith_def)

text \<open>The preview test of line 62 compares the MIME type with the suffix \<open>.pdf\<close>, which no
  MIME type has: a PDF gets an object URL like an image.  The row shows a PDF by its name
  (line 318) and never uses the URL, and the form never revokes it.\<close>

theorem pdf_upload_gets_object_url:
  assumes "f_type file = ''application/pdf''" "endsWith (f_name file) ''.pdf''"
  shows "pe_preview (new_pending r i file) \<and> \<not> row_is_image (Some (new_pending r i file))"
  using assms endsWith_application_pdf by (simp add: new_pending_def row_is_image_def)

end
