(* ===== verification/Form_Rows.thy ===== *)
theory Form_Rows
  imports Upload_Files "HOL-Library.Multiset"
begin

text \<open>
  The rows of the upload form (src/components/reports/upload-form.tsx lines 119-128 and
  295-299): a live query that full-joins the browser's receipts with the pending
  extractions on their id, left-joins the merchant and the category of the receipt, and
  keeps the rows whose receipt or pending entry belongs to the report.  A join pairs every
  two rows that satisfy its condition; a row without a partner is kept with \<open>undefined\<close>
  (None) on the other side, and a condition on a missing side is false.  The two
  \<open>orderBy\<close> clauses are the query library's order, the parameter \<open>order_rows\<close>.  Each row
  is rendered with the React key \<open>x.receipt?.id || x.receiptExtraction?.id\<close>.
\<close>

subsection \<open>Joins\<close>

definition left_join :: "('a \<Rightarrow> 'b \<Rightarrow> bool) \<Rightarrow> 'a list \<Rightarrow> 'b list \<Rightarrow> ('a \<times> 'b option) list" where
  "left_join p xs ys = concat (map (\<lambda>x. case filter (p x) ys of
       [] \<Rightarrow> [(x, None)]
     | ms \<Rightarrow> map (\<lambda>y. (x, Some y)) ms) xs)"

definition full_join :: "('a \<Rightarrow> 'b \<Rightarrow> bool) \<Rightarrow> 'a list \<Rightarrow> 'b list \<Rightarrow> ('a option \<times> 'b option) list" where
  "full_join p xs ys = map (\<lambda>(x, y). (Some x, y)) (left_join p xs ys) @
     map (\<lambda>y. (None, Some y)) (filter (\<lambda>y. \<not> (\<exists>x \<in> set xs. p x y)) ys)"

subsection \<open>The query\<close>

type_synonym form_row = "receipt option \<times> pending option \<times> merchant option \<times> category option"

text \<open>Lines 122-124: the join conditions, \<open>eq(receipt?.merchantId, merchant.id)\<close> being false
  when there is no receipt.\<close>

definition row_merchant :: "receipt option \<Rightarrow> merchant \<Rightarrow> bool" where
  "row_merchant r m \<longleftrightarrow> (case r of None \<Rightarrow> False | Some x \<Rightarrow> rc_merchantId x = mc_id m)"

definition row_category :: "receipt option \<Rightarrow> category \<Rightarrow> bool" where
  "row_category r k \<longleftrightarrow> (case r of None \<Rightarrow> False | Some x \<Rightarrow> rc_categoryId x = ct_id k)"

text \<open>Line 127: the report filter on either side.\<close>

definition row_in_report :: "id \<Rightarrow> receipt option \<Rightarrow> pending option \<Rightarrow> bool" where
  "row_in_report reportId r p \<longleftrightarrow>
     (case r of Some x \<Rightarrow> rc_expenseReportId x = reportId | None \<Rightarrow> False) \<or>
     (case p of Some e \<Rightarrow> pe_reportId e = reportId | None \<Rightarrow> False)"

definition form_rows_unordered :: "id \<Rightarrow> client \<Rightarrow> form_row list" where
  "form_rows_unordered reportId c =
     filter (\<lambda>(r, p, _, _). row_in_report reportId r p)
       (map (\<lambda>(((r, p), m), k). (r, p, m, k))
         (left_join (\<lambda>((r, _), _). row_category r)
           (left_join (\<lambda>(r, _). row_merchant r)
             (full_join (\<lambda>r p. rc_id r = pe_id p) (cl_receipts c) (cl_pending c)) (cl_merchants c))
           (cl_categories c)))"

definition form_rows :: "(form_row list \<Rightarrow> form_row list) \<Rightarrow> id \<Rightarrow> client \<Rightarrow> form_row list" where
  "form_rows order_rows reportId c = order_rows (form_rows_unordered reportId c)"

text \<open>Line 297: the React key of a row.\<close>

definition row_key :: "form_row \<Rightarrow> id option" where
  "row_key x = (case x of (Some r, _, _, _) \<Rightarrow> if rc_id r = [] then map_option pe_id (fst (snd x)) else Some (rc_id r)
     | (None, p, _, _) \<Rightarrow> map_option pe_id p)"

subsection \<open>Lemmas\<close>

lemma find_filter_case: "find P ys = (case filter P ys of [] \<Rightarrow> None | y # _ \<Rightarrow> Some y)"
  by (induction ys) auto

lemma left_join_single:
  assumes "\<forall>x \<in> set xs. length (filter (p x) ys) \<le> 1"
  shows "left_join p xs ys = map (\<lambda>x. (x, find (p x) ys)) xs"
  using assms
proof (induction xs)
  case (Cons x xs)
  have "length (filter (p x) ys) \<le> 1" using Cons.prems by simp
  then have "(case filter (p x) ys of [] \<Rightarrow> [(x, None)] | ms \<Rightarrow> map (\<lambda>y. (x, Some y)) ms) = [(x, find (p x) ys)]"
    by (cases "filter (p x) ys" rule: list.exhaust) (auto simp: find_filter_case)
  with Cons show ?case by (simp add: left_join_def)
qed (simp add: left_join_def)

lemma distinct_filter_le1:
  assumes "distinct (map f ys)"
  shows "length (filter (\<lambda>y. f y = k) ys) \<le> 1"
  using assms
proof (induction ys)
  case (Cons y ys)
  have "\<forall>x \<in> set ys. f x \<noteq> f y" using Cons.prems by (auto simp: image_iff)
  then have "f y = k \<Longrightarrow> filter (\<lambda>y. f y = k) ys = []" by (auto simp: filter_empty_conv)
  with Cons show ?case by auto
qed simp

text \<open>With distinct keys every join finds at most one partner, and the query keeps, in
  the order of the receipts, each receipt with its pending entry, followed by the pending
  entries without a receipt.\<close>

lemma form_rows_unordered_single:
  assumes "distinct (map pe_id (cl_pending c))" "distinct (map mc_id (cl_merchants c))"
    "distinct (map ct_id (cl_categories c))"
  shows "form_rows_unordered reportId c =
    filter (\<lambda>(r, p, _, _). row_in_report reportId r p)
      (map (\<lambda>(r, p). (r, p, find (row_merchant r) (cl_merchants c), find (row_category r) (cl_categories c)))
        (map (\<lambda>r. (Some r, find (\<lambda>p. rc_id r = pe_id p) (cl_pending c))) (cl_receipts c) @
         map (\<lambda>p. (None, Some p)) (filter (\<lambda>p. \<not> (\<exists>r \<in> set (cl_receipts c). rc_id r = pe_id p)) (cl_pending c))))"
proof -
  have m: "length (filter (row_merchant r) (cl_merchants c)) \<le> 1" for r
  proof (cases r)
    case (Some x)
    then have "filter (row_merchant r) (cl_merchants c) = filter (\<lambda>m. mc_id m = rc_merchantId x) (cl_merchants c)"
      by (auto simp: row_merchant_def intro: filter_cong)
    then show ?thesis using distinct_filter_le1 [OF assms(2)] by simp
  qed (simp add: row_merchant_def)
  have k: "length (filter (row_category r) (cl_categories c)) \<le> 1" for r
  proof (cases r)
    case (Some x)
    then have "filter (row_category r) (cl_categories c) = filter (\<lambda>k. ct_id k = rc_categoryId x) (cl_categories c)"
      by (auto simp: row_category_def intro: filter_cong)
    then show ?thesis using distinct_filter_le1 [OF assms(3)] by simp
  qed (simp add: row_category_def)
  have p: "length (filter (\<lambda>p. rc_id r = pe_id p) (cl_pending c)) \<le> 1" for r :: receipt
    using distinct_filter_le1 [OF assms(1), of "rc_id r"] by (metis (mono_tags, lifting) filter_cong)
  have j1: "left_join (\<lambda>r p. rc_id r = pe_id p) (cl_receipts c) (cl_pending c) =
      map (\<lambda>r. (r, find (\<lambda>p. rc_id r = pe_id p) (cl_pending c))) (cl_receipts c)"
    by (rule left_join_single) (intro ballI p)
  have j2: "left_join (\<lambda>x. row_merchant (fst x)) xs (cl_merchants c) =
      map (\<lambda>x. (x, find (row_merchant (fst x)) (cl_merchants c))) xs" for xs :: "(receipt option \<times> pending option) list"
  proof -
    have "\<forall>x \<in> set xs. length (filter ((\<lambda>(r, _). row_merchant r) x) (cl_merchants c)) \<le> 1"
      using m by (simp add: split_def)
    from left_join_single [OF this] show ?thesis by (simp add: split_def)
  qed
  have j3: "left_join (\<lambda>x. row_category (fst (fst x))) xs (cl_categories c) =
      map (\<lambda>x. (x, find (row_category (fst (fst x))) (cl_categories c))) xs"
    for xs :: "((receipt option \<times> pending option) \<times> merchant option) list"
  proof -
    have "\<forall>x \<in> set xs. length (filter ((\<lambda>((r, _), _). row_category r) x) (cl_categories c)) \<le> 1"
      using k by (simp add: split_def)
    from left_join_single [OF this] show ?thesis by (simp add: split_def)
  qed
  show ?thesis
    by (simp add: form_rows_unordered_def full_join_def j1 j2 j3 comp_def split_def)
qed

lemma find_unique_Some:
  assumes "distinct (map pe_id ps)"
  shows "find (\<lambda>p. k = pe_id p) ps = Some p \<longleftrightarrow> p \<in> set ps \<and> pe_id p = k"
  using assms by (induction ps) (auto simp: image_iff)

lemma find_None_iff': "find P xs = None \<longleftrightarrow> (\<forall>x \<in> set xs. \<not> P x)"
  by (induction xs) auto

lemma row_in_report_receipt:
  assumes "distinct (map pe_id ps)"
  shows "row_in_report reportId (Some x) (find (\<lambda>p. rc_id x = pe_id p) ps) \<longleftrightarrow>
    rc_expenseReportId x = reportId \<or> (\<exists>p \<in> set ps. pe_id p = rc_id x \<and> pe_reportId p = reportId)"
proof (cases "find (\<lambda>p. rc_id x = pe_id p) ps")
  case None
  then have "\<forall>p \<in> set ps. rc_id x \<noteq> pe_id p" by (simp add: find_None_iff')
  with None show ?thesis by (auto simp: row_in_report_def)
next
  case (Some q)
  then have q: "q \<in> set ps" "pe_id q = rc_id x" using find_unique_Some [OF assms] by simp_all
  have u: "p = q" if "p \<in> set ps" "pe_id p = rc_id x" for p
  proof -
    have "find (\<lambda>p. rc_id x = pe_id p) ps = Some p" using find_unique_Some [OF assms, of "rc_id x" p] that by simp
    with Some show ?thesis by simp
  qed
  have "(\<exists>p \<in> set ps. pe_id p = rc_id x \<and> pe_reportId p = reportId) \<longleftrightarrow> pe_reportId q = reportId"
    using q u by blast
  with Some show ?thesis by (simp add: row_in_report_def)
qed

lemma map_filter_cong: "(\<And>x. x \<in> set xs \<Longrightarrow> P x \<Longrightarrow> f x = g x) \<Longrightarrow> map f (filter P xs) = map g (filter P xs)"
  by (induction xs) auto

text \<open>The keys of the unordered rows: the report's receipts (with or without their pending
  entry) in order, then its pending entries without a receipt.\<close>

lemma form_rows_keys_list:
  assumes "distinct (map pe_id (cl_pending c))" "distinct (map mc_id (cl_merchants c))"
    "distinct (map ct_id (cl_categories c))" "\<forall>r \<in> set (cl_receipts c). rc_id r \<noteq> []"
  shows "map row_key (form_rows_unordered reportId c) =
    map (\<lambda>x. Some (rc_id x)) (filter (\<lambda>x. rc_expenseReportId x = reportId \<or>
        (\<exists>p \<in> set (cl_pending c). pe_id p = rc_id x \<and> pe_reportId p = reportId)) (cl_receipts c)) @
    map (\<lambda>p. Some (pe_id p)) (filter (\<lambda>p. (\<forall>r \<in> set (cl_receipts c). rc_id r \<noteq> pe_id p) \<and> pe_reportId p = reportId)
      (cl_pending c))"
proof -
  let ?ps = "cl_pending c" and ?rs = "cl_receipts c"
  define g :: "receipt option \<times> pending option \<Rightarrow> form_row" where "g = (\<lambda>(r, p). (r, p, find (row_merchant r) (cl_merchants c), find (row_category r) (cl_categories c)))"
  define P where "P = (\<lambda>(r :: receipt option, p :: pending option, _ :: merchant option, _ :: category option). row_in_report reportId r p)"
  have u: "form_rows_unordered reportId c =
      map g (filter (P \<circ> g) (map (\<lambda>r. (Some r, find (\<lambda>p. rc_id r = pe_id p) ?ps)) ?rs)) @
      map g (filter (P \<circ> g) (map (\<lambda>p. (None, Some p)) (filter (\<lambda>p. \<not> (\<exists>r \<in> set ?rs. rc_id r = pe_id p)) ?ps)))"
    unfolding form_rows_unordered_single [OF assms(1-3)] g_def [symmetric] P_def [symmetric]
    by (simp add: filter_map comp_assoc)
  have a: "map row_key (map g (filter (P \<circ> g) (map (\<lambda>r. (Some r, find (\<lambda>p. rc_id r = pe_id p) ?ps)) ?rs))) =
      map (\<lambda>x. Some (rc_id x)) (filter (\<lambda>x. rc_expenseReportId x = reportId \<or>
        (\<exists>p \<in> set ?ps. pe_id p = rc_id x \<and> pe_reportId p = reportId)) ?rs)"
  proof -
    have "filter (P \<circ> (g \<circ> (\<lambda>r. (Some r, find (\<lambda>p. rc_id r = pe_id p) ?ps)))) ?rs =
        filter (\<lambda>x. rc_expenseReportId x = reportId \<or>
          (\<exists>p \<in> set ?ps. pe_id p = rc_id x \<and> pe_reportId p = reportId)) ?rs"
      using row_in_report_receipt [OF assms(1)] by (intro filter_cong) (simp_all add: P_def g_def)
    moreover have "map (row_key \<circ> (g \<circ> (\<lambda>r. (Some r, find (\<lambda>p. rc_id r = pe_id p) ?ps))))
        (filter (\<lambda>x. rc_expenseReportId x = reportId \<or>
          (\<exists>p \<in> set ?ps. pe_id p = rc_id x \<and> pe_reportId p = reportId)) ?rs) =
        map (\<lambda>x. Some (rc_id x)) (filter (\<lambda>x. rc_expenseReportId x = reportId \<or>
          (\<exists>p \<in> set ?ps. pe_id p = rc_id x \<and> pe_reportId p = reportId)) ?rs)"
      using assms(4) by (auto simp: row_key_def g_def)
    ultimately show ?thesis by (simp only: filter_map map_map comp_assoc)
  qed
  have b: "map row_key (map g (filter (P \<circ> g) (map (\<lambda>p. (None, Some p)) (filter (\<lambda>p. \<not> (\<exists>r \<in> set ?rs. rc_id r = pe_id p)) ?ps)))) =
      map (\<lambda>p. Some (pe_id p)) (filter (\<lambda>p. (\<forall>r \<in> set ?rs. rc_id r \<noteq> pe_id p) \<and> pe_reportId p = reportId) ?ps)"
    by (simp add: filter_map comp_def P_def g_def row_key_def row_in_report_def)
  show ?thesis using a b by (simp add: u)
qed

text \<open>C33. Each receipt and each pending extraction of the report is one row of the upload
  form, whatever the query's order: the React keys of the rows are distinct and are exactly
  the ids of the report's receipts and pending entries.\<close>

theorem form_rows_keys:
  assumes "distinct (map rc_id (cl_receipts c))" "distinct (map pe_id (cl_pending c))"
    "distinct (map mc_id (cl_merchants c))" "distinct (map ct_id (cl_categories c))"
    "\<forall>r \<in> set (cl_receipts c). rc_id r \<noteq> []" "\<And>xs. mset (order_rows xs) = mset xs"
  shows "distinct (map row_key (form_rows order_rows reportId c)) \<and>
    set (map row_key (form_rows order_rows reportId c)) =
      Some ` ({rc_id r |r. r \<in> set (cl_receipts c) \<and> rc_expenseReportId r = reportId} \<union>
              {pe_id p |p. p \<in> set (cl_pending c) \<and> pe_reportId p = reportId})"
proof -
  have m: "mset (map row_key (form_rows order_rows reportId c)) = mset (map row_key (form_rows_unordered reportId c))"
    using assms(6) by (simp add: form_rows_def)
  note l = form_rows_keys_list [OF assms(2-5), of reportId]
  have d: "distinct (map row_key (form_rows_unordered reportId c))"
  proof -
    let ?A = "filter (\<lambda>x. rc_expenseReportId x = reportId \<or>
        (\<exists>p \<in> set (cl_pending c). pe_id p = rc_id x \<and> pe_reportId p = reportId)) (cl_receipts c)"
    let ?B = "filter (\<lambda>p. (\<forall>r \<in> set (cl_receipts c). rc_id r \<noteq> pe_id p) \<and> pe_reportId p = reportId) (cl_pending c)"
    have "distinct (map rc_id ?A)" using distinct_map_filter [OF assms(1)] .
    moreover have "distinct (map pe_id ?B)" using distinct_map_filter [OF assms(2)] .
    moreover have "set (map rc_id ?A) \<inter> set (map pe_id ?B) = {}" unfolding set_map set_filter by blast
    ultimately have "distinct (map rc_id ?A @ map pe_id ?B)" by (simp only: distinct_append)
    then have "distinct (map Some (map rc_id ?A @ map pe_id ?B))" by (simp only: distinct_map inj_on_def) simp
    then show ?thesis unfolding l by (simp only: map_append map_map comp_def)
  qed
  have s: "set (map row_key (form_rows_unordered reportId c)) =
      Some ` ({rc_id r |r. r \<in> set (cl_receipts c) \<and> rc_expenseReportId r = reportId} \<union>
              {pe_id p |p. p \<in> set (cl_pending c) \<and> pe_reportId p = reportId})"
  proof -
    let ?rs = "cl_receipts c" and ?ps = "cl_pending c"
    have "rc_id ` {x \<in> set ?rs. rc_expenseReportId x = reportId \<or> (\<exists>p \<in> set ?ps. pe_id p = rc_id x \<and> pe_reportId p = reportId)} \<union>
        pe_id ` {p \<in> set ?ps. (\<forall>r \<in> set ?rs. rc_id r \<noteq> pe_id p) \<and> pe_reportId p = reportId} =
        {rc_id r |r. r \<in> set ?rs \<and> rc_expenseReportId r = reportId} \<union> {pe_id p |p. p \<in> set ?ps \<and> pe_reportId p = reportId}"
      (is "?A = ?B")
    proof (intro equalityI subsetI)
      fix k assume "k \<in> ?A"
      then show "k \<in> ?B"
      proof
        assume "k \<in> rc_id ` {x \<in> set ?rs. rc_expenseReportId x = reportId \<or> (\<exists>p \<in> set ?ps. pe_id p = rc_id x \<and> pe_reportId p = reportId)}"
        then obtain x where x: "x \<in> set ?rs" "k = rc_id x"
          "rc_expenseReportId x = reportId \<or> (\<exists>p \<in> set ?ps. pe_id p = rc_id x \<and> pe_reportId p = reportId)" by blast
        from x(3) show ?thesis
        proof
          assume "rc_expenseReportId x = reportId"
          with x(1,2) show ?thesis by blast
        next
          assume "\<exists>p \<in> set ?ps. pe_id p = rc_id x \<and> pe_reportId p = reportId"
          then obtain p where "p \<in> set ?ps" "pe_id p = k" "pe_reportId p = reportId" using x(2) by blast
          then have "k \<in> {pe_id p |p. p \<in> set ?ps \<and> pe_reportId p = reportId}" by auto
          then show ?thesis by (rule UnI2)
        qed
      next
        assume "k \<in> pe_id ` {p \<in> set ?ps. (\<forall>r \<in> set ?rs. rc_id r \<noteq> pe_id p) \<and> pe_reportId p = reportId}"
        then show ?thesis by blast
      qed
    next
      fix k assume "k \<in> ?B"
      then show "k \<in> ?A"
      proof
        assume "k \<in> {rc_id r |r. r \<in> set ?rs \<and> rc_expenseReportId r = reportId}"
        then show ?thesis by blast
      next
        assume "k \<in> {pe_id p |p. p \<in> set ?ps \<and> pe_reportId p = reportId}"
        then obtain p where p: "p \<in> set ?ps" "k = pe_id p" "pe_reportId p = reportId" by blast
        show ?thesis
        proof (cases "\<exists>r \<in> set ?rs. rc_id r = pe_id p")
          case True
          then obtain r where r: "r \<in> set ?rs" "rc_id r = pe_id p" by blast
          with p have "r \<in> {x \<in> set ?rs. rc_expenseReportId x = reportId \<or>
              (\<exists>p \<in> set ?ps. pe_id p = rc_id x \<and> pe_reportId p = reportId)}" by auto
          then have "rc_id r \<in> ?A" by blast
          with r(2) p(2) show ?thesis by simp
        next
          case False
          with p have "p \<in> {p \<in> set ?ps. (\<forall>r \<in> set ?rs. rc_id r \<noteq> pe_id p) \<and> pe_reportId p = reportId}" by auto
          then have "pe_id p \<in> ?A" by blast
          with p(2) show ?thesis by simp
        qed
      qed
    qed
    then have "Some ` ?A = Some ` ?B" by simp
    then show ?thesis unfolding l by (simp add: image_Un image_image)
  qed
  show ?thesis using mset_eq_imp_distinct_iff [OF m] mset_eq_setD [OF m] d s by simp
qed

end
