(* ===== verification/Item_Table.thy ===== *)
theory Item_Table
  imports Card_Render
begin

text \<open>
  The line item table of the receipt card (src/components/reports/receipt-view.tsx lines
  150-152 and 264-385) as React runs it.  The card renders one \<open>ReceiptViewLineItemRow\<close>
  per item of its live query and gives the rows no \<open>key\<close>: React matches the rows of two
  renders by position, so the state of the i-th row (its \<open>editing\<close> flag and its form)
  stays with the i-th position when the items change; a new position mounts a row with
  the form's defaults, a lost one unmounts.  A click on the page runs, for every row it is
  outside of, that row's \<open>submitForm\<close> (\<open>useOutsideClick\<close>, line 319), then the \<open>onClick\<close>
  of the row it is on (line 322).  A listener that throws is reported by the browser and
  the next one runs.  The submissions of \<open>form.handleSubmit\<close> resolve in the order of the
  rows, before the next event.  \<open>lineItem.quantity.toString()\<close> of the Prisma decimal is
  the parameter \<open>qty_str\<close>.
\<close>

datatype row_field = Description | Quantity | UnitPrice

datatype table_event = Click "nat option" | Type nat row_field string

text \<open>The forms of the mounted rows, by position, with the browser's collections and the
  actions sent.\<close>

type_synonym table_state = "row_form list \<times> client \<times> action list"

text \<open>Lines 274-281: the form of a row when it mounts.\<close>

definition mount_row :: "(real \<Rightarrow> string) \<Rightarrow> line_item \<Rightarrow> row_form" where
  "mount_row qty_str li = row_init (qty_str (li_quantity li)) li"

text \<open>Lines 150-152: the rows of a render matched with the mounted ones by position.\<close>

definition reconcile :: "(real \<Rightarrow> string) \<Rightarrow> line_item list \<Rightarrow> row_form list \<Rightarrow> row_form list" where
  "reconcile qty_str items fs = take (length items) fs @ map (mount_row qty_str) (drop (length fs) items)"

text \<open>Line 319: a row's outside-click listener runs \<open>submitForm\<close>; when the collection
  throws, the browser state stays as it was.\<close>

definition row_outside :: "line_item \<Rightarrow> row_form \<Rightarrow> client \<Rightarrow> row_form \<times> client \<times> action list" where
  "row_outside li f c = (case submitForm li f c of
       (f', None) \<Rightarrow> (f', c, [])
     | (f', Some (c', a)) \<Rightarrow> (f', c', a))"

text \<open>The listeners of the rows, in order, for a click on row \<open>k\<close> (None: on no row); \<open>j\<close>
  is the position of the first row of the list.\<close>

fun outside_clicks :: "nat option \<Rightarrow> nat \<Rightarrow> (line_item \<times> row_form) list \<Rightarrow> client \<Rightarrow>
    row_form list \<times> client \<times> action list" where
  "outside_clicks k j [] c = ([], c, [])"
| "outside_clicks k j ((li, f) # rs) c =
     (if k = Some j then (case outside_clicks k (Suc j) rs c of (fs, c', a) \<Rightarrow> (f # fs, c', a))
      else (case row_outside li f c of (f', c1, a1) \<Rightarrow>
              (case outside_clicks k (Suc j) rs c1 of (fs, c2, a2) \<Rightarrow> (f' # fs, c2, a1 @ a2))))"

text \<open>Line 322: the clicked row opens.\<close>

definition open_row :: "nat option \<Rightarrow> row_form list \<Rightarrow> row_form list" where
  "open_row k fs = (case k of
       None \<Rightarrow> fs
     | Some i \<Rightarrow> if i < length fs then fs[i := (fs ! i)\<lparr>lr_editing := True\<rparr>] else fs)"

text \<open>Lines 332-377: typing into an input of an open row sets the form's field.\<close>

definition set_field :: "row_field \<Rightarrow> string \<Rightarrow> row_form \<Rightarrow> row_form" where
  "set_field fld s f = (case fld of
       Description \<Rightarrow> f\<lparr>lr_description := s\<rparr>
     | Quantity \<Rightarrow> f\<lparr>lr_quantity := s\<rparr>
     | UnitPrice \<Rightarrow> f\<lparr>lr_unitPrice := s\<rparr>)"

text \<open>One event on the card of receipt \<open>rid\<close>, followed by the render it causes.\<close>

definition table_step :: "(real \<Rightarrow> string) \<Rightarrow> id \<Rightarrow> table_event \<Rightarrow> table_state \<Rightarrow> table_state" where
  "table_step qty_str rid ev s = (case s of (fs, c, acts) \<Rightarrow> (case ev of
       Click k \<Rightarrow>
         (case outside_clicks k 0 (zip (receipt_items (cl_items c) rid) fs) c of (fs', c', a) \<Rightarrow>
            (reconcile qty_str (receipt_items (cl_items c') rid) (open_row k fs'), c', acts @ a))
     | Type i fld txt \<Rightarrow>
         (if i < length fs \<and> lr_editing (fs ! i) then (fs[i := set_field fld txt (fs ! i)], c, acts)
          else (fs, c, acts))))"

definition table_init :: "(real \<Rightarrow> string) \<Rightarrow> id \<Rightarrow> client \<Rightarrow> table_state" where
  "table_init qty_str rid c = (map (mount_row qty_str) (receipt_items (cl_items c) rid), c, [])"

text \<open>Lines 321-385: the cells of a row, closed (\<open>ViewCells\<close>: description, quantity, unit
  price, line total) or open (\<open>EditCells\<close>: the three inputs' texts and the edit total,
  None being NaN).  None when the row's formatter throws.\<close>

datatype row_view = ViewCells string real real real | EditCells string string string "real option"

definition row_cells :: "line_item \<Rightarrow> row_form \<Rightarrow> row_view option" where
  "row_cells li f =
     (if \<not> lr_editing f then map_option (\<lambda>(d, q, u, t). ViewCells d q u t) (LineItemRow_view li)
      else if currency_code (item_currency li)
      then Some (EditCells (lr_description f) (lr_quantity f) (lr_unitPrice f) (edit_total f))
      else None)"

definition table_cells :: "id \<Rightarrow> table_state \<Rightarrow> row_view list option" where
  "table_cells rid s = (case s of (fs, c, _) \<Rightarrow> those (map2 row_cells (receipt_items (cl_items c) rid) fs))"

subsection \<open>Lemmas\<close>

lemma row_form_close_same [simp]: "\<not> lr_editing f \<Longrightarrow> f\<lparr>lr_editing := False\<rparr> = f"
  by (cases f) simp

lemma row_form_open_same [simp]: "lr_editing f \<Longrightarrow> f\<lparr>lr_editing := True\<rparr> = f"
  by (cases f) simp

lemma length_reconcile [simp]: "length (reconcile qty_str items fs) = length items"
  by (simp add: reconcile_def)

lemma reconcile_same_length: "length fs = length items \<Longrightarrow> reconcile qty_str items fs = fs"
  by (simp add: reconcile_def)

lemma row_outside_closed: "\<not> lr_editing f \<Longrightarrow> row_outside li f c = (f, c, [])"
  by (simp add: row_outside_def submitForm_def)

lemma outside_clicks_closed:
  "\<forall>x \<in> set rs. \<not> lr_editing (snd x) \<Longrightarrow> outside_clicks k j rs c = (map snd rs, c, [])"
  by (induction k j rs c rule: outside_clicks.induct) (simp_all add: row_outside_closed)

lemma outside_clicks_append:
  "outside_clicks k j (rs1 @ rs2) c = (case outside_clicks k j rs1 c of (fs1, c1, a1) \<Rightarrow>
     (case outside_clicks k (j + length rs1) rs2 c1 of (fs2, c2, a2) \<Rightarrow> (fs1 @ fs2, c2, a1 @ a2)))"
  by (induction k j rs1 c rule: outside_clicks.induct) (simp_all split: prod.splits)

lemma length_outside_clicks [simp]: "length (fst (outside_clicks k j rs c)) = length rs"
proof (induction k j rs c rule: outside_clicks.induct)
  case (2 k j li f rs c)
  obtain f' c1 a1 where o: "row_outside li f c = (f', c1, a1)" by (cases "row_outside li f c") auto
  show ?case using 2 o by (simp add: split_def)
qed simp

lemma outside_clicks_one_open:
  assumes "length gs = length xs" "length hs = length ys" "\<forall>x \<in> set gs \<union> set hs. \<not> lr_editing x"
  shows "outside_clicks k 0 (zip (xs @ a # ys) (gs @ f # hs)) c =
     (if k = Some (length xs) then (gs @ f # hs, c, [])
      else (case row_outside a f c of (f', c', a') \<Rightarrow> (gs @ f' # hs, c', a')))"
proof -
  have z: "zip (xs @ a # ys) (gs @ f # hs) = zip xs gs @ [(a, f)] @ zip ys hs" using assms(1) by simp
  have "\<forall>x \<in> set (zip xs gs). \<not> lr_editing (snd x)" using assms(3) by (auto dest: set_zip_rightD)
  then have p: "outside_clicks k 0 (zip xs gs) c = (gs, c, [])"
    using outside_clicks_closed assms(1) by (simp add: map_snd_zip)
  have "\<forall>x \<in> set (zip ys hs). \<not> lr_editing (snd x)" using assms(3) by (auto dest: set_zip_rightD)
  then have q: "outside_clicks k j (zip ys hs) c' = (hs, c', [])" for j c'
    using outside_clicks_closed assms(2) by (simp add: map_snd_zip)
  show ?thesis unfolding z outside_clicks_append using p q assms(1)
    by (simp split: prod.splits)
qed

lemma receipt_items_in: "receipt_items items rid = xs @ a # ys \<Longrightarrow> a \<in> set items"
  by (metis filter_is_subset in_set_conv_decomp receipt_items_def subsetD)

lemma receipt_items_delete_mid:
  assumes "receipt_items items rid = xs @ a # ys" "unique_by li_id items"
  shows "receipt_items (delete_by li_id (li_id a) items) rid = xs @ ys"
proof -
  have "receipt_items (delete_by li_id (li_id a) items) rid = delete_by li_id (li_id a) (receipt_items items rid)"
    by (simp add: receipt_items_def delete_by_def conj_commute)
  moreover have "distinct (map li_id (xs @ a # ys))"
    using unique_by_filter [OF assms(2), of "\<lambda>l. li_receiptId l = rid"] assms(1)
    by (simp only: receipt_items_def unique_by_def)
  then have d: "li_id a \<notin> li_id ` set xs" "li_id a \<notin> li_id ` set ys" by simp_all
  have "filter (\<lambda>x. li_id x \<noteq> li_id a) xs = xs"
    by (rule filter_True) (metis d(1) imageI)
  moreover have "filter (\<lambda>x. li_id x \<noteq> li_id a) ys = ys"
    by (rule filter_True) (metis d(2) imageI)
  ultimately show ?thesis using assms(1) by (simp only: delete_by_def filter_append filter.simps) simp
qed

text \<open>An open row whose quantity reads as 0 deletes its item when a click lands outside it.\<close>

lemma row_outside_zero_quantity:
  assumes "lr_editing f" "js_Number (lr_quantity f) = Some 0" "js_Number (lr_unitPrice f) = Some p"
    "receipt_items (cl_items c) rid = xs @ a # ys" "unique_by li_id (cl_items c)"
  shows "row_outside a f c = (f\<lparr>lr_editing := False\<rparr>,
     c\<lparr>cl_items := delete_by li_id (li_id a) (cl_items c)\<rparr>, [DeleteLineItems [li_id a]])"
proof -
  have "find_by li_id (li_id a) (cl_items c) = Some a"
    using find_by_unique [OF assms(5) receipt_items_in [OF assms(4)]] .
  then show ?thesis using assms(1-3)
    by (simp add: row_outside_def submitForm_def coll_item_delete_def line_item_sync_def)
qed

text \<open>Deleting an item from its row leaves the row's form (closed, its quantity still 0)
  at the row's position, where the next item is now rendered; the last position unmounts.\<close>

lemma delete_step:
  assumes "receipt_items (cl_items c) rid = xs @ a # ys" "unique_by li_id (cl_items c)"
    "length gs = length xs" "length hs = length ys" "\<forall>x \<in> set gs \<union> set hs. \<not> lr_editing x"
    "lr_editing f" "js_Number (lr_quantity f) = Some 0" "js_Number (lr_unitPrice f) = Some p"
  shows "table_step qty_str rid (Click None) (gs @ f # hs, c, acts) =
     (take (length xs + length ys) (gs @ f\<lparr>lr_editing := False\<rparr> # hs),
      c\<lparr>cl_items := delete_by li_id (li_id a) (cl_items c)\<rparr>, acts @ [DeleteLineItems [li_id a]])"
proof -
  have o: "outside_clicks None 0 (zip (xs @ a # ys) (gs @ f # hs)) c =
      (gs @ f\<lparr>lr_editing := False\<rparr> # hs, c\<lparr>cl_items := delete_by li_id (li_id a) (cl_items c)\<rparr>,
       [DeleteLineItems [li_id a]])"
    using outside_clicks_one_open [of gs xs hs ys] assms(3-5)
      row_outside_zero_quantity [OF assms(6-8,1,2)] by simp
  have r: "receipt_items (delete_by li_id (li_id a) (cl_items c)) rid = xs @ ys"
    using receipt_items_delete_mid [OF assms(1,2)] .
  show ?thesis using o r assms(1,3,4) by (simp add: table_step_def open_row_def reconcile_def)
qed

text \<open>A click on a row whose form is open and all others closed keeps the forms and opens
  nothing new.\<close>

lemma reopen_step:
  assumes "receipt_items (cl_items c) rid = xs @ b # ys" "length gs = length xs" "length hs = length ys"
    "\<forall>x \<in> set gs \<union> set hs. \<not> lr_editing x"
  shows "table_step qty_str rid (Click (Some (length xs))) (gs @ f # hs, c, acts) =
     (gs @ f\<lparr>lr_editing := True\<rparr> # hs, c, acts)"
  using outside_clicks_one_open [of gs xs hs ys] assms
  by (simp add: table_step_def open_row_def reconcile_same_length nth_append list_update_append)

text \<open>A freshly mounted table shows every row closed, as the card's rows of Card_Render.\<close>

lemma table_init_cells:
  "table_cells rid (table_init qty_str rid c) =
     map_option (map (\<lambda>(d, q, u, t). ViewCells d q u t)) (those (map LineItemRow_view (receipt_items (cl_items c) rid)))"
proof -
  have "those (map2 row_cells ls (map (mount_row qty_str) ls)) =
      map_option (map (\<lambda>(d, q, u, t). ViewCells d q u t)) (those (map LineItemRow_view ls))" for ls
    by (induction ls) (auto simp: row_cells_def mount_row_def row_init_def option.map_comp comp_def split: option.splits)
  then show ?thesis by (simp add: table_cells_def table_init_def)
qed

text \<open>C34. The rows of the card have no key, so React keeps each row's state at its position.
  When the user deletes an item by setting its quantity to 0 and clicking away, the next
  item moves into the row, which keeps the deleted item's form.  Opening that row and
  clicking away again, without typing, deletes the next item as well: two delete requests
  reach the server for one edit.\<close>

theorem index_key_deletes_next_item:
  assumes "receipt_items (cl_items c) rid = xs @ a # b # ys" "unique_by li_id (cl_items c)"
    "length gs = length xs" "length hs = length ys" "\<forall>x \<in> set gs \<union> set (g # hs). \<not> lr_editing x"
    "lr_editing f" "js_Number (lr_quantity f) = Some 0" "js_Number (lr_unitPrice f) = Some p"
  shows "receipt_items (cl_items (fst (snd (fold (table_step qty_str rid) [Click None, Click (Some (length xs)), Click None]
            (gs @ f # g # hs, c, acts))))) rid = xs @ ys \<and>
    snd (snd (fold (table_step qty_str rid) [Click None, Click (Some (length xs)), Click None] (gs @ f # g # hs, c, acts))) =
      acts @ [DeleteLineItems [li_id a], DeleteLineItems [li_id b]]"
proof -
  define c1 where "c1 = c\<lparr>cl_items := delete_by li_id (li_id a) (cl_items c)\<rparr>"
  define G where "G = take (length ys) (g # hs)"
  have i1: "receipt_items (cl_items c1) rid = xs @ b # ys" "unique_by li_id (cl_items c1)"
    using receipt_items_delete_mid [OF assms(1,2)] assms(2) by (simp_all add: c1_def)
  have G: "length G = length ys" "\<forall>x \<in> set gs \<union> set G. \<not> lr_editing x"
    using assms(4,5) set_take_subset [of "length ys" "g # hs"] by (auto simp: G_def)
  have s1: "table_step qty_str rid (Click None) (gs @ f # g # hs, c, acts) =
      (gs @ f\<lparr>lr_editing := False\<rparr> # G, c1, acts @ [DeleteLineItems [li_id a]])"
    using delete_step [of c rid xs a "b # ys" gs "g # hs", OF assms(1-3) _ _ assms(6-8)] assms(3-5)
    by (simp add: c1_def G_def)
  have s2: "table_step qty_str rid (Click (Some (length xs))) (gs @ f\<lparr>lr_editing := False\<rparr> # G, c1,
      acts @ [DeleteLineItems [li_id a]]) = (gs @ f # G, c1, acts @ [DeleteLineItems [li_id a]])"
    using reopen_step [OF i1(1) assms(3) G] assms(6) by simp
  have s3: "table_step qty_str rid (Click None) (gs @ f # G, c1, acts @ [DeleteLineItems [li_id a]]) =
      (take (length xs + length ys) (gs @ f\<lparr>lr_editing := False\<rparr> # G),
       c1\<lparr>cl_items := delete_by li_id (li_id b) (cl_items c1)\<rparr>,
       acts @ [DeleteLineItems [li_id a]] @ [DeleteLineItems [li_id b]])"
    using delete_step [OF i1 assms(3) G assms(6-8)] by simp
  have "receipt_items (delete_by li_id (li_id b) (cl_items c1)) rid = xs @ ys"
    using receipt_items_delete_mid [OF i1] .
  then show ?thesis using s1 s2 s3 by simp
qed

end
