(* ===== verification/Screen_Views.thy ===== *)
theory Screen_Views
  imports App_Shell
begin

text \<open>
  What the screens show, as functions of the browser state: the sidebar
  (src/components/layout/nav.tsx), the rows of the reports table (src/app/reports/page.tsx
  lines 92-148), the two charts (src/components/reports/charts/spend-by-day.tsx lines 69-90
  and spend-by-category.tsx lines 65-91) and the report's form at the top of the upload
  form (src/components/reports/upload-form.tsx lines 196-262) with its status select
  (src/components/reports/status-select.tsx).  \<open>toLocaleDateString\<close> is the parameter
  \<open>toLocale\<close>, from a day number to its text; the user's name and image, which the model's
  user record does not hold, and a report's printed \<open>createdAt\<close> are inputs.  JavaScript
  tells \<open>undefined\<close> from \<open>null\<close>: \<open>x === null\<close> holds of \<open>null\<close> only, while
  \<open>x?.f()\<close> and \<open>??\<close> treat both as absent.
\<close>

subsection \<open>JavaScript's absent values\<close>

datatype 'a js_value = Undefined | Null | Defined 'a

text \<open>A value that is \<open>undefined\<close> when absent, as the hooks return them.\<close>

definition js_of_option :: "'a option \<Rightarrow> 'a js_value" where
  "js_of_option x = (case x of None \<Rightarrow> Undefined | Some v \<Rightarrow> Defined v)"

definition strict_null :: "'a js_value \<Rightarrow> bool" where
  "strict_null x \<longleftrightarrow> x = Null"

text \<open>\<open>x?.f()\<close>: undefined (None) when \<open>x\<close> is undefined or null.\<close>

definition js_opt_call :: "('a \<Rightarrow> 'b) \<Rightarrow> 'a js_value \<Rightarrow> 'b option" where
  "js_opt_call f x = (case x of Defined v \<Rightarrow> Some (f v) | _ \<Rightarrow> None)"

subsection \<open>The sidebar (nav.tsx)\<close>

record nav_view =
  nv_listActive :: bool
  nv_newActive :: bool
  nv_initials :: string
  nv_image :: "string option"
  nv_name :: string

text \<open>Lines 37-55 and 75-131: nothing without a user; otherwise the List and New entries with
  their highlight, and the footer's avatar (the image when \<open>user.image\<close> is a non-empty
  string, over the initials) and name.\<close>

definition SidebarNav :: "session \<Rightarrow> string \<Rightarrow> string option \<Rightarrow> string \<Rightarrow> nav_view option" where
  "SidebarNav user name img pathname = (case user of
       None \<Rightarrow> None
     | Some _ \<Rightarrow> Some \<lparr>nv_listActive = fst (nav_active pathname), nv_newActive = snd (nav_active pathname),
         nv_initials = initials name,
         nv_image = (case img of None \<Rightarrow> None | Some i \<Rightarrow> if i = [] then None else Some i),
         nv_name = name\<rparr>)"

datatype signout_result = SignOutResolved | SignOutRejected

datatype nav_effect = RouterPush string | ToastError string

text \<open>Lines 43-50: the sign-out entry of the footer's menu.\<close>

definition handleSignOut :: "signout_result \<Rightarrow> nav_effect" where
  "handleSignOut r = (case r of
       SignOutResolved \<Rightarrow> RouterPush ''/sign-in''
     | SignOutRejected \<Rightarrow> ToastError ''Sign out failed'')"

subsection \<open>The reports table (src/app/reports/page.tsx)\<close>

text \<open>Lines 96-114: the columns.\<close>

definition ReportsTable_headers :: "string list" where
  "ReportsTable_headers = [''Title'', ''Status'', ''Dates'', ''Created'', []]"

text \<open>The strings of the Prisma enum \<open>ExpenseReportStatus\<close>.\<close>

definition status_str :: "report_status \<Rightarrow> string" where
  "status_str st = (case st of
       DRAFT \<Rightarrow> ''DRAFT'' | SUBMITTED \<Rightarrow> ''SUBMITTED'' | REJECTED \<Rightarrow> ''REJECTED'' | APPROVED \<Rightarrow> ''APPROVED'')"

datatype dates_text = NoDates | DateRange string string

text \<open>Line 132: "-" when both ends are \<open>null\<close>, otherwise "start \<open>\<rightarrow>\<close> end", each end
  printed or "-".\<close>

definition dates_cell :: "(int \<Rightarrow> string) \<Rightarrow> int js_value \<Rightarrow> int js_value \<Rightarrow> dates_text" where
  "dates_cell toLocale s e =
     (if strict_null s \<and> strict_null e then NoDates
      else DateRange (nullish (js_opt_call toLocale s) ''-'') (nullish (js_opt_call toLocale e) ''-''))"

record table_row =
  tr_href :: string
  tr_title :: string
  tr_status :: string
  tr_dates :: dates_text
  tr_created :: string

text \<open>Lines 121-133, with the range of use-report-date-range.ts; the trash button is
  \<open>row_delete\<close> of Reports_Page.\<close>

definition ReportsTableRow :: "(int \<Rightarrow> string) \<Rightarrow> string \<Rightarrow> receipt list \<Rightarrow> expense_report \<Rightarrow> table_row" where
  "ReportsTableRow toLocale created rcs r =
     (case useReportDateRange rcs (rp_id r) of (s, e) \<Rightarrow>
        \<lparr>tr_href = ''/reports/'' @ rp_id r, tr_title = rp_title r,
         tr_status = toLowerCase (status_str (rp_status r)),
         tr_dates = dates_cell toLocale (js_of_option s) (js_of_option e), tr_created = created\<rparr>)"

subsection \<open>The charts (charts/spend-by-day.tsx, charts/spend-by-category.tsx)\<close>

text \<open>spend-by-day.tsx lines 17-29 and 76-90: no chart without a start date; otherwise one
  bar per day of the data.\<close>

definition SpendByDayChart :: "int \<Rightarrow> line_item list \<Rightarrow> receipt list \<Rightarrow> id \<Rightarrow> (int \<times> real) list option" where
  "SpendByDayChart today items rcs rid = (case useReportDateRange rcs rid of
       (None, _) \<Rightarrow> None
     | dr \<Rightarrow> Some (spend_by_day today dr (report_line_items items rcs rid) (report_receipts rcs rid)))"

text \<open>spend-by-category.tsx line 72.\<close>

definition chartColors :: "string list" where
  "chartColors = [''var(--color-blue-600)'', ''var(--color-orange-500)'', ''var(--color-yellow-500)'',
     ''var(--color-emerald-500)'']"

text \<open>Lines 80-85: one slice per category, in the order of the data, coloured
  \<open>chartColors[i % chartColors.length]\<close>.\<close>

definition pie_slices :: "(string \<times> real) list \<Rightarrow> (string \<times> real \<times> string) list" where
  "pie_slices chartData =
     map (\<lambda>(i, k, v). (k, v, chartColors ! (i mod length chartColors))) (enumerate 0 chartData)"

text \<open>Lines 17-91: no chart without data.\<close>

definition SpendByCategoryChart :: "line_item list \<Rightarrow> receipt list \<Rightarrow> category list \<Rightarrow> id \<Rightarrow>
    (string \<times> real \<times> string) list option" where
  "SpendByCategoryChart items rcs cats rid =
     (let chartData = spend_by_category (category_line_items items rcs cats rid) (category_receipts rcs cats rid)
      in if length chartData = 0 then None else Some (pie_slices chartData))"

subsection \<open>The report's form (upload-form.tsx lines 196-262)\<close>

record form_header =
  fh_title :: string
  fh_startDate :: string
  fh_endDate :: string
  fh_status :: "string option"
  fh_statusOptions :: "string list"
  fh_description :: string

text \<open>Lines 216-226: a date of the range, or "--".\<close>

definition date_label :: "(int \<Rightarrow> string) \<Rightarrow> int option \<Rightarrow> string" where
  "date_label toLocale d = (case d of None \<Rightarrow> ''--'' | Some x \<Rightarrow> toLocale x)"

text \<open>Lines 196-262: the title input, the report's date range (line 150), the status select
  (whose trigger shows the display of the option with the field's value, and nothing when no
  option has it) and the notes.\<close>

definition UploadForm_header :: "(int \<Rightarrow> string) \<Rightarrow> session \<Rightarrow> receipt list \<Rightarrow> report_form \<Rightarrow> form_header" where
  "UploadForm_header toLocale sess rcs f =
     (case useReportDateRange rcs (rp_id (rf_defaults f)) of (s, e) \<Rightarrow>
        \<lparr>fh_title = rp_title (rf_values f), fh_startDate = date_label toLocale s,
         fh_endDate = date_label toLocale e,
         fh_status = map_of (status_options sess) (rp_status (rf_values f)),
         fh_statusOptions = map snd (status_options sess), fh_description = rp_description (rf_values f)\<rparr>)"

datatype header_input = TitleInput string | StatusPick report_status | NotesInput string

text \<open>Lines 202-261: \<open>field.onChange\<close> of each field gives the form new values; the select
  can pick only an option it lists.\<close>

definition header_change :: "session \<Rightarrow> header_input \<Rightarrow> report_form \<Rightarrow> form_event option" where
  "header_change sess i f = (case i of
       TitleInput s \<Rightarrow> Some (Change ((rf_values f)\<lparr>rp_title := s\<rparr>))
     | StatusPick st \<Rightarrow>
         (if st \<in> set (map fst (status_options sess)) then Some (Change ((rf_values f)\<lparr>rp_status := st\<rparr>))
          else None)
     | NotesInput s \<Rightarrow> Some (Change ((rf_values f)\<lparr>rp_description := s\<rparr>)))"

subsection \<open>Lemmas\<close>

lemma concat_take1: "concat (map (take 1) ws) = map hd (filter (\<lambda>w. w \<noteq> []) ws)"
proof (induction ws)
  case (Cons w ws)
  then show ?case by (cases w) simp_all
qed simp

text \<open>The avatar shows the first letter of every non-empty word of the name: a run of
  spaces adds nothing.\<close>

lemma initials_words: "initials name = map hd (filter (\<lambda>w. w \<noteq> []) (split_on CHR '' '' name))"
  unfolding initials_def by (rule concat_take1)

text \<open>After a resolved sign-out the browser goes to the sign-in page, which the guard lets
  through and which shows neither the sidebar nor the loader once the session is gone.\<close>

lemma signout_lands_on_sign_in:
  "handleSignOut SignOutResolved = RouterPush p \<Longrightarrow>
     RootLayout None p = \<lparr>lv_redirect = None, lv_nav = False, lv_loader = False\<rparr> \<and> SidebarNav None n i p = None"
  by (simp add: handleSignOut_def RootLayout_def CheckAuth_def SidebarNav_def)

lemma chartColors_nth_eq: "a < 4 \<Longrightarrow> b < 4 \<Longrightarrow> chartColors ! a = chartColors ! b \<longleftrightarrow> a = b"
  using nth_eq_iff_index_eq [of chartColors a b] by (simp add: chartColors_def)

lemma pie_slice_colour: "i < length d \<Longrightarrow> snd (snd (pie_slices d ! i)) = chartColors ! (i mod 4)"
  by (simp add: pie_slices_def nth_enumerate_eq chartColors_def split: prod.split)

lemma length_pie_slices [simp]: "length (pie_slices d) = length d"
  by (simp add: pie_slices_def)

text \<open>C39. The pie's colours: two slices next to each other in the data never share a colour,
  but the last slice, which touches the first around the pie, has the first one's colour
  exactly when the number of categories is 1 more than a multiple of 4.\<close>

theorem pie_adjacent_colours:
  assumes "2 \<le> length d"
  shows "(\<forall>i. Suc i < length d \<longrightarrow> snd (snd (pie_slices d ! i)) \<noteq> snd (snd (pie_slices d ! Suc i))) \<and>
    (snd (snd (pie_slices d ! (length d - 1))) = snd (snd (pie_slices d ! 0)) \<longleftrightarrow> length d mod 4 = 1)"
proof -
  have "i mod 4 \<noteq> Suc i mod 4" for i :: nat by presburger
  then have a: "\<forall>i. Suc i < length d \<longrightarrow> snd (snd (pie_slices d ! i)) \<noteq> snd (snd (pie_slices d ! Suc i))"
    by (simp add: pie_slice_colour chartColors_nth_eq)
  have m: "(length d - 1) mod 4 = 0 \<longleftrightarrow> length d mod 4 = 1" using assms by presburger
  have c0: "snd (snd (pie_slices d ! 0)) = chartColors ! 0" using assms pie_slice_colour [of 0 d] by fastforce
  have cl: "snd (snd (pie_slices d ! (length d - 1))) = chartColors ! ((length d - 1) mod 4)"
    using assms pie_slice_colour [of "length d - 1" d] by simp
  have "chartColors ! ((length d - 1) mod 4) = chartColors ! 0 \<longleftrightarrow> (length d - 1) mod 4 = 0"
    by (rule chartColors_nth_eq) simp_all
  then have b: "snd (snd (pie_slices d ! (length d - 1))) = snd (snd (pie_slices d ! 0)) \<longleftrightarrow> length d mod 4 = 1"
    unfolding c0 cl m .
  show ?thesis using a b ..
qed

text \<open>The day chart is drawn exactly when the report has a dated receipt, with one bar per
  day from the first date to the last: the fallback \<open>end ?? new Date()\<close> (line 21) never
  applies, since the hook gives an end whenever it gives a start.\<close>

lemma SpendByDayChart_days:
  "map_option (map fst) (SpendByDayChart today items rcs rid) =
     (if report_dates rcs rid = [] then None
      else Some [Min (set (report_dates rcs rid))..Max (set (report_dates rcs rid))])"
  by (simp add: SpendByDayChart_def useReportDateRange_min_max spend_by_day_def comp_def)

text \<open>C36. The dates cell of a row: the hook returns \<open>undefined\<close>, never \<open>null\<close>, for a report
  without dated receipts, so the test \<open>start === null && end === null\<close> of line 132 never
  holds and such a row shows "- \<open>\<rightarrow>\<close> -" where the code means "-".\<close>

theorem row_dates_never_dash:
  "tr_dates (ReportsTableRow toLocale created rcs r) =
     (if report_dates rcs (rp_id r) = [] then DateRange ''-'' ''-''
      else DateRange (toLocale (Min (set (report_dates rcs (rp_id r))))) (toLocale (Max (set (report_dates rcs (rp_id r))))))"
  by (simp add: ReportsTableRow_def useReportDateRange_min_max dates_cell_def js_of_option_def strict_null_def
      js_opt_call_def)

text \<open>A submitter's status select lists Draft and Submitted only, so on a report that is
  approved or rejected it shows no status.\<close>

lemma submitter_status_blank:
  assumes "\<not> (\<exists>u. sess = Some u \<and> u_role u = Reviewer)" "rp_status (rf_values f) \<in> {APPROVED, REJECTED}"
  shows "fh_status (UploadForm_header toLocale sess rcs f) = None"
  using assms by (auto simp: UploadForm_header_def status_options_def SUBMITTER_OPTIONS_def split: option.split prod.split)

lemma report_page_run_snd: "snd (report_page_run es f rows) = value_changes (snd (form_run es f)) rows"
  by (simp add: report_page_run_def split_def Let_def)

text \<open>From a clean form with the subscription of one render, a change followed by the
  delay is saved: the report collection's row takes the changed fields and UpdateReports is
  sent with it.\<close>

lemma page_saves_change:
  assumes "rf_subs f = [s]" "v \<noteq> rf_defaults f" "DEBOUNCE_MS \<le> w" "find_by rp_id (rp_id v) rows = Some r"
  shows "snd (report_page_run [Change v, Wait w] f rows) =
    Some (replace_by rp_id (r\<lparr>rp_description := rp_description v, rp_title := rp_title v, rp_status := rp_status v\<rparr>) rows,
      [UpdateReports [r\<lparr>rp_description := rp_description v, rp_title := rp_title v, rp_status := rp_status v\<rparr>]])"
proof -
  have "snd (form_run [Change v, Wait w] f) = [v]" using change_wait_fires [OF assms(1-3)] .
  then show ?thesis unfolding report_page_run_snd using assms(4)
    by (simp add: handleValueChanged_def coll_report_update_def report_sync_def)
qed

text \<open>C35. A submitter reopens their approved report: the form's select shows no status; picking
  Draft there changes the form, whose timer, 1000 ms later, saves the report with status
  DRAFT in the report collection, which sends UpdateReports; the server writes it, since
  updateReports checks only that the caller owns the report.\<close>

theorem submitter_reopens_approved:
  assumes "u_role u = Normal" "rf_defaults f = r" "rf_values f = r" "rf_subs f = [s]"
    "rp_status r = APPROVED" "DEBOUNCE_MS \<le> w" "find_by rp_id (rp_id r) rows = Some r"
    "r \<in> set (reports d)" "rp_userId r = u_id u" "rp_userId r \<in> keys_of u_id (users d)"
  shows "fh_status (UploadForm_header toLocale (Some u) rcs f) = None \<and>
    header_change (Some u) (StatusPick DRAFT) f = Some (Change (r\<lparr>rp_status := DRAFT\<rparr>)) \<and>
    snd (report_page_run [Change (r\<lparr>rp_status := DRAFT\<rparr>), Wait w] f rows) =
      Some (replace_by rp_id (r\<lparr>rp_status := DRAFT\<rparr>) rows, [UpdateReports [r\<lparr>rp_status := DRAFT\<rparr>]]) \<and>
    run_action (Some u) now (UpdateReports [r\<lparr>rp_status := DRAFT\<rparr>]) d =
      Inr (d\<lparr>reports := replace_by rp_id (r\<lparr>rp_status := DRAFT, rp_updatedAt := now\<rparr>) (reports d)\<rparr>)"
proof -
  have blank: "fh_status (UploadForm_header toLocale (Some u) rcs f) = None"
    using submitter_status_blank [of "Some u" f] assms(1,3,5) by simp
  have pick: "header_change (Some u) (StatusPick DRAFT) f = Some (Change (r\<lparr>rp_status := DRAFT\<rparr>))"
    using assms(1,3) by (simp add: header_change_def status_options_def SUBMITTER_OPTIONS_def)
  have v: "r\<lparr>rp_status := DRAFT\<rparr> \<noteq> rf_defaults f" using assms(2,5) by (cases r) simp
  have page: "snd (report_page_run [Change (r\<lparr>rp_status := DRAFT\<rparr>), Wait w] f rows) =
      Some (replace_by rp_id (r\<lparr>rp_status := DRAFT\<rparr>) rows, [UpdateReports [r\<lparr>rp_status := DRAFT\<rparr>]])"
    using page_saves_change [OF assms(4) v assms(6), of rows r] assms(7) by simp
  have server: "run_action (Some u) now (UpdateReports [r\<lparr>rp_status := DRAFT\<rparr>]) d =
      Inr (d\<lparr>reports := replace_by rp_id (r\<lparr>rp_status := DRAFT, rp_updatedAt := now\<rparr>) (reports d)\<rparr>)"
    using updateReports_owned_single [of r d u "r\<lparr>rp_status := DRAFT\<rparr>" now] assms(8-10) by simp
  show ?thesis using blank pick page server by blast
qed

end
