(* ===== verification/Form_Validation.thy ===== *)
theory Form_Validation
  imports Screen_Views
begin

text \<open>
  The schema of the report's form, \<open>UploadExpenseReportFormSchema\<close> of
  src/lib/schemas/report-upload.ts, which the form of upload-form.tsx uses as its resolver
  (lines 49-52), and the form's submission (line 194: \<open>form.handleSubmit\<close> with a callback
  that does nothing, run when Enter is pressed in the title).  zod's \<open>cuid2\<close> format is the
  pattern \<open>/^[0-9a-z]+$/\<close>; \<open>min(1)\<close> counts UTF-16 code units, one \<open>char\<close> each here.
  The description is any string and the status one of the enum's four values, which every
  row of the model satisfies.  The saves of the form's subscription (Report_Form) do not go
  through the resolver.
\<close>

datatype form_issue = InvalidCuid2 | TitleRequired

definition is_lower :: "char \<Rightarrow> bool" where
  "is_lower c \<longleftrightarrow> 97 \<le> (of_char c :: nat) \<and> (of_char c :: nat) \<le> 122"

text \<open>zod's \<open>z.cuid2()\<close>.\<close>

definition is_cuid2 :: "string \<Rightarrow> bool" where
  "is_cuid2 s \<longleftrightarrow> s \<noteq> [] \<and> list_all (\<lambda>c. is_digit c \<or> is_lower c) s"

text \<open>report-upload.ts lines 15-20: the issues the schema reports, in the order of its fields.\<close>

definition UploadExpenseReportFormSchema :: "expense_report \<Rightarrow> form_issue list" where
  "UploadExpenseReportFormSchema v =
     (if is_cuid2 (rp_id v) then [] else [InvalidCuid2]) @ (if rp_title v = [] then [TitleRequired] else [])"

text \<open>upload-form.tsx lines 194, 199 and 211: submitting the form validates its values; on
  success the callback does nothing, on failure the title's \<open>FormMessage\<close> shows the
  title's issue, if any.\<close>

definition form_submit :: "report_form \<Rightarrow> string option" where
  "form_submit f = (if TitleRequired \<in> set (UploadExpenseReportFormSchema (rf_values f))
     then Some ''Title is required'' else None)"

subsection \<open>Lemmas\<close>

lemma is_cuid2_show_nat: "is_cuid2 (show_nat n)"
proof -
  have "show_nat n \<noteq> []" by (subst show_nat.simps) simp
  then show ?thesis using show_nat_digits [of _ n] by (simp add: is_cuid2_def list_all_iff)
qed

text \<open>C37. Clearing the title is saved: the schema rejects the values and pressing Enter shows
  "Title is required", but the subscription's timer saves them anyway, 1000 ms later,
  through the report collection, and the server writes a report without a title.\<close>

theorem empty_title_autosaved:
  assumes "rf_defaults f = r" "rf_values f = r" "rf_subs f = [s]" "rp_title r \<noteq> []"
    "DEBOUNCE_MS \<le> w" "find_by rp_id (rp_id r) rows = Some r"
    "r \<in> set (reports d)" "rp_userId r = u_id u" "rp_userId r \<in> keys_of u_id (users d)"
  shows "header_change (Some u) (TitleInput []) f = Some (Change (r\<lparr>rp_title := []\<rparr>)) \<and>
    TitleRequired \<in> set (UploadExpenseReportFormSchema (r\<lparr>rp_title := []\<rparr>)) \<and>
    form_submit (f\<lparr>rf_values := r\<lparr>rp_title := []\<rparr>\<rparr>) = Some ''Title is required'' \<and>
    snd (report_page_run [Change (r\<lparr>rp_title := []\<rparr>), Wait w] f rows) =
      Some (replace_by rp_id (r\<lparr>rp_title := []\<rparr>) rows, [UpdateReports [r\<lparr>rp_title := []\<rparr>]]) \<and>
    run_action (Some u) now (UpdateReports [r\<lparr>rp_title := []\<rparr>]) d =
      Inr (d\<lparr>reports := replace_by rp_id (r\<lparr>rp_title := [], rp_updatedAt := now\<rparr>) (reports d)\<rparr>)"
proof -
  have c: "header_change (Some u) (TitleInput []) f = Some (Change (r\<lparr>rp_title := []\<rparr>))"
    using assms(2) by (simp add: header_change_def)
  have i: "TitleRequired \<in> set (UploadExpenseReportFormSchema (r\<lparr>rp_title := []\<rparr>))"
    by (simp add: UploadExpenseReportFormSchema_def)
  then have m: "form_submit (f\<lparr>rf_values := r\<lparr>rp_title := []\<rparr>\<rparr>) = Some ''Title is required''"
    by (simp add: form_submit_def)
  have v: "r\<lparr>rp_title := []\<rparr> \<noteq> rf_defaults f" using assms(1,4) by (cases r) simp
  have p: "snd (report_page_run [Change (r\<lparr>rp_title := []\<rparr>), Wait w] f rows) =
      Some (replace_by rp_id (r\<lparr>rp_title := []\<rparr>) rows, [UpdateReports [r\<lparr>rp_title := []\<rparr>]])"
    using page_saves_change [OF assms(3) v assms(5), of rows r] assms(6) by simp
  have sv: "run_action (Some u) now (UpdateReports [r\<lparr>rp_title := []\<rparr>]) d =
      Inr (d\<lparr>reports := replace_by rp_id (r\<lparr>rp_title := [], rp_updatedAt := now\<rparr>) (reports d)\<rparr>)"
    using updateReports_owned_single [of r d u "r\<lparr>rp_title := []\<rparr>" now] assms(7-9) by simp
  show ?thesis using c i m p sv by blast
qed

end
