(* ===== verification/Upload_Page.thy ===== *)
theory Upload_Page
  imports Form_Validation Form_Rows "HOL-Library.Multiset"
begin

text \<open>
  The upload form as a page (src/components/reports/upload-form.tsx lines 196-302): the
  report's form (Screen_Views), the drop zone with its hidden file input (lines 264-278),
  the panel of the two charts and Total Spent (lines 280-293, hidden while no row of the
  list has a stored receipt) and the list of rows (lines 295-299), all computed from the
  browser's collections and the form's state, and the report's page around it
  (src/app/reports/[id]/page.tsx).  The order of the list's \<open>orderBy\<close> is the
  parameter \<open>order_rows\<close> of Form_Rows.
\<close>

record upload_page =
  up_header :: form_header
  up_chartsHidden :: bool
  up_dayChart :: "(int \<times> real) list option"
  up_categoryChart :: "(string \<times> real \<times> string) list option"
  up_totalPaid :: real
  up_rows :: "(img_source \<times> bool \<times> bool \<times> row_body) list"

text \<open>Lines 119-149 and 196-302.  Total Spent adds the line items of the report's receipts
  (the query of lines 130-135) and the tax and tip of the receipts of the list's rows
  (lines 143-145).\<close>

definition UploadForm_view :: "(int \<Rightarrow> string) \<Rightarrow> int \<Rightarrow> session \<Rightarrow> (form_row list \<Rightarrow> form_row list) \<Rightarrow>
    report_form \<Rightarrow> client \<Rightarrow> upload_page" where
  "UploadForm_view toLocale today sess order_rows f c =
     (let rid = rp_id (rf_defaults f); rows = form_rows order_rows rid c
      in \<lparr>up_header = UploadForm_header toLocale sess (cl_receipts c) f,
          up_chartsHidden = charts_hidden (map (\<lambda>(r, p, _, _). (r, p)) rows),
          up_dayChart = SpendByDayChart today (cl_items c) (cl_receipts c) rid,
          up_categoryChart = SpendByCategoryChart (cl_items c) (cl_receipts c) (cl_categories c) rid,
          up_totalPaid = totalPaid (report_line_items (cl_items c) (cl_receipts c) rid) (List.map_filter fst rows),
          up_rows = map (\<lambda>(r, p, m, k). UploadFormReceiptPreview r p k m) rows\<rparr>)"

datatype drop_zone_event = DragOver | DropFiles "(upload_file \<times> id) list option" | SelectFilesClick
  | FilesChosen "(upload_file \<times> id) list option"

text \<open>Lines 264-278: dragging over the zone lets a drop happen (\<open>preventDefault\<close>); a drop
  runs \<open>onFileDrop\<close>; the Select Files button clicks the hidden input, which opens the
  browser's file dialog (the second component); the files chosen there reach
  \<open>onFileChanged\<close>.\<close>

definition drop_zone_step :: "id \<Rightarrow> drop_zone_event \<Rightarrow> client \<Rightarrow> client \<times> bool" where
  "drop_zone_step rid ev c = (case ev of
       DragOver \<Rightarrow> (c, False)
     | DropFiles fs \<Rightarrow> (onFileDrop rid fs c, False)
     | SelectFilesClick \<Rightarrow> (c, True)
     | FilesChosen fs \<Rightarrow> (onFileChanged rid fs c, False))"

text \<open>src/app/reports/[id]/page.tsx lines 36-48: nothing while the report collection has
  no row with the id; otherwise the heading with the collection's title over the upload
  form, whose form state is \<open>f\<close>.\<close>

definition ViewReportPage_view :: "(int \<Rightarrow> string) \<Rightarrow> int \<Rightarrow> session \<Rightarrow> (form_row list \<Rightarrow> form_row list) \<Rightarrow>
    id \<Rightarrow> expense_report list \<Rightarrow> report_form \<Rightarrow> client \<Rightarrow> (string \<times> upload_page) option" where
  "ViewReportPage_view toLocale today sess order_rows i rows f c = (case ViewReportPage_report i rows of
       None \<Rightarrow> None
     | Some r \<Rightarrow> Some (''Manage Expense Report: '' @ rp_title r, UploadForm_view toLocale today sess order_rows f c))"

subsection \<open>Lemmas\<close>

text \<open>While a title edit waits for its save, the heading keeps the stored title and the
  form's input shows the typed one.\<close>

lemma heading_lags_title:
  assumes "ViewReportPage_report i rows = Some r" "rf_values f = r\<lparr>rp_title := t\<rparr>"
  shows "map_option fst (ViewReportPage_view toLocale today sess order_rows i rows f c) =
      Some (''Manage Expense Report: '' @ rp_title r) \<and>
    fh_title (up_header (UploadForm_view toLocale today sess order_rows f c)) = t"
  using assms by (simp add: ViewReportPage_view_def UploadForm_view_def UploadForm_header_def Let_def split: prod.split)

text \<open>Choosing files in the dialog and dropping them add the same pending entries.\<close>

lemma drop_zone_same_files:
  "fst (drop_zone_step rid (FilesChosen (Some fs)) c) = fst (drop_zone_step rid (DropFiles (Some fs)) c)"
  using upload_files_pending [of rid fs c] by (simp add: drop_zone_step_def)

lemma form_rows_receipt_rows:
  assumes "distinct (map pe_id (cl_pending c))" "distinct (map mc_id (cl_merchants c))"
    "distinct (map ct_id (cl_categories c))" "\<And>xs. mset (order_rows xs) = mset xs"
  shows "(\<exists>x \<in> set (form_rows order_rows rid c). fst x \<noteq> None) \<longleftrightarrow>
    (\<exists>r \<in> set (cl_receipts c). rc_expenseReportId r = rid \<or>
       (\<exists>p \<in> set (cl_pending c). pe_id p = rc_id r \<and> pe_reportId p = rid))"
proof -
  have s: "set (form_rows order_rows rid c) = set (form_rows_unordered rid c)"
    using mset_eq_setD [OF assms(4)] by (simp add: form_rows_def)
  let ?A = "map (\<lambda>r. (Some r, find (\<lambda>p. rc_id r = pe_id p) (cl_pending c))) (cl_receipts c)"
  let ?B = "map (\<lambda>p. (None :: receipt option, Some p)) (filter (\<lambda>p. \<not> (\<exists>r \<in> set (cl_receipts c). rc_id r = pe_id p)) (cl_pending c))"
  let ?g = "\<lambda>(r, p). (r, p, find (row_merchant r) (cl_merchants c), find (row_category r) (cl_categories c))"
  have u: "form_rows_unordered rid c = filter (\<lambda>(r, p, _, _). row_in_report rid r p) (map ?g (?A @ ?B))"
    using form_rows_unordered_single [OF assms(1-3)] .
  let ?Q = "\<lambda>r. row_in_report rid (Some r) (find (\<lambda>p. rc_id r = pe_id p) (cl_pending c))"
  have fw: "\<exists>r \<in> set (cl_receipts c). ?Q r" if x: "x \<in> set (form_rows_unordered rid c)" "fst x \<noteq> None" for x
  proof -
    have m: "x \<in> ?g ` set ?A \<union> ?g ` set ?B" and p: "(\<lambda>(r, p, _, _). row_in_report rid r p) x"
      using x(1) unfolding u by auto
    have "x \<notin> ?g ` set ?B" using x(2) by auto
    with m obtain r where r: "r \<in> set (cl_receipts c)" "x = ?g (Some r, find (\<lambda>p. rc_id r = pe_id p) (cl_pending c))"
      by auto
    then show ?thesis using p by auto
  qed
  have bw: "\<exists>x \<in> set (form_rows_unordered rid c). fst x \<noteq> None" if r: "r \<in> set (cl_receipts c)" "?Q r" for r
  proof -
    have "?g (Some r, find (\<lambda>p. rc_id r = pe_id p) (cl_pending c)) \<in> set (form_rows_unordered rid c)"
      using r unfolding u by auto
    then show ?thesis by force
  qed
  have "(\<exists>x \<in> set (form_rows_unordered rid c). fst x \<noteq> None) \<longleftrightarrow> (\<exists>r \<in> set (cl_receipts c). ?Q r)"
    using fw bw by blast
  then show ?thesis unfolding s using row_in_report_receipt [OF assms(1)] by simp
qed

text \<open>C38. The panel of the charts and Total Spent is shown exactly when a receipt of the
  collection belongs to the report, or has a pending entry of the report: a report whose
  uploads are all still extracting shows no total.\<close>

theorem charts_panel_shown:
  assumes "distinct (map pe_id (cl_pending c))" "distinct (map mc_id (cl_merchants c))"
    "distinct (map ct_id (cl_categories c))" "\<And>xs. mset (order_rows xs) = mset xs"
  shows "\<not> up_chartsHidden (UploadForm_view toLocale today sess order_rows f c) \<longleftrightarrow>
    (\<exists>r \<in> set (cl_receipts c). rc_expenseReportId r = rp_id (rf_defaults f) \<or>
       (\<exists>p \<in> set (cl_pending c). pe_id p = rc_id r \<and> pe_reportId p = rp_id (rf_defaults f)))"
proof -
  have "\<not> charts_hidden (map (\<lambda>(r, p, _, _). (r, p)) xs) \<longleftrightarrow> (\<exists>x \<in> set xs. fst x \<noteq> None)"
    for xs :: "form_row list"
  proof -
    have e: "fst (case x of (r, p, _, _) \<Rightarrow> (r, p)) = fst x" for x :: form_row
      by (simp add: split_def)
    show ?thesis by (simp add: charts_hidden_def filter_empty_conv e)
  qed
  then show ?thesis using form_rows_receipt_rows [OF assms] by (simp add: UploadForm_view_def Let_def)
qed

end
