(* ===== verification/Spec2Isabelle.thy ===== *)
theory Spec2Isabelle
  imports Client_Sync Client_Views Receipt_View Upload_Hook File_Route Receipt_Preview Report_Form
    Reports_Page App_Shell Card_Render Inline_Edit Date_Picker Category_Select
    Upload_Files Form_Rows Item_Table Screen_Views Form_Validation Upload_Page
begin

text \<open>
  \<^bold>\<open>A verification development of autoexpense.\<close>  autoexpense is a Next.js application
  in which users upload receipt images and PDFs to expense reports; a hosted vision model
  extracts merchant, date, tax, tip and line items, which are streamed to the browser and
  committed in one database transaction; reviewers approve the reports.  The program has
  three parts that interact: the server actions (src/server/actions), the Prisma database
  they act on, and the browser, whose TanStack DB collections (src/client-db/collections.ts)
  hold copies of the tables and send every insert, update and delete to the mutating
  actions.  The development models each part as HOL functions over explicit states and
  proves what each promises and how they compose.

  \<^bold>\<open>Theories and what they model.\<close>
  \<^item> \<open>Prelude\<close>: tables as row lists (\<open>find_by\<close>, \<open>unique_by\<close>, \<open>keys_of\<close>,
    \<open>replace_by\<close>, \<open>delete_by\<close>), sums, minima and maxima of lists; the named theorem
    collections \<open>table_simps\<close>, \<open>js_simps\<close>, \<open>db_wf_preserved\<close>.
  \<^item> \<open>Js_String\<close>, \<open>Js_Number\<close>: the JavaScript runtime functions the code calls
    (\<open>toUpperCase\<close>, \<open>startsWith\<close>, \<open>split\<close>, template printing of numbers,
    \<open>parseFloat\<close>, \<open>Number(s)\<close>, \<open>toFixed(2)\<close>), on ASCII strings and exact reals.
  \<^item> \<open>Schema\<close>: the zod schemas of src/lib/schemas/extract-receipt.ts as functions from JSON
    to \<open>option\<close>, with the encoder of extracted receipts.
  \<^item> \<open>Database\<close>, \<open>Prisma_Crud\<close>: the database state \<open>db\<close> (one list per table), its
    well-formedness \<open>db_wf\<close> (unique keys and indexes, foreign keys), and every Prisma call
    the actions make, each returning a \<open>db_error\<close> or the new state; \<open>run_tx\<close> is a
    transaction with rollback, \<open>tx_each\<close> the loops of the actions.
  \<^item> \<open>Receipt_Extraction\<close>: \<open>extractReceipt\<close> of src/server/actions/process-receipt.ts,
    its guards, the page preparation, the streamed task \<open>extraction_task\<close> (partials,
    validation, blob uploads, the transaction \<open>createExpenseReportFromParse\<close> with the
    merchant and category deduplication).  The world is the database and the blob container.
  \<^item> \<open>Server_Actions\<close>: the CRUD actions of report.ts, receipt.ts, receipt-line-item.ts,
    merchant.ts and category.ts, with the session lookup of src/lib/auth.ts;
    \<open>action\<close> is the datatype of the requests the collections send and \<open>run_action\<close>
    the step function on the database that the client model and this theory share.
  \<^item> \<open>Client_Views\<close>: the values the report screens compute (receipt totals, Total
    Spent, date range, the two charts, table paging, the image pager).
  \<^item> \<open>Client_Sync\<close>: the collection handlers (\<open>*_sync\<close>), the category search's Enter key,
    and the upload flow of upload-form.tsx: \<open>startReceipt\<close>, the pending-extraction
    collection and the message loop (\<open>on_message\<close> per message, \<open>for_await\<close> for the loop
    as it runs); \<open>client_reach\<close> is the inductive set of reachable browser states.
  \<^item> \<open>Receipt_View\<close>: the editing handlers of receipt-view.tsx (tip, tax, category, date,
    new line item, the line item row's form) as functions from the browser state to the new
    state and the actions sent to the server.
  \<^item> \<open>Upload_Hook\<close>: the hook src/hooks/use-receipt-upload.ts (\<open>addFiles\<close>, \<open>removeFile\<close>,
    \<open>moveFile\<close>, \<open>reset\<close>) with the browser's object-URL registry, and the move buttons of
    src/components/reports/file-list.tsx; \<open>hook_reach\<close> is the inductive set of reachable
    hook states.  No page of the application uses the hook or the list; the upload form
    calls \<open>startReceipt\<close> directly.
  \<^item> \<open>File_Route\<close>: the route src/app/api/receipt/file/route.ts that serves a receipt's page
    images to the pager, with Azure's listing of blobs by name prefix in lexicographic order
    (HOL-Library.List_Lexorder) and the query parsing of the pager's URL.
  \<^item> \<open>Receipt_Preview\<close>: the row of a receipt in the upload form (UploadFormReceiptPreview
    of upload-form.tsx: image source, spinner, body) and ReceiptPreview of
    src/components/reports/receipt-preview.tsx, computed from the pending entry's partial
    object, with \<open>Number(...)\<close> of JSON values and the currency check of
    \<open>Intl.NumberFormat\<close>; a render that throws is None.
  \<^item> \<open>Report_Form\<close>: the report's form in upload-form.tsx (react-hook-form values and
    defaults, one subscription per render with its debounce timer) as a step function on
    timed events (\<open>Render\<close>, \<open>Change\<close>, \<open>Wait\<close>), and the save handler of
    src/app/reports/[id]/page.tsx on the report collection; the role's options of
    src/components/reports/status-select.tsx.
  \<^item> \<open>Reports_Page\<close>: the reports table src/app/reports/page.tsx as a function of its URL
    and the report rows (\<open>ReportsPage\<close>: query parameters, paging, the links built by
    \<open>buildUrl\<close>), and the row's delete button through the report collection.
  \<^item> \<open>App_Shell\<close>: the redirects of src/app/layout.tsx, src/app/page.tsx and
    src/app/check-auth.tsx; the collection loader src/app/collection-loader.tsx as a count
    of settled preloads (\<open>preload_settle\<close>, in any order of settlement); and the sidebar
    src/components/layout/nav.tsx, whose New button \<open>createNewReport\<close> inserts into the
    report collection and opens the report's page.
  \<^item> \<open>Card_Render\<close>: what the receipt card of receipt-view.tsx and its line item rows show
    (\<open>ReceiptView_card\<close>, \<open>LineItemRow_view\<close>), None when a money formatter throws.
  \<^item> \<open>Inline_Edit\<close>: the inline editor src/components/ui/inline-edit.tsx (\<open>inline_step\<close>:
    trigger and outside clicks, controlled or not) and its composition with the card's tip
    and tax handlers (\<open>tip_editor_step\<close>, \<open>tax_editor_step\<close>), whose input exists only
    while the editor is open.
  \<^item> \<open>Category_Select\<close>: the category picker src/components/category/select.tsx
    (\<open>CategorySelect_step\<close>: search, Enter, choice; the query's \<open>like\<close> as \<open>like_match\<close>)
    and its use on the receipt card (\<open>card_category_step\<close>).
  \<^item> \<open>Upload_Files\<close>: the upload form's file input and drop zone (\<open>onFileChanged\<close>,
    \<open>onFileDrop\<close>) as sequences of \<open>startReceipt\<close>, and the charts' visibility.
  \<^item> \<open>Date_Picker\<close>: src/components/ui/datepicker.tsx (\<open>DatePicker_step\<close>: typing, the
    calendar's selection, focus), over any type of dates with the date-fns functions as the
    parameter record \<open>date_fns\<close>.
  \<^item> \<open>Form_Rows\<close>: the live query of the upload form's receipt list (upload-form.tsx lines
    119-128): the full join of receipts with pending extractions on the id
    (\<open>full_join\<close>), the left joins with merchants and categories (\<open>left_join\<close>), the
    report filter (\<open>row_in_report\<close>), the two \<open>orderBy\<close> clauses as a parameter that
    permutes the rows, and each row's React key (\<open>row_key\<close>, line 297).
  \<^item> \<open>Item_Table\<close>: the line item table of the receipt card as React runs it
    (receipt-view.tsx lines 150-152 and 264-385): the rows' forms by position
    (\<open>reconcile\<close>: the rows have no key), the outside-click submissions of every row and
    the click that opens one (\<open>outside_clicks\<close>, \<open>table_step\<close>), typing into an open row,
    and the cells each row renders (\<open>row_cells\<close>).
  \<^item> \<open>Screen_Views\<close>: what the screens show: the sidebar of nav.tsx (\<open>SidebarNav\<close>,
    \<open>handleSignOut\<close>), a row of the reports table (\<open>ReportsTableRow\<close>, with JavaScript's
    \<open>undefined\<close> and \<open>null\<close> told apart), the two charts (\<open>SpendByDayChart\<close>,
    \<open>SpendByCategoryChart\<close> with the pie's colours) and the report's form with its status
    select (\<open>UploadForm_header\<close>, and \<open>header_change\<close> for the fields' changes).
  \<^item> \<open>Form_Validation\<close>: the form's schema of src/lib/schemas/report-upload.ts
    (\<open>UploadExpenseReportFormSchema\<close>) and the form's submission (\<open>form_submit\<close>).
  \<^item> \<open>Upload_Page\<close>: the upload form as a page (\<open>UploadForm_view\<close>: the form, the
    charts' panel and Total Spent, the rows), its drop zone (\<open>drop_zone_step\<close>) and the
    report's page of src/app/reports/[id]/page.tsx around it (\<open>ViewReportPage_view\<close>).

  \<^bold>\<open>What the lemmas show.\<close>  C1-C10: the extraction commits exactly the receipt, merchant,
  category and items extracted, on a well-formed database always commits, deduplicates
  merchants by upper-cased name, streams and closes correctly, and fails as the code fails
  (rejected output, failed transaction with orphan blobs and an unclosed stream, duplicate
  receipt, each guard of the form, including files sent under the \<open>files\<close> field the
  code's comment promises); the schema round trip and the refinement of the full schema by
  the partial one.  C11-C15: ownership checks of the report and line item actions, and the
  places where the code checks less than the spec suggests (a report's status and owner can
  be rewritten, a receipt moved to another user's report, deleteCategories deleting
  reports).  C16-C17: Total Spent agrees with the cards' totals, and the table's Next link
  is never enabled.  C18-C21: the reachable browser states (no entry is ever DONE; tip and
  currency are never shown while extracting), the collection keys that the delete actions
  misread, and the upload end to end (commit reaches the browser; a failed extraction
  leaves the spinner).  C22-C23: the receipt card's editors (the edit that reaches the
  server unchanged, blank quantity deleting an item).  C24: the image route serves exactly
  the uploaded page to any signed-in user.  C25: the preview of a streaming extraction
  throws on a partial currency code.  C26-C27: the report form's debounce delivers the last
  values of a burst once, and an edit undone within the delay is saved anyway.  C28: the
  type of the partial object in every reachable state (its items are an array), so the
  preview throws only on its currency.  C29: a stored item currency that is not a code
  makes the receipt's card throw for ever.  C30: the New button end to end, and the
  reviewer's new report that getReports hides.  C31: the collection loader hides exactly
  when no preload was rejected.  C32: the category picker's Enter sends two requests whose
  order at the server decides whether the receipt's category change survives.  C33: the
  upload form's list has one row per receipt or pending extraction of the report, with
  distinct React keys, in any order the sort gives.  C34: the card's line item rows,
  matched by position, hand a deleted item's form to the next item, whose row then deletes
  it too.  C35: a submitter undoes an approval from the report's form, from the select to
  the database.  C36: a reports table row never prints the "-" its code means for a report
  without dates.  C37: a cleared title, which the form's schema rejects, is saved and
  written anyway.  C38: the charts' panel and Total Spent are shown exactly when the report
  has a stored receipt.  C39: the pie's neighbouring slices differ in colour, but the last
  slice has the first one's colour when the number of categories is 1 more than a
  multiple of 4.  C40: the table's links round trip through the query parser.
  Other lemmas of the theories state further behaviour without a claim
  number: the blob names of the pages, the extension of a multi-dot image name, the
  duplicate category of the search box, the undated receipts missing from the day chart,
  the category chart adding up to Total Spent, the image pager staying in range, reviewers
  seeing the receipts of hidden drafts, receipts created in any report
  (\<open>createReceipts_unchecked_owner\<close>), the image route's failures
  (\<open>file_route_errors\<close>), the upload hook's invariant by rule induction, no object URL
  leaking (\<open>hook_reach_ok\<close>), an unsupported file leaving the spinner, the tip
  editor's rounding and its decimal comma, updateCategories writing to the report table,
  the cases of the line item form, the report's date range, a fractional page size, the
  file list's buttons, the thumbnail of a stored receipt (the first page), the duplicate
  saves of a form subscribed once per render, the table row's delete reaching the server
  (\<open>row_delete_reaches_server\<close>), the options of the status select by role, the home
  page's final redirect and the New entry's highlight, the preview's total without the
  tip, the category search as a substring test and its wildcards, a click outside a closed tip or tax
  editor changing nothing and the tip editor's open-type-click-away session, the date
  picker's round trip of a selected day and its clearing of the value on partial input,
  the file handlers adding one entry per file, the object URL every PDF receives, the
  line item table showing every row closed when it mounts (\<open>table_init_cells\<close>), the
  day chart's bars running from the first date to the last whatever today is, the avatar's
  initials, the sign-in page reached after sign-out, and the blank status a submitter's
  select shows on an approved report.

  \<^bold>\<open>Parameters.\<close>  The hosted model, pdf2pic, the JavaScript date parser and the clock are
  inputs (\<open>partials\<close>, \<open>pdf_pages\<close>, \<open>js_date\<close>, \<open>now\<close>); generated ids come from the
  counter \<open>next_id\<close>, or are inputs where the browser calls \<open>cuid2()\<close>.  Browser time is
  explicit only in the report form, as milliseconds advanced by \<open>Wait\<close>; the delay
  \<open>DEBOUNCE_MS\<close> is the code's 1000.  No loop needs
  fuel: every loop of the code is over a finite list and is structural recursion, except
  the \<open>for await\<close> loop over the extraction stream, which waits for values that may never
  come; it is \<open>for_await\<close>, a \<open>partial_function (option)\<close> whose value None is the loop
  that never ends, and the stream that may stay open is a flag of the \<open>stream\<close> record.

  \<^bold>\<open>Not modelled.\<close>  Styling, icons and the ui/ components (collapsible, dialog,
  sidebar, select: library wrappers), the sidebar's collapse, the sign-in page (an OAuth
  redirect of better-auth, library code) and the better-auth configuration, the sign-out
  call itself (library code; whether it resolves is an input of \<open>handleSignOut\<close>), the
  date-fns functions of the date picker (parameters), the hook \<open>useOutsideClick\<close> (its file
  is not among the sources; it is taken to fire on every click outside), the string order
  of the category picker's \<open>orderBy\<close> (a parameter),
  the React Query cache and IndexedDB persistence (use-idb.ts), Intl formatting beyond the currency-code check, the
  network and the blob service beyond its name-to-bytes map, and the hosted model itself.
  The date line of the preview (\<open>Intl.DateTimeFormat\<close>) is not modelled, nor whether React
  can render a JSON value the preview shows (an object as a child throws).  The sort of the
  upload form's rows (\<open>orderBy\<close> on a date and a name, with TanStack DB's handling of
  undefined) is a parameter: the lemmas hold for any permutation.
  The zod schema of the pending-extraction collection (src/lib/collections.ts lines 139-146)
  is not applied when a pending entry is written, and a collection's update is modelled as
  always sending its request, also for an edit that changes nothing.
  Numbers are exact reals, so the rounding of doubles and the infinite values are outside
  the model; the schema file of Prisma is outside src/ and is modelled from the queries.
\<close>

section \<open>Concrete inputs for the witnesses\<close>

definition ex_js_date :: date_parser where
  "ex_js_date s = (if s = ''2024-05-01'' then Some 19844 else None)"

definition ex_db :: db where
  "ex_db = \<lparr>users = [\<lparr>u_id = ''u1'', u_role = Normal\<rparr>],
     reports = [\<lparr>rp_id = ''r1'', rp_userId = ''u1'', rp_title = ''Trip'', rp_description = [],
                 rp_status = DRAFT, rp_updatedAt = 0\<rparr>],
     receipts = [], line_items = [], merchants = [], categories = [], next_id = 0\<rparr>"

definition ex_item :: extracted_line_item where
  "ex_item = \<lparr>xi_description = ''Latte'', xi_sku = None, xi_quantity = 1, xi_unitPrice = 4,
     xi_currency = ''USD''\<rparr>"

definition ex_extraction :: extracted_receipt where
  "ex_extraction = \<lparr>xr_merchant = \<lparr>xm_name = ''Cafe'', xm_address = None\<rparr>,
     xr_date = ''2024-05-01'', xr_currency = ''usd'', xr_category = None, xr_tax = 1, xr_tip = 2,
     xr_paymentMethod = None, xr_confidence = 1, xr_items = [ex_item]\<rparr>"

definition ex_files :: "page_file list" where
  "ex_files = [\<lparr>pf_bytes = [1, 2], pf_extension = Some ''jpg''\<rparr>]"

definition ex_world :: world where
  "ex_world = \<lparr>w_db = ex_db, w_blobs = []\<rparr>"

definition ex_upload :: upload_file where
  "ex_upload = \<lparr>f_name = ''a.jpg'', f_type = ''image/jpeg'', f_bytes = [1, 2]\<rparr>"

definition ex_form :: form_data where
  "ex_form = [(''file'', FormFile ex_upload), (''receipt-id'', FormText ''rc1''), (''report-id'', FormText ''r1'')]"

definition ex_partials :: "json list" where
  "ex_partials = [JObj [], encode_receipt ex_extraction]"

definition ex_rc1 :: receipt where
  "ex_rc1 = \<lparr>rc_id = ''rc1'', rc_expenseReportId = ''r1'', rc_merchantId = ''c0'', rc_categoryId = ''c1'',
     rc_pageCount = 1, rc_tax = 1, rc_tip = 2, rc_date = Some 19844, rc_paymentMethod = None,
     rc_confidence = 1, rc_currency = ''usd'', rc_updatedAt = 5\<rparr>"

text \<open>The database after the example extraction has been committed.\<close>

definition ex_db2 :: db where
  "ex_db2 = ex_db\<lparr>
     receipts := [ex_rc1],
     line_items := [\<lparr>li_id = ''c2'', li_receiptId = ''rc1'', li_description = ''Latte'', li_sku = None,
        li_quantity = 1, li_unitPrice = 4, li_currency = Some ''USD'', li_updatedAt = 5\<rparr>],
     merchants := [\<lparr>mc_id = ''c0'', mc_name = ''Cafe'', mc_normalizedName = ''CAFE'', mc_address = None\<rparr>],
     categories := [\<lparr>ct_id = ''c1'', ct_name = ''Uncategorized'', ct_normalizedName = ''UNCATEGORIZED''\<rparr>],
     next_id := 3\<rparr>"

text \<open>Two Normal users and a reviewer; u1 owns the draft r1 and its receipt rc1, u2 owns
  the submitted r2 with receipt rc2 and the empty draft r3.\<close>

definition ex_u1 :: user where "ex_u1 = \<lparr>u_id = ''u1'', u_role = Normal\<rparr>"
definition ex_u2 :: user where "ex_u2 = \<lparr>u_id = ''u2'', u_role = Normal\<rparr>"
definition ex_rev :: user where "ex_rev = \<lparr>u_id = ''rev'', u_role = Reviewer\<rparr>"

definition ex_r1 :: expense_report where
  "ex_r1 = \<lparr>rp_id = ''r1'', rp_userId = ''u1'', rp_title = ''Trip'', rp_description = [],
     rp_status = DRAFT, rp_updatedAt = 0\<rparr>"

definition ex_r2 :: expense_report where
  "ex_r2 = \<lparr>rp_id = ''r2'', rp_userId = ''u2'', rp_title = ''Expo'', rp_description = [],
     rp_status = SUBMITTED, rp_updatedAt = 0\<rparr>"

definition ex_r3 :: expense_report where
  "ex_r3 = \<lparr>rp_id = ''r3'', rp_userId = ''u2'', rp_title = ''Spare'', rp_description = [],
     rp_status = DRAFT, rp_updatedAt = 0\<rparr>"

definition ex_rc2 :: receipt where
  "ex_rc2 = ex_rc1\<lparr>rc_id := ''rc2'', rc_expenseReportId := ''r2''\<rparr>"

definition ex_li :: "id \<Rightarrow> id \<Rightarrow> line_item" where
  "ex_li i r = \<lparr>li_id = i, li_receiptId = r, li_description = ''Tea'', li_sku = None, li_quantity = 1,
     li_unitPrice = 3, li_currency = None, li_updatedAt = 0\<rparr>"

definition ex_cat :: category where
  "ex_cat = \<lparr>ct_id = ''c1'', ct_name = ''Uncategorized'', ct_normalizedName = ''UNCATEGORIZED''\<rparr>"

definition ex_db3 :: db where
  "ex_db3 = ex_db2\<lparr>users := [ex_u1, ex_u2, ex_rev], reports := [ex_r1, ex_r2, ex_r3],
     receipts := [ex_rc1, ex_rc2]\<rparr>"

definition ex_client :: client where
  "ex_client = \<lparr>cl_pending = [], cl_receipts = [], cl_items = [], cl_merchants = [], cl_categories = []\<rparr>"

definition ex_view :: receipt_view where
  "ex_view = \<lparr>rv_editingTip = True, rv_editingTax = False, rv_datePickerOpen = False\<rparr>"

definition ex_rc_cents :: receipt where
  "ex_rc_cents = ex_rc1\<lparr>rc_tip := 2345 / 1000\<rparr>"

definition ex_client2 :: client where
  "ex_client2 = ex_client\<lparr>cl_receipts := [ex_rc1], cl_items := [ex_li ''l1'' ''rc1'']\<rparr>"

text \<open>The browser's collections while a second file of report r1 is being extracted.\<close>

definition ex_client3 :: client where
  "ex_client3 = ex_client2\<lparr>cl_pending := [new_pending ''r1'' ''rc9'' ex_upload]\<rparr>"

text \<open>Receipt rc1 with two line items, the first being edited to quantity 0.\<close>

definition ex_client4 :: client where
  "ex_client4 = ex_client2\<lparr>cl_items := [ex_li ''l1'' ''rc1'', ex_li ''l2'' ''rc1'']\<rparr>"

text \<open>Report r1 once approved, open in its form, with the database holding it.\<close>

definition ex_ra :: expense_report where
  "ex_ra = ex_r1\<lparr>rp_status := APPROVED\<rparr>"

definition ex_form_a :: report_form where
  "ex_form_a = \<lparr>rf_defaults = ex_ra, rf_values = ex_ra, rf_subs = [\<lparr>fs_timer = None\<rparr>], rf_now = 0\<rparr>"

definition ex_db_a :: db where
  "ex_db_a = ex_db3\<lparr>reports := [ex_ra]\<rparr>"

definition ex_row :: "string \<Rightarrow> row_form" where
  "ex_row q = \<lparr>lr_editing = True, lr_description = ''Tea'', lr_quantity = q, lr_unitPrice = ''3.50''\<rparr>"

definition ex_gen :: "nat \<Rightarrow> id" where
  "ex_gen k = ''f'' @ show_nat k"

definition ex_hook0 :: upload_hook where
  "ex_hook0 = \<lparr>uh_files = [], uh_validationError = None, uh_urls = [], uh_nextUrl = 0\<rparr>"

definition ex_entry :: "id \<Rightarrow> nat \<Rightarrow> file_entry" where
  "ex_entry i k = \<lparr>fe_id = i, fe_file = ex_upload, fe_preview = Some (object_url k)\<rparr>"

definition ex_hook2 :: upload_hook where
  "ex_hook2 = \<lparr>uh_files = [ex_entry ''a'' 0, ex_entry ''b'' 1], uh_validationError = None,
     uh_urls = [object_url 0, object_url 1], uh_nextUrl = 2\<rparr>"

definition ex_mc :: merchant where
  "ex_mc = \<lparr>mc_id = ''m1'', mc_name = ''Cafe'', mc_normalizedName = ''cafe'', mc_address = None\<rparr>"

definition ex_stream_item :: json where
  "ex_stream_item = JObj [(''description'', JStr ''Latte''), (''currency'', JStr ''US'')]"

definition ex_form0 :: report_form where
  "ex_form0 = \<lparr>rf_defaults = ex_r1, rf_values = ex_r1, rf_subs = [\<lparr>fs_timer = None\<rparr>], rf_now = 0\<rparr>"

definition ex_extraction_dollar :: extracted_receipt where
  "ex_extraction_dollar = ex_extraction\<lparr>xr_items := [ex_item\<lparr>xi_currency := ''$''\<rparr>]\<rparr>"

definition ex_preloads :: "(nat \<times> preload_outcome) list" where
  "ex_preloads = [(3, Fulfilled), (0, Fulfilled), (4, Rejected), (1, Fulfilled), (2, Fulfilled)]"

text \<open>A date library for the picker's witnesses, in which a date is its text in the default
  format and only ten-character texts match that format.\<close>

definition ex_date_fns :: "string date_fns" where
  "ex_date_fns = \<lparr>df_format = (\<lambda>d f. d), df_isMatch = (\<lambda>s f. f = ''MM/dd/yyyy'' \<and> length s = 10),
     df_parse = (\<lambda>s f r. s), df_isValid = (\<lambda>d. True), df_now = ''11/09/2026''\<rparr>"

lemmas ex_eval = createExpenseReportFromParse_def createMerchantIfNotExists_def
  createCategoryIfNotExists_def merchant_create_def category_create_def receipt_create_def
  gen_id_def keys_of_def new_receipt_def new_line_item_def line_item_create_def Let_def
  ex_db_def ex_extraction_def ex_item_def

lemmas ex_users = ex_u1_def ex_u2_def ex_rev_def ex_r1_def ex_r2_def ex_r3_def ex_rc1_def ex_rc2_def
  ex_li_def ex_db3_def ex_db2_def ex_db_def

lemmas ex_number = js_Number_def trim_def is_js_space_def read_signed_def read_unsigned_def read_exp_def
  decimal_value_def is_digit_def read_nat_def parseFloat_def

lemmas ex_ok_eval = db_ok_def db_wf_def ids_fresh_def unique_by_def keys_of_def below_next_def
  gen_index_def is_digit_def

section \<open>Witnesses\<close>

lemma ex_commit_runs:
  "\<exists>res d'. createExpenseReportFromParse ex_js_date 5 ex_extraction ''r1'' ''rc1'' 1 ex_db = Inr (res, d')"
  by (simp add: ex_eval)

theorem createExpenseReportFromParse_result_witness:
  "\<exists>res d'. createExpenseReportFromParse ex_js_date 5 ex_extraction ''r1'' ''rc1'' 1 ex_db = Inr (res, d') \<and>
     rc_id (er_receipt res) = ''rc1'' \<and> rc_pageCount (er_receipt res) = 1 \<and> length (line_items d') = 1 \<and>
     (\<exists>m \<in> set (merchants d'). mc_normalizedName m = ''CAFE'')"
proof -
  obtain res d' where h: "createExpenseReportFromParse ex_js_date 5 ex_extraction ''r1'' ''rc1'' 1 ex_db = Inr (res, d')"
    using ex_commit_runs by blast
  note c = createExpenseReportFromParse_result [OF h]
  have "toUpperCase (xm_name (xr_merchant ex_extraction)) = ''CAFE''"
    by (simp add: ex_extraction_def toUpperCase_def to_upper_char_def char_of_eq_iff)
  with c h show ?thesis by (auto simp: ex_db_def ex_extraction_def list_all2_Cons2 list_all2_Cons1)
qed

lemma ex_db_ok: "db_ok ex_db"
  by (simp add: ex_ok_eval ex_db_def)

lemma ex_db2_ok: "db_ok ex_db2"
  by (simp add: ex_ok_eval ex_db2_def ex_db_def ex_rc1_def read_nat_def)

theorem createExpenseReportFromParse_commits_witness:
  "db_ok ex_db \<and> ''r1'' \<in> keys_of rp_id (reports ex_db) \<and> ''rc1'' \<notin> keys_of rc_id (receipts ex_db) \<and>
   (\<exists>res d'. createExpenseReportFromParse ex_js_date 5 ex_extraction ''r1'' ''rc1'' 1 ex_db = Inr (res, d') \<and> db_ok d')"
proof -
  have h: "''r1'' \<in> keys_of rp_id (reports ex_db)" "''rc1'' \<notin> keys_of rc_id (receipts ex_db)"
    by (simp_all add: ex_db_def keys_of_def)
  show ?thesis using createExpenseReportFromParse_commits [OF ex_db_ok h] ex_db_ok h by blast
qed

theorem createMerchantIfNotExists_dedup_witness:
  "\<exists>mr d'. createMerchantIfNotExists \<lparr>xm_name = ''Cafe'', xm_address = None\<rparr> ex_db = Inr ((mr, True), d') \<and>
     createMerchantIfNotExists \<lparr>xm_name = ''cAfE'', xm_address = Some ''Main St''\<rparr> d' = Inr ((mr, False), d')"
proof -
  obtain mr d' where h: "createMerchantIfNotExists \<lparr>xm_name = ''Cafe'', xm_address = None\<rparr> ex_db = Inr ((mr, True), d')"
    by (simp add: ex_eval find_by_def)
  have "toUpperCase ''cAfE'' = ''CAFE''" "toUpperCase ''Cafe'' = ''CAFE''"
    by (simp_all add: toUpperCase_def to_upper_char_def char_of_eq_iff)
  then have u: "toUpperCase (xm_name \<lparr>xm_name = ''cAfE'', xm_address = Some ''Main St''\<rparr>) =
      toUpperCase (xm_name \<lparr>xm_name = ''Cafe'', xm_address = None\<rparr>)"
    by simp
  show ?thesis using createMerchantIfNotExists_dedup [OF ex_db_ok h u] h by blast
qed

lemma ex_parse: "parse_receipt ex_js_date (List.last ex_partials) = Some ex_extraction"
  by (simp add: ex_partials_def encode_receipt_def encode_merchant_def encode_line_item_def
      parse_receipt_def parse_merchant_def parse_line_item_def z_defs ex_extraction_def ex_item_def ex_js_date_def)

theorem extraction_task_commit_witness:
  "\<exists>res d'. extraction_task ex_js_date 5 ''r1'' ''rc1'' ex_files ex_partials ex_world =
     (\<lparr>w_db = d', w_blobs = upload_pages ''r1'' ''rc1'' 0 ex_files []\<rparr>,
      \<lparr>st_values = map Partial ex_partials @ [Finished res], st_closed = True\<rparr>)"
proof -
  obtain res d' where h: "createExpenseReportFromParse ex_js_date 5 ex_extraction ''r1'' ''rc1'' (length ex_files) (w_db ex_world) = Inr (res, d')"
    using ex_commit_runs by (auto simp: ex_files_def ex_world_def)
  have "ex_partials \<noteq> []" by (simp add: ex_partials_def)
  from extraction_task_commit [OF this ex_parse h] show ?thesis by (auto simp: ex_world_def)
qed

theorem extraction_task_rejects_witness:
  "extraction_task ex_js_date 5 ''r1'' ''rc1'' ex_files [JObj []] ex_world =
     (ex_world, \<lparr>st_values = [Partial (JObj [])], st_closed = True\<rparr>)"
proof -
  have "[JObj []] = [] \<or> parse_receipt ex_js_date (List.last [JObj []]) = None"
    by (simp add: parse_receipt_def z_req_def)
  from extraction_task_rejects [OF this] show ?thesis by simp
qed

theorem extraction_task_commit_fails_witness:
  "extraction_task ex_js_date 5 ''r9'' ''rc1'' ex_files ex_partials ex_world =
     (ex_world\<lparr>w_blobs := upload_pages ''r9'' ''rc1'' 0 ex_files []\<rparr>,
      \<lparr>st_values = map Partial ex_partials, st_closed = False\<rparr>)"
proof -
  have h: "createExpenseReportFromParse ex_js_date 5 ex_extraction ''r9'' ''rc1'' (length ex_files) (w_db ex_world) =
      Inl (ForeignKeyViolation ''Receipt.expenseReportId'')"
    by (simp add: ex_eval ex_files_def ex_world_def find_by_def)
  have "ex_partials \<noteq> []" by (simp add: ex_partials_def)
  from extraction_task_commit_fails [OF this ex_parse h] show ?thesis by (simp add: ex_world_def)
qed

theorem createExpenseReportFromParse_duplicate_receipt_witness:
  "db_ok ex_db2 \<and> ''rc1'' \<in> keys_of rc_id (receipts ex_db2) \<and>
   createExpenseReportFromParse ex_js_date 6 ex_extraction ''r1'' ''rc1'' 1 ex_db2 = Inl (UniqueViolation ''Receipt.id'')"
proof -
  have h: "''rc1'' \<in> keys_of rc_id (receipts ex_db2)" by (simp add: ex_db2_def ex_rc1_def keys_of_def)
  show ?thesis using createExpenseReportFromParse_duplicate_receipt [OF ex_db2_ok h] ex_db2_ok h by blast
qed

theorem extractReceipt_errors_witness:
  "extractReceipt ex_js_date (\<lambda>_. []) 5 [(''files'', FormFile ex_upload), (''receipt-id'', FormText ''rc1''),
      (''report-id'', FormText ''r1'')] ex_partials ex_world = Inl DidNotReceiveFile \<and>
   extractReceipt ex_js_date (\<lambda>_. []) 5 [(''file'', FormFile ex_upload), (''receipt-id'', FormText [])] ex_partials ex_world
     = Inl NoReceiptId"
  using extractReceipt_errors [of ex_js_date "\<lambda>_. []" 5 "[(''files'', FormFile ex_upload), (''receipt-id'', FormText ''rc1''),
      (''report-id'', FormText ''r1'')]" ex_partials ex_world]
    extractReceipt_errors [of ex_js_date "\<lambda>_. []" 5 "[(''file'', FormFile ex_upload), (''receipt-id'', FormText [])]"
      ex_partials ex_world]
  by (simp add: form_id_def)

theorem parse_receipt_encode_witness:
  "parse_receipt ex_js_date (encode_receipt ex_extraction) = Some ex_extraction"
proof -
  have "ex_js_date (xr_date ex_extraction) \<noteq> None" by (simp add: ex_js_date_def ex_extraction_def)
  then show ?thesis by (rule parse_receipt_encode)
qed

theorem parse_partial_refines_receipt_witness:
  "parse_partial (List.last ex_partials) = Some (to_partial ex_extraction)"
  using parse_partial_refines_receipt [OF ex_parse] .

theorem upload_pages_lookup_witness:
  "map_of (upload_pages ''r1'' ''rc1'' 0 ex_files []) (blob_name ''r1'' ''rc1'' 0 (Some ''jpg'')) = Some [1, 2]"
  using upload_pages_lookup [of 0 ex_files "''r1''" "''rc1''" "[]"] by (simp add: ex_files_def)

theorem image_extension_second_part_witness:
  "prepare_files (\<lambda>_. []) (ex_upload\<lparr>f_name := ''scan.final.jpg''\<rparr>) Image =
     [\<lparr>pf_bytes = [1, 2], pf_extension = Some ''final''\<rparr>]"
  using image_extension_second_part [of "ex_upload\<lparr>f_name := ''scan.final.jpg''\<rparr>" "''scan''" "''final''" "''jpg''"]
  by (simp add: ex_upload_def)

theorem image_extension_undefined_witness:
  "map (\<lambda>p. blob_name ''r1'' ''rc1'' 0 (pf_extension p)) (prepare_files (\<lambda>_. []) (ex_upload\<lparr>f_name := ''receipt''\<rparr>) Image) =
     [''r1/rc1/receipt-0.undefined'']"
  using image_extension_undefined [of "ex_upload\<lparr>f_name := ''receipt''\<rparr>" "''r1''" "''rc1''" "\<lambda>_. []"]
  by simp

lemma ex_db3_wf: "db_wf ex_db3"
  by (simp add: db_wf_def unique_by_def keys_of_def ex_users)

theorem updateReports_owned_only_witness:
  "\<forall>d1 d2. (updateReports (Some ex_u2) 7 [ex_r1\<lparr>rp_title := ''Mine''\<rparr>] ex_db3 = Inr d1 \<longrightarrow> ex_r1 \<in> set (reports d1)) \<and>
     (deleteReports (Some ex_u2) [''r1''] ex_db3 = Inr d2 \<longrightarrow> ex_r1 \<in> set (reports d2))"
proof -
  have h: "u_role ex_u2 = Normal" "ex_r1 \<in> set (reports ex_db3)" "rp_userId ex_r1 \<noteq> u_id ex_u2"
    by (simp_all add: ex_users)
  show ?thesis using updateReports_owned_only [OF ex_db3_wf h] by blast
qed

theorem createReceiptLineItems_owned_witness:
  "\<exists>d' new. createReceiptLineItems (Some ex_u1) [ex_li ''l1'' ''rc1'', ex_li ''l2'' ''rc2''] ex_db3 = Inr d' \<and>
     line_items d' = line_items ex_db3 @ new \<and> set new \<subseteq> {ex_li ''l1'' ''rc1'', ex_li ''l2'' ''rc2''} \<and>
     (\<forall>l \<in> set new. receipt_owned_by ex_db3 ''u1'' (li_receiptId l))"
proof -
  obtain d' where h: "createReceiptLineItems (Some ex_u1) [ex_li ''l1'' ''rc1'', ex_li ''l2'' ''rc2''] ex_db3 = Inr d'"
    by (simp add: createReceiptLineItems_def Let_def report_owned_by_def find_by_def line_item_insert_def
        keys_of_def ex_users)
  have "u_role ex_u1 = Normal" "u_id ex_u1 = ''u1''" by (simp_all add: ex_u1_def)
  with createReceiptLineItems_owned [OF ex_db3_wf _ h] h show ?thesis by auto
qed

theorem updateReports_rewrites_status_and_owner_witness:
  "updateReports (Some ex_u1) 7 [ex_r1\<lparr>rp_status := APPROVED, rp_userId := ''u2''\<rparr>] ex_db3 =
     Inr (ex_db3\<lparr>reports := replace_by rp_id (ex_r1\<lparr>rp_status := APPROVED, rp_userId := ''u2'', rp_updatedAt := 7\<rparr>)
       (reports ex_db3)\<rparr>)"
proof -
  have h: "ex_r1 \<in> set (reports ex_db3)" "rp_userId ex_r1 = u_id ex_u1" "''u2'' \<in> keys_of u_id (users ex_db3)"
    by (simp_all add: keys_of_def ex_users)
  show ?thesis by (rule updateReports_rewrites_status_and_owner [OF h])
qed

theorem updateReceipts_moves_receipt_witness:
  "updateReceipts (Some ex_u1) 7 [ex_rc1\<lparr>rc_expenseReportId := rp_id ex_r2\<rparr>] ex_db3 =
     Inr (ex_db3\<lparr>receipts := replace_by rc_id (ex_rc1\<lparr>rc_expenseReportId := rp_id ex_r2, rc_updatedAt := 7\<rparr>)
       (receipts ex_db3)\<rparr>)"
proof -
  have h: "ex_rc1 \<in> set (receipts ex_db3)" "report_owned_by ex_db3 (u_id ex_u1) (rc_expenseReportId ex_rc1)"
      "ex_r2 \<in> set (reports ex_db3)"
    by (simp_all add: report_owned_by_def find_by_def ex_users)
  show ?thesis by (rule updateReceipts_moves_receipt [OF ex_db3_wf h])
qed

theorem createReceipts_unchecked_owner_witness:
  "createReceipts (Some ex_u1) [ex_rc2\<lparr>rc_id := ''rc3''\<rparr>] ex_db3 =
     Inr (ex_db3\<lparr>receipts := receipts ex_db3 @ [ex_rc2\<lparr>rc_id := ''rc3''\<rparr>]\<rparr>)"
proof -
  let ?rc = "ex_rc2\<lparr>rc_id := ''rc3''\<rparr>"
  have h: "rc_id ?rc \<notin> keys_of rc_id (receipts ex_db3)" "rc_expenseReportId ?rc \<in> keys_of rp_id (reports ex_db3)"
      "rc_merchantId ?rc \<in> keys_of mc_id (merchants ex_db3)" "rc_categoryId ?rc \<in> keys_of ct_id (categories ex_db3)"
    by (simp_all add: keys_of_def ex_users)
  show ?thesis by (rule createReceipts_unchecked_owner [OF h])
qed

theorem reviewer_sees_draft_receipts_witness:
  "\<exists>rs rcs. getReports (Some ex_rev) ex_db3 = Inr rs \<and> getReceipts (Some ex_rev) ex_db3 = Inr rcs \<and>
     ex_rc1 \<in> set rcs \<and> ex_r1 \<notin> set rs"
proof -
  have h: "u_role ex_rev = Reviewer" "ex_rc1 \<in> set (receipts ex_db3)"
      "find_by rp_id (rc_expenseReportId ex_rc1) (reports ex_db3) = Some ex_r1" "rp_status ex_r1 = DRAFT"
    by (simp_all add: find_by_def ex_users)
  show ?thesis by (rule reviewer_sees_draft_receipts [OF h])
qed

theorem updateCategories_fails_witness:
  "updateCategories 7 [\<lparr>ct_id = ''c1'', ct_name = ''Food'', ct_normalizedName = ''FOOD''\<rparr>] ex_db3 =
     Inl (DbError (InvalidArgument ''name''))"
  by (rule updateCategories_fails) simp

theorem deleteCategories_deletes_reports_witness:
  "\<exists>d'. deleteCategories [''r3''] ex_db3 = Inr d' \<and> categories d' = categories ex_db3 \<and> reports d' = [ex_r1, ex_r2]"
proof -
  obtain d' where h: "deleteCategories [''r3''] ex_db3 = Inr d'"
    by (simp add: deleteCategories_def report_delete_def keys_of_def ex_users)
  from deleteCategories_deletes_reports [OF h] h show ?thesis by (auto simp: ex_users)
qed

theorem spend_by_category_total_witness:
  "sum_list (map snd (spend_by_category (category_line_items [ex_li ''l1'' ''rc1''] [ex_rc1, ex_rc2] [ex_cat] ''r1'')
      (category_receipts [ex_rc1, ex_rc2] [ex_cat] ''r1''))) =
   totalPaid (report_line_items [ex_li ''l1'' ''rc1''] [ex_rc1, ex_rc2] ''r1'') (report_receipts [ex_rc1, ex_rc2] ''r1'')"
proof -
  have h: "unique_by ct_id [ex_cat]"
      "\<forall>r \<in> set (report_receipts [ex_rc1, ex_rc2] ''r1''). rc_categoryId r \<in> keys_of ct_id [ex_cat]"
    by (simp_all add: unique_by_def keys_of_def report_receipts_def ex_cat_def ex_users)
  show ?thesis by (rule spend_by_category_total [OF h])
qed

theorem next_page_never_enabled_witness:
  "next_link 1 (totalPages (reports_page [ex_r1, ex_r2, ex_r3] 1 2) 2) = (1, True)"
  by (rule next_page_never_enabled) simp_all

theorem fractional_page_size_empties_table_witness:
  "reports_page [ex_r1, ex_r2] 1 (parseIntOr (\<lambda>_. Some (1 / 2)) (Some ''0.5'') 10) = []"
  by (rule fractional_page_size_empties_table [where n = "1 / 2"]) simp_all

theorem pager_in_range_witness:
  "1 \<le> pager_run 3 [NextPage, NextPage, NextPage, PrevPage] \<and> pager_run 3 [NextPage, NextPage, NextPage, PrevPage] \<le> 3"
  by (rule pager_in_range) simp

theorem client_reach_pending_ok_witness:
  "\<exists>c' pe obj. on_message ''rc1'' (Partial (JObj [(''tip'', JNum 3)])) (startReceipt ''r1'' ''rc1'' ex_upload ex_client) = Some c' \<and>
     cl_pending c' = [pe] \<and> pe_partial pe = Some obj \<and> pe_status pe \<noteq> DONE \<and> obj ''tip'' = None \<and> obj ''currency'' = None"
proof -
  let ?c = "startReceipt ''r1'' ''rc1'' ex_upload ex_client"
  have "client_reach ex_client" unfolding ex_client_def by (rule client_reach.init)
  then have r: "client_reach ?c"
    by (rule client_reach.start) (simp add: ex_client_def)
  obtain c' pe obj where m: "on_message ''rc1'' (Partial (JObj [(''tip'', JNum 3)])) ?c = Some c'"
      and p: "cl_pending c' = [pe]" "pe_partial pe = Some obj"
    by (simp add: startReceipt_def ex_client_def js_falsy_def find_by_def apply_partial_def js_field_def
        pending_update_def)
  have "client_reach c'" using r m by (rule client_reach.message)
  then have "pe_status pe \<noteq> DONE \<and> obj ''tip'' = None \<and> obj ''currency'' = None"
    using client_reach_pending_ok p by fastforce
  with m p show ?thesis by blast
qed

theorem collection_delete_sends_key_witness:
  "run_action None 5 (merchant_sync MDelete [hd (merchants ex_db2)]) ex_db2 = Inl (DbError (RecordNotFound ''Merchant'')) \<and>
   run_action None 5 (category_sync MDelete [ex_cat]) ex_db2 = Inl (DbError (RecordNotFound ''ExpenseReport''))"
proof -
  have "mc_normalizedName (hd (merchants ex_db2)) \<notin> keys_of mc_id (merchants ex_db2)"
      "ct_normalizedName ex_cat \<notin> keys_of rp_id (reports ex_db2)"
    by (simp_all add: keys_of_def ex_cat_def ex_db2_def ex_db_def)
  then show ?thesis using collection_delete_sends_key [of "hd (merchants ex_db2)" ex_db2 None 5 ex_cat] by simp
qed

theorem category_enter_duplicate_witness:
  "\<exists>cat. category_enter ''uncategorized'' ''c9'' = Some cat \<and>
     run_action None 5 (category_sync MInsert [cat]) ex_db3 = Inl (DbError (UniqueViolation ''Category.normalizedName'')) \<and>
     run_action (Some ex_u1) 5 (receipt_sync MUpdate [ex_rc1\<lparr>rc_categoryId := ''c9''\<rparr>]) ex_db3 =
       Inl (DbError (ForeignKeyViolation ''Receipt.categoryId''))"
proof -
  have "toUpperCase ''uncategorized'' = ''UNCATEGORIZED''"
    by (simp add: toUpperCase_def to_upper_char_def char_of_eq_iff)
  then have h: "length ''uncategorized'' > 0" "toUpperCase ''uncategorized'' \<in> keys_of ct_normalizedName (categories ex_db3)"
      "''c9'' \<notin> keys_of ct_id (categories ex_db3)" "ex_rc1 \<in> set (receipts ex_db3)"
      "report_owned_by ex_db3 (u_id ex_u1) (rc_expenseReportId ex_rc1)"
    by (simp_all add: keys_of_def report_owned_by_def find_by_def ex_users)
  show ?thesis by (rule category_enter_duplicate [OF ex_db3_wf h])
qed

section \<open>Properties across the server and the browser\<close>

text \<open>C20. End to end, for an upload whose extraction commits: the browser's task, having inserted the pending entry and received the stream, ends with the entry removed and the committed receipt row in its receipt collection, the same row the database now holds.\<close>

theorem upload_commit_reaches_client:
  assumes task: "extraction_task js_date now reportId receiptId files partials w = (w', st)"
    and fin: "Finished res \<in> set (st_values st)"
    and ok: "list_all items_ok partials" and fresh: "receiptId \<notin> keys_of pe_id (cl_pending c)"
  shows "\<exists>c'. upload_task receiptId (Inr (w', st) :: extract_error + _) (startReceipt reportId receiptId f c) = (Some c', True) \<and>
    receiptId \<notin> keys_of pe_id (cl_pending c') \<and> er_receipt res \<in> set (cl_receipts c') \<and>
    er_receipt res \<in> set (receipts (w_db w'))"
proof -
  obtain r where p: "createExpenseReportFromParse js_date now r reportId receiptId (length files) (w_db w) = Inr (res, w_db w')"
    and v: "st_values st = map Partial partials @ [Finished res]" and cl: "st_closed st"
    using extraction_task_cases [OF task] fin by auto
  let ?c1 = "pending_update receiptId (\<lambda>e. e\<lparr>pe_status := EXTRACTING\<rparr>) (startReceipt reportId receiptId f c)"
  have "entry_status receiptId ?c1 EXTRACTING"
    by (rule entry_status_extracting [OF entry_status_startReceipt [OF fresh]])
  then obtain c2 where c2: "on_messages receiptId (map Partial partials) ?c1 = Some c2"
    using on_messages_partials [OF ok] by blast
  let ?c3 = "c2\<lparr>cl_receipts := write_insert rc_id (er_receipt res) (cl_receipts c2),
             cl_items := write_insert_all li_id (er_lineItems res) (cl_items c2),
             cl_merchants := opt_insert mc_normalizedName (er_merchant res) (cl_merchants c2),
             cl_categories := opt_insert ct_normalizedName (er_category res) (cl_categories c2),
             cl_pending := filter (\<lambda>p. pe_id p \<noteq> receiptId) (cl_pending c2)\<rparr>"
  have "upload_task receiptId (Inr (w', st) :: extract_error + _) (startReceipt reportId receiptId f c) = (Some ?c3, True)"
    using c2 v cl by (simp add: upload_task_def on_messages_append del: on_message.simps) simp
  moreover have "receiptId \<notin> keys_of pe_id (cl_pending ?c3)" by (auto simp: keys_of_def)
  moreover have "er_receipt res \<in> set (cl_receipts ?c3)" by (simp add: write_insert_in)
  moreover have "er_receipt res \<in> set (receipts (w_db w'))"
    using createExpenseReportFromParse_receipts [OF p] by simp
  ultimately show ?thesis by blast
qed

text \<open>C21. End to end, for an upload whose extraction does not commit (the model's output fails the schema, or the transaction fails): the database is unchanged and the browser's pending entry stays EXTRACTING with no receipt, so its spinner never stops.\<close>

theorem upload_failure_keeps_spinner:
  assumes task: "extraction_task js_date now reportId receiptId files partials w = (w', st)"
    and nofin: "\<forall>res. Finished res \<notin> set (st_values st)"
    and ok: "list_all items_ok partials" and fresh: "receiptId \<notin> keys_of pe_id (cl_pending c)"
  shows "\<exists>c'. fst (upload_task receiptId (Inr (w', st) :: extract_error + _) (startReceipt reportId receiptId f c)) = Some c' \<and>
    entry_status receiptId c' EXTRACTING \<and> cl_receipts c' = cl_receipts c \<and> w_db w' = w_db w"
proof -
  have v: "st_values st = map Partial partials" and db: "w_db w' = w_db w"
    using extraction_task_cases [OF task] nofin by auto
  let ?c1 = "pending_update receiptId (\<lambda>e. e\<lparr>pe_status := EXTRACTING\<rparr>) (startReceipt reportId receiptId f c)"
  have "entry_status receiptId ?c1 EXTRACTING"
    by (rule entry_status_extracting [OF entry_status_startReceipt [OF fresh]])
  then obtain c2 where c2: "on_messages receiptId (map Partial partials) ?c1 = Some c2"
      "entry_status receiptId c2 EXTRACTING" "cl_receipts c2 = cl_receipts ?c1"
    using on_messages_partials [OF ok] by blast
  have "cl_receipts ?c1 = cl_receipts c" by (simp add: pending_update_def startReceipt_def)
  then show ?thesis using c2 v db by (simp add: upload_task_def)
qed

text \<open>The upload form validates nothing (the validating hook use-receipt-upload.ts is not used): a file of any other type is sent, the action throws UnsupportedMime, and the pending entry stays PENDING with its spinner.\<close>

theorem unsupported_upload_stays_pending:
  assumes "\<not> startsWith (f_type f) ''image/''" "\<not> js_includes (f_type f) ''pdf''" "\<not> js_includes (f_type f) ''acrobat''"
    and "receiptId \<noteq> []" "reportId \<noteq> []" "receiptId \<notin> keys_of pe_id (cl_pending c)"
  shows "extractReceipt js_date pdf_pages now (upload_form_data f receiptId reportId) partials w = Inl (UnsupportedMime (f_type f)) \<and>
    upload_task receiptId (extractReceipt js_date pdf_pages now (upload_form_data f receiptId reportId) partials w)
      (startReceipt reportId receiptId f c) = (Some (startReceipt reportId receiptId f c), True) \<and>
    entry_status receiptId (startReceipt reportId receiptId f c) PENDING"
  using assms entry_status_startReceipt [OF assms(6)]
  by (simp add: extractReceipt_def upload_form_data_def form_id_def documentTypeFromMime_def upload_task_def)

theorem upload_commit_reaches_client_witness:
  "\<exists>w' st res c'. extraction_task ex_js_date 5 ''r1'' ''rc1'' ex_files ex_partials ex_world = (w', st) \<and>
     Finished res \<in> set (st_values st) \<and>
     upload_task ''rc1'' (Inr (w', st) :: extract_error + _) (startReceipt ''r1'' ''rc1'' ex_upload ex_client) = (Some c', True) \<and>
     ''rc1'' \<notin> keys_of pe_id (cl_pending c') \<and> er_receipt res \<in> set (cl_receipts c') \<and>
     er_receipt res \<in> set (receipts (w_db w'))"
proof -
  obtain res d' where h: "createExpenseReportFromParse ex_js_date 5 ex_extraction ''r1'' ''rc1'' 1 ex_db = Inr (res, d')"
    using ex_commit_runs by blast
  let ?w' = "\<lparr>w_db = d', w_blobs = upload_pages ''r1'' ''rc1'' 0 ex_files []\<rparr>"
  let ?st = "\<lparr>st_values = map Partial ex_partials @ [Finished res], st_closed = True\<rparr>"
  have task: "extraction_task ex_js_date 5 ''r1'' ''rc1'' ex_files ex_partials ex_world = (?w', ?st)"
  proof -
    have "ex_partials \<noteq> []" by (simp add: ex_partials_def)
    then show ?thesis
      using ex_parse h by (simp add: extraction_task_def stream_partials_eq run_tx_def ex_files_def ex_world_def)
  qed
  have fin: "Finished res \<in> set (st_values ?st)" by simp
  have ok: "list_all items_ok ex_partials"
    by (simp add: ex_partials_def items_ok_def js_field_def encode_receipt_def opt_field_def ex_extraction_def
        map_add_def)
  have fresh: "''rc1'' \<notin> keys_of pe_id (cl_pending ex_client)" by (simp add: ex_client_def)
  from upload_commit_reaches_client [OF task fin ok fresh] task fin show ?thesis by blast
qed

theorem upload_failure_keeps_spinner_witness:
  "\<exists>c'. fst (upload_task ''rc1'' (Inr (ex_world, \<lparr>st_values = [Partial (JObj [])], st_closed = True\<rparr>) :: extract_error + _)
      (startReceipt ''r1'' ''rc1'' ex_upload ex_client)) = Some c' \<and>
    entry_status ''rc1'' c' EXTRACTING \<and> cl_receipts c' = cl_receipts ex_client \<and> w_db ex_world = w_db ex_world"
proof -
  have task: "extraction_task ex_js_date 5 ''r1'' ''rc1'' ex_files [JObj []] ex_world =
      (ex_world, \<lparr>st_values = [Partial (JObj [])], st_closed = True\<rparr>)"
    by (simp add: extraction_task_def stream_partials_eq parse_receipt_def z_req_def)
  have nofin: "\<forall>res. Finished res \<notin> set (st_values \<lparr>st_values = [Partial (JObj [])], st_closed = True\<rparr>)" by simp
  have ok: "list_all items_ok [JObj []]" by (simp add: items_ok_def js_field_def)
  have fresh: "''rc1'' \<notin> keys_of pe_id (cl_pending ex_client)" by (simp add: ex_client_def)
  show ?thesis using upload_failure_keeps_spinner [OF task nofin ok fresh] .
qed

theorem unsupported_upload_stays_pending_witness:
  "extractReceipt ex_js_date (\<lambda>_. []) 5 (upload_form_data (ex_upload\<lparr>f_type := ''text/plain''\<rparr>) ''rc1'' ''r1'') ex_partials ex_world =
     Inl (UnsupportedMime ''text/plain'') \<and>
   upload_task ''rc1'' (extractReceipt ex_js_date (\<lambda>_. []) 5 (upload_form_data (ex_upload\<lparr>f_type := ''text/plain''\<rparr>) ''rc1'' ''r1'')
       ex_partials ex_world) (startReceipt ''r1'' ''rc1'' (ex_upload\<lparr>f_type := ''text/plain''\<rparr>) ex_client) =
     (Some (startReceipt ''r1'' ''rc1'' (ex_upload\<lparr>f_type := ''text/plain''\<rparr>) ex_client), True) \<and>
   entry_status ''rc1'' (startReceipt ''r1'' ''rc1'' (ex_upload\<lparr>f_type := ''text/plain''\<rparr>) ex_client) PENDING"
proof -
  let ?f = "ex_upload\<lparr>f_type := ''text/plain''\<rparr>"
  have h: "\<not> startsWith (f_type ?f) ''image/''" "\<not> js_includes (f_type ?f) ''pdf''" "\<not> js_includes (f_type ?f) ''acrobat''"
      "''rc1'' \<noteq> []" "''r1'' \<noteq> []" "''rc1'' \<notin> keys_of pe_id (cl_pending ex_client)"
    by (simp_all add: startsWith_iff ex_client_def)
  from unsupported_upload_stays_pending [OF h] show ?thesis by (simp add: upload_task_def)
qed


section \<open>Witnesses of the receipt card\<close>

theorem tip_editor_rounds_witness:
  "tip_setOpen False (Some (toFixed2 (2345 / 1000))) ex_rc_cents ex_view (ex_client\<lparr>cl_receipts := [ex_rc_cents]\<rparr>) =
     (ex_view\<lparr>rv_editingTip := False\<rparr>,
      Some (ex_client\<lparr>cl_receipts := [ex_rc1\<lparr>rc_tip := 235 / 100\<rparr>]\<rparr>, [UpdateReceipts [ex_rc1\<lparr>rc_tip := 235 / 100\<rparr>]]))"
proof -
  have h: "find_by rc_id (rc_id ex_rc_cents) (cl_receipts (ex_client\<lparr>cl_receipts := [ex_rc_cents]\<rparr>)) = Some ex_rc_cents"
    by (simp add: find_by_Cons)
  have r: "round_cents (2345 / 1000) = 235 / 100" by (simp add: round_cents_def cents_def)
  from tip_editor_rounds [OF h] show ?thesis using r by (simp add: ex_rc_cents_def replace_by_def)
qed

theorem tip_decimal_comma_truncates_witness:
  "updateTip (Some ''1,50'') ex_rc1 ex_view ex_client2 =
     (ex_view\<lparr>rv_editingTip := False\<rparr>,
      Some (ex_client2\<lparr>cl_receipts := [ex_rc1\<lparr>rc_tip := 1\<rparr>]\<rparr>, [UpdateReceipts [ex_rc1\<lparr>rc_tip := 1\<rparr>]]))"
proof -
  have h: "find_by rc_id (rc_id ex_rc1) (cl_receipts ex_client2) = Some ex_rc1" "list_all is_digit ''1''" "''1'' \<noteq> []"
    by (simp_all add: ex_client2_def ex_client_def find_by_Cons is_digit_def)
  from tip_decimal_comma_truncates [OF h, where fs = "''50''" and v = ex_view] show ?thesis
    by (simp add: read_nat_def ex_client2_def ex_client_def replace_by_def)
qed

theorem tip_not_a_number_witness:
  "updateTip (Some ''abc'') ex_rc1 ex_view ex_client2 = (ex_view, Some (ex_client2, [])) \<and>
   tip_setOpen False (Some ''abc'') ex_rc1 ex_view ex_client2 = (ex_view\<lparr>rv_editingTip := False\<rparr>, Some (ex_client2, []))"
proof -
  have "parseFloat ''abc'' = None" by (simp add: ex_number)
  then show ?thesis by (rule tip_not_a_number)
qed

theorem card_edit_reaches_server_witness:
  "\<exists>c' d'. coll_receipt_update ''rc1'' (\<lambda>r. r\<lparr>rc_tip := 3\<rparr>) ex_client2 = Some (c', [UpdateReceipts [ex_rc1\<lparr>rc_tip := 3\<rparr>]]) \<and>
     run_action (Some ex_u1) 7 (UpdateReceipts [ex_rc1\<lparr>rc_tip := 3\<rparr>]) ex_db3 = Inr d' \<and> db_wf d' \<and>
     find_by rc_id ''rc1'' (cl_receipts c') = Some (ex_rc1\<lparr>rc_tip := 3\<rparr>) \<and>
     find_by rc_id ''rc1'' (receipts d') = Some (ex_rc1\<lparr>rc_tip := 3, rc_updatedAt := 7\<rparr>)"
proof -
  have h: "ex_rc1 \<in> set (receipts ex_db3)" "report_owned_by ex_db3 (u_id ex_u1) (rc_expenseReportId ex_rc1)"
      "find_by rc_id ''rc1'' (cl_receipts ex_client2) = Some ex_rc1"
    by (simp_all add: ex_users report_owned_by_def find_by_def ex_client2_def ex_client_def)
  show ?thesis
    using card_edit_reaches_server [OF ex_db3_wf h, of "\<lambda>r. r\<lparr>rc_tip := 3\<rparr>" 7] by simp
qed

theorem submitForm_blank_quantity_deletes_witness:
  "submitForm (ex_li ''l1'' ''rc1'') (ex_row '' '') ex_client2 = ((ex_row '' '')\<lparr>lr_editing := False\<rparr>,
     Some (ex_client2\<lparr>cl_items := []\<rparr>, [DeleteLineItems [''l1'']]))"
proof -
  have h: "lr_editing (ex_row '' '')" "trim (lr_quantity (ex_row '' '')) = []"
      "js_Number (lr_unitPrice (ex_row '' '')) = Some (7 / 2)"
      "find_by li_id (li_id (ex_li ''l1'' ''rc1'')) (cl_items ex_client2) = Some (ex_li ''l1'' ''rc1'')"
    by (simp_all add: ex_row_def ex_number ex_client2_def ex_client_def ex_li_def find_by_Cons)
  from submitForm_blank_quantity_deletes [OF h] show ?thesis
    by (simp add: ex_client2_def ex_client_def ex_li_def delete_by_def)
qed

theorem submitForm_cases_witness:
  "submitForm (ex_li ''l1'' ''rc1'') (ex_row ''2'') ex_client2 = ((ex_row ''2'')\<lparr>lr_editing := False\<rparr>,
     Some (ex_client2\<lparr>cl_items := [(ex_li ''l1'' ''rc1'')\<lparr>li_quantity := 2, li_unitPrice := 7 / 2\<rparr>]\<rparr>,
       [UpdateLineItems [(ex_li ''l1'' ''rc1'')\<lparr>li_quantity := 2, li_unitPrice := 7 / 2\<rparr>]]))"
proof -
  have h: "lr_editing (ex_row ''2'')" "find_by li_id (li_id (ex_li ''l1'' ''rc1'')) (cl_items ex_client2) = Some (ex_li ''l1'' ''rc1'')"
    by (simp_all add: ex_row_def ex_client2_def ex_client_def find_by_Cons)
  have n: "js_Number (lr_quantity (ex_row ''2'')) = Some 2" "js_Number (lr_unitPrice (ex_row ''2'')) = Some (7 / 2)"
    by (simp_all add: ex_row_def ex_number)
  from submitForm_cases [OF h, of 2 "7 / 2"] n show ?thesis
    by (simp add: ex_row_def ex_client2_def ex_client_def ex_li_def replace_by_def)
qed



section \<open>Witnesses of the image route\<close>

lemma ex_route_hyps:
  "ex_rc1 \<in> set (receipts ex_db3)" "unique_by rc_id (receipts ex_db3)" "CHR ''&'' \<notin> set (rc_id ex_rc1)"
  "rc_id ex_rc1 \<noteq> []" "\<forall>n \<in> fst ` set ([] :: blobs). \<not> startsWith n (rc_expenseReportId ex_rc1 @ ''/'' @ rc_id ex_rc1 @ ''/'')"
  using ex_db3_wf by (simp_all add: ex_users db_wf_def)

theorem pager_image_roundtrip_witness:
  "file_route (\<lambda>_. []) (Some ex_u2) (parse_query (image_url ''rc1'' 1)) ex_db3 (upload_pages ''r1'' ''rc1'' 0 ex_files []) =
     BlobResp ''application/octet-stream'' [1, 2]"
proof -
  have "0 < length ex_files" by (simp add: ex_files_def)
  from pager_image_roundtrip [OF ex_route_hyps this, of "\<lambda>_. []" ex_u2] show ?thesis
    by (simp add: ex_rc1_def ex_files_def)
qed

theorem file_route_errors_witness:
  "file_route (\<lambda>_. []) None [] ex_db3 [] = JsonResp 401 ''you are not signed in'' \<and>
   file_route (\<lambda>_. []) (Some ex_u2) (parse_query (image_url [] 0)) ex_db3 [] = JsonResp 400 ''invalid receipt id'' \<and>
   file_route (\<lambda>_. []) (Some ex_u2) (parse_query (image_url ''zz'' 1)) ex_db3 [] = ServerError ''No Receipt found'' \<and>
   file_route (\<lambda>_. []) (Some ex_u2) (parse_query (image_url ''rc1'' 2)) ex_db3 (upload_pages ''r1'' ''rc1'' 0 ex_files []) =
     JsonResp 200 ''failed to get first blob for receipt''"
proof -
  have h: "length ex_files \<le> 1" "CHR ''&'' \<notin> set ''zz''" "''zz'' \<noteq> []" "''zz'' \<notin> keys_of rc_id (receipts ex_db3)"
    by (simp_all add: ex_files_def ex_users keys_of_def)
  from file_route_errors [OF ex_route_hyps h, where num_str = "\<lambda>_. []" and q = "[]" and bl' = "[]" and u = ex_u2 and p = 0]
  show ?thesis
    by (simp add: ex_rc1_def numeral_2_eq_2)
qed

section \<open>Witnesses of the upload hook\<close>

theorem hook_reach_ok_witness:
  "hook_ok (hook_step (AddFiles ex_gen [ex_upload]) ex_hook0) \<and>
   uh_urls (reset (hook_step (AddFiles ex_gen [ex_upload]) ex_hook0)) = []"
proof -
  have r0: "hook_reach ex_hook0" unfolding ex_hook0_def by (rule hook_reach.init)
  have "inj ex_gen" by (simp add: inj_def ex_gen_def show_nat_inj)
  then have "\<forall>gen fs. AddFiles ex_gen [ex_upload] = AddFiles gen fs \<longrightarrow> fresh_ids gen ex_hook0"
    by (simp add: fresh_ids_def ex_hook0_def)
  with r0 have "hook_reach (hook_step (AddFiles ex_gen [ex_upload]) ex_hook0)" by (rule hook_reach.step)
  then show ?thesis by (rule hook_reach_ok)
qed

theorem move_buttons_enabled_witness:
  "(False \<longleftrightarrow> moveFile ''a'' Up ex_hook2 \<noteq> ex_hook2) \<and> (True \<longleftrightarrow> moveFile ''a'' Down ex_hook2 \<noteq> ex_hook2)"
proof -
  have e: "entry_ok (ex_entry i k)" for i k
    by (simp add: entry_ok_def ex_entry_def ex_upload_def allowed_file_def f_size_def MAX_SIZE_BYTES_def)
  have "\<forall>u \<in> set (previews (uh_files ex_hook2)). \<exists>k < uh_nextUrl ex_hook2. u = object_url k"
    by (auto simp: ex_hook2_def ex_entry_def previews_Cons intro: exI [of _ 0] exI [of _ 1])
  then have ok: "hook_ok ex_hook2"
    using e by (simp add: hook_ok_def ex_hook2_def ex_entry_def previews_Cons insert_commute)
  have b: "(''a'', False, True) \<in> set (move_buttons (uh_files ex_hook2))"
    by (simp add: move_buttons_def ex_hook2_def ex_entry_def upt_conv_Cons)
  show ?thesis using move_buttons_enabled [OF ok b] .
qed

section \<open>Witnesses of the receipt preview\<close>

theorem partial_currency_prefix_throws_witness:
  "\<exists>c' e. on_message ''rc1'' (Partial (JObj [(''items'', JArr [ex_stream_item])])) (startReceipt ''r1'' ''rc1'' ex_upload ex_client) = Some c' \<and>
     find_by pe_id ''rc1'' (cl_pending c') = Some e \<and> row_body None (Some e) None None = BodyThrows"
proof -
  have st: "entry_status ''rc1'' (startReceipt ''r1'' ''rc1'' ex_upload ex_client) PENDING"
    by (rule entry_status_startReceipt) (simp add: ex_client_def keys_of_def)
  show ?thesis
    using partial_currency_prefix_throws [OF st, where p = "JObj [(''items'', JArr [ex_stream_item])]" and it = ex_stream_item
        and its = "[]" and cur = "''US''" and cat = None and m = None]
    by (simp add: js_field_def ex_stream_item_def currency_code_def)
qed

theorem preview_total_omits_tip_witness:
  "\<exists>c' e obj pv. on_message ''rc1'' (Partial (encode_receipt ex_extraction)) (startReceipt ''r1'' ''rc1'' ex_upload ex_client) = Some c' \<and>
     find_by pe_id ''rc1'' (cl_pending c') = Some e \<and> pe_partial e = Some obj \<and>
     ReceiptPreview obj = Some pv \<and> pv_tip pv = Some 0 \<and> pv_total pv = Some 5 \<and>
     receipt_total [new_line_item ''rc1'' 0 ex_item ''li1''] (new_receipt ex_js_date 0 ex_extraction ''r1'' ''rc1'' 1 ex_mc ex_cat) = 7"
proof -
  let ?c = "startReceipt ''r1'' ''rc1'' ex_upload ex_client"
  have "client_reach ex_client" unfolding ex_client_def by (rule client_reach.init)
  then have r: "client_reach ?c" by (rule client_reach.start) (simp add: ex_client_def)
  obtain pe where pe: "find_by pe_id ''rc1'' (cl_pending ?c) = Some pe" "pe_partial pe = Some Map.empty"
    by (simp add: startReceipt_def ex_client_def find_by_def)
  obtain obj where a: "apply_partial (encode_receipt ex_extraction) Map.empty = Some obj"
    using apply_partial_ok [of "encode_receipt ex_extraction" Map.empty] encode_receipt_fields(1)
    by (auto simp: items_ok_def)
  obtain c' where m: "on_message ''rc1'' (Partial (encode_receipt ex_extraction)) ?c = Some c'"
      and f: "find_by pe_id ''rc1'' (cl_pending c') = Some (pe\<lparr>pe_partial := Some obj\<rparr>)"
    using on_message_partial_entry [OF pe a js_field_not_falsy [OF encode_receipt_fields(1)]] by blast
  have e: "find_by pe_id ''rc1'' (cl_pending c') = Some (pe\<lparr>pe_partial := Some obj\<rparr>)"
    "pe_partial (pe\<lparr>pe_partial := Some obj\<rparr>) = Some obj" using f by simp_all
  have cur: "list_all (\<lambda>x. currency_code (xi_currency x)) (xr_items ex_extraction)"
    by (simp add: ex_extraction_def ex_item_def currency_code_def)
  have ls: "list_all2 (\<lambda>x l. l = new_line_item ''rc1'' 0 x (li_id l)) (xr_items ex_extraction) [new_line_item ''rc1'' 0 ex_item ''li1'']"
    by (simp add: ex_extraction_def new_line_item_def)
  have t: "receipt_total [new_line_item ''rc1'' 0 ex_item ''li1''] (new_receipt ex_js_date 0 ex_extraction ''r1'' ''rc1'' 1 ex_mc ex_cat) = 7"
    by (simp add: receipt_total_def receipt_subtotal_def new_line_item_def new_receipt_def ex_extraction_def ex_item_def)
  from preview_total_omits_tip [OF r m e cur ls, where js_date = ex_js_date and rep = "''r1''" and n = 1 and mm = ex_mc and ct = ex_cat]
  obtain pv where "ReceiptPreview obj = Some pv" "pv_tip pv = Some 0" "pv_total pv = Some 5"
    using t by (auto simp: ex_extraction_def)
  with m e t show ?thesis by blast
qed

theorem row_thumbnail_first_page_witness:
  "fst (UploadFormReceiptPreview (Some ex_rc1) None None None) = FileRoute ''/api/receipt/file?id=rc1'' \<and>
   file_route (\<lambda>_. []) (Some ex_u2) (parse_query ''/api/receipt/file?id=rc1'') ex_db3 (upload_pages ''r1'' ''rc1'' 0 ex_files []) =
     BlobResp ''application/octet-stream'' [1, 2]"
proof -
  have "ex_files \<noteq> []" by (simp add: ex_files_def)
  from row_thumbnail_first_page [OF ex_route_hyps this, where num_str = "\<lambda>_. []" and u = ex_u2 and pe = None and cat = None and m = None]
  show ?thesis
    by (auto simp: ex_rc1_def ex_files_def UploadFormReceiptPreview_def row_source_def)
qed

section \<open>Witnesses of the report form\<close>

theorem debounce_last_values_witness:
  "snd (form_run [Change (ex_r1\<lparr>rp_title := ''T''\<rparr>), Wait 400, Change (ex_r1\<lparr>rp_title := ''Tr''\<rparr>), Wait 1000] ex_form0) =
     [ex_r1\<lparr>rp_title := ''Tr''\<rparr>]"
proof -
  have h: "rf_subs ex_form0 = [\<lparr>fs_timer = None\<rparr>]"
    "\<forall>(v', t) \<in> set [(ex_r1\<lparr>rp_title := ''T''\<rparr>, 400::nat)]. v' \<noteq> rf_defaults ex_form0 \<and> t < DEBOUNCE_MS"
    "ex_r1\<lparr>rp_title := ''Tr''\<rparr> \<noteq> rf_defaults ex_form0" "DEBOUNCE_MS \<le> (1000::nat)"
    by (simp_all add: ex_form0_def ex_r1_def DEBOUNCE_MS_def)
  show ?thesis using debounce_last_values [OF h] by simp
qed

theorem revert_saves_stale_values_witness:
  "\<exists>f' r'. report_page_run [Change (ex_r1\<lparr>rp_title := ''Trip 2''\<rparr>), Wait 500, Change ex_r1, Wait 600] ex_form0 [ex_r1] =
      (f', Some (replace_by rp_id r' [ex_r1], [UpdateReports [r']])) \<and>
    rf_values f' = ex_r1 \<and> rp_title r' = ''Trip 2''"
proof -
  have h: "rf_subs ex_form0 = [\<lparr>fs_timer = None\<rparr>]" "ex_r1\<lparr>rp_title := ''Trip 2''\<rparr> \<noteq> rf_defaults ex_form0"
    "(500::nat) < DEBOUNCE_MS" "DEBOUNCE_MS \<le> (500::nat) + 600"
    "find_by rp_id (rp_id (ex_r1\<lparr>rp_title := ''Trip 2''\<rparr>)) [ex_r1] = Some ex_r1"
    by (simp_all add: ex_form0_def ex_r1_def DEBOUNCE_MS_def find_by_def)
  have "rf_defaults ex_form0 = ex_r1" by (simp add: ex_form0_def)
  with revert_saves_stale_values [OF h] show ?thesis by auto
qed

theorem renders_duplicate_saves_witness:
  "\<exists>f' r'. report_page_run (replicate 2 Render @ [Change (ex_r1\<lparr>rp_title := ''Trip 2''\<rparr>), Wait 1000])
      (ex_form0\<lparr>rf_subs := []\<rparr>) [ex_r1] =
      (f', Some (replace_by rp_id r' [ex_r1], replicate 2 (UpdateReports [r']))) \<and> rp_title r' = ''Trip 2''"
proof -
  have h: "rf_subs (ex_form0\<lparr>rf_subs := []\<rparr>) = []" "ex_r1\<lparr>rp_title := ''Trip 2''\<rparr> \<noteq> rf_defaults (ex_form0\<lparr>rf_subs := []\<rparr>)"
    "DEBOUNCE_MS \<le> (1000::nat)" "find_by rp_id (rp_id (ex_r1\<lparr>rp_title := ''Trip 2''\<rparr>)) [ex_r1] = Some ex_r1"
    by (simp_all add: ex_form0_def ex_r1_def DEBOUNCE_MS_def find_by_def)
  show ?thesis using renders_duplicate_saves [OF h, of 1] by (simp add: numeral_2_eq_2)
qed

theorem client_reach_preview_items_witness:
  "preview_items (Map.empty :: js_object) = Some [] \<and> ReceiptPreview Map.empty \<noteq> None"
proof -
  let ?c = "startReceipt ''r1'' ''rc1'' ex_upload ex_client"
  have "client_reach ex_client" unfolding ex_client_def by (rule client_reach.init)
  then have r: "client_reach ?c" by (rule client_reach.start) (simp add: ex_client_def)
  obtain pe where pe: "pe \<in> set (cl_pending ?c)" "pe_partial pe = Some Map.empty"
    by (simp add: startReceipt_def ex_client_def)
  from client_reach_preview_items [OF r pe] show ?thesis
    by (auto simp: preview_items_def preview_currency_def currency_code_def)
qed


theorem stored_currency_breaks_card_witness:
  "\<exists>res d'. createExpenseReportFromParse ex_js_date 5 ex_extraction_dollar ''r1'' ''rc1'' 1 ex_db = Inr (res, d') \<and>
     ex_item\<lparr>xi_currency := ''$''\<rparr> \<in> set (xr_items ex_extraction_dollar) \<and> \<not> currency_code ''$'' \<and>
     ReceiptView_card (er_receipt res) ex_mc (receipt_items (line_items d') ''rc1'') = None"
proof -
  obtain res d' where h: "createExpenseReportFromParse ex_js_date 5 ex_extraction_dollar ''r1'' ''rc1'' 1 ex_db = Inr (res, d')"
    by (simp add: ex_eval ex_extraction_dollar_def)
  have x: "ex_item\<lparr>xi_currency := ''$''\<rparr> \<in> set (xr_items ex_extraction_dollar)" "\<not> currency_code ''$''"
    by (simp_all add: ex_extraction_dollar_def currency_code_def)
  show ?thesis using Card_Render.stored_currency_breaks_card [OF h x(1)] x h by auto
qed

theorem new_report_roundtrip_witness:
  "''r9'' \<notin> keys_of rp_id [] \<and> ''r9'' \<notin> keys_of rp_id (reports ex_db3) \<and> u_id ex_u1 \<in> keys_of u_id (users ex_db3) \<and>
   (\<exists>rows' a d' rs. createNewReport (Some ex_u1) ''r9'' 7 [] = Some (rows', [a], Some ''/reports/r9'') \<and>
     run_action (Some ex_u1) 8 a ex_db3 = Inr d' \<and> getReports (Some ex_u1) d' = Inr rs \<and>
     new_report ''r9'' ''u1'' 7 \<in> set rs)"
proof -
  have h: "''r9'' \<notin> keys_of rp_id []" "''r9'' \<notin> keys_of rp_id (reports ex_db3)" "u_id ex_u1 \<in> keys_of u_id (users ex_db3)"
    by (simp_all add: ex_users keys_of_def)
  have n: "u_role ex_u1 = Normal" "u_id ex_u1 = ''u1''" by (simp_all add: ex_u1_def)
  show ?thesis using App_Shell.new_report_roundtrip [OF h, of 7 8] h n by auto
qed

theorem loader_hides_iff_all_fulfilled_witness:
  "distinct (map fst ex_preloads) \<and> fst ` set ex_preloads = {0..<length COLLECTIONS_TO_PRELOAD} \<and>
   ld_inflight (loader_run ex_preloads) = [] \<and> loader_visible (loader_run ex_preloads)"
proof -
  have h: "distinct (map fst ex_preloads)" "fst ` set ex_preloads = {0..<length COLLECTIONS_TO_PRELOAD}"
    by (auto simp: ex_preloads_def COLLECTIONS_TO_PRELOAD_def)
  have "\<exists>(i, r) \<in> set ex_preloads. r = Rejected" by (simp add: ex_preloads_def)
  then show ?thesis using App_Shell.loader_hides_iff_all_fulfilled [OF h] h by simp
qed

theorem page_links_roundtrip_witness:
  "0 < (3::int) \<and> 0 < (20::int) \<and> rpv_page (ReportsPage (buildUrl 3 20) []) = 3 \<and>
   rpv_page (ReportsPage (fst (rpv_prev (ReportsPage (buildUrl 3 20) []))) []) = 2"
  using Reports_Page.page_links_roundtrip [of 3 20 "[]"] by simp

theorem row_delete_reaches_server_witness:
  "\<exists>rows' a. row_delete ex_r3 False [ex_r3] = Some (True, rows', [a]) \<and>
     run_action (Some ex_u2) 9 a ex_db3 = Inr (ex_db3\<lparr>reports := [ex_r1, ex_r2]\<rparr>)"
proof -
  have h: "ex_r3 \<in> set [ex_r3]" "unique_by rp_id [ex_r3]" "rp_id ex_r3 \<in> keys_of rp_id (reports ex_db3)"
    "find_by rp_id (rp_id ex_r3) (reports ex_db3) = Some ex_r3" "rp_userId ex_r3 = u_id ex_u2"
    by (simp_all add: ex_users unique_by_def keys_of_def find_by_def)
  have "rp_id ex_r3 \<notin> keys_of rc_expenseReportId (receipts ex_db3)"
    "delete_by rp_id (rp_id ex_r3) (reports ex_db3) = [ex_r1, ex_r2]"
    by (simp_all add: ex_users keys_of_def delete_by_def)
  with Reports_Page.row_delete_reaches_server [OF h, of False 9] show ?thesis by (simp, blast)
qed


theorem tip_outside_click_closed_noop_witness:
  "\<not> rv_editingTip (ex_view\<lparr>rv_editingTip := False\<rparr>) \<and>
   tip_editor_step ''7'' ex_rc1 OutsideClick (\<lparr>ie_editing = False\<rparr>, ex_view\<lparr>rv_editingTip := False\<rparr>, ex_client2, []) =
     Some (\<lparr>ie_editing = False\<rparr>, ex_view\<lparr>rv_editingTip := False\<rparr>, ex_client2, [])"
  using Inline_Edit.tip_outside_click_closed_noop [of "ex_view\<lparr>rv_editingTip := False\<rparr>" "''7''" ex_rc1 "\<lparr>ie_editing = False\<rparr>" ex_client2 "[]"]
  by simp

theorem tip_editor_session_witness:
  "\<exists>st' v' c' acts. Option.bind (tip_editor_step ''3.5'' ex_rc1 TriggerClick (\<lparr>ie_editing = False\<rparr>, ex_view\<lparr>rv_editingTip := False\<rparr>, ex_client2, []))
       (tip_editor_step ''3.5'' ex_rc1 OutsideClick) = Some (st', v', c', acts) \<and>
     acts = [UpdateReceipts [ex_rc1\<lparr>rc_tip := 7 / 2\<rparr>]]"
proof -
  have h: "\<not> rv_editingTip (ex_view\<lparr>rv_editingTip := False\<rparr>)" "find_by rc_id (rc_id ex_rc1) (cl_receipts ex_client2) = Some ex_rc1"
    by (simp_all add: ex_client2_def find_by_def)
  have p: "parseFloat ''3.5'' = Some (7 / 2)" by (simp add: ex_number)
  show ?thesis using Inline_Edit.tip_editor_session [OF h, of "''3.5''" "\<lparr>ie_editing = False\<rparr>" "[]"] p by simp
qed


theorem picker_select_type_roundtrip_witness:
  "DatePicker_step ex_date_fns (SelectDate (Some ''05/01/2024'')) (DatePicker_init ex_date_fns None) =
     (\<lparr>dp_open = False, dp_inputValue = ''05/01/2024'', dp_month = ''05/01/2024''\<rparr>, Some (Some ''05/01/2024'')) \<and>
   DatePicker_step ex_date_fns (InputChange ''05/01/2024'') \<lparr>dp_open = False, dp_inputValue = ''05/01/2024'', dp_month = ''05/01/2024''\<rparr> =
     (\<lparr>dp_open = False, dp_inputValue = ''05/01/2024'', dp_month = ''05/01/2024''\<rparr>, Some (Some ''05/01/2024''))"
proof -
  have h: "df_isMatch ex_date_fns (df_format ex_date_fns ''05/01/2024'' defaultFormat) defaultFormat"
    "df_parse ex_date_fns (df_format ex_date_fns ''05/01/2024'' defaultFormat) defaultFormat (df_now ex_date_fns) = ''05/01/2024''"
    "df_isValid ex_date_fns ''05/01/2024''"
    "\<not> df_isMatch ex_date_fns (df_format ex_date_fns ''05/01/2024'' defaultFormat) ''MM/dd/yy''"
    by (simp_all add: ex_date_fns_def defaultFormat_def)
  note c = Date_Picker.picker_select_type_roundtrip [OF h, of "DatePicker_init ex_date_fns None"]
  have i: "DatePicker_init ex_date_fns None\<lparr>dp_open := False, dp_month := ''05/01/2024'',
      dp_inputValue := df_format ex_date_fns ''05/01/2024'' defaultFormat\<rparr> =
      \<lparr>dp_open = False, dp_inputValue = ''05/01/2024'', dp_month = ''05/01/2024''\<rparr>"
    by (simp add: ex_date_fns_def defaultFormat_def DatePicker_init_def)
  have a: "DatePicker_step ex_date_fns (SelectDate (Some ''05/01/2024'')) (DatePicker_init ex_date_fns None) =
      (\<lparr>dp_open = False, dp_inputValue = ''05/01/2024'', dp_month = ''05/01/2024''\<rparr>, Some (Some ''05/01/2024''))"
    using conjunct1 [OF c] by (simp only: i)
  have b: "DatePicker_step ex_date_fns (InputChange ''05/01/2024'') \<lparr>dp_open = False, dp_inputValue = ''05/01/2024'', dp_month = ''05/01/2024''\<rparr> =
      (\<lparr>dp_open = False, dp_inputValue = ''05/01/2024'', dp_month = ''05/01/2024''\<rparr>, Some (Some ''05/01/2024''))"
    using conjunct2 [OF c, unfolded a] by (simp only: i prod.sel date_picker.select_convs)
  from a b show ?thesis by (rule conjI)
qed

theorem picker_partial_input_clears_witness:
  "DatePicker_step ex_date_fns (InputChange ''05/0'') (DatePicker_init ex_date_fns (Some ''05/01/2024'')) =
     (\<lparr>dp_open = False, dp_inputValue = ''05/0'', dp_month = ''11/09/2026''\<rparr>, Some None)"
  using Date_Picker.picker_partial_input_clears [of ex_date_fns "''05/0''" "DatePicker_init ex_date_fns (Some ''05/01/2024'')"]
  by (simp add: ex_date_fns_def allowedFormats_def DatePicker_init_def)


theorem category_search_substring_witness:
  "(\<forall>c \<in> set ''cat''. c \<noteq> CHR ''%'' \<and> c \<noteq> CHR ''_'') \<and> category_matches ''cat'' [ex_cat] = [ex_cat]"
proof -
  have h: "\<forall>c \<in> set ''cat''. c \<noteq> CHR ''%'' \<and> c \<noteq> CHR ''_''" by simp
  have u: "toUpperCase ''cat'' = ''CAT''" by (simp add: toUpperCase_def to_upper_char_def char_of_eq_iff)
  have "sublist ''CAT'' (ct_normalizedName ex_cat)" unfolding sublist_def ex_cat_def
    by (intro exI [of _ "''UN''"] exI [of _ "''EGORIZED''"]) simp
  then show ?thesis using Category_Select.category_search_substring [OF h, of "[ex_cat]"] h u by simp
qed

theorem new_category_request_order_witness:
  "\<exists>c' cat. card_category_step id (CsEnter ''c9'') ex_rc1 (\<lparr>cs_open = True, cs_search = ''Food''\<rparr>, ex_client2) =
      Some (cs_closed, c', [CreateCategories [cat], UpdateReceipts [ex_rc1\<lparr>rc_categoryId := ''c9''\<rparr>]]) \<and>
    run_action (Some ex_u1) 9 (UpdateReceipts [ex_rc1\<lparr>rc_categoryId := ''c9''\<rparr>]) ex_db3 =
      Inl (DbError (ForeignKeyViolation ''Receipt.categoryId''))"
proof -
  have u: "toUpperCase ''Food'' = ''FOOD''" by (simp add: toUpperCase_def to_upper_char_def char_of_eq_iff)
  have h: "db_wf ex_db3" "cs_open \<lparr>cs_open = True, cs_search = ''Food''\<rparr>" "cs_search \<lparr>cs_open = True, cs_search = ''Food''\<rparr> \<noteq> []"
    "toUpperCase (cs_search \<lparr>cs_open = True, cs_search = ''Food''\<rparr>) \<notin> keys_of ct_normalizedName (cl_categories ex_client2)"
    "toUpperCase (cs_search \<lparr>cs_open = True, cs_search = ''Food''\<rparr>) \<notin> keys_of ct_normalizedName (categories ex_db3)"
    "''c9'' \<notin> keys_of ct_id (categories ex_db3)"
    "find_by rc_id (rc_id ex_rc1) (cl_receipts ex_client2) = Some ex_rc1" "ex_rc1 \<in> set (receipts ex_db3)"
    "report_owned_by ex_db3 (u_id ex_u1) (rc_expenseReportId ex_rc1)"
    using ex_db3_wf u by (simp_all add: ex_users ex_client2_def ex_client_def keys_of_def find_by_def report_owned_by_def)
  show ?thesis using Category_Select.new_category_request_order [OF h, of id 9] by blast
qed


theorem pdf_upload_gets_object_url_witness:
  "pe_preview (new_pending ''r1'' ''rc9'' \<lparr>f_name = ''scan.pdf'', f_type = ''application/pdf'', f_bytes = [1]\<rparr>) \<and>
   \<not> row_is_image (Some (new_pending ''r1'' ''rc9'' \<lparr>f_name = ''scan.pdf'', f_type = ''application/pdf'', f_bytes = [1]\<rparr>))"
proof -
  have "endsWith ''scan.pdf'' ''.pdf''" by (simp add: endsWith_def)
  then show ?thesis
    using Upload_Files.pdf_upload_gets_object_url [of "\<lparr>f_name = ''scan.pdf'', f_type = ''application/pdf'', f_bytes = [1]\<rparr>" "''r1''" "''rc9''"]
    by simp
qed


theorem form_rows_keys_witness:
  "distinct (map row_key (form_rows id ''r1'' ex_client3)) \<and>
   set (map row_key (form_rows id ''r1'' ex_client3)) = {Some ''rc1'', Some ''rc9''}"
proof -
  have h: "distinct (map rc_id (cl_receipts ex_client3))" "distinct (map pe_id (cl_pending ex_client3))"
    "distinct (map mc_id (cl_merchants ex_client3))" "distinct (map ct_id (cl_categories ex_client3))"
    "\<forall>r \<in> set (cl_receipts ex_client3). rc_id r \<noteq> []" "\<And>xs. mset (id xs) = mset xs"
    by (simp_all add: ex_client3_def ex_client2_def ex_client_def ex_rc1_def new_pending_def)
  have r: "{rc_id r |r. r \<in> set (cl_receipts ex_client3) \<and> rc_expenseReportId r = ''r1''} = {''rc1''}"
    by (auto simp: ex_client3_def ex_client2_def ex_rc1_def)
  have p: "{pe_id p |p. p \<in> set (cl_pending ex_client3) \<and> pe_reportId p = ''r1''} = {''rc9''}"
    by (auto simp: ex_client3_def new_pending_def)
  show ?thesis using Form_Rows.form_rows_keys [OF h, of "''r1''"] unfolding r p by (simp add: id_def insert_commute)
qed


theorem index_key_deletes_next_item_witness:
  "receipt_items (cl_items (fst (snd (fold (table_step toFixed2 ''rc1'') [Click None, Click (Some 0), Click None]
      ([ex_row ''0'', (ex_row ''1'')\<lparr>lr_editing := False\<rparr>], ex_client4, []))))) ''rc1'' = [] \<and>
   snd (snd (fold (table_step toFixed2 ''rc1'') [Click None, Click (Some 0), Click None]
      ([ex_row ''0'', (ex_row ''1'')\<lparr>lr_editing := False\<rparr>], ex_client4, []))) =
     [DeleteLineItems [''l1''], DeleteLineItems [''l2'']]"
proof -
  have h: "receipt_items (cl_items ex_client4) ''rc1'' = [] @ ex_li ''l1'' ''rc1'' # ex_li ''l2'' ''rc1'' # []"
    "unique_by li_id (cl_items ex_client4)" "length ([] :: row_form list) = length ([] :: line_item list)"
    "length ([] :: row_form list) = length ([] :: line_item list)"
    "\<forall>x \<in> set [] \<union> set [(ex_row ''1'')\<lparr>lr_editing := False\<rparr>]. \<not> lr_editing x"
    "lr_editing (ex_row ''0'')" "js_Number (lr_quantity (ex_row ''0'')) = Some 0"
    "js_Number (lr_unitPrice (ex_row ''0'')) = Some (7 / 2)"
    by (simp_all add: ex_client4_def ex_client2_def ex_client_def ex_li_def receipt_items_def unique_by_def
        ex_row_def ex_number)
  show ?thesis using Item_Table.index_key_deletes_next_item [OF h, of toFixed2 "[]"]
    by (simp add: ex_li_def)
qed


theorem submitter_reopens_approved_witness:
  "fh_status (UploadForm_header int_str (Some ex_u1) [] ex_form_a) = None \<and>
   header_change (Some ex_u1) (StatusPick DRAFT) ex_form_a = Some (Change (ex_ra\<lparr>rp_status := DRAFT\<rparr>)) \<and>
   snd (report_page_run [Change (ex_ra\<lparr>rp_status := DRAFT\<rparr>), Wait 1000] ex_form_a [ex_ra]) =
     Some (replace_by rp_id (ex_ra\<lparr>rp_status := DRAFT\<rparr>) [ex_ra], [UpdateReports [ex_ra\<lparr>rp_status := DRAFT\<rparr>]]) \<and>
   run_action (Some ex_u1) 7 (UpdateReports [ex_ra\<lparr>rp_status := DRAFT\<rparr>]) ex_db_a =
     Inr (ex_db_a\<lparr>reports := replace_by rp_id (ex_ra\<lparr>rp_status := DRAFT, rp_updatedAt := 7\<rparr>) (reports ex_db_a)\<rparr>)"
proof -
  have h: "u_role ex_u1 = Normal" "rf_defaults ex_form_a = ex_ra" "rf_values ex_form_a = ex_ra"
    "rf_subs ex_form_a = [\<lparr>fs_timer = None\<rparr>]" "rp_status ex_ra = APPROVED" "DEBOUNCE_MS \<le> (1000::nat)"
    "find_by rp_id (rp_id ex_ra) [ex_ra] = Some ex_ra" "ex_ra \<in> set (reports ex_db_a)"
    "rp_userId ex_ra = u_id ex_u1" "rp_userId ex_ra \<in> keys_of u_id (users ex_db_a)"
    by (simp_all add: ex_form_a_def ex_ra_def ex_db_a_def ex_users DEBOUNCE_MS_def find_by_Cons keys_of_def)
  show ?thesis using Screen_Views.submitter_reopens_approved [OF h, of int_str "[]" 7] .
qed


theorem empty_title_autosaved_witness:
  "header_change (Some ex_u1) (TitleInput []) ex_form0 = Some (Change (ex_r1\<lparr>rp_title := []\<rparr>)) \<and>
   TitleRequired \<in> set (UploadExpenseReportFormSchema (ex_r1\<lparr>rp_title := []\<rparr>)) \<and>
   form_submit (ex_form0\<lparr>rf_values := ex_r1\<lparr>rp_title := []\<rparr>\<rparr>) = Some ''Title is required'' \<and>
   snd (report_page_run [Change (ex_r1\<lparr>rp_title := []\<rparr>), Wait 1000] ex_form0 [ex_r1]) =
     Some (replace_by rp_id (ex_r1\<lparr>rp_title := []\<rparr>) [ex_r1], [UpdateReports [ex_r1\<lparr>rp_title := []\<rparr>]]) \<and>
   run_action (Some ex_u1) 7 (UpdateReports [ex_r1\<lparr>rp_title := []\<rparr>]) ex_db3 =
     Inr (ex_db3\<lparr>reports := replace_by rp_id (ex_r1\<lparr>rp_title := [], rp_updatedAt := 7\<rparr>) (reports ex_db3)\<rparr>)"
proof -
  have h: "rf_defaults ex_form0 = ex_r1" "rf_values ex_form0 = ex_r1" "rf_subs ex_form0 = [\<lparr>fs_timer = None\<rparr>]"
    "rp_title ex_r1 \<noteq> []" "DEBOUNCE_MS \<le> (1000::nat)" "find_by rp_id (rp_id ex_r1) [ex_r1] = Some ex_r1"
    "ex_r1 \<in> set (reports ex_db3)" "rp_userId ex_r1 = u_id ex_u1" "rp_userId ex_r1 \<in> keys_of u_id (users ex_db3)"
    by (simp_all add: ex_form0_def ex_users DEBOUNCE_MS_def find_by_Cons keys_of_def)
  show ?thesis using Form_Validation.empty_title_autosaved [OF h, of 7] .
qed

text \<open>Receipt rc1 of report r1 in the collection, with the form of report r1.\<close>

theorem charts_panel_shown_witness:
  "\<not> up_chartsHidden (UploadForm_view int_str 19844 (Some ex_u1) id ex_form0 ex_client2)"
proof -
  have h: "distinct (map pe_id (cl_pending ex_client2))" "distinct (map mc_id (cl_merchants ex_client2))"
    "distinct (map ct_id (cl_categories ex_client2))" "\<And>xs. mset (id xs) = mset xs"
    by (simp_all add: ex_client2_def ex_client_def)
  have "\<exists>r \<in> set (cl_receipts ex_client2). rc_expenseReportId r = rp_id (rf_defaults ex_form0) \<or>
      (\<exists>p \<in> set (cl_pending ex_client2). pe_id p = rc_id r \<and> pe_reportId p = rp_id (rf_defaults ex_form0))"
    by (simp add: ex_client2_def ex_form0_def ex_users)
  then show ?thesis using Upload_Page.charts_panel_shown [OF h, of int_str 19844 "Some ex_u1" ex_form0] by blast
qed

text \<open>Five categories: the fifth slice has the first one's colour.\<close>

theorem pie_adjacent_colours_witness:
  "snd (snd (pie_slices [(''a'', 1), (''b'', 1), (''c'', 1), (''d'', 1), (''e'', 1)] ! 4)) =
     snd (snd (pie_slices [(''a'', 1), (''b'', 1), (''c'', 1), (''d'', 1), (''e'', 1)] ! 0))"
proof -
  let ?L = "[(''a'', 1::real), (''b'', 1), (''c'', 1), (''d'', 1), (''e'', 1)]"
  have h: "2 \<le> length ?L" by simp
  have e: "snd (snd (pie_slices ?L ! (length ?L - 1))) = snd (snd (pie_slices ?L ! 0)) \<longleftrightarrow> length ?L mod 4 = 1"
    using Screen_Views.pie_adjacent_colours [OF h] by (rule conjunct2)
  have l: "length ?L - 1 = 4" "length ?L mod 4 = 1" by simp_all
  show ?thesis using e unfolding l by (simp only: simp_thms)
qed

end
